(* ===== verification/Prelude.thy ===== *)
theory Prelude
  imports Complex_Main "HOL-Library.AList" "HOL-Library.Multiset" "HOL-Library.Sublist"
    "HOL-Library.List_Lexorder"
begin

text \<open>
  The vocabulary every component of the model shares.

  \<^item> Python dictionaries are association lists in insertion order: \<open>map_of\<close> looks up,
    \<open>AList.update\<close> assigns (it keeps the position of an existing key and appends a new one,
    as Python does) and \<open>AList.delete\<close> removes.  \<open>dict_ok\<close> is the fact that keys are
    unique, which every operation keeps.
  \<^item> Python sets that the code iterates over are lists without duplicates, in their iteration
    order.
  \<^item> \<open>float\<close> values and clock readings are exact reals; the one place where the finite range
    of a float decides the behaviour (the circuit breaker's backoff) says so.
  \<^item> \<open>bytes\<close> are character lists (an Isabelle \<open>char\<close> is a byte), and a \<open>str\<close> is its UTF-8
    encoding.  \<open>py_len\<close>, \<open>py_take\<close> and \<open>py_drop\<close> count code points, as \<open>len(s)\<close>, \<open>s[:n]\<close>
    and \<open>s[n:]\<close> do.
  \<^item> Exceptions are values of \<open>py_error\<close>.
\<close>

section \<open>Types\<close>

type_synonym bytes = string
type_synonym ('k, 'v) dict = "('k \<times> 'v) list"
type_synonym time = real

datatype py_error = OverflowError | AttributeError | KeyError | IndexError | ValueError | TypeError

named_theorems dict_intros "operations keep the keys of a dictionary unique"
named_theorems perm_simps "multisets and sets of the lists the code builds"

section \<open>Strings\<close>

definition byte :: "char \<Rightarrow> nat" where
  "byte c = of_char c"

text \<open>A continuation byte of UTF-8 belongs to the code point before it.\<close>

definition is_cont :: "char \<Rightarrow> bool" where
  "is_cont c \<longleftrightarrow> 128 \<le> byte c \<and> byte c < 192"

definition py_len :: "string \<Rightarrow> nat" where
  "py_len s = length (filter (\<lambda>c. \<not> is_cont c) s)"

fun py_take :: "nat \<Rightarrow> string \<Rightarrow> string" where
  "py_take n [] = []"
| "py_take n (c # s) =
     (if is_cont c then c # py_take n s
      else case n of 0 \<Rightarrow> [] | Suc k \<Rightarrow> c # py_take k s)"

fun py_drop :: "nat \<Rightarrow> string \<Rightarrow> string" where
  "py_drop n [] = []"
| "py_drop n (c # s) =
     (if is_cont c then py_drop n s
      else case n of 0 \<Rightarrow> c # s | Suc k \<Rightarrow> py_drop k s)"

definition is_ascii :: "string \<Rightarrow> bool" where
  "is_ascii s \<longleftrightarrow> list_all (\<lambda>c. byte c < 128) s"

text \<open>ASCII white space: what \<open>strip()\<close> removes from a \<open>str\<close> (and, from \<open>bytes\<close>, all but the
  separators 28 to 31).\<close>

definition is_space :: "char \<Rightarrow> bool" where
  "is_space c \<longleftrightarrow> byte c = 32 \<or> (9 \<le> byte c \<and> byte c \<le> 13) \<or> (28 \<le> byte c \<and> byte c \<le> 31)"

definition lstrip :: "string \<Rightarrow> string" where
  "lstrip s = dropWhile is_space s"

definition strip :: "string \<Rightarrow> string" where
  "strip s = rev (dropWhile is_space (rev (dropWhile is_space s)))"

text \<open>\<open>str(n)\<close> of an integer.\<close>

fun nat_str :: "nat \<Rightarrow> string" where
  "nat_str n = (if n < 10 then [char_of (48 + n)] else nat_str (n div 10) @ [char_of (48 + n mod 10)])"

declare nat_str.simps [simp del]

definition int_str :: "int \<Rightarrow> string" where
  "int_str i = (if i < 0 then CHR ''-'' # nat_str (nat (- i)) else nat_str (nat i))"

lemma py_len_take: "py_len (py_take n s) \<le> n"
  by (induction n s rule: py_take.induct) (auto simp: py_len_def split: nat.splits)

lemma py_take_ascii: "is_ascii s \<Longrightarrow> py_take n s = take n s"
proof (induction n s rule: py_take.induct)
  case (2 n c s)
  then show ?case
    by (cases n) (auto simp: is_ascii_def is_cont_def)
qed simp

section \<open>Dictionaries\<close>

abbreviation dget :: "('k, 'v) dict \<Rightarrow> 'k \<Rightarrow> 'v option" where
  "dget \<equiv> map_of"

abbreviation dset :: "'k \<Rightarrow> 'v \<Rightarrow> ('k, 'v) dict \<Rightarrow> ('k, 'v) dict" where
  "dset \<equiv> AList.update"

abbreviation ddel :: "'k \<Rightarrow> ('k, 'v) dict \<Rightarrow> ('k, 'v) dict" where
  "ddel \<equiv> AList.delete"

definition dict_ok :: "('k, 'v) dict \<Rightarrow> bool" where
  "dict_ok d \<longleftrightarrow> distinct (map fst d)"

lemma dict_ok_Nil [simp, dict_intros]: "dict_ok []"
  by (simp add: dict_ok_def)

lemma dict_ok_dset [dict_intros]: "dict_ok d \<Longrightarrow> dict_ok (dset k v d)"
  by (simp add: dict_ok_def distinct_update)

lemma dict_ok_ddel [dict_intros]: "dict_ok d \<Longrightarrow> dict_ok (ddel k d)"
  by (simp add: dict_ok_def distinct_delete)

lemma dict_ok_Cons: "dict_ok ((k, v) # d) \<longleftrightarrow> k \<notin> fst ` set d \<and> dict_ok d"
  by (simp add: dict_ok_def)

lemma dget_dset [simp]: "dget (dset k v d) x = (if x = k then Some v else dget d x)"
  by (simp add: update_conv')

lemma dget_ddel [simp]: "dget (ddel k d) x = (if x = k then None else dget d x)"
  by (simp add: delete_conv')

lemma length_dset: "length (dset k v d) = (if k \<in> fst ` set d then length d else Suc (length d))"
  by (induction d) auto

lemma length_dset_le: "length (dset k v d) \<le> Suc (length d)"
  by (simp add: length_dset)

lemma dget_None_iff: "dget d k = None \<longleftrightarrow> k \<notin> fst ` set d"
  by (simp add: map_of_eq_None_iff)

lemma dget_in_set: "dict_ok d \<Longrightarrow> (k, v) \<in> set d \<longleftrightarrow> dget d k = Some v"
  by (simp add: dict_ok_def)

lemma keys_dset [simp]: "fst ` set (dset k v d) = insert k (fst ` set d)"
  by (induction d) auto

lemma set_dset_subset: "set (dset k v d) \<subseteq> insert (k, v) (set d)"
  by (induction d) auto

lemma set_ddel_subset: "set (ddel k d) \<subseteq> set d"
  by (auto simp: AList.delete_eq)

lemma length_ddel: "k \<in> fst ` set w \<Longrightarrow> length (ddel k w) < length w"
proof (induction w)
  case (Cons c w)
  then show ?case
    using length_delete_le [of k w] by (auto simp: le_imp_less_Suc)
qed simp

lemma dget_key: "dget d k = Some v \<Longrightarrow> k \<in> fst ` set d"
  by (force dest: map_of_SomeD)

lemma keys_ddel [simp]: "fst ` set (ddel k d) = fst ` set d - {k}"
  by (auto simp: AList.delete_eq image_iff)

lemma dget_snoc: "k' \<notin> fst ` set d \<Longrightarrow> dget (d @ [(k', e)]) k = (if k = k' then Some e else dget d k)"
  by (cases "dget d k") (auto simp: map_add_def simp flip: dget_None_iff)

lemma dict_ok_snoc: "dict_ok d \<Longrightarrow> k \<notin> fst ` set d \<Longrightarrow> dict_ok (d @ [(k, e)])"
  by (auto simp: dict_ok_def)

section \<open>Sets kept as lists\<close>

definition sadd :: "'a \<Rightarrow> 'a list \<Rightarrow> 'a list" where
  "sadd x xs = (if x \<in> set xs then xs else xs @ [x])"

definition sdiscard :: "'a \<Rightarrow> 'a list \<Rightarrow> 'a list" where
  "sdiscard x xs = removeAll x xs"

lemma set_sadd [simp]: "set (sadd x xs) = insert x (set xs)"
  by (auto simp: sadd_def)

lemma set_sdiscard [simp]: "set (sdiscard x xs) = set xs - {x}"
  by (simp add: sdiscard_def)

lemma distinct_sadd [dict_intros]: "distinct xs \<Longrightarrow> distinct (sadd x xs)"
  by (simp add: sadd_def)

lemma distinct_sdiscard [dict_intros]: "distinct xs \<Longrightarrow> distinct (sdiscard x xs)"
  by (simp add: sdiscard_def distinct_removeAll)

section \<open>The backend key\<close>

text \<open>
  Every registry of the gateway is keyed by \<open>f"{provider_id}:{model}"\<close>.  The key determines
  provider and model as long as provider ids hold no colon.
\<close>

definition backend_key :: "string \<Rightarrow> string \<Rightarrow> string" where
  "backend_key provider_id model = provider_id @ '':'' @ model"

lemma takeWhile_backend_key:
  "CHR '':'' \<notin> set p \<Longrightarrow> takeWhile (\<lambda>c. c \<noteq> CHR '':'') (backend_key p m) = p"
  by (induction p) (auto simp: backend_key_def)

lemma backend_key_inj:
  assumes "CHR '':'' \<notin> set p" and "CHR '':'' \<notin> set q"
  shows "backend_key p m = backend_key q n \<longleftrightarrow> p = q \<and> m = n"
proof
  assume eq: "backend_key p m = backend_key q n"
  then have "p = q"
    using assms by (metis takeWhile_backend_key)
  with eq show "p = q \<and> m = n" by (simp add: backend_key_def)
qed simp

section \<open>Lists\<close>

lemma ball_enumerate: "(\<forall>x\<in>set (enumerate n xs). P (snd x)) \<longleftrightarrow> (\<forall>y\<in>set xs. P y)"
proof -
  have "(\<forall>x\<in>set (enumerate n xs). P (snd x)) \<longleftrightarrow> (\<forall>y\<in>set (map snd (enumerate n xs)). P y)"
    by (simp del: map_snd_enumerate)
  then show ?thesis by (simp only: map_snd_enumerate)
qed

section \<open>Rounding\<close>

text \<open>
  Python's \<open>round(x, n)\<close>: to \<open>n\<close> decimals, ties to the even neighbour.  (A float's binary
  representation error before rounding is not modelled.)
\<close>

definition round_half_even :: "real \<Rightarrow> int" where
  "round_half_even x =
     (let f = \<lfloor>x\<rfloor>; d = x - of_int f
      in if d < 1 / 2 then f else if 1 / 2 < d then f + 1 else if even f then f else f + 1)"

definition py_round :: "nat \<Rightarrow> real \<Rightarrow> real" where
  "py_round n x = of_int (round_half_even (x * 10 ^ n)) / 10 ^ n"

lemma round_half_even_of_int [simp]: "round_half_even (of_int i) = i"
  by (simp add: round_half_even_def)

lemma round_half_even_error: "\<bar>of_int (round_half_even x) - x\<bar> \<le> 1 / 2"
  by (simp add: round_half_even_def Let_def)

lemma py_round_error: "\<bar>py_round n x - x\<bar> \<le> 1 / 2 / 10 ^ n"
proof -
  have "py_round n x - x = (of_int (round_half_even (x * 10 ^ n)) - x * 10 ^ n) / 10 ^ n"
    by (simp add: py_round_def field_simps)
  then have "\<bar>py_round n x - x\<bar> = \<bar>of_int (round_half_even (x * 10 ^ n)) - x * 10 ^ n\<bar> / 10 ^ n"
    by (simp only: abs_divide) simp
  also have "\<dots> \<le> 1 / 2 / 10 ^ n"
    by (intro divide_right_mono round_half_even_error) simp
  finally show ?thesis .
qed

lemma round_half_even_mono: "x \<le> y \<Longrightarrow> round_half_even x \<le> round_half_even y"
proof (cases "\<lfloor>x\<rfloor> = \<lfloor>y\<rfloor>")
  case False
  assume "x \<le> y"
  with False have "\<lfloor>x\<rfloor> + 1 \<le> \<lfloor>y\<rfloor>"
    using floor_mono [of x y] by linarith
  then show ?thesis
    by (auto simp: round_half_even_def Let_def)
qed (auto simp: round_half_even_def Let_def)

lemma py_round_mono: "x \<le> y \<Longrightarrow> py_round n x \<le> py_round n y"
  by (simp add: py_round_def divide_right_mono round_half_even_mono)

lemma py_round_0 [simp]: "py_round n 0 = 0"
  by (simp add: py_round_def round_half_even_def)

lemma py_round_nonneg: "0 \<le> x \<Longrightarrow> 0 \<le> py_round n x"
  using py_round_mono [of 0 x n] by simp

lemma py_round_100 [simp]: "py_round 1 100 = 100"
  using round_half_even_of_int [of 1000] by (simp add: py_round_def)

section \<open>Observers with a hidden effect\<close>

text \<open>
  Some of the gateway's queries clean up after themselves: asking whether a backend is rate
  limited drops an expired cooldown.  \<open>lazy_gate\<close> is the contract the router needs of such
  a query: the answer is a function of the state, and asking changes no answer.  Under it a list
  comprehension that asks the query for every element is an ordinary filter.
\<close>

fun filter_state :: "('a \<Rightarrow> 's \<Rightarrow> bool \<times> 's) \<Rightarrow> 'a list \<Rightarrow> 's \<Rightarrow> 'a list \<times> 's" where
  "filter_state p [] s = ([], s)"
| "filter_state p (x # xs) s =
     (let (b, s1) = p x s; (ys, s2) = filter_state p xs s1 in (if b then x # ys else ys, s2))"

locale lazy_gate =
  fixes check :: "'k \<Rightarrow> 's \<Rightarrow> bool \<times> 's"
    and open_for :: "'s \<Rightarrow> 'k \<Rightarrow> bool"
  assumes check_result: "fst (check k s) = open_for s k"
    and check_stable: "open_for (snd (check k s)) = open_for s"
begin

lemma check_eq: "check k s = (open_for s k, snd (check k s))"
  by (rule prod_eqI) (simp_all add: check_result)

lemma filter_result: "fst (filter_state (\<lambda>x. check (f x)) xs s) = filter (\<lambda>x. open_for s (f x)) xs"
proof (induction xs arbitrary: s)
  case (Cons x xs)
  have "fst (filter_state (\<lambda>x. check (f x)) xs (snd (check (f x) s))) = filter (\<lambda>x. open_for s (f x)) xs"
    by (simp add: Cons.IH check_stable)
  then show ?case
    by (simp add: split_beta Let_def check_result)
qed simp

lemma filter_stable: "open_for (snd (filter_state (\<lambda>x. check (f x)) xs s)) = open_for s"
  by (induction xs arbitrary: s) (simp_all add: split_beta Let_def check_stable)

end

end
