(* ===== verification/RateLimit.thy ===== *)
theory RateLimit
  imports Prelude
begin

text \<open>
  Upstream rate limits (\<^verbatim>\<open>src/localgateway/ratelimit.py\<close>): the cooldowns set by a 429, manual and
  permanent snoozes, and the snooze file that carries them over a restart.

  A \<open>_Cooldown\<close> holds its \<open>until\<close> only, so the dictionary of cooldowns maps a backend key to
  that clock reading.  Every operation takes the clock readings it makes as arguments:
  \<open>now\<close> is \<open>time.monotonic()\<close> and \<open>real_now\<close> is \<open>time.time()\<close>.  The snooze file is
  part of the state; \<open>io_ok\<close> says whether writing it succeeds (a failed write is only a
  warning).  Every method holds the lock for its whole body, so methods are atomic.
\<close>

section \<open>State\<close>

record snooze_file =
  sf_permanent :: "string list"
  sf_timed :: "(string, time) dict"

record rl_state =
  rl_cooldowns :: "(string, time) dict"
  rl_permanent :: "string list"
  rl_file :: "snooze_file option"

definition rl_init :: rl_state where
  "rl_init = \<lparr>rl_cooldowns = [], rl_permanent = [], rl_file = None\<rparr>"

section \<open>Operations\<close>

definition set_cooldown :: "rl_state \<Rightarrow> time \<Rightarrow> string \<Rightarrow> string \<Rightarrow> real option \<Rightarrow> rl_state" where
  "set_cooldown s now p m retry_after =
     (let ra = (case retry_after of None \<Rightarrow> 5 | Some r \<Rightarrow> r); until = now + max (1 / 10) ra
      in s\<lparr>rl_cooldowns := dset (backend_key p m) until (rl_cooldowns s)\<rparr>)"

definition snooze :: "rl_state \<Rightarrow> time \<Rightarrow> string \<Rightarrow> string \<Rightarrow> real \<Rightarrow> rl_state" where
  "snooze s now p m seconds =
     (let until = now + max (1 / 10) seconds; key = backend_key p m
      in s\<lparr>rl_cooldowns := dset key until (rl_cooldowns s),
           rl_permanent := sdiscard key (rl_permanent s)\<rparr>)"

definition snooze_permanent :: "rl_state \<Rightarrow> string \<Rightarrow> string \<Rightarrow> rl_state" where
  "snooze_permanent s p m =
     (let key = backend_key p m
      in s\<lparr>rl_permanent := sadd key (rl_permanent s),
           rl_cooldowns := ddel key (rl_cooldowns s)\<rparr>)"

definition unsnooze :: "rl_state \<Rightarrow> string \<Rightarrow> string \<Rightarrow> rl_state" where
  "unsnooze s p m =
     (let key = backend_key p m
      in s\<lparr>rl_cooldowns := ddel key (rl_cooldowns s),
           rl_permanent := sdiscard key (rl_permanent s)\<rparr>)"

text \<open>\<open>is_available\<close> answers and drops a cooldown that has run out.\<close>

definition is_available :: "rl_state \<Rightarrow> time \<Rightarrow> string \<Rightarrow> string \<Rightarrow> bool \<times> rl_state" where
  "is_available s now p m =
     (let key = backend_key p m
      in if key \<in> set (rl_permanent s) then (False, s)
         else case dget (rl_cooldowns s) key of
                None \<Rightarrow> (True, s)
              | Some until \<Rightarrow>
                  if now \<ge> until then (True, s\<lparr>rl_cooldowns := ddel key (rl_cooldowns s)\<rparr>)
                  else (False, s))"

definition remaining :: "rl_state \<Rightarrow> time \<Rightarrow> string \<Rightarrow> string \<Rightarrow> real" where
  "remaining s now p m =
     (let key = backend_key p m
      in if key \<in> set (rl_permanent s) then -1
         else case dget (rl_cooldowns s) key of
                None \<Rightarrow> 0
              | Some until \<Rightarrow> max 0 (until - now))"

fun snapshot_permanent :: "string list \<Rightarrow> (string, real) dict \<Rightarrow> (string, real) dict" where
  "snapshot_permanent [] out = out"
| "snapshot_permanent (k # ks) out = snapshot_permanent ks (dset k (-1) out)"

fun snapshot_timed ::
    "string list \<Rightarrow> time \<Rightarrow> (string, time) dict \<Rightarrow> (string, real) dict \<Rightarrow> (string, real) dict" where
  "snapshot_timed perm now [] out = out"
| "snapshot_timed perm now ((k, until) # cs) out =
     (if k \<in> set perm then snapshot_timed perm now cs out
      else let rem = max 0 (until - now)
           in snapshot_timed perm now cs (if now < until then dset k rem out else out))"

definition snapshot :: "rl_state \<Rightarrow> time \<Rightarrow> (string, real) dict" where
  "snapshot s now =
     snapshot_timed (rl_permanent s) now (rl_cooldowns s) (snapshot_permanent (rl_permanent s) [])"

fun save_timed ::
    "string list \<Rightarrow> time \<Rightarrow> time \<Rightarrow> (string, time) dict \<Rightarrow> (string, time) dict \<Rightarrow> (string, time) dict" where
  "save_timed perm now real_now [] out = out"
| "save_timed perm now real_now ((k, until) # cs) out =
     (if k \<in> set perm then save_timed perm now real_now cs out
      else let rem = until - now
           in save_timed perm now real_now cs (if rem > 0 then dset k (real_now + rem) out else out))"

definition save :: "rl_state \<Rightarrow> time \<Rightarrow> time \<Rightarrow> bool \<Rightarrow> rl_state" where
  "save s now real_now io_ok =
     (if io_ok
      then s\<lparr>rl_file := Some \<lparr>sf_permanent = rl_permanent s,
                sf_timed = save_timed (rl_permanent s) now real_now (rl_cooldowns s) []\<rparr>\<rparr>
      else s)"

definition clear :: "rl_state \<Rightarrow> time \<Rightarrow> time \<Rightarrow> bool \<Rightarrow> nat \<times> rl_state" where
  "clear s now real_now io_ok =
     (let count = length (rl_permanent s) + length (rl_cooldowns s);
          s1 = s\<lparr>rl_permanent := [], rl_cooldowns := []\<rparr>
      in (count, if count \<noteq> 0 then save s1 now real_now io_ok else s1))"

fun load_timed :: "time \<Rightarrow> time \<Rightarrow> (string, time) dict \<Rightarrow> (string, time) dict \<Rightarrow> (string, time) dict" where
  "load_timed now real_now [] cs = cs"
| "load_timed now real_now ((k, expiry) # ts) cs =
     (let rem = expiry - real_now
      in load_timed now real_now ts (if rem > 0 then dset k (now + rem) cs else cs))"

text \<open>\<open>load_from_file\<close> leaves the state alone when the file is missing or does not parse.\<close>

definition load_from_file :: "rl_state \<Rightarrow> time \<Rightarrow> time \<Rightarrow> rl_state" where
  "load_from_file s now real_now =
     (case rl_file s of
        None \<Rightarrow> s
      | Some f \<Rightarrow> s\<lparr>rl_permanent := remdups (sf_permanent f),
                    rl_cooldowns := load_timed now real_now (sf_timed f) (rl_cooldowns s)\<rparr>)"

text \<open>
  Renaming a provider walks over a copy of the old keys and rewrites the new containers, counting
  what it moved.
\<close>

definition moved_key :: "string \<Rightarrow> string \<Rightarrow> string \<Rightarrow> string" where
  "moved_key old_id new_id k = new_id @ '':'' @ drop (length (old_id @ '':'')) k"

fun rename_permanent ::
    "string \<Rightarrow> string \<Rightarrow> string list \<Rightarrow> string list \<Rightarrow> nat \<Rightarrow> string list \<times> nat" where
  "rename_permanent old_id new_id [] new_perm moved = (new_perm, moved)"
| "rename_permanent old_id new_id (k # ks) new_perm moved =
     (if prefix (old_id @ '':'') k
      then rename_permanent old_id new_id ks
             (sadd (moved_key old_id new_id k) (sdiscard k new_perm)) (moved + 1)
      else rename_permanent old_id new_id ks new_perm moved)"

fun rename_cooldowns ::
    "string \<Rightarrow> string \<Rightarrow> (string, time) dict \<Rightarrow> (string, time) dict \<Rightarrow> nat \<Rightarrow> (string, time) dict \<times> nat"
where
  "rename_cooldowns old_id new_id [] new_cool moved = (new_cool, moved)"
| "rename_cooldowns old_id new_id ((k, v) # cs) new_cool moved =
     (if prefix (old_id @ '':'') k
      then rename_cooldowns old_id new_id cs
             (dset (moved_key old_id new_id k) v (ddel k new_cool)) (moved + 1)
      else rename_cooldowns old_id new_id cs new_cool moved)"

definition rename_provider ::
    "rl_state \<Rightarrow> time \<Rightarrow> time \<Rightarrow> bool \<Rightarrow> string \<Rightarrow> string \<Rightarrow> nat \<times> rl_state" where
  "rename_provider s now real_now io_ok old_id new_id =
     (let (new_perm, moved1) =
            rename_permanent old_id new_id (rl_permanent s) (rl_permanent s) 0;
          (new_cool, moved2) =
            rename_cooldowns old_id new_id (rl_cooldowns s) (rl_cooldowns s) moved1;
          s1 = s\<lparr>rl_permanent := new_perm, rl_cooldowns := new_cool\<rparr>
      in (moved2, if moved2 \<noteq> 0 then save s1 now real_now io_ok else s1))"

section \<open>What the state says about a key\<close>

definition rl_ok :: "rl_state \<Rightarrow> bool" where
  "rl_ok s \<longleftrightarrow> dict_ok (rl_cooldowns s) \<and> distinct (rl_permanent s)"

definition limit_free :: "rl_state \<Rightarrow> time \<Rightarrow> string \<Rightarrow> bool" where
  "limit_free s t k \<longleftrightarrow>
     k \<notin> set (rl_permanent s) \<and> (case dget (rl_cooldowns s) k of None \<Rightarrow> True | Some u \<Rightarrow> u \<le> t)"

lemma is_available_result: "fst (is_available s t p m) \<longleftrightarrow> limit_free s t (backend_key p m)"
  by (auto simp: is_available_def limit_free_def Let_def split: option.splits)

lemma is_available_stable:
  "t \<le> t' \<Longrightarrow> limit_free (snd (is_available s t p m)) t' k = limit_free s t' k"
  by (auto simp: is_available_def limit_free_def Let_def split: option.splits)

lemma avail_mono: "limit_free s t k \<Longrightarrow> t \<le> t' \<Longrightarrow> limit_free s t' k"
  by (auto simp: limit_free_def split: option.splits)

interpretation rl: lazy_gate "\<lambda>k s. is_available s now (fst k) (snd k)"
  "\<lambda>s k. limit_free s now (backend_key (fst k) (snd k))" for now
  by unfold_locales (simp_all add: is_available_result is_available_stable)

lemma avail_set_cooldown:
  "limit_free (set_cooldown s t0 p m ra) t k \<longleftrightarrow>
     (if k = backend_key p m
      then k \<notin> set (rl_permanent s) \<and> t0 + max (1 / 10) (case ra of None \<Rightarrow> 5 | Some r \<Rightarrow> r) \<le> t
      else limit_free s t k)"
  by (auto simp: limit_free_def set_cooldown_def Let_def split: option.splits)

lemma avail_snooze:
  "limit_free (snooze s t0 p m secs) t k \<longleftrightarrow>
     (if k = backend_key p m then t0 + max (1 / 10) secs \<le> t else limit_free s t k)"
  by (auto simp: limit_free_def snooze_def Let_def split: option.splits)

lemma avail_snooze_permanent:
  "limit_free (snooze_permanent s p m) t k \<longleftrightarrow> k \<noteq> backend_key p m \<and> limit_free s t k"
  by (auto simp: limit_free_def snooze_permanent_def Let_def split: option.splits)

lemma avail_unsnooze:
  "limit_free (unsnooze s p m) t k \<longleftrightarrow> k = backend_key p m \<or> limit_free s t k"
  by (auto simp: limit_free_def unsnooze_def Let_def split: option.splits)

lemma avail_save [simp]: "limit_free (save s now real_now io) t k = limit_free s t k"
  by (simp add: limit_free_def save_def)

lemmas avail_ops = avail_set_cooldown avail_snooze avail_snooze_permanent avail_unsnooze avail_save

section \<open>The loops over the containers\<close>

lemma save_timed_keeps_ok [dict_intros]: "dict_ok out \<Longrightarrow> dict_ok (save_timed perm now rn cs out)"
  by (induction perm now rn cs out rule: save_timed.induct) (auto simp: Let_def dict_intros)

lemma dget_save_timed:
  "dict_ok cs \<Longrightarrow>
   dget (save_timed perm now rn cs out) k =
     (case dget cs k of
        None \<Rightarrow> dget out k
      | Some u \<Rightarrow> if k \<notin> set perm \<and> now < u then Some (rn + (u - now)) else dget out k)"
  by (induction perm now rn cs out rule: save_timed.induct)
     (auto simp: Let_def dict_ok_Cons split: option.splits dest: map_of_SomeD intro: rev_image_eqI)

lemma load_timed_keeps_ok [dict_intros]: "dict_ok cs \<Longrightarrow> dict_ok (load_timed now rn ts cs)"
  by (induction now rn ts cs rule: load_timed.induct) (auto simp: Let_def dict_intros)

lemma dget_load_timed:
  "dict_ok ts \<Longrightarrow>
   dget (load_timed now rn ts cs) k =
     (case dget ts k of
        None \<Rightarrow> dget cs k
      | Some e \<Rightarrow> if rn < e then Some (now + (e - rn)) else dget cs k)"
  by (induction now rn ts cs rule: load_timed.induct)
     (auto simp: Let_def dict_ok_Cons split: option.splits dest: map_of_SomeD intro: rev_image_eqI)

lemma dget_snapshot_permanent:
  "dget (snapshot_permanent ks out) k = (if k \<in> set ks then Some (-1) else dget out k)"
  by (induction ks out rule: snapshot_permanent.induct) auto

lemma dget_snapshot_timed:
  "dict_ok cs \<Longrightarrow>
   dget (snapshot_timed perm now cs out) k =
     (case dget cs k of
        None \<Rightarrow> dget out k
      | Some u \<Rightarrow> if k \<notin> set perm \<and> now < u then Some (u - now) else dget out k)"
  by (induction perm now cs out rule: snapshot_timed.induct)
     (auto simp: Let_def dict_ok_Cons split: option.splits dest: map_of_SomeD intro: rev_image_eqI)

lemma dget_snapshot:
  "rl_ok s \<Longrightarrow>
   dget (snapshot s now) k =
     (if k \<in> set (rl_permanent s) then Some (-1)
      else case dget (rl_cooldowns s) k of None \<Rightarrow> None | Some u \<Rightarrow> if now < u then Some (u - now) else None)"
  by (auto simp: snapshot_def rl_ok_def dget_snapshot_timed dget_snapshot_permanent split: option.splits)

section \<open>Renaming\<close>

lemma prefix_split: "prefix (a @ '':'') k \<Longrightarrow> k = a @ '':'' @ drop (length (a @ '':'')) k"
  by (auto simp: prefix_def)

lemma colon_prefix_key:
  assumes "CHR '':'' \<notin> set a" and "CHR '':'' \<notin> set b"
  shows "prefix (a @ '':'') (b @ '':'' @ x) \<longleftrightarrow> a = b"
proof
  assume "prefix (a @ '':'') (b @ '':'' @ x)"
  then have "b @ '':'' @ x = backend_key a (drop (length (a @ '':'')) (b @ '':'' @ x))"
    unfolding backend_key_def by (rule prefix_split)
  then have "backend_key b x = backend_key a (drop (length (a @ '':'')) (b @ '':'' @ x))"
    by (simp add: backend_key_def)
  with assms show "a = b" by (simp add: backend_key_inj)
qed (simp add: prefix_def)

lemma prefix_backend_key:
  "CHR '':'' \<notin> set a \<Longrightarrow> CHR '':'' \<notin> set b \<Longrightarrow> prefix (a @ '':'') (backend_key b x) \<longleftrightarrow> a = b"
  unfolding backend_key_def by (rule colon_prefix_key)

lemma moved_key_backend_key: "moved_key p q (backend_key p m) = backend_key q m"
  by (simp add: moved_key_def backend_key_def)

lemma moved_key_inj:
  "prefix (p @ '':'') k \<Longrightarrow> moved_key p q k = backend_key q m \<longleftrightarrow> k = backend_key p m"
  by (auto simp: moved_key_def backend_key_def prefix_def)

text \<open>
  Renaming is one-to-one when neither provider id holds a colon: no moved key is an old key, so
  the walk over the copies of the keys is a simultaneous substitution.
\<close>

definition plain_rename :: "string \<Rightarrow> string \<Rightarrow> bool" where
  "plain_rename old_id new_id \<longleftrightarrow>
     CHR '':'' \<notin> set old_id \<and> CHR '':'' \<notin> set new_id \<and> old_id \<noteq> new_id"

lemma moved_not_old:
  "plain_rename old_id new_id \<Longrightarrow> \<not> prefix (old_id @ '':'') (moved_key old_id new_id k)"
  using colon_prefix_key [of old_id new_id "drop (length (old_id @ '':'')) k"]
  by (auto simp: plain_rename_def moved_key_def)

lemma set_rename_permanent:
  "plain_rename old_id new_id \<Longrightarrow>
   set (fst (rename_permanent old_id new_id ks acc n)) =
     (set acc - {k \<in> set ks. prefix (old_id @ '':'') k})
     \<union> moved_key old_id new_id ` {k \<in> set ks. prefix (old_id @ '':'') k}"
proof (induction ks arbitrary: acc n)
  case (Cons k ks)
  then show ?case
    using moved_not_old [OF Cons.prems] by auto
qed simp

lemma moved_key_image:
  "backend_key q m \<in> moved_key p q ` {k \<in> K. prefix (p @ '':'') k} \<longleftrightarrow> backend_key p m \<in> K"
proof
  assume "backend_key q m \<in> moved_key p q ` {k \<in> K. prefix (p @ '':'') k}"
  then obtain k where "k \<in> K" and pre: "prefix (p @ '':'') k" and "moved_key p q k = backend_key q m"
    by auto
  then show "backend_key p m \<in> K" by (simp add: moved_key_inj)
next
  assume "backend_key p m \<in> K"
  then have "backend_key p m \<in> {k \<in> K. prefix (p @ '':'') k}"
    by (simp add: backend_key_def prefix_def)
  then have "moved_key p q (backend_key p m) \<in> moved_key p q ` {k \<in> K. prefix (p @ '':'') k}"
    by (rule imageI)
  then show "backend_key q m \<in> moved_key p q ` {k \<in> K. prefix (p @ '':'') k}"
    by (simp only: moved_key_backend_key)
qed

lemma moved_key_image_other:
  "\<not> prefix (q @ '':'') x \<Longrightarrow> x \<notin> moved_key p q ` K"
  by (auto simp: moved_key_def prefix_def)

lemma rename_permanent_count:
  "snd (rename_permanent old_id new_id ks acc n) = n + length (filter (prefix (old_id @ '':'')) ks)"
  by (induction ks arbitrary: acc n) auto

lemma rename_cooldowns_old:
  assumes "plain_rename old_id new_id" and "prefix (old_id @ '':'') x"
  shows "dget (fst (rename_cooldowns old_id new_id cs acc n)) x =
     (if x \<in> fst ` set cs then None else dget acc x)"
proof (induction cs arbitrary: acc n)
  case (Cons c cs)
  obtain k v where c: "c = (k, v)" by (cases c)
  have "moved_key old_id new_id k \<noteq> x"
    using moved_not_old [OF assms(1)] assms(2) by metis
  then show ?case
    using assms(2) by (cases "k = x") (auto simp: c Cons.IH)
qed simp

lemma rename_cooldowns_new:
  assumes "plain_rename old_id new_id" and "dict_ok cs"
  shows "dget (fst (rename_cooldowns old_id new_id cs acc n)) (backend_key new_id m) =
     (case dget cs (backend_key old_id m) of Some v \<Rightarrow> Some v | None \<Rightarrow> dget acc (backend_key new_id m))"
  using assms(2)
proof (induction cs arbitrary: acc n)
  case (Cons c cs)
  obtain k v where c: "c = (k, v)" by (cases c)
  have ok: "dget cs k = None" "dict_ok cs"
    using Cons.prems by (auto simp: c dict_ok_Cons map_of_eq_None_iff)
  have "\<not> prefix (old_id @ '':'') (backend_key new_id m)"
    using moved_not_old [OF assms(1), of "backend_key old_id m"] by (simp add: moved_key_backend_key)
  then have ne: "k \<noteq> backend_key new_id m" if "prefix (old_id @ '':'') k"
    using that by metis
  have old: "prefix (old_id @ '':'') (backend_key old_id m)"
    by (simp add: backend_key_def prefix_def)
  show ?case
    using ok ne old moved_key_inj [of old_id k new_id m]
    by (auto simp: c Cons.IH [OF ok(2)] split: option.splits)
qed simp

lemma rename_cooldowns_other:
  assumes "\<not> prefix (old_id @ '':'') x" and "\<not> prefix (new_id @ '':'') x"
  shows "dget (fst (rename_cooldowns old_id new_id cs acc n)) x = dget acc x"
proof (induction cs arbitrary: acc n)
  case (Cons c cs)
  have "moved_key old_id new_id (fst c) \<noteq> x"
    using assms(2) by (auto simp: moved_key_def prefix_def)
  then show ?case
    using assms(1) by (cases c) (auto simp: Cons.IH)
qed simp

lemma rename_cooldowns_count:
  "snd (rename_cooldowns old_id new_id cs acc n) =
     n + length (filter (prefix (old_id @ '':'')) (map fst cs))"
  by (induction cs arbitrary: acc n) auto

section \<open>Runs of the registry\<close>

text \<open>One constructor per method; the arguments are the call's own and the readings it makes.\<close>

datatype rl_event =
    Set_cooldown time string string "real option"
  | Snooze time string string real
  | Snooze_permanent string string
  | Unsnooze string string
  | Clear time time bool
  | Is_available time string string
  | Rename_provider time time bool string string
  | Save time time bool
  | Load time time

fun rl_step :: "rl_state \<Rightarrow> rl_event \<Rightarrow> rl_state" where
  "rl_step s (Set_cooldown now p m ra) = set_cooldown s now p m ra"
| "rl_step s (Snooze now p m secs) = snooze s now p m secs"
| "rl_step s (Snooze_permanent p m) = snooze_permanent s p m"
| "rl_step s (Unsnooze p m) = unsnooze s p m"
| "rl_step s (Clear now rnow io) = snd (clear s now rnow io)"
| "rl_step s (Is_available now p m) = snd (is_available s now p m)"
| "rl_step s (Rename_provider now rnow io old_id new_id) = snd (rename_provider s now rnow io old_id new_id)"
| "rl_step s (Save now rnow io) = save s now rnow io"
| "rl_step s (Load now rnow) = load_from_file s now rnow"

lemma rename_permanent_distinct:
  "distinct acc \<Longrightarrow> distinct (fst (rename_permanent old_id new_id ks acc n))"
  by (induction ks arbitrary: acc n) (auto simp: dict_intros)

lemma rename_cooldowns_ok:
  "dict_ok acc \<Longrightarrow> dict_ok (fst (rename_cooldowns old_id new_id cs acc n))"
  by (induction old_id new_id cs acc n rule: rename_cooldowns.induct) (auto simp: dict_intros)

lemma rl_ok_save [simp]: "rl_ok (save s now rnow io) = rl_ok s"
  by (simp add: rl_ok_def save_def)

lemma rl_ok_step: "rl_ok s \<Longrightarrow> rl_ok (rl_step s e)"
proof (cases e)
  case (Rename_provider now rnow io old_id new_id)
  assume "rl_ok s"
  with Rename_provider show ?thesis
    using rename_permanent_distinct [of "rl_permanent s" old_id new_id "rl_permanent s" 0]
      rename_cooldowns_ok [of "rl_cooldowns s" old_id new_id "rl_cooldowns s"]
    by (simp add: rename_provider_def split_beta Let_def rl_ok_def save_def)
qed (auto simp: rl_ok_def set_cooldown_def snooze_def snooze_permanent_def unsnooze_def clear_def
      is_available_def save_def load_from_file_def Let_def dict_intros split: option.splits)

lemma rl_ok_init: "rl_ok rl_init"
  by (simp add: rl_ok_def rl_init_def)

lemma rl_ok_run: "rl_ok s \<Longrightarrow> rl_ok (foldl rl_step s es)"
  by (induction es arbitrary: s) (simp_all add: rl_ok_step)

text \<open>The events that can make a permanently snoozed key available again.\<close>

fun lifts :: "string \<Rightarrow> rl_event \<Rightarrow> bool" where
  "lifts k (Snooze now p m secs) = (k = backend_key p m)"
| "lifts k (Unsnooze p m) = (k = backend_key p m)"
| "lifts k (Clear now rnow io) = True"
| "lifts k (Rename_provider now rnow io old_id new_id) = prefix (old_id @ '':'') k"
| "lifts k (Load now rnow) = True"
| "lifts k e = False"

lemma rename_permanent_keeps:
  "k \<in> set acc \<Longrightarrow> \<not> prefix (old_id @ '':'') k \<Longrightarrow>
   k \<in> set (fst (rename_permanent old_id new_id ks acc n))"
proof (induction ks arbitrary: acc n)
  case (Cons a ks)
  then show ?case by (cases "k = a") auto
qed simp

lemma permanent_step:
  "k \<in> set (rl_permanent s) \<Longrightarrow> \<not> lifts k e \<Longrightarrow> k \<in> set (rl_permanent (rl_step s e))"
  by (cases e)
     (auto simp: set_cooldown_def snooze_def snooze_permanent_def unsnooze_def is_available_def
        save_def rename_provider_def rename_permanent_keeps Let_def split_beta split: option.splits)

lemma permanent_run:
  "k \<in> set (rl_permanent s) \<Longrightarrow> list_all (\<lambda>e. \<not> lifts k e) es \<Longrightarrow>
   k \<in> set (rl_permanent (foldl rl_step s es))"
  by (induction es arbitrary: s) (simp_all add: permanent_step)

section \<open>Properties\<close>

text \<open>
  A 429 takes exactly its own backend out of rotation, for the time the provider asked for
  (five seconds when it named none, never less than a tenth of a second), and never lifts a
  permanent snooze.
\<close>

theorem cooldown_window:
  "fst (is_available (set_cooldown s t0 p m ra) t q n) \<longleftrightarrow>
     (if backend_key q n = backend_key p m
      then backend_key p m \<notin> set (rl_permanent s)
           \<and> t0 + max (1 / 10) (case ra of None \<Rightarrow> 5 | Some r \<Rightarrow> r) \<le> t
      else fst (is_available s t q n))"
  by (simp add: is_available_result avail_set_cooldown)

text \<open>
  C10. A permanent snooze holds, whatever happens in between and however much time passes, until
  the backend itself is snoozed for a time or unsnoozed, its provider is renamed, everything is
  cleared, or the snooze file is loaded over it.
\<close>

theorem permanent_snooze_holds:
  assumes "list_all (\<lambda>e. \<not> lifts (backend_key p m) e) es"
  shows "\<not> fst (is_available (foldl rl_step (snooze_permanent s p m) es) t p m)"
proof -
  have "backend_key p m \<in> set (rl_permanent (snooze_permanent s p m))"
    by (simp add: snooze_permanent_def Let_def)
  then have "backend_key p m \<in> set (rl_permanent (foldl rl_step (snooze_permanent s p m) es))"
    using assms by (rule permanent_run)
  then show ?thesis
    by (simp add: is_available_result limit_free_def)
qed

theorem permanent_snooze_holds_witness:
  "\<not> fst (is_available
       (foldl rl_step (snooze_permanent rl_init ''openai'' ''gpt'')
          [Set_cooldown 10 ''openai'' ''gpt'' (Some 2), Is_available 100 ''openai'' ''gpt'',
           Unsnooze ''groq'' ''gpt'', Save 101 5000 True,
           Rename_provider 102 5001 True ''groq'' ''openai''])
       1000 ''openai'' ''gpt'')"
  by (rule permanent_snooze_holds) (simp add: backend_key_def)

text \<open>
  The snooze file carries the limits over a restart: a process that loads the file answers
  every availability question as the saving process would have, with the wall-clock time that
  passed in between counted in.
\<close>

theorem snooze_file_roundtrip:
  assumes "rl_ok s" and "real_now \<le> real_now'" and "now' \<le> t"
  shows "fst (is_available
              (load_from_file (rl_init\<lparr>rl_file := rl_file (save s now real_now True)\<rparr>) now' real_now')
              t p m)
         \<longleftrightarrow> fst (is_available s (now + (real_now' - real_now) + (t - now')) p m)"
proof -
  let ?ts = "save_timed (rl_permanent s) now real_now (rl_cooldowns s) []"
  have ok: "dict_ok (rl_cooldowns s)" "dict_ok ?ts"
    using assms(1) by (simp_all add: rl_ok_def dict_intros)
  show ?thesis
    using assms(2,3) ok
    by (auto simp: is_available_result limit_free_def load_from_file_def save_def rl_init_def
        dget_load_timed dget_save_timed split: option.splits)
qed

theorem snooze_file_roundtrip_witness:
  "fst (is_available
          (load_from_file
             (rl_init\<lparr>rl_file := rl_file (save (set_cooldown rl_init 10 ''p'' ''m'' (Some 60)) 20 1000 True)\<rparr>)
             3 1030)
          (5::real) ''p'' ''m'')
     \<longleftrightarrow> fst (is_available (set_cooldown rl_init 10 ''p'' ''m'' (Some 60))
                (20 + (1030 - 1000) + (5 - 3)) ''p'' ''m'')"
  by (rule snooze_file_roundtrip)
     (simp_all add: rl_ok_def set_cooldown_def rl_init_def dict_ok_def)

text \<open>
  Renaming a provider moves its limits, and only its limits, to the new id: the new id
  answers as the old one did, the old id is free, and every other provider is untouched.
\<close>

theorem rename_carries_limits:
  assumes "rl_ok s" and "plain_rename old_id new_id" and "CHR '':'' \<notin> set q"
    and "q \<noteq> old_id" and "q \<noteq> new_id"
    and "list_all (\<lambda>k. \<not> prefix (new_id @ '':'') k) (rl_permanent s @ map fst (rl_cooldowns s))"
    and "s' = snd (rename_provider s now real_now io_ok old_id new_id)"
  shows "fst (is_available s' t new_id m) = fst (is_available s t old_id m)
         \<and> fst (is_available s' t old_id m)
         \<and> fst (is_available s' t q m) = fst (is_available s t q m)"
proof -
  let ?k = "\<lambda>p. backend_key p m"
  let ?perm = "fst (rename_permanent old_id new_id (rl_permanent s) (rl_permanent s) 0)"
  let ?cool = "\<lambda>n. fst (rename_cooldowns old_id new_id (rl_cooldowns s) (rl_cooldowns s) n)"
  have pre: "prefix (p @ '':'') (?k p)" for p
    by (simp add: backend_key_def prefix_def)
  have post: "\<not> prefix (old_id @ '':'') (?k q)" "\<not> prefix (new_id @ '':'') (?k q)"
    "\<not> prefix (old_id @ '':'') (?k new_id)" "\<not> prefix (new_id @ '':'') (?k old_id)"
    using assms(2-5) by (auto simp: prefix_backend_key plain_rename_def)
  have fresh: "?k new_id \<notin> set (rl_permanent s)" "dget (rl_cooldowns s) (?k new_id) = None"
    using assms(6) pre [of new_id] by (auto simp: list_all_iff map_of_eq_None_iff)
  have perm: "?k new_id \<in> set ?perm \<longleftrightarrow> ?k old_id \<in> set (rl_permanent s)"
    "?k old_id \<notin> set ?perm" "?k q \<in> set ?perm \<longleftrightarrow> ?k q \<in> set (rl_permanent s)"
    unfolding set_rename_permanent [OF assms(2)]
    using fresh(1) pre [of old_id] post
    by (auto simp: moved_key_image moved_key_image_other)
  have cool_new: "dget (?cool n) (?k new_id) = dget (rl_cooldowns s) (?k old_id)" for n
    using assms(1,2) fresh(2) by (simp add: rename_cooldowns_new rl_ok_def split: option.split)
  have cool: "dget (?cool n) (?k old_id) = None" "dget (?cool n) (?k q) = dget (rl_cooldowns s) (?k q)" for n
    using assms(2) pre [of old_id] post
    by (simp_all add: rename_cooldowns_old rename_cooldowns_other map_of_eq_None_iff)
  show ?thesis
    using perm cool cool_new
    by (simp add: assms(7) rename_provider_def split_beta Let_def is_available_result)
       (simp add: limit_free_def)
qed

theorem rename_carries_limits_witness:
  "let s = set_cooldown (snooze_permanent rl_init ''old'' ''a'') 0 ''q'' ''m'' None;
       s' = snd (rename_provider s 1 100 True ''old'' ''new'')
   in fst (is_available s' 2 ''new'' ''a'') = fst (is_available s 2 ''old'' ''a'')
      \<and> fst (is_available s' 2 ''old'' ''a'')
      \<and> fst (is_available s' 2 ''q'' ''a'') = fst (is_available s 2 ''q'' ''a'')"
  unfolding Let_def
  by (rule rename_carries_limits)
     (simp_all add: rl_ok_def plain_rename_def set_cooldown_def snooze_permanent_def rl_init_def
        dict_ok_def sadd_def backend_key_def)

end
