(* ===== verification/CircuitBreaker.thy ===== *)
theory CircuitBreaker
  imports Prelude
begin

text \<open>
  The per-backend circuit breaker (\<^verbatim>\<open>src/localgateway/circuitbreaker.py\<close>).

  The module's globals are the record \<open>cb_state\<close>; \<open>cb_out\<close> collects what a call sends to the
  log, the alert webhook and the event bus, in order.  \<open>now\<close> is \<open>time.monotonic()\<close>,
  \<open>real_now\<close> is \<open>time.time()\<close>.  The exponential backoff multiplies a float by the Python
  integer \<open>2 ** (trips - 1)\<close>; that integer does not fit a float from \<open>2 ** 1024\<close> on and Python
  raises \<open>OverflowError\<close>, so \<open>record_outcome\<close> returns an error or the tripped flag.
\<close>

section \<open>State\<close>

record circuit =
  consecutive_failures :: nat
  open_until :: time
  trips :: nat
  last_error :: "string option"
  last_trip_ts :: "time option"

datatype cb_effect =
    Log_open string
  | Alert_open string string
  | Bump_version
  | Publish_trip string string
  | Publish_reset string

record cb_state =
  cb_circuits :: "(string, circuit) dict"
  cb_enabled :: bool
  cb_threshold :: int
  cb_backoff :: real
  cb_out :: "cb_effect list"

definition new_circuit :: circuit where
  "new_circuit = \<lparr>consecutive_failures = 0, open_until = 0, trips = 0, last_error = None,
                  last_trip_ts = None\<rparr>"

definition max_backoff_s :: real where
  "max_backoff_s = 1800"

definition cb_init :: cb_state where
  "cb_init = \<lparr>cb_circuits = [], cb_enabled = False, cb_threshold = 3, cb_backoff = 60, cb_out = []\<rparr>"

section \<open>Operations\<close>

definition configure :: "cb_state \<Rightarrow> bool \<Rightarrow> int \<Rightarrow> real \<Rightarrow> cb_state" where
  "configure s enabled threshold backoff_s =
     s\<lparr>cb_enabled := enabled,
       cb_threshold := max 1 (if threshold = 0 then 3 else threshold),
       cb_backoff := max (1 / 20) (if backoff_s = 0 then 60 else backoff_s)\<rparr>"

definition get_circuit :: "cb_state \<Rightarrow> string \<Rightarrow> circuit" where
  "get_circuit s key = (case dget (cb_circuits s) key of None \<Rightarrow> new_circuit | Some c \<Rightarrow> c)"

definition put_circuit :: "string \<Rightarrow> circuit \<Rightarrow> cb_state \<Rightarrow> cb_state" where
  "put_circuit key c s = s\<lparr>cb_circuits := dset key c (cb_circuits s)\<rparr>"

text \<open>\<open>min(_backoff_s * (2 ** (trips - 1)), MAX_BACKOFF_S)\<close>, with the integer's conversion to float.\<close>

definition backoff_for :: "real \<Rightarrow> nat \<Rightarrow> py_error + real" where
  "backoff_for base n =
     (if 1024 \<le> n - 1 then Inl OverflowError else Inr (min (base * 2 ^ (n - 1)) max_backoff_s))"

definition record_outcome ::
    "cb_state \<Rightarrow> time \<Rightarrow> time \<Rightarrow> string \<Rightarrow> string \<Rightarrow> bool \<Rightarrow> string option \<Rightarrow> (py_error + bool) \<times> cb_state"
where
  "record_outcome s now real_now p m success error =
     (let key = backend_key p m; c = get_circuit s key;
          err = py_take 300 (case error of None \<Rightarrow> [] | Some e \<Rightarrow> e)
      in if success
         then (Inr False, put_circuit key (c\<lparr>consecutive_failures := 0, trips := 0, open_until := 0\<rparr>) s)
         else
           let c1 = c\<lparr>consecutive_failures := consecutive_failures c + 1, last_error := Some err\<rparr>
           in if cb_enabled s \<and> cb_threshold s \<le> int (consecutive_failures c1) \<and> open_until c1 \<le> now
              then let c2 = c1\<lparr>trips := trips c1 + 1\<rparr>
                   in case backoff_for (cb_backoff s) (trips c2) of
                        Inl e \<Rightarrow> (Inl e, put_circuit key c2 s)
                      | Inr backoff \<Rightarrow>
                          (Inr True,
                           (put_circuit key
                              (c2\<lparr>open_until := now + backoff, last_trip_ts := Some real_now\<rparr>) s)
                           \<lparr>cb_out := cb_out s @ [Log_open key, Alert_open key err, Bump_version,
                                                 Publish_trip key err]\<rparr>)
              else (Inr False, put_circuit key c1 s))"

definition is_open :: "cb_state \<Rightarrow> time \<Rightarrow> string \<Rightarrow> string \<Rightarrow> bool" where
  "is_open s now p m =
     (if \<not> cb_enabled s then False
      else case dget (cb_circuits s) (backend_key p m) of
             None \<Rightarrow> False
           | Some c \<Rightarrow> if open_until c \<le> 0 then False
                       else if open_until c \<le> now then False else True)"

text \<open>\<open>reset\<close> with an empty or missing provider or model clears every circuit.\<close>

definition post_reset_event :: "string \<Rightarrow> cb_effect list" where
  "post_reset_event key = [Bump_version, Publish_reset key]"

definition reset :: "cb_state \<Rightarrow> string option \<Rightarrow> string option \<Rightarrow> nat \<times> cb_state" where
  "reset s p m =
     (if p \<noteq> None \<and> p \<noteq> Some [] \<and> m \<noteq> None \<and> m \<noteq> Some []
      then let key = backend_key (the p) (the m)
           in if dget (cb_circuits s) key \<noteq> None
              then (1, s\<lparr>cb_circuits := ddel key (cb_circuits s),
                         cb_out := cb_out s @ post_reset_event key\<rparr>)
              else (0, s)
      else let keys = map fst (cb_circuits s)
           in (length (cb_circuits s),
               s\<lparr>cb_circuits := [], cb_out := cb_out s @ concat (map post_reset_event keys)\<rparr>))"

record circuit_view =
  cv_failures :: nat
  cv_open :: bool
  cv_remaining :: real
  cv_trips :: nat
  cv_error :: "string option"
  cv_trip_ts :: "time option"

text \<open>\<open>snapshot\<close>, one entry per circuit; the remainder is rounded to one decimal.\<close>

definition view_circuit :: "cb_state \<Rightarrow> time \<Rightarrow> circuit \<Rightarrow> circuit_view" where
  "view_circuit s now c =
     (let open_remaining = (if now < open_until c then max 0 (open_until c - now) else 0)
      in \<lparr>cv_failures = consecutive_failures c, cv_open = (cb_enabled s \<and> open_remaining > 0),
          cv_remaining = py_round 1 open_remaining, cv_trips = trips c, cv_error = last_error c,
          cv_trip_ts = last_trip_ts c\<rparr>)"

definition snapshot :: "cb_state \<Rightarrow> time \<Rightarrow> (string, circuit_view) dict" where
  "snapshot s now = map (\<lambda>(k, c). (k, view_circuit s now c)) (cb_circuits s)"

section \<open>The breaker as the router sees it\<close>

lemma is_open_stays_closed: "\<not> is_open s t p m \<Longrightarrow> t \<le> t' \<Longrightarrow> \<not> is_open s t' p m"
  by (auto simp: is_open_def split: option.splits if_splits)

interpretation cb: lazy_gate "\<lambda>k s. (\<not> is_open s now (fst k) (snd k), s)"
  "\<lambda>s k. \<not> is_open s now (fst k) (snd k)" for now
  by unfold_locales simp_all

section \<open>Runs\<close>

text \<open>What happens to the breaker between two reconfigurations.\<close>

datatype cb_event =
    Outcome time time string string bool "string option"
  | Reset "string option" "string option"

fun cb_step :: "cb_state \<Rightarrow> cb_event \<Rightarrow> cb_state" where
  "cb_step s (Outcome now rnow p m ok err) = snd (record_outcome s now rnow p m ok err)"
| "cb_step s (Reset p m) = snd (reset s p m)"

text \<open>
  The specification of the failure counter: how many failures of this backend end the history,
  counting from its last success or reset.
\<close>

definition resets_key :: "string \<Rightarrow> string option \<Rightarrow> string option \<Rightarrow> bool" where
  "resets_key k p m \<longleftrightarrow>
     (if p \<noteq> None \<and> p \<noteq> Some [] \<and> m \<noteq> None \<and> m \<noteq> Some [] then k = backend_key (the p) (the m) else True)"

fun count_failures :: "string \<Rightarrow> nat \<Rightarrow> cb_event \<Rightarrow> nat" where
  "count_failures k n (Outcome now rnow p m ok err) =
     (if k = backend_key p m then (if ok then 0 else n + 1) else n)"
| "count_failures k n (Reset p m) = (if resets_key k p m then 0 else n)"

definition trailing_failures :: "string \<Rightarrow> cb_event list \<Rightarrow> nat" where
  "trailing_failures k es = foldl (count_failures k) 0 es"

section \<open>Lemmas\<close>

lemma get_put_circuit [simp]:
  "get_circuit (put_circuit k c s) k' = (if k' = k then c else get_circuit s k')"
  by (simp add: get_circuit_def put_circuit_def)

lemma get_circuit_out [simp]: "get_circuit (s\<lparr>cb_out := x\<rparr>) k = get_circuit s k"
  by (simp add: get_circuit_def)

lemma put_circuit_config [simp]:
  "cb_enabled (put_circuit k c s) = cb_enabled s"
  "cb_threshold (put_circuit k c s) = cb_threshold s"
  "cb_backoff (put_circuit k c s) = cb_backoff s"
  by (simp_all add: put_circuit_def)

lemma get_circuit_reset:
  "get_circuit (snd (reset s p m)) k = (if resets_key k p m then new_circuit else get_circuit s k)"
  by (auto simp: reset_def get_circuit_def resets_key_def Let_def split: option.splits)

lemma is_open_iff:
  "is_open s t p m \<longleftrightarrow> cb_enabled s \<and> 0 < open_until (get_circuit s (backend_key p m))
     \<and> t < open_until (get_circuit s (backend_key p m))"
  by (auto simp: is_open_def get_circuit_def new_circuit_def split: option.splits)

lemma config_kept:
  "cb_enabled (cb_step s e) = cb_enabled s \<and> cb_threshold (cb_step s e) = cb_threshold s
   \<and> cb_backoff (cb_step s e) = cb_backoff s"
  by (cases e) (auto simp: record_outcome_def reset_def Let_def split: sum.splits)

lemma config_kept_run:
  "cb_enabled (foldl cb_step s es) = cb_enabled s \<and> cb_threshold (foldl cb_step s es) = cb_threshold s
   \<and> cb_backoff (foldl cb_step s es) = cb_backoff s"
  by (induction es arbitrary: s) (simp_all add: config_kept)

lemma failures_step:
  "consecutive_failures (get_circuit (cb_step s e) k) =
     count_failures k (consecutive_failures (get_circuit s k)) e"
  by (cases e)
     (auto simp: record_outcome_def get_circuit_reset new_circuit_def Let_def split: sum.splits)

lemma failures_run:
  "consecutive_failures (get_circuit (foldl cb_step s es) k) =
     foldl (count_failures k) (consecutive_failures (get_circuit s k)) es"
  by (induction es arbitrary: s) (simp_all add: failures_step)

definition armed :: "cb_state \<Rightarrow> bool" where
  "armed s \<longleftrightarrow> (\<forall>k. 0 < open_until (get_circuit s k)
      \<longrightarrow> cb_threshold s \<le> int (consecutive_failures (get_circuit s k)))"

lemma armed_step: "armed s \<Longrightarrow> armed (cb_step s e)"
proof (unfold armed_def, intro allI impI)
  fix k
  assume "\<forall>k. 0 < open_until (get_circuit s k)
      \<longrightarrow> cb_threshold s \<le> int (consecutive_failures (get_circuit s k))"
    and opened: "0 < open_until (get_circuit (cb_step s e) k)"
  then have old: "0 < open_until (get_circuit s k)
      \<Longrightarrow> cb_threshold s \<le> int (consecutive_failures (get_circuit s k))"
    by simp
  show "cb_threshold (cb_step s e) \<le> int (consecutive_failures (get_circuit (cb_step s e) k))"
  proof (cases e)
    case (Outcome now rnow p m ok err)
    then show ?thesis
      using old opened
      by (auto simp: record_outcome_def Let_def split: sum.splits if_splits)
  next
    case (Reset p m)
    then show ?thesis
      using old opened config_kept [of s e]
      by (auto simp: get_circuit_reset new_circuit_def split: if_splits)
  qed
qed

lemma armed_run: "armed s \<Longrightarrow> armed (foldl cb_step s es)"
  by (induction es arbitrary: s) (simp_all add: armed_step)

lemma backoff_le: "backoff_for b n = Inr x \<Longrightarrow> x \<le> 1800"
  by (auto simp: backoff_for_def max_backoff_s_def split: if_splits)

definition bounded_until :: "time \<Rightarrow> cb_state \<Rightarrow> bool" where
  "bounded_until T s \<longleftrightarrow> (\<forall>k. open_until (get_circuit s k) \<le> T + 1800)"

fun event_before :: "time \<Rightarrow> cb_event \<Rightarrow> bool" where
  "event_before T (Outcome now rnow p m ok err) = (now \<le> T)"
| "event_before T (Reset p m) = True"

lemma bounded_step:
  "bounded_until T s \<Longrightarrow> event_before T e \<Longrightarrow> 0 \<le> T \<Longrightarrow> bounded_until T (cb_step s e)"
  by (cases e)
     (auto simp: bounded_until_def record_outcome_def get_circuit_reset new_circuit_def Let_def
        split: sum.splits dest!: backoff_le)

lemma bounded_run:
  "bounded_until T s \<Longrightarrow> list_all (event_before T) es \<Longrightarrow> 0 \<le> T \<Longrightarrow>
   bounded_until T (foldl cb_step s es)"
  by (induction es arbitrary: s) (simp_all add: bounded_step)

lemma fresh_config [simp]:
  "get_circuit (configure cb_init en th b) k = new_circuit"
  "cb_enabled (configure cb_init en th b) = en"
  "cb_threshold (configure cb_init en th b) = max 1 (if th = 0 then 3 else th)"
  by (simp_all add: get_circuit_def configure_def cb_init_def)

section \<open>Properties\<close>

text \<open>
  C11. The circuit of a backend is open only if the history since the backend's last success or
  reset holds at least \<open>threshold\<close> failures of that very backend; the breaker's counter is
  exactly that number.
\<close>

theorem open_needs_consecutive_failures:
  assumes "is_open (foldl cb_step (configure cb_init True threshold backoff) es) t p m"
  shows "max 1 (if threshold = 0 then 3 else threshold) \<le> int (trailing_failures (backend_key p m) es)"
proof -
  let ?s0 = "configure cb_init True threshold backoff"
  have "armed (foldl cb_step ?s0 es)"
    by (rule armed_run) (simp add: armed_def new_circuit_def)
  then show ?thesis
    using assms config_kept_run [of ?s0 es] failures_run [of ?s0 es "backend_key p m"]
    by (auto simp: is_open_iff armed_def trailing_failures_def new_circuit_def)
qed

theorem open_needs_consecutive_failures_witness:
  "max 1 (if (2::int) = 0 then 3 else 2) \<le> int (trailing_failures (backend_key ''p'' ''m'')
     [Outcome 1 1 ''p'' ''m'' True None, Outcome 2 2 ''p'' ''m'' False None,
      Outcome 3 3 ''p'' ''m'' False (Some ''timeout'')])"
  by (rule open_needs_consecutive_failures [where t = 4 and backoff = 60])
     (simp add: is_open_def record_outcome_def get_circuit_def put_circuit_def configure_def
        cb_init_def new_circuit_def backend_key_def backoff_for_def max_backoff_s_def Let_def)

text \<open>
  A failure that reaches the threshold while the circuit is not open trips it: the call
  reports the trip, and the backend is out of rotation for exactly the base backoff doubled once
  per trip since the last success, at most half an hour.
\<close>

theorem trip_opens_for_backoff:
  assumes "cb_enabled s" and "0 \<le> now" and "0 < cb_backoff s"
    and "open_until (get_circuit s (backend_key p m)) \<le> now"
    and "cb_threshold s \<le> int (consecutive_failures (get_circuit s (backend_key p m))) + 1"
    and "trips (get_circuit s (backend_key p m)) < 1024"
    and "r = record_outcome s now real_now p m False err"
  shows "fst r = Inr True \<and>
     (is_open (snd r) t p m \<longleftrightarrow>
        t < now + min (cb_backoff s * 2 ^ trips (get_circuit s (backend_key p m))) 1800)"
proof -
  have "0 < min (cb_backoff s * 2 ^ trips (get_circuit s (backend_key p m))) (1800::real)"
    using assms(3) by simp
  then have "0 < now + min (cb_backoff s * 2 ^ trips (get_circuit s (backend_key p m))) 1800"
    using assms(2) by linarith
  then show ?thesis
    using assms(1,4,5,6)
    by (simp add: assms(7) record_outcome_def Let_def backoff_for_def max_backoff_s_def is_open_iff)
qed

theorem trip_opens_for_backoff_witness:
  "let s = snd (record_outcome (configure cb_init True 2 60) 1 1 ''p'' ''m'' False None);
       r = record_outcome s 2 2 ''p'' ''m'' False None
   in fst r = Inr True \<and> (is_open (snd r) 30 ''p'' ''m'' \<longleftrightarrow>
        30 < 2 + min (cb_backoff s * 2 ^ trips (get_circuit s (backend_key ''p'' ''m''))) 1800)"
  unfolding Let_def
  by (rule trip_opens_for_backoff [OF _ _ _ _ _ _ refl])
     (simp_all add: record_outcome_def get_circuit_def put_circuit_def configure_def cb_init_def
        new_circuit_def backend_key_def Let_def)

text \<open>
  C12. No circuit stays open on its own: half an hour after the last recorded outcome every
  backend is in rotation again, whatever the history.
\<close>

theorem circuits_reclose:
  assumes "list_all (event_before T) es" and "0 \<le> T" and "T + 1800 \<le> t"
  shows "\<not> is_open (foldl cb_step (configure cb_init enabled threshold backoff) es) t p m"
proof -
  have "bounded_until T (configure cb_init enabled threshold backoff)"
    using assms(2) by (simp add: bounded_until_def new_circuit_def)
  then have "bounded_until T (foldl cb_step (configure cb_init enabled threshold backoff) es)"
    using assms(1,2) by (rule bounded_run)
  then show ?thesis
    using assms(3) by (auto simp: bounded_until_def is_open_iff not_less intro: order_trans)
qed

theorem circuits_reclose_witness:
  "\<not> is_open (foldl cb_step (configure cb_init True 1 60)
       [Outcome 5 5 ''p'' ''m'' False None, Outcome 70 70 ''p'' ''m'' False None]) 1900 ''p'' ''m''"
  by (rule circuits_reclose [where T = 100]) simp_all

text \<open>
  The run of a backend that never answers again, with a request (or a probe) every half hour.
\<close>

definition dead_backend :: "nat \<Rightarrow> cb_event list" where
  "dead_backend n = map (\<lambda>i. Outcome (1800 * real i) 0 ''p'' ''m'' False None) [0..<n]"

lemma dead_backend_trips:
  "n \<le> 1024 \<Longrightarrow>
   trips (get_circuit (foldl cb_step (configure cb_init True 1 60) (dead_backend n)) ''p:m'') = n
   \<and> open_until (get_circuit (foldl cb_step (configure cb_init True 1 60) (dead_backend n)) ''p:m'')
     \<le> 1800 * real n"
proof (induction n)
  case (Suc n)
  define s where "s = foldl cb_step (configure cb_init True 1 60) (dead_backend n)"
  have cfg: "cb_enabled s" "cb_threshold s = 1"
    using config_kept_run [of "configure cb_init True 1 60" "dead_backend n"] by (simp_all add: s_def)
  have "foldl cb_step (configure cb_init True 1 60) (dead_backend (Suc n))
      = snd (record_outcome s (1800 * real n) 0 ''p'' ''m'' False None)"
    by (simp add: dead_backend_def s_def)
  then show ?case
    using Suc cfg
    by (simp add: s_def [symmetric] record_outcome_def backend_key_def Let_def backoff_for_def
        max_backoff_s_def)
qed (simp add: dead_backend_def new_circuit_def)

text \<open>
  A backend that fails 1025 times in a row with the breaker on (a request every half hour)
  makes the last call raise \<open>OverflowError\<close> instead of recording the outcome: the doubled
  backoff is computed before it is capped.
\<close>

theorem backoff_overflows:
  "fst (record_outcome (foldl cb_step (configure cb_init True 1 60) (dead_backend 1024))
          (1800 * 1024) 0 ''p'' ''m'' False None) = Inl OverflowError"
proof -
  let ?s = "foldl cb_step (configure cb_init True 1 60) (dead_backend 1024)"
  have "cb_enabled ?s" "cb_threshold ?s = 1"
    using config_kept_run [of "configure cb_init True 1 60" "dead_backend 1024"] by simp_all
  then show ?thesis
    using dead_backend_trips [of 1024]
    by (simp add: record_outcome_def backend_key_def Let_def backoff_for_def)
qed

end
