(* ===== verification/Json.thy ===== *)
theory Json
  imports Prelude
begin

text \<open>
  JSON values as \<open>json.loads\<close> returns them: \<open>None\<close>, \<open>bool\<close>, \<open>int\<close>, \<open>float\<close>, \<open>str\<close>,
  \<open>list\<close> and \<open>dict\<close> (in document order).  Request bodies, default parameters and provider
  responses are such values.  The parser and the printer themselves are parameters of the
  operations that call them.
\<close>

datatype json =
    JNull
  | JBool bool
  | JInt int
  | JFloat real
  | JStr string
  | JList "json list"
  | JObj "(string \<times> json) list"

type_synonym jobj = "(string, json) dict"

text \<open>\<open>d.get(k)\<close>: a missing key reads as \<open>None\<close>.\<close>

definition jget :: "jobj \<Rightarrow> string \<Rightarrow> json" where
  "jget d k = (case dget d k of None \<Rightarrow> JNull | Some v \<Rightarrow> v)"

definition jhas :: "jobj \<Rightarrow> string \<Rightarrow> bool" where
  "jhas d k \<longleftrightarrow> dget d k \<noteq> None"

text \<open>Python's truth value, and \<open>isinstance(x, int)\<close>, which accepts booleans.\<close>

fun truthy :: "json \<Rightarrow> bool" where
  "truthy JNull = False"
| "truthy (JBool b) = b"
| "truthy (JInt i) = (i \<noteq> 0)"
| "truthy (JFloat x) = (x \<noteq> 0)"
| "truthy (JStr s) = (s \<noteq> [])"
| "truthy (JList xs) = (xs \<noteq> [])"
| "truthy (JObj d) = (d \<noteq> [])"

fun as_int :: "json \<Rightarrow> int option" where
  "as_int (JInt i) = Some i"
| "as_int (JBool b) = Some (if b then 1 else 0)"
| "as_int _ = None"

fun as_str :: "json \<Rightarrow> string option" where
  "as_str (JStr s) = Some s"
| "as_str _ = None"

fun as_obj :: "json \<Rightarrow> jobj option" where
  "as_obj (JObj d) = Some d"
| "as_obj _ = None"

fun as_list :: "json \<Rightarrow> json list option" where
  "as_list (JList xs) = Some xs"
| "as_list _ = None"

lemma jget_dset [simp]: "jget (dset k v d) x = (if x = k then v else jget d x)"
  by (simp add: jget_def)

lemma jget_ddel [simp]: "jget (ddel k d) x = (if x = k then JNull else jget d x)"
  by (simp add: jget_def)

lemma jhas_dset [simp]: "jhas (dset k v d) x \<longleftrightarrow> x = k \<or> jhas d x"
  by (simp add: jhas_def)

lemma jhas_ddel [simp]: "jhas (ddel k d) x \<longleftrightarrow> x \<noteq> k \<and> jhas d x"
  by (simp add: jhas_def)

end
