(* ===== verification/Config.thy ===== *)
theory Config
  imports Json
begin

text \<open>
  The configuration (\<^verbatim>\<open>src/localgateway/config.py\<close>): the schema's classes as records, model and
  provider lookup, the linter \<open>validate_config\<close>, the rotating backups, and loading and saving.

  Parsing and dumping a file goes through pydantic, which is not part of the repository:
  \<open>parse\<close> and \<open>dump\<close> are parameters of \<open>load_config\<close> and \<open>save_config\<close>.
\<close>

section \<open>The schema\<close>

record api_key_config =
  ak_id :: string
  ak_key :: string
  ak_label :: string
  ak_enabled :: bool
  ak_rpm :: "int option"
  ak_daily_budget_usd :: "real option"
  ak_monthly_budget_usd :: "real option"
  ak_model_allowlist :: "string list"

record server_config =
  sv_host :: string
  sv_port :: int
  sv_api_key :: "string option"
  sv_api_keys :: "api_key_config list"
  sv_routing_mode :: string
  sv_routing_decay :: real
  sv_stats_routing_enabled :: bool
  sv_circuit_breaker_enabled :: bool
  sv_circuit_breaker_threshold :: int
  sv_circuit_breaker_backoff_s :: real
  sv_probe_enabled :: bool
  sv_probe_interval_s :: real
  sv_probe_max_tokens :: int
  sv_chart_enabled :: bool
  sv_cache_affinity_enabled :: bool
  sv_cache_affinity_ttl_sec :: int
  sv_max_inflight_before_spill :: "int option"
  sv_usage_retention_days :: int
  sv_log_retention_lines :: int
  sv_tokenizer :: string
  sv_alert_webhook_url :: "string option"
  sv_response_cache_enabled :: bool
  sv_response_cache_ttl_sec :: int
  sv_response_cache_max_entries :: int

record provider_config =
  pv_id :: string
  pv_name :: string
  pv_base_url :: string
  pv_api_key :: string
  pv_headers :: "(string, string) dict"
  pv_timeout :: real
  pv_enabled :: bool
  pv_stream_idle_timeout :: "real option"
  pv_avatar :: string

record backend_config =
  bk_provider :: string
  bk_model :: string
  bk_priority :: int
  bk_enabled :: bool
  bk_context_length :: "int option"
  bk_max_output_tokens :: "int option"
  bk_cache_supported :: "bool option"
  bk_weight :: real

record time_slot =
  ts_id :: string
  ts_name :: string
  ts_start_hour :: int
  ts_end_hour :: int
  ts_days_of_week :: "int list"
  ts_active_providers :: "string list"
  ts_enabled :: bool

record time_routing_config =
  tr_enabled :: bool
  tr_timezone :: string
  tr_slots :: "time_slot list"

record model_config =
  md_id :: string
  md_backends :: "backend_config list"
  md_description :: "string option"
  md_context_length :: "int option"
  md_enabled :: bool
  md_capabilities :: "(string, bool) dict"
  md_modality :: string
  md_max_output_tokens :: "int option"
  md_endpoint :: string
  md_tags :: "string list"
  md_aliases :: "string list"
  md_default_params :: jobj
  md_display_name :: string
  md_avatar :: string
  md_time_routing :: time_routing_config
  md_probe_interval_s :: "real option"
  md_cache_responses :: bool

record pricing_entry =
  pr_input :: real
  pr_output :: real
  pr_cache_read :: "real option"
  pr_cache_write :: "real option"

record gateway_config =
  gw_server :: server_config
  gw_providers :: "provider_config list"
  gw_models :: "model_config list"
  gw_pricing :: "(string, pricing_entry) dict"
  gw_version :: int

text \<open>The schema's defaults.\<close>

definition default_server :: server_config where
  "default_server =
     \<lparr>sv_host = ''127.0.0.1'', sv_port = 3456, sv_api_key = None, sv_api_keys = [],
      sv_routing_mode = ''explore'', sv_routing_decay = 2 / 5, sv_stats_routing_enabled = True,
      sv_circuit_breaker_enabled = False, sv_circuit_breaker_threshold = 3,
      sv_circuit_breaker_backoff_s = 60, sv_probe_enabled = True, sv_probe_interval_s = 3600,
      sv_probe_max_tokens = 64, sv_chart_enabled = True, sv_cache_affinity_enabled = False,
      sv_cache_affinity_ttl_sec = 300, sv_max_inflight_before_spill = None,
      sv_usage_retention_days = 30, sv_log_retention_lines = 10000, sv_tokenizer = ''auto'',
      sv_alert_webhook_url = None, sv_response_cache_enabled = False,
      sv_response_cache_ttl_sec = 3600, sv_response_cache_max_entries = 1000\<rparr>"

definition default_provider :: "string \<Rightarrow> string \<Rightarrow> provider_config" where
  "default_provider pid url =
     \<lparr>pv_id = pid, pv_name = [], pv_base_url = url, pv_api_key = [], pv_headers = [],
      pv_timeout = 120, pv_enabled = True, pv_stream_idle_timeout = Some 60, pv_avatar = []\<rparr>"

definition default_backend :: "string \<Rightarrow> string \<Rightarrow> backend_config" where
  "default_backend p m =
     \<lparr>bk_provider = p, bk_model = m, bk_priority = 1, bk_enabled = True, bk_context_length = None,
      bk_max_output_tokens = None, bk_cache_supported = None, bk_weight = 1\<rparr>"

definition default_time_routing :: time_routing_config where
  "default_time_routing = \<lparr>tr_enabled = False, tr_timezone = ''UTC'', tr_slots = []\<rparr>"

definition default_model :: "string \<Rightarrow> backend_config list \<Rightarrow> model_config" where
  "default_model mid bs =
     \<lparr>md_id = mid, md_backends = bs, md_description = Some [], md_context_length = None,
      md_enabled = True, md_capabilities = [], md_modality = [], md_max_output_tokens = None,
      md_endpoint = ''chat'', md_tags = [], md_aliases = [], md_default_params = [],
      md_display_name = [], md_avatar = [], md_time_routing = default_time_routing,
      md_probe_interval_s = None, md_cache_responses = False\<rparr>"

definition default_pricing :: pricing_entry where
  "default_pricing = \<lparr>pr_input = 0, pr_output = 0, pr_cache_read = None, pr_cache_write = None\<rparr>"

definition default_gateway :: gateway_config where
  "default_gateway =
     \<lparr>gw_server = default_server, gw_providers = [], gw_models = [], gw_pricing = [], gw_version = 0\<rparr>"

section \<open>Lookup\<close>

definition provider_by_id :: "gateway_config \<Rightarrow> string \<Rightarrow> provider_config option" where
  "provider_by_id cfg pid = find (\<lambda>p. pv_id p = pid) (gw_providers cfg)"

definition model_by_id :: "gateway_config \<Rightarrow> string \<Rightarrow> model_config option" where
  "model_by_id cfg mid =
     (case find (\<lambda>m. md_id m = mid) (gw_models cfg) of
        Some m \<Rightarrow> Some m
      | None \<Rightarrow> find (\<lambda>m. mid \<in> set (md_aliases m)) (gw_models cfg))"

definition pricing_for :: "gateway_config \<Rightarrow> string \<Rightarrow> string \<Rightarrow> pricing_entry" where
  "pricing_for cfg p m =
     (case dget (gw_pricing cfg) (backend_key p m) of None \<Rightarrow> default_pricing | Some e \<Rightarrow> e)"

definition api_key_by_id :: "gateway_config \<Rightarrow> string \<Rightarrow> api_key_config option" where
  "api_key_by_id cfg kid = find (\<lambda>k. ak_id k = kid) (sv_api_keys (gw_server cfg))"

definition validated_api_key :: "provider_config \<Rightarrow> py_error + string" where
  "validated_api_key p = (if is_ascii (pv_api_key p) then Inr (pv_api_key p) else Inl ValueError)"

section \<open>The linter\<close>

text \<open>
  An issue carries what its message interpolates; \<open>severity_of\<close> is the field \<open>severity\<close>.
  A \<open>str\<close> is its UTF-8 encoding, so the redacted placeholder is six times the bytes of U+2022.
\<close>

datatype issue =
    Duplicate_provider_id string
  | Duplicate_model_id string
  | Alias_collision string string
  | Orphan_backend string nat string
  | Placeholder_key string
  | Non_ascii_key string
  | Model_no_backends string
  | Disabled_provider_referenced string nat string
  | Pricing_gap string nat string
  | Mot_exceeds_context string nat int int

datatype severity = Error | Warning

fun severity_of :: "issue \<Rightarrow> severity" where
  "severity_of (Duplicate_provider_id _) = Error"
| "severity_of (Duplicate_model_id _) = Error"
| "severity_of (Alias_collision _ _) = Error"
| "severity_of (Orphan_backend _ _ _) = Error"
| "severity_of (Placeholder_key _) = Error"
| "severity_of (Non_ascii_key _) = Error"
| "severity_of (Model_no_backends _) = Warning"
| "severity_of (Disabled_provider_referenced _ _ _) = Warning"
| "severity_of (Pricing_gap _ _ _) = Warning"
| "severity_of (Mot_exceeds_context _ _ _ _) = Warning"

definition redacted_key :: string where
  "redacted_key = concat (replicate 6 [CHR 0xE2, CHR 0x80, CHR 0xA2])"

fun lint_providers :: "provider_config list \<Rightarrow> string set \<Rightarrow> issue list \<times> string set" where
  "lint_providers [] seen_pids = ([], seen_pids)"
| "lint_providers (p # ps) seen_pids =
     (let (is, seen) = lint_providers ps (insert (pv_id p) seen_pids)
      in ((if pv_id p \<in> seen_pids then [Duplicate_provider_id (pv_id p)] else []) @ is, seen))"

fun lint_aliases ::
    "string \<Rightarrow> string list \<Rightarrow> string set \<Rightarrow> string set \<Rightarrow> issue list \<times> string set" where
  "lint_aliases mid [] seen_mids all_aliases = ([], all_aliases)"
| "lint_aliases mid (alias # rest) seen_mids all_aliases =
     (let (is, al) = lint_aliases mid rest seen_mids (insert alias all_aliases)
      in ((if alias \<in> seen_mids \<or> alias \<in> all_aliases then [Alias_collision mid alias] else []) @ is,
          al))"

fun lint_models :: "model_config list \<Rightarrow> string set \<Rightarrow> string set \<Rightarrow> issue list" where
  "lint_models [] seen_mids all_aliases = []"
| "lint_models (m # ms) seen_mids all_aliases =
     (let seen = insert (md_id m) seen_mids;
          (is, al) = lint_aliases (md_id m) (md_aliases m) seen all_aliases
      in (if md_id m \<in> seen_mids then [Duplicate_model_id (md_id m)] else [])
         @ is @ lint_models ms seen al)"

definition lint_orphans :: "model_config list \<Rightarrow> string set \<Rightarrow> issue list" where
  "lint_orphans ms seen_pids =
     concat (map (\<lambda>m. concat (map (\<lambda>(i, b).
       if bk_provider b \<notin> seen_pids then [Orphan_backend (md_id m) i (bk_provider b)] else [])
       (enumerate 0 (md_backends m)))) ms)"

definition lint_keys :: "provider_config list \<Rightarrow> issue list" where
  "lint_keys ps =
     concat (map (\<lambda>p.
       if pv_api_key p = redacted_key then [Placeholder_key (pv_id p)]
       else if pv_api_key p \<noteq> [] \<and> \<not> is_ascii (pv_api_key p) then [Non_ascii_key (pv_id p)]
       else []) ps)"

definition lint_no_backends :: "model_config list \<Rightarrow> issue list" where
  "lint_no_backends ms =
     concat (map (\<lambda>m. if md_backends m = [] then [Model_no_backends (md_id m)] else []) ms)"

fun pid_enabled :: "provider_config list \<Rightarrow> (string, bool) dict \<Rightarrow> (string, bool) dict" where
  "pid_enabled [] d = d"
| "pid_enabled (p # ps) d = pid_enabled ps (dset (pv_id p) (pv_enabled p) d)"

definition lint_disabled :: "model_config list \<Rightarrow> (string, bool) dict \<Rightarrow> issue list" where
  "lint_disabled ms en =
     concat (map (\<lambda>m. concat (map (\<lambda>(i, b).
       if bk_enabled b \<and> dget en (bk_provider b) = Some False
       then [Disabled_provider_referenced (md_id m) i (bk_provider b)] else [])
       (enumerate 0 (md_backends m)))) ms)"

definition lint_pricing :: "model_config list \<Rightarrow> (string, pricing_entry) dict \<Rightarrow> issue list" where
  "lint_pricing ms pricing =
     concat (map (\<lambda>m. concat (map (\<lambda>(i, b).
       let key = backend_key (bk_provider b) (bk_model b)
       in if dget pricing key = None then [Pricing_gap (md_id m) i key] else [])
       (enumerate 0 (md_backends m)))) ms)"

text \<open>\<open>b.context_length or m.context_length\<close>: a zero falls through to the model's value.\<close>

definition int_or :: "int option \<Rightarrow> int option \<Rightarrow> int option" where
  "int_or a b = (if a = None \<or> a = Some 0 then b else a)"

definition lint_output_cap :: "model_config list \<Rightarrow> issue list" where
  "lint_output_cap ms =
     concat (map (\<lambda>m. concat (map (\<lambda>(i, b).
       case (md_max_output_tokens m, int_or (bk_context_length b) (md_context_length m)) of
         (Some mot, Some ctx) \<Rightarrow>
           if mot \<noteq> 0 \<and> ctx \<noteq> 0 \<and> ctx < mot then [Mot_exceeds_context (md_id m) i mot ctx] else []
       | _ \<Rightarrow> [])
       (enumerate 0 (md_backends m)))) ms)"

definition validate_config :: "gateway_config \<Rightarrow> issue list" where
  "validate_config cfg =
     (let (provider_issues, seen_pids) = lint_providers (gw_providers cfg) {}
      in provider_issues
         @ lint_models (gw_models cfg) {} {}
         @ lint_orphans (gw_models cfg) seen_pids
         @ lint_keys (gw_providers cfg)
         @ lint_no_backends (gw_models cfg)
         @ lint_disabled (gw_models cfg) (pid_enabled (gw_providers cfg) [])
         @ lint_pricing (gw_models cfg) (gw_pricing cfg)
         @ lint_output_cap (gw_models cfg))"

definition blocks :: "issue list \<Rightarrow> bool" where
  "blocks is \<longleftrightarrow> list_ex (\<lambda>i. severity_of i = Error) is"

lemma blocks_append [simp]: "blocks (xs @ ys) \<longleftrightarrow> blocks xs \<or> blocks ys"
  by (simp add: blocks_def)

lemma blocks_Nil [simp]: "\<not> blocks []"
  by (simp add: blocks_def)

lemma blocks_single [simp]: "blocks [i] \<longleftrightarrow> severity_of i = Error"
  by (simp add: blocks_def)

lemma blocks_if [simp]: "blocks (if c then xs else ys) \<longleftrightarrow> (if c then blocks xs else blocks ys)"
  by simp

lemma blocks_concat_map: "blocks (concat (map f xs)) \<longleftrightarrow> (\<exists>x\<in>set xs. blocks (f x))"
  by (auto simp: blocks_def list_ex_iff)

lemma lint_providers_seen: "snd (lint_providers ps seen) = seen \<union> pv_id ` set ps"
  by (induction ps arbitrary: seen) (simp_all add: split_beta Let_def)

lemma lint_providers_clean:
  "\<not> blocks (fst (lint_providers ps seen)) \<longleftrightarrow>
     distinct (map pv_id ps) \<and> pv_id ` set ps \<inter> seen = {}"
  by (induction ps arbitrary: seen) (auto simp: split_beta Let_def blocks_def)

lemma lint_aliases_seen: "snd (lint_aliases mid as seen al) = al \<union> set as"
  by (induction mid as seen al rule: lint_aliases.induct) (simp_all add: split_beta Let_def)

lemma lint_aliases_clean:
  "\<not> blocks (fst (lint_aliases mid as seen al)) \<longleftrightarrow>
     distinct as \<and> set as \<inter> seen = {} \<and> set as \<inter> al = {}"
  by (induction mid as seen al rule: lint_aliases.induct) (auto simp: split_beta Let_def blocks_def)

lemma lint_models_clean:
  "\<not> blocks (lint_models ms seen al) \<Longrightarrow>
     distinct (map md_id ms) \<and> md_id ` set ms \<inter> seen = {}
     \<and> distinct (concat (map md_aliases ms)) \<and> set (concat (map md_aliases ms)) \<inter> al = {}"
proof (induction ms arbitrary: seen al)
  case (Cons m ms)
  from Cons.prems have now: "md_id m \<notin> seen"
    "\<not> blocks (fst (lint_aliases (md_id m) (md_aliases m) (insert (md_id m) seen) al))"
    and rest: "\<not> blocks (lint_models ms (insert (md_id m) seen) (al \<union> set (md_aliases m)))"
    by (auto simp: split_beta Let_def lint_aliases_seen blocks_def split: if_splits)
  then show ?case
    using Cons.IH [OF rest] by (auto simp: lint_aliases_clean)
qed simp

lemma lint_orphans_clean:
  "\<not> blocks (lint_orphans ms pids) \<longleftrightarrow>
     (\<forall>m\<in>set ms. \<forall>b\<in>set (md_backends m). bk_provider b \<in> pids)"
  by (simp add: lint_orphans_def blocks_concat_map split_beta
      ball_enumerate [where P = "\<lambda>b. bk_provider b \<in> pids"])

lemma lint_keys_clean:
  "\<not> blocks (lint_keys ps) \<longleftrightarrow> (\<forall>p\<in>set ps. is_ascii (pv_api_key p))"
proof -
  have "\<not> is_ascii redacted_key" by (simp add: is_ascii_def redacted_key_def byte_def numeral_eq_Suc)
  moreover have "is_ascii []" by (simp add: is_ascii_def)
  ultimately show ?thesis
    by (auto simp: lint_keys_def blocks_concat_map)
qed

lemma provider_by_id_None: "provider_by_id cfg pid = None \<longleftrightarrow> pid \<notin> pv_id ` set (gw_providers cfg)"
  by (auto simp: provider_by_id_def find_None_iff)

lemma provider_by_id_Some: "provider_by_id cfg pid = Some p \<Longrightarrow> pv_id p = pid \<and> p \<in> set (gw_providers cfg)"
  by (auto simp: provider_by_id_def find_Some_iff)

lemma model_by_id_Some:
  "model_by_id cfg mid = Some m \<Longrightarrow> m \<in> set (gw_models cfg) \<and> (md_id m = mid \<or> mid \<in> set (md_aliases m))"
  by (auto simp: model_by_id_def find_Some_iff split: option.splits)

section \<open>Properties of the linter\<close>

text \<open>
  C13. A configuration the linter lets pass has unique provider ids, unique model ids, no alias
  given twice, only backends whose provider exists, and only provider keys that can be sent.
\<close>

theorem lint_clean_config:
  assumes "\<not> blocks (validate_config cfg)"
  shows "distinct (map pv_id (gw_providers cfg)) \<and> distinct (map md_id (gw_models cfg))
    \<and> distinct (concat (map md_aliases (gw_models cfg)))
    \<and> list_all (\<lambda>m. list_all (\<lambda>b. provider_by_id cfg (bk_provider b) \<noteq> None) (md_backends m)) (gw_models cfg)
    \<and> list_all (\<lambda>p. validated_api_key p = Inr (pv_api_key p)) (gw_providers cfg)"
proof -
  have "\<not> blocks (fst (lint_providers (gw_providers cfg) {}))" and "\<not> blocks (lint_models (gw_models cfg) {} {})"
    and "\<not> blocks (lint_orphans (gw_models cfg) (pv_id ` set (gw_providers cfg)))"
    and "\<not> blocks (lint_keys (gw_providers cfg))"
    using assms by (auto simp: validate_config_def split_beta Let_def lint_providers_seen)
  then show ?thesis
    using lint_models_clean [of "gw_models cfg" "{}" "{}"]
    by (simp add: lint_providers_clean lint_orphans_clean lint_keys_clean list_all_iff
        provider_by_id_None validated_api_key_def)
qed

theorem lint_clean_config_witness:
  "let cfg = default_gateway\<lparr>gw_providers := [default_provider ''p'' ''http://h''],
         gw_models := [default_model ''m'' [default_backend ''p'' ''x'']\<lparr>md_aliases := [''n'']\<rparr>]\<rparr>
   in distinct (map pv_id (gw_providers cfg)) \<and> distinct (map md_id (gw_models cfg))
    \<and> distinct (concat (map md_aliases (gw_models cfg)))
    \<and> list_all (\<lambda>m. list_all (\<lambda>b. provider_by_id cfg (bk_provider b) \<noteq> None) (md_backends m)) (gw_models cfg)
    \<and> list_all (\<lambda>p. validated_api_key p = Inr (pv_api_key p)) (gw_providers cfg)"
  unfolding Let_def
  by (rule lint_clean_config)
     (simp add: validate_config_def default_gateway_def default_provider_def default_model_def
        default_backend_def lint_orphans_def lint_keys_def lint_no_backends_def lint_disabled_def
        lint_pricing_def lint_output_cap_def int_or_def redacted_key_def blocks_def)

text \<open>
  The linter looks at an alias before it has seen the models that follow: the alias of the
  first model here is the id of the second, no issue of error severity is reported, and the alias
  can never resolve to the model that declares it.
\<close>

definition shadowed_alias_config :: gateway_config where
  "shadowed_alias_config =
     default_gateway\<lparr>gw_providers := [default_provider ''p'' ''http://h''],
       gw_models := [default_model ''a'' [default_backend ''p'' ''x'']\<lparr>md_aliases := [''b'']\<rparr>,
                     default_model ''b'' [default_backend ''p'' ''y'']]\<rparr>"

theorem lint_misses_alias_of_later_model:
  "\<not> blocks (validate_config shadowed_alias_config)
   \<and> map_option md_id (model_by_id shadowed_alias_config ''b'') = Some ''b''
   \<and> ''b'' \<in> set (md_aliases (hd (gw_models shadowed_alias_config)))"
  by (simp add: shadowed_alias_config_def validate_config_def model_by_id_def default_gateway_def default_provider_def
        default_model_def default_backend_def lint_orphans_def lint_keys_def lint_no_backends_def
        lint_disabled_def lint_pricing_def lint_output_cap_def int_or_def redacted_key_def blocks_def)

end
