(* ===== verification/Stats.thy ===== *)
theory Stats
  imports Config
begin

text \<open>
  Request statistics and the cache-warmth registry (\<^verbatim>\<open>src/localgateway/stats.py\<close>).  Both module
  dictionaries are fields of \<open>st_state\<close>; \<open>now\<close> is \<open>time.time()\<close>.  Every function holds the
  module's lock for its whole body.
\<close>

section \<open>State\<close>

definition window :: nat where
  "window = 50"

definition warmth_max_keys :: nat where
  "warmth_max_keys = 2000"

definition warmth_max_entries :: nat where
  "warmth_max_entries = 20000"

record backend_stats =
  bs_latencies :: "int list"
  bs_ttfts :: "int list"
  bs_successes :: nat
  bs_failures :: nat
  bs_last_error :: "string option"
  bs_last_error_ts :: "time option"
  bs_last_success_ts :: "time option"
  bs_in_flight :: nat

record warmth_entry =
  we_last_seen_ts :: time
  we_hit_count :: nat
  we_write_count :: nat
  we_miss_count :: nat
  we_last_hit_rate :: real

type_synonym bucket = "(string, warmth_entry) dict"

record st_state =
  st_stats :: "(string, backend_stats) dict"
  st_warmth :: "(string, bucket) dict"

definition new_stats :: backend_stats where
  "new_stats = \<lparr>bs_latencies = [], bs_ttfts = [], bs_successes = 0, bs_failures = 0,
                bs_last_error = None, bs_last_error_ts = None, bs_last_success_ts = None,
                bs_in_flight = 0\<rparr>"

definition st_init :: st_state where
  "st_init = \<lparr>st_stats = [], st_warmth = []\<rparr>"

section \<open>Request bookkeeping\<close>

definition get_stats :: "st_state \<Rightarrow> string \<Rightarrow> backend_stats" where
  "get_stats s key = (case dget (st_stats s) key of None \<Rightarrow> new_stats | Some b \<Rightarrow> b)"

definition put_stats :: "string \<Rightarrow> backend_stats \<Rightarrow> st_state \<Rightarrow> st_state" where
  "put_stats key b s = s\<lparr>st_stats := dset key b (st_stats s)\<rparr>"

text \<open>Appending to a \<open>deque(maxlen=WINDOW)\<close> drops from the left.\<close>

definition push_window :: "int \<Rightarrow> int list \<Rightarrow> int list" where
  "push_window x dq = drop (length (dq @ [x]) - window) (dq @ [x])"

definition start_request :: "st_state \<Rightarrow> string \<Rightarrow> string \<Rightarrow> st_state" where
  "start_request s p m =
     (let key = backend_key p m; b = get_stats s key
      in put_stats key (b\<lparr>bs_in_flight := bs_in_flight b + 1\<rparr>) s)"

definition end_request :: "st_state \<Rightarrow> string \<Rightarrow> string \<Rightarrow> st_state" where
  "end_request s p m =
     (let key = backend_key p m; b = get_stats s key
      in put_stats key (if bs_in_flight b > 0 then b\<lparr>bs_in_flight := bs_in_flight b - 1\<rparr> else b) s)"

definition record_success ::
    "st_state \<Rightarrow> time \<Rightarrow> string \<Rightarrow> string \<Rightarrow> int option \<Rightarrow> int option \<Rightarrow> st_state" where
  "record_success s now p m latency_ms ttft_ms =
     (let key = backend_key p m; b = get_stats s key;
          b1 = b\<lparr>bs_successes := bs_successes b + 1, bs_last_success_ts := Some now\<rparr>;
          b2 = (case latency_ms of None \<Rightarrow> b1
                | Some l \<Rightarrow> b1\<lparr>bs_latencies := push_window l (bs_latencies b1)\<rparr>);
          b3 = (case ttft_ms of None \<Rightarrow> b2
                | Some t \<Rightarrow> b2\<lparr>bs_ttfts := push_window t (bs_ttfts b2)\<rparr>)
      in put_stats key b3 s)"

definition record_failure :: "st_state \<Rightarrow> time \<Rightarrow> string \<Rightarrow> string \<Rightarrow> string option \<Rightarrow> st_state" where
  "record_failure s now p m error =
     (let key = backend_key p m; b = get_stats s key
      in put_stats key
           (b\<lparr>bs_failures := bs_failures b + 1,
              bs_last_error := Some (py_take 300 (case error of None \<Rightarrow> [] | Some e \<Rightarrow> e)),
              bs_last_error_ts := Some now\<rparr>) s)"

section \<open>Cache warmth\<close>

definition opt0 :: "int option \<Rightarrow> int" where
  "opt0 x = (case x of None \<Rightarrow> 0 | Some n \<Rightarrow> n)"

text \<open>\<open>max(..., default=0.0)\<close> over a bucket's entries.\<close>

definition bucket_seen :: "bucket \<Rightarrow> time" where
  "bucket_seen b =
     (case map (\<lambda>e. we_last_seen_ts (snd e)) b of [] \<Rightarrow> 0 | x # xs \<Rightarrow> foldl max x xs)"

definition total_entries :: "(string, bucket) dict \<Rightarrow> nat" where
  "total_entries w = sum_list (map (\<lambda>kb. length (snd kb)) w)"

definition oldest_key :: "(string, bucket) dict \<Rightarrow> string" where
  "oldest_key w = fst (arg_min_list (\<lambda>kb. bucket_seen (snd kb)) w)"

definition evict :: "(string, bucket) dict \<Rightarrow> (string, bucket) dict" where
  "evict w =
     (if length w > warmth_max_keys \<or> total_entries w > warmth_max_entries
      then ddel (oldest_key w) w else w)"

definition touch_entry :: "warmth_entry option \<Rightarrow> time \<Rightarrow> int \<Rightarrow> int \<Rightarrow> int \<Rightarrow> warmth_entry" where
  "touch_entry old now cached cache_write inp =
     (let e0 = (case old of
                  None \<Rightarrow> \<lparr>we_last_seen_ts = now, we_hit_count = 0, we_write_count = 0,
                           we_miss_count = 0, we_last_hit_rate = 0\<rparr>
                | Some e \<Rightarrow> e);
          e1 = e0\<lparr>we_last_seen_ts := now\<rparr>;
          e2 = (if cached > 0 then e1\<lparr>we_hit_count := we_hit_count e1 + 1\<rparr>
                else if cache_write > 0 then e1\<lparr>we_write_count := we_write_count e1 + 1\<rparr>
                else if inp > 0 then e1\<lparr>we_miss_count := we_miss_count e1 + 1\<rparr>
                else e1);
          total = we_hit_count e2 + we_miss_count e2
      in e2\<lparr>we_last_hit_rate := (if total \<noteq> 0 then real (we_hit_count e2) / real total else 0)\<rparr>)"

definition record_cache_activity ::
    "st_state \<Rightarrow> time \<Rightarrow> string \<Rightarrow> string \<Rightarrow> string option \<Rightarrow> int option \<Rightarrow> int option \<Rightarrow> int option
     \<Rightarrow> bool option \<Rightarrow> st_state"
where
  "record_cache_activity s now p m cache_key cached_tokens cache_write_tokens input_tokens cache_supported =
     (case cache_key of
        None \<Rightarrow> s
      | Some ck \<Rightarrow>
          if ck = [] then s
          else let bk = backend_key p m;
                   supports = (case cache_supported of
                                 Some b \<Rightarrow> b
                               | None \<Rightarrow> opt0 cached_tokens \<noteq> 0 \<or> opt0 cache_write_tokens \<noteq> 0)
               in if \<not> supports then s
                  else let bucket = (case dget (st_warmth s) ck of None \<Rightarrow> [] | Some b \<Rightarrow> b);
                           entry = touch_entry (dget bucket bk) now (opt0 cached_tokens)
                                     (opt0 cache_write_tokens) (opt0 input_tokens)
                       in s\<lparr>st_warmth := evict (dset ck (dset bk entry bucket) (st_warmth s))\<rparr>)"

definition warm_key :: "string \<times> warmth_entry \<Rightarrow> real list" where
  "warm_key be = [- we_last_hit_rate (snd be), - we_last_seen_ts (snd be)]"

definition warm_backends_for ::
    "st_state \<Rightarrow> time \<Rightarrow> string \<Rightarrow> string list \<Rightarrow> real \<Rightarrow> string list \<times> st_state" where
  "warm_backends_for s now cache_key cands ttl_sec =
     (if cache_key = [] \<or> cands = [] then ([], s)
      else case dget (st_warmth s) cache_key of
             None \<Rightarrow> ([], s)
           | Some bucket \<Rightarrow>
               if bucket = [] then ([], s)
               else let live = filter (\<lambda>be. \<not> now - we_last_seen_ts (snd be) > ttl_sec) bucket
                    in if live = [] then ([], s\<lparr>st_warmth := ddel cache_key (st_warmth s)\<rparr>)
                       else (map fst (sort_key warm_key (filter (\<lambda>be. fst be \<in> set cands) live)),
                             s\<lparr>st_warmth := dset cache_key live (st_warmth s)\<rparr>))"

definition clear_warmth :: "st_state \<Rightarrow> st_state" where
  "clear_warmth s = s\<lparr>st_warmth := []\<rparr>"

definition reset_stats :: "st_state \<Rightarrow> st_state" where
  "reset_stats s = s\<lparr>st_stats := [], st_warmth := []\<rparr>"

section \<open>Views\<close>

definition avg :: "int list \<Rightarrow> real option" where
  "avg dq = (if dq = [] then None else Some (py_round 1 (real_of_int (sum_list dq) / real (length dq))))"

record stats_view =
  sn_requests :: nat
  sn_successes :: nat
  sn_failures :: nat
  sn_success_rate :: "real option"
  sn_avg_latency_ms :: "real option"
  sn_avg_ttft_ms :: "real option"
  sn_last_error :: "string option"
  sn_last_error_ts :: "time option"
  sn_last_success_ts :: "time option"
  sn_in_flight :: nat

definition view_stats :: "backend_stats \<Rightarrow> stats_view" where
  "view_stats b =
     (let total = bs_successes b + bs_failures b
      in \<lparr>sn_requests = total, sn_successes = bs_successes b, sn_failures = bs_failures b,
          sn_success_rate = (if total \<noteq> 0
             then Some (py_round 1 (real (bs_successes b) / real total * 100)) else None),
          sn_avg_latency_ms = avg (bs_latencies b), sn_avg_ttft_ms = avg (bs_ttfts b),
          sn_last_error = bs_last_error b, sn_last_error_ts = bs_last_error_ts b,
          sn_last_success_ts = bs_last_success_ts b, sn_in_flight = bs_in_flight b\<rparr>)"

definition snapshot :: "st_state \<Rightarrow> (string, stats_view) dict" where
  "snapshot s = map (\<lambda>(k, b). (k, view_stats b)) (st_stats s)"

record warmth_summary =
  ws_warm :: bool
  ws_last_hit_rate :: real
  ws_last_seen_ts :: time
  ws_fingerprints :: nat

definition summarise ::
    "string list \<Rightarrow> real \<Rightarrow> time \<Rightarrow> (string, warmth_summary) dict \<Rightarrow> string \<times> warmth_entry
     \<Rightarrow> (string, warmth_summary) dict" where
  "summarise cand ttl_sec now out be =
     (let bk = fst be; e = snd be
      in if bk \<notin> set cand then out
         else if now - we_last_seen_ts e > ttl_sec then out
         else let entry = (case dget out bk of
                     None \<Rightarrow> \<lparr>ws_warm = False, ws_last_hit_rate = 0, ws_last_seen_ts = 0, ws_fingerprints = 0\<rparr>
                   | Some x \<Rightarrow> x);
                  entry1 = entry\<lparr>ws_warm := True, ws_fingerprints := ws_fingerprints entry + 1\<rparr>;
                  entry2 = (if we_last_seen_ts e > ws_last_seen_ts entry1
                            then entry1\<lparr>ws_last_seen_ts := we_last_seen_ts e,
                                        ws_last_hit_rate := we_last_hit_rate e\<rparr>
                            else entry1)
              in dset bk entry2 out)"

definition warmth_for_backends ::
    "st_state \<Rightarrow> time \<Rightarrow> string list \<Rightarrow> real \<Rightarrow> (string, warmth_summary) dict" where
  "warmth_for_backends s now candidate_keys ttl_sec =
     (if candidate_keys = [] then []
      else foldl (summarise candidate_keys ttl_sec now) [] (concat (map snd (st_warmth s))))"

definition round_entry :: "warmth_entry \<Rightarrow> warmth_entry" where
  "round_entry e = e\<lparr>we_last_hit_rate := py_round 3 (we_last_hit_rate e)\<rparr>"

definition warmth_snapshot :: "st_state \<Rightarrow> (string, bucket) dict" where
  "warmth_snapshot s =
     map (\<lambda>(ck, b). (ck, map (\<lambda>(bk, e). (bk, round_entry e)) b)) (st_warmth s)"

section \<open>Lemmas\<close>

definition stats_ok :: "st_state \<Rightarrow> bool" where
  "stats_ok s \<longleftrightarrow>
     dict_ok (st_stats s) \<and> dict_ok (st_warmth s)
     \<and> (\<forall>kb\<in>set (st_warmth s). dict_ok (snd kb) \<and> snd kb \<noteq> [])
     \<and> length (st_warmth s) \<le> warmth_max_keys
     \<and> total_entries (st_warmth s) \<le> warmth_max_entries"

lemma total_entries_simps [simp]:
  "total_entries [] = 0"
  "total_entries (kb # w) = length (snd kb) + total_entries w"
  by (simp_all add: total_entries_def)

lemma total_entries_dset:
  "total_entries (dset k b w) + (case dget w k of None \<Rightarrow> 0 | Some b0 \<Rightarrow> length b0)
     = total_entries w + length b"
  by (induction w) (auto split: option.splits)

lemma total_entries_ddel_le: "total_entries (ddel k w) \<le> total_entries w"
  by (induction w) auto

lemma total_entries_ddel:
  "kb \<in> set w \<Longrightarrow> total_entries (ddel (fst kb) w) + length (snd kb) \<le> total_entries w"
proof (induction w)
  case (Cons c w)
  then show ?case
    using total_entries_ddel_le [of "fst kb" w] by auto
qed simp

lemma oldest_key_in:
  assumes "w \<noteq> []"
  shows "\<exists>b. (oldest_key w, b) \<in> set w"
proof -
  have "arg_min_list (\<lambda>kb. bucket_seen (snd kb)) w \<in> set w"
    using assms by (rule arg_min_list_in)
  then show ?thesis
    by (metis oldest_key_def prod.collapse)
qed

lemma evict_bounds:
  assumes "length w \<le> Suc warmth_max_keys" and "total_entries w \<le> Suc warmth_max_entries"
    and "\<forall>kb\<in>set w. snd kb \<noteq> []"
  shows "length (evict w) \<le> warmth_max_keys \<and> total_entries (evict w) \<le> warmth_max_entries"
proof (cases "length w > warmth_max_keys \<or> total_entries w > warmth_max_entries")
  case True
  then have "w \<noteq> []" by auto
  then obtain b where b: "(oldest_key w, b) \<in> set w"
    using oldest_key_in by blast
  then have "length (ddel (oldest_key w) w) < length w"
    by (intro length_ddel) force
  moreover have "total_entries (ddel (oldest_key w) w) < total_entries w"
    using total_entries_ddel [OF b] assms(3) b by (cases b) auto
  ultimately show ?thesis
    using True assms(1,2) by (simp add: evict_def)
qed (simp add: evict_def)

lemma dict_ok_evict [dict_intros]: "dict_ok w \<Longrightarrow> dict_ok (evict w)"
  by (simp add: evict_def dict_intros)

lemma set_evict: "set (evict w) \<subseteq> set w"
  using set_ddel_subset [of "oldest_key w" w] by (auto simp: evict_def)

lemma dset_not_Nil [simp]: "dset k v d \<noteq> []"
  by (cases d) auto

lemma stats_ok_put: "stats_ok s \<Longrightarrow> stats_ok (put_stats k b s)"
  by (simp add: stats_ok_def put_stats_def dict_intros)

lemma stats_ok_warmth:
  "stats_ok s \<Longrightarrow> dict_ok w \<Longrightarrow> \<forall>kb\<in>set w. dict_ok (snd kb) \<and> snd kb \<noteq> [] \<Longrightarrow>
   length w \<le> warmth_max_keys \<Longrightarrow> total_entries w \<le> warmth_max_entries \<Longrightarrow>
   stats_ok (s\<lparr>st_warmth := w\<rparr>)"
  by (simp add: stats_ok_def)

lemma bucket_ok:
  "stats_ok s \<Longrightarrow> dget (st_warmth s) ck = Some b \<Longrightarrow> dict_ok b \<and> b \<noteq> []"
  by (auto simp: stats_ok_def dest!: map_of_SomeD)

lemma stats_ok_record_cache:
  assumes "stats_ok s"
  shows "stats_ok (record_cache_activity s now p m ck cached cw inp supported)"
proof -
  have "stats_ok (s\<lparr>st_warmth := evict (dset k (dset bk e b) (st_warmth s))\<rparr>)"
    if b: "b = (case dget (st_warmth s) k of None \<Rightarrow> [] | Some b \<Rightarrow> b)" for k bk e b
  proof -
    let ?w = "dset k (dset bk e b) (st_warmth s)"
    have okb: "dict_ok (dset bk e b)"
      using b assms by (auto simp: dict_ok_Cons split: option.splits dest: bucket_ok intro: dict_intros)
    have grow: "total_entries ?w \<le> Suc (total_entries (st_warmth s))"
      using total_entries_dset [of k "dset bk e b" "st_warmth s"] length_dset_le [of bk e b] b
      by (auto split: option.splits)
    have all: "\<forall>kb\<in>set ?w. dict_ok (snd kb) \<and> snd kb \<noteq> []"
      using okb assms set_dset_subset [of k "dset bk e b" "st_warmth s"] by (auto simp: stats_ok_def)
    have len: "length ?w \<le> Suc warmth_max_keys" and tot: "total_entries ?w \<le> Suc warmth_max_entries"
      using assms length_dset_le [of k "dset bk e b" "st_warmth s"] grow by (auto simp: stats_ok_def)
    show ?thesis
    proof (rule stats_ok_warmth [OF assms])
      show "dict_ok (evict ?w)" using assms by (simp add: stats_ok_def dict_intros)
      show "\<forall>kb\<in>set (evict ?w). dict_ok (snd kb) \<and> snd kb \<noteq> []" using all set_evict by blast
      show "length (evict ?w) \<le> warmth_max_keys" "total_entries (evict ?w) \<le> warmth_max_entries"
        using evict_bounds [OF len tot] all by auto
    qed
  qed
  with assms show ?thesis
    by (auto simp: record_cache_activity_def Let_def split: option.splits)
qed

lemma total_entries_shrink:
  "dget w k = Some b0 \<Longrightarrow> length b \<le> length b0 \<Longrightarrow> total_entries (dset k b w) \<le> total_entries w"
  using total_entries_dset [of k b w] by simp

lemma length_dset_same: "dget w k = Some b0 \<Longrightarrow> length (dset k b w) = length w"
  by (metis dget_None_iff length_dset option.distinct(1))

lemma dict_ok_filter [dict_intros]: "dict_ok d \<Longrightarrow> dict_ok (filter P d)"
  by (simp add: dict_ok_def distinct_map_filter)

lemma stats_ok_warm_backends:
  assumes "stats_ok s"
  shows "stats_ok (snd (warm_backends_for s now ck cands ttl))"
proof -
  have del: "stats_ok (s\<lparr>st_warmth := ddel ck (st_warmth s)\<rparr>)"
    using assms set_ddel_subset [of ck "st_warmth s"] total_entries_ddel_le [of ck "st_warmth s"]
      length_delete_le [of ck "st_warmth s"]
    by (auto simp: stats_ok_def dict_intros)
  have "stats_ok (s\<lparr>st_warmth := dset ck b (st_warmth s)\<rparr>)"
    if b0: "dget (st_warmth s) ck = Some b0" and b: "b = filter P b0" "b \<noteq> []" for b b0 P
  proof (rule stats_ok_warmth [OF assms])
    show "dict_ok (dset ck b (st_warmth s))" using assms by (simp add: stats_ok_def dict_intros)
    have "dict_ok b" using bucket_ok [OF assms b0] b by (simp add: dict_intros)
    then show "\<forall>kb\<in>set (dset ck b (st_warmth s)). dict_ok (snd kb) \<and> snd kb \<noteq> []"
      using assms b set_dset_subset [of ck b "st_warmth s"] by (auto simp: stats_ok_def)
    show "length (dset ck b (st_warmth s)) \<le> warmth_max_keys"
      using assms length_dset_same [OF b0] by (simp add: stats_ok_def)
    show "total_entries (dset ck b (st_warmth s)) \<le> warmth_max_entries"
      using assms total_entries_shrink [OF b0, of b] b by (simp add: stats_ok_def)
  qed
  with assms del show ?thesis
    by (auto simp: warm_backends_for_def Let_def split: option.splits)
qed

section \<open>Runs\<close>

datatype st_event =
    Start_request string string
  | End_request string string
  | Record_success time string string "int option" "int option"
  | Record_failure time string string "string option"
  | Record_cache time string string "string option" "int option" "int option" "int option" "bool option"
  | Warm_backends time string "string list" real
  | Clear_warmth
  | Reset_stats

fun st_step :: "st_state \<Rightarrow> st_event \<Rightarrow> st_state" where
  "st_step s (Start_request p m) = start_request s p m"
| "st_step s (End_request p m) = end_request s p m"
| "st_step s (Record_success now p m l t) = record_success s now p m l t"
| "st_step s (Record_failure now p m err) = record_failure s now p m err"
| "st_step s (Record_cache now p m ck c w i cs) = record_cache_activity s now p m ck c w i cs"
| "st_step s (Warm_backends now ck cands ttl) = snd (warm_backends_for s now ck cands ttl)"
| "st_step s Clear_warmth = clear_warmth s"
| "st_step s Reset_stats = reset_stats s"

lemma stats_ok_clear: "stats_ok s \<Longrightarrow> stats_ok (clear_warmth s) \<and> stats_ok (reset_stats s)"
  by (simp add: stats_ok_def clear_warmth_def reset_stats_def)

lemma stats_ok_step: "stats_ok s \<Longrightarrow> stats_ok (st_step s e)"
  by (cases e)
     (simp_all add: start_request_def end_request_def record_success_def record_failure_def Let_def
        stats_ok_put stats_ok_clear stats_ok_record_cache stats_ok_warm_backends)

lemma stats_ok_init: "stats_ok st_init"
  by (simp add: stats_ok_def st_init_def)

lemma stats_ok_run: "stats_ok s \<Longrightarrow> stats_ok (foldl st_step s es)"
  by (induction es arbitrary: s) (simp_all add: stats_ok_step)

text \<open>In-flight bookkeeping: what the starts and ends of a backend's requests leave open.\<close>

lemma get_put_stats [simp]: "get_stats (put_stats k b s) k' = (if k' = k then b else get_stats s k')"
  by (simp add: get_stats_def put_stats_def)

fun open_requests :: "string \<Rightarrow> nat \<Rightarrow> st_event \<Rightarrow> nat" where
  "open_requests k n (Start_request p m) = (if k = backend_key p m then n + 1 else n)"
| "open_requests k n (End_request p m) = (if k = backend_key p m then n - 1 else n)"
| "open_requests k n Reset_stats = 0"
| "open_requests k n _ = n"

lemma get_stats_warmth [simp]: "get_stats (s\<lparr>st_warmth := w\<rparr>) k = get_stats s k"
  by (simp add: get_stats_def)

lemma get_stats_warm_backends [simp]:
  "get_stats (snd (warm_backends_for s now ck cands ttl)) k = get_stats s k"
  by (simp add: warm_backends_for_def Let_def split: option.splits)

lemma get_stats_record_cache [simp]:
  "get_stats (record_cache_activity s now p m ck c w i cs) k = get_stats s k"
  by (simp add: record_cache_activity_def Let_def split: option.splits)

lemma in_flight_step:
  "bs_in_flight (get_stats (st_step s e) k) = open_requests k (bs_in_flight (get_stats s k)) e"
  by (cases e)
     (auto simp: start_request_def end_request_def record_success_def record_failure_def Let_def
        clear_warmth_def reset_stats_def get_stats_def [of "_\<lparr>st_stats := []\<rparr>"] new_stats_def
        get_stats_def [of "_\<lparr>st_stats := [], st_warmth := []\<rparr>"] split: option.splits)

lemma in_flight_run:
  "bs_in_flight (get_stats (foldl st_step s es) k) =
     foldl (open_requests k) (bs_in_flight (get_stats s k)) es"
  by (induction es arbitrary: s) (simp_all add: in_flight_step)

section \<open>Properties\<close>

text \<open>
  The warmth registry stays bounded on a long-running gateway: after any sequence of
  operations it holds at most 2000 fingerprints and 20000 entries, and no empty bucket.
\<close>

theorem warmth_registry_bounded:
  "length (st_warmth (foldl st_step st_init es)) \<le> 2000
   \<and> total_entries (st_warmth (foldl st_step st_init es)) \<le> 20000
   \<and> [] \<notin> snd ` set (st_warmth (foldl st_step st_init es))"
  using stats_ok_run [OF stats_ok_init, of es]
  by (auto simp: stats_ok_def warmth_max_keys_def warmth_max_entries_def)

text \<open>
  A warm lookup names exactly the candidates seen within the TTL under this fingerprint,
  the best hit rate first and the most recent first among equals.
\<close>

theorem warm_lookup_exact:
  assumes "stats_ok s" and "ck \<noteq> []" and "cands \<noteq> []"
    and "dget (st_warmth s) ck = Some bucket"
  shows "set (fst (warm_backends_for s now ck cands ttl)) =
           {bk. bk \<in> set cands \<and> (case dget bucket bk of None \<Rightarrow> False | Some e \<Rightarrow> now - we_last_seen_ts e \<le> ttl)}
    \<and> sorted (map (\<lambda>bk. warm_key (bk, the (dget bucket bk))) (fst (warm_backends_for s now ck cands ttl)))"
proof -
  let ?live = "filter (\<lambda>be. \<not> now - we_last_seen_ts (snd be) > ttl) bucket"
  let ?warm = "filter (\<lambda>be. fst be \<in> set cands) ?live"
  have bucket: "dict_ok bucket" "bucket \<noteq> []"
    using bucket_ok [OF assms(1,4)] by simp_all
  have res: "fst (warm_backends_for s now ck cands ttl) = map fst (sort_key warm_key ?warm)"
    using assms(2-4) bucket(2) by (auto simp: warm_backends_for_def Let_def simp del: filter_filter)
  have "map (\<lambda>bk. warm_key (bk, the (dget bucket bk))) (map fst (sort_key warm_key ?warm))
      = map warm_key (sort_key warm_key ?warm)"
    using bucket(1) by (auto simp: dict_ok_def)
  moreover have "sorted (map warm_key (sort_key warm_key ?warm))"
    by (rule sorted_sort_key)
  moreover have "fst ` set ?warm = {bk. bk \<in> set cands \<and>
      (case dget bucket bk of None \<Rightarrow> False | Some e \<Rightarrow> now - we_last_seen_ts e \<le> ttl)}"
    using bucket(1) dget_in_set [OF bucket(1)]
    by (auto simp: image_iff not_less split: option.splits)
  ultimately show ?thesis
    by (simp only: res) simp
qed

theorem warm_lookup_exact_witness:
  "let b = [(''p:m'', \<lparr>we_last_seen_ts = 100, we_hit_count = 1, we_write_count = 0,
                      we_miss_count = 0, we_last_hit_rate = 1\<rparr>),
            (''q:m'', \<lparr>we_last_seen_ts = 10, we_hit_count = 0, we_write_count = 0,
                      we_miss_count = 1, we_last_hit_rate = 0\<rparr>)];
       s = st_init\<lparr>st_warmth := [(''fp'', b)]\<rparr>;
       r = fst (warm_backends_for s 110 ''fp'' [''p:m'', ''q:m''] 50)
   in set r = {bk. bk \<in> set [''p:m'', ''q:m''] \<and>
                 (case dget b bk of None \<Rightarrow> False | Some e \<Rightarrow> 110 - we_last_seen_ts e \<le> 50)}
      \<and> sorted (map (\<lambda>bk. warm_key (bk, the (dget b bk))) r)"
  unfolding Let_def
  by (rule warm_lookup_exact)
     (simp_all add: stats_ok_def st_init_def dict_ok_def warmth_max_keys_def warmth_max_entries_def)

text \<open>
  The in-flight number the router reads counts the requests started and not yet ended since
  the last reset; an end without a start never takes it below zero.
\<close>

theorem in_flight_counts_open_requests:
  "bs_in_flight (get_stats (foldl st_step st_init es) k) = foldl (open_requests k) 0 es"
  by (simp add: in_flight_run) (simp add: get_stats_def st_init_def new_stats_def)

end
