(* ===== verification/TimeRouting.thy ===== *)
theory TimeRouting
  imports Config
begin

text \<open>
  Time-based routing (\<^verbatim>\<open>src/localgateway/time_routing.py\<close>).  The wall clock of a time zone comes from
  the zone database: \<open>local tz\<close> is the pair of weekday (0 = Monday) and hour there, the only two
  fields the code reads.
\<close>

type_synonym local_clock = "string \<Rightarrow> int \<times> int"

definition hour_in_range :: "int \<Rightarrow> int \<Rightarrow> int \<Rightarrow> bool" where
  "hour_in_range hour start end_hour =
     (if start \<le> end_hour then start \<le> hour \<and> hour \<le> end_hour
      else start \<le> hour \<or> hour \<le> end_hour)"

definition slot_matches :: "time_slot \<Rightarrow> int \<times> int \<Rightarrow> bool" where
  "slot_matches slot now =
     (if \<not> ts_enabled slot then False
      else if ts_days_of_week slot \<noteq> [] \<and> fst now \<notin> set (ts_days_of_week slot) then False
      else hour_in_range (snd now) (ts_start_hour slot) (ts_end_hour slot))"

fun first_slot :: "time_slot list \<Rightarrow> int \<times> int \<Rightarrow> time_slot option" where
  "first_slot [] now = None"
| "first_slot (slot # rest) now = (if slot_matches slot now then Some slot else first_slot rest now)"

definition get_active_slot :: "time_slot list \<Rightarrow> string \<Rightarrow> local_clock \<Rightarrow> time_slot option" where
  "get_active_slot slots tz local = first_slot slots (local tz)"

definition filter_backends_for_slot :: "(string \<times> string) list \<Rightarrow> time_slot \<Rightarrow> (string \<times> string) list" where
  "filter_backends_for_slot backends slot =
     (if ts_active_providers slot = [] then backends
      else filter (\<lambda>b. backend_key (fst b) (snd b) \<in> set (ts_active_providers slot)) backends)"

lemma first_slot_find: "first_slot slots now = find (\<lambda>s. slot_matches s now) slots"
  by (induction slots) simp_all

text \<open>
  A slot's hours are a stretch of the clock face that starts at \<open>start_hour\<close> and ends with
  \<open>end_hour\<close>, whether or not it crosses midnight: an hour is inside if it is no further past the
  start than the end is.
\<close>

theorem hour_range_is_clock_interval:
  assumes "0 \<le> hour" and "hour < 24" and "0 \<le> start" and "start < 24" and "0 \<le> end_hour" and "end_hour < 24"
  shows "hour_in_range hour start end_hour \<longleftrightarrow> (hour - start) mod 24 \<le> (end_hour - start) mod 24"
proof -
  have wrap: "(a - b) mod 24 = (if b \<le> a then a - b else a - b + 24)"
    if "0 \<le> a" "a < 24" "0 \<le> b" "b < 24" for a b :: int
  proof (cases "b \<le> a")
    case True
    with that show ?thesis by (simp add: mod_pos_pos_trivial)
  next
    case False
    then have "(a - b + 24) mod 24 = a - b + 24"
      by (intro mod_pos_pos_trivial) (use that in linarith)+
    moreover have "(a - b + 24) mod 24 = (a - b) mod 24" by (rule mod_add_self2)
    ultimately show ?thesis using False by simp
  qed
  show ?thesis
    using assms by (auto simp: hour_in_range_def wrap)
qed

theorem hour_range_is_clock_interval_witness:
  "hour_in_range 3 22 6 \<longleftrightarrow> ((3::int) - 22) mod 24 \<le> (6 - 22) mod 24"
  by (rule hour_range_is_clock_interval) simp_all

end
