(* ===== verification/Router.thy ===== *)
theory Router
  imports RateLimit CircuitBreaker Stats TimeRouting
begin

text \<open>
  Backend selection (\<^verbatim>\<open>src/localgateway/router.py\<close>).

  \<open>select_backends\<close> reads and changes several registries, which are the fields of \<open>world\<close>: the
  rotation counters, the cooldowns, the circuits, the request statistics and cache warmth.  What
  it gets from outside is the record \<open>env\<close>: the monotonic clock (one reading per query, numbered
  in the order the code makes them), the wall clock, the random numbers, the measured speeds of the
  usage database (\<open>None\<close> when reading them raises), the local time of a zone, and \<open>en_resume\<close>.

  The function is a generator: it runs up to its next \<open>yield\<close> and the caller then tries that
  backend, which takes seconds and changes the registries.  Everything up to the first yield
  is computed from the world of the call; whatever the code asks after a yield is asked in the
  world \<open>en_resume n w\<close>, an arbitrary change of \<open>w\<close> made while the generator was suspended after
  its \<open>n\<close>-th backend.  The model is the whole sequence a caller can draw.
\<close>

section \<open>Types\<close>

datatype sort_by = Latency | Throughput | Price | Cache_hits | Best_value

fun sort_name :: "sort_by \<Rightarrow> string" where
  "sort_name Latency = ''latency''"
| "sort_name Throughput = ''throughput''"
| "sort_name Price = ''price''"
| "sort_name Cache_hits = ''cache''"
| "sort_name Best_value = ''value''"

record selected_backend =
  sl_provider :: provider_config
  sl_backend :: backend_config
  sl_reason :: string

record provider_prefs =
  pf_order :: "string list option"
  pf_ignore :: "string list option"
  pf_allow_fallbacks :: bool
  pf_sort :: "sort_by option"

record world =
  wd_rr :: "(string, nat) dict"
  wd_limits :: rl_state
  wd_circuits :: cb_state
  wd_stats :: st_state
  wd_reads :: nat
  wd_draws :: nat

record env =
  en_clock :: "nat \<Rightarrow> time"
  en_wall :: time
  en_random :: "nat \<Rightarrow> real"
  en_speeds :: "string \<Rightarrow> (string, real) dict option"
  en_local :: local_clock
  en_resume :: "nat \<Rightarrow> world \<Rightarrow> world"

definition new_selected :: "provider_config \<times> backend_config \<Rightarrow> selected_backend" where
  "new_selected pb = \<lparr>sl_provider = fst pb, sl_backend = snd pb, sl_reason = []\<rparr>"

definition sel_key :: "selected_backend \<Rightarrow> string \<times> string" where
  "sel_key s = (pv_id (sl_provider s), bk_model (sl_backend s))"

definition sel_backend_key :: "selected_backend \<Rightarrow> string" where
  "sel_backend_key s = backend_key (pv_id (sl_provider s)) (bk_model (sl_backend s))"

section \<open>Preferences of a request\<close>

text \<open>\<open>str(x)\<close> of a value that is no string is left to \<open>py_str\<close>.\<close>

definition str_of :: "(json \<Rightarrow> string) \<Rightarrow> json \<Rightarrow> string" where
  "str_of py_str v = (case v of JStr s \<Rightarrow> s | _ \<Rightarrow> py_str v)"

definition sort_from :: "json \<Rightarrow> sort_by option" where
  "sort_from v =
     (if v = JStr ''latency'' then Some Latency
      else if v = JStr ''throughput'' then Some Throughput
      else if v = JStr ''price'' then Some Price
      else if v = JStr ''cache'' then Some Cache_hits
      else if v = JStr ''value'' then Some Best_value
      else None)"

definition str_list_from :: "(json \<Rightarrow> string) \<Rightarrow> json \<Rightarrow> string list option" where
  "str_list_from py_str v =
     (case as_list v of None \<Rightarrow> None | Some xs \<Rightarrow> if xs = [] then None else Some (map (str_of py_str) xs))"

definition prefs_from_request :: "(json \<Rightarrow> string) \<Rightarrow> jobj option \<Rightarrow> provider_prefs option" where
  "prefs_from_request py_str body =
     (case body of
        None \<Rightarrow> None
      | Some b \<Rightarrow>
          (case jget b ''provider'' of
             JObj raw \<Rightarrow>
               Some \<lparr>pf_order = str_list_from py_str (jget raw ''order''),
                     pf_ignore = str_list_from py_str (jget raw ''ignore''),
                     pf_allow_fallbacks = (case dget raw ''allow_fallbacks'' of
                                             Some (JBool a) \<Rightarrow> a | _ \<Rightarrow> True),
                     pf_sort = sort_from (jget raw ''sort'')\<rparr>
           | _ \<Rightarrow> None))"

section \<open>Registry queries\<close>

definition next_rotation :: "string \<Rightarrow> world \<Rightarrow> nat \<times> world" where
  "next_rotation model_id w =
     (let n = (case dget (wd_rr w) model_id of None \<Rightarrow> 0 | Some n \<Rightarrow> n)
      in (n, w\<lparr>wd_rr := dset model_id (n + 1) (wd_rr w)\<rparr>))"

definition draw :: "env \<Rightarrow> world \<Rightarrow> real \<times> world" where
  "draw e w = (en_random e (wd_draws w), w\<lparr>wd_draws := wd_draws w + 1\<rparr>)"

definition configure_from_config :: "gateway_config \<Rightarrow> cb_state \<Rightarrow> cb_state" where
  "configure_from_config cfg s =
     configure s (sv_circuit_breaker_enabled (gw_server cfg))
       (sv_circuit_breaker_threshold (gw_server cfg)) (sv_circuit_breaker_backoff_s (gw_server cfg))"

text \<open>\<open>_routable\<close> asks the cooldowns and then, if there is none, the circuits.\<close>

definition routable :: "env \<Rightarrow> string \<times> string \<Rightarrow> world \<Rightarrow> bool \<times> world" where
  "routable e k w =
     (let (a, rl) = is_available (wd_limits w) (en_clock e (wd_reads w)) (fst k) (snd k);
          w1 = w\<lparr>wd_limits := rl, wd_reads := wd_reads w + 1\<rparr>
      in if a
         then (\<not> is_open (wd_circuits w1) (en_clock e (wd_reads w1)) (fst k) (snd k),
               w1\<lparr>wd_reads := wd_reads w1 + 1\<rparr>)
         else (False, w1))"

definition not_routable :: "env \<Rightarrow> string \<times> string \<Rightarrow> world \<Rightarrow> bool \<times> world" where
  "not_routable e k w = (let (b, w1) = routable e k w in (\<not> b, w1))"

text \<open>
  The pair of comprehensions \<open>avail = [x for x in xs if _routable(x)]\<close> and
  \<open>limited = [x for x in xs if not _routable(x)]\<close>.
\<close>

definition split_routable ::
    "env \<Rightarrow> ('a \<Rightarrow> string \<times> string) \<Rightarrow> 'a list \<Rightarrow> world \<Rightarrow> ('a list \<times> 'a list) \<times> world" where
  "split_routable e key xs w =
     (let (avail, w1) = filter_state (\<lambda>x. routable e (key x)) xs w;
          (limited, w2) = filter_state (\<lambda>x. not_routable e (key x)) xs w1
      in ((avail, limited), w2))"

section \<open>Sorting\<close>

definition blended_price :: "gateway_config \<Rightarrow> string \<Rightarrow> string \<Rightarrow> real option" where
  "blended_price cfg p m =
     (let pricing = pricing_for cfg p m
      in if pr_input pricing = 0 \<and> pr_output pricing = 0 then None
         else Some (pr_input pricing + pr_output pricing))"

text \<open>
  The key tuples compare as lists of numbers (\<open>False\<close> is 0, \<open>True\<close> is 1).  \<open>lat_or\<close> is
  \<open>st.get("avg_latency_ms") or 999999\<close>.
\<close>

definition bool_num :: "bool \<Rightarrow> real" where
  "bool_num b = (if b then 1 else 0)"

definition lat_or :: "stats_view option \<Rightarrow> real" where
  "lat_or v =
     (case v of None \<Rightarrow> 999999
      | Some sv \<Rightarrow> (case sn_avg_latency_ms sv of None \<Rightarrow> 999999 | Some l \<Rightarrow> if l = 0 then 999999 else l))"

definition opt_real :: "real option \<Rightarrow> real" where
  "opt_real x = (case x of None \<Rightarrow> 0 | Some r \<Rightarrow> r)"

definition router_sort_key ::
    "gateway_config \<Rightarrow> sort_by \<Rightarrow> (string, real) dict \<Rightarrow> (string, stats_view) dict \<Rightarrow> (string, real) dict
     \<Rightarrow> selected_backend \<Rightarrow> real list"
where
  "router_sort_key cfg sb tps_map snap warm_lookup s =
     (let key = sel_backend_key s; st = dget snap key;
          price = blended_price cfg (pv_id (sl_provider s)) (bk_model (sl_backend s))
      in case sb of
           Latency \<Rightarrow>
             (let lat = Option.bind st sn_avg_latency_ms in [bool_num (lat = None), opt_real lat])
         | Throughput \<Rightarrow>
             (if tps_map \<noteq> []
              then let tps = dget tps_map key in [bool_num (tps = None), - opt_real tps]
              else let rate = Option.bind st sn_success_rate
                   in [bool_num (rate = None), - opt_real rate, lat_or st])
         | Price \<Rightarrow> [bool_num (price = None), opt_real price]
         | Best_value \<Rightarrow>
             (case (dget tps_map key, price) of
                (Some tps, Some pr) \<Rightarrow> [0, - (tps / max pr (1 / 10 ^ 12))]
              | _ \<Rightarrow> [1, 0])
         | Cache_hits \<Rightarrow>
             (let rate = opt_real (dget warm_lookup key)
              in [if rate \<noteq> 0 then 0 else 1, - rate, lat_or st]))"

definition ttl_or_300 :: "gateway_config \<Rightarrow> real" where
  "ttl_or_300 cfg =
     (let t = sv_cache_affinity_ttl_sec (gw_server cfg) in if t = 0 then 300 else of_int t)"

definition str_or_empty :: "string option \<Rightarrow> string" where
  "str_or_empty x = (case x of None \<Rightarrow> [] | Some s \<Rightarrow> s)"

definition sort_context ::
    "env \<Rightarrow> gateway_config \<Rightarrow> sort_by \<Rightarrow> string option \<Rightarrow> selected_backend list \<Rightarrow> world
     \<Rightarrow> ((string, stats_view) dict \<times> (string, real) dict) \<times> world"
where
  "sort_context e cfg sb cache_key cands w =
     (let snap = Stats.snapshot (wd_stats w)
      in if sb = Cache_hits \<and> cands \<noteq> []
         then let (warm, st1) = warm_backends_for (wd_stats w) (en_wall e) (str_or_empty cache_key)
                                  (map sel_backend_key cands) (ttl_or_300 cfg);
                  bucket = (case dget (warmth_snapshot st1) (str_or_empty cache_key) of
                              None \<Rightarrow> [] | Some b \<Rightarrow> b);
                  rate = (\<lambda>k. case dget bucket k of None \<Rightarrow> 0 | Some en \<Rightarrow> we_last_hit_rate en)
              in ((snap, foldl (\<lambda>d k. dset k (rate k) d) [] warm), w\<lparr>wd_stats := st1\<rparr>)
         else ((snap, []), w))"

definition sort_pass ::
    "env \<Rightarrow> gateway_config \<Rightarrow> sort_by \<Rightarrow> string option \<Rightarrow> (string, real) dict
     \<Rightarrow> selected_backend list \<Rightarrow> selected_backend list \<Rightarrow> world
     \<Rightarrow> (selected_backend list \<times> selected_backend list) \<times> world"
where
  "sort_pass e cfg sb cache_key tps_map avail limited w =
     (let ((snap, warm), w1) = sort_context e cfg sb cache_key (avail @ limited) w;
          key = router_sort_key cfg sb tps_map snap warm
      in ((sort_key key avail, sort_key key limited), w1))"

definition tag_reason :: "string \<Rightarrow> selected_backend list \<Rightarrow> selected_backend list" where
  "tag_reason reason = map (\<lambda>s. s\<lparr>sl_reason := reason\<rparr>)"

definition sort_suffix :: "sort_by option \<Rightarrow> string" where
  "sort_suffix sb = (case sb of None \<Rightarrow> [] | Some b \<Rightarrow> '' sort:'' @ sort_name b)"

section \<open>Rotation\<close>

definition rotate_by :: "nat \<Rightarrow> 'a list \<Rightarrow> 'a list" where
  "rotate_by r xs = drop r xs @ take r xs"

text \<open>The loop \<open>for i, w in enumerate(weights)\<close>; without a hit the start stays 0.\<close>

fun pick_start :: "real list \<Rightarrow> real \<Rightarrow> real \<Rightarrow> nat \<Rightarrow> nat" where
  "pick_start [] pick acc i = 0"
| "pick_start (w # ws) pick acc i =
     (let acc1 = acc + w in if pick < acc1 then i else pick_start ws pick acc1 (i + 1))"

definition weighted_rotation ::
    "env \<Rightarrow> selected_backend list \<Rightarrow> (string, real) dict \<Rightarrow> nat \<Rightarrow> world \<Rightarrow> selected_backend list \<times> world"
where
  "weighted_rotation e items tps_map rotation w =
     (let n = length items; measured = List.map_filter (\<lambda>s. dget tps_map (sel_backend_key s)) items
      in if n \<le> 1 then (items, w)
         else if measured = [] then (rotate_by (rotation mod n) items, w)
         else let avg = sum_list measured / real (length measured);
                  weights = map (\<lambda>s. case dget tps_map (sel_backend_key s) of
                                       None \<Rightarrow> avg | Some t \<Rightarrow> t) items;
                  (r, w1) = draw e w
              in (rotate_by (pick_start weights (r * sum_list weights) 0 0) items, w1))"

definition static_weight_rotation ::
    "env \<Rightarrow> selected_backend list \<Rightarrow> real list \<Rightarrow> nat \<Rightarrow> world \<Rightarrow> selected_backend list \<times> world"
where
  "static_weight_rotation e items weights rotation w =
     (let n = length items; total = sum_list (map (\<lambda>x. max x 0) weights)
      in if n \<le> 1 then (items, w)
         else if total \<le> 0 then (rotate_by (rotation mod n) items, w)
         else let (r, w1) = draw e w
              in (rotate_by (pick_start (map (\<lambda>x. max x 0) weights) (r * total) 0 0) items, w1))"

definition sample_tier_order :: "env \<Rightarrow> int list \<Rightarrow> real \<Rightarrow> world \<Rightarrow> int list \<times> world" where
  "sample_tier_order e tier_keys decay w =
     (let weights = map (\<lambda>i. decay ^ i) [0..<length tier_keys];
          probs = map (\<lambda>x. x / sum_list weights) weights;
          (r, w1) = draw e w;
          start_key = tier_keys ! pick_start probs r 0 0
      in (start_key # filter (\<lambda>k. k \<noteq> start_key) tier_keys, w1))"

section \<open>Eligibility\<close>

definition active_slot :: "env \<Rightarrow> model_config \<Rightarrow> time_slot option" where
  "active_slot e model =
     (let tr = md_time_routing model
      in if tr_enabled tr \<and> tr_slots tr \<noteq> [] then get_active_slot (tr_slots tr) (tr_timezone tr) (en_local e)
         else None)"

text \<open>The cap on output tokens: the smaller of the backend's and the model's.\<close>

definition effective_cap :: "model_config \<Rightarrow> backend_config \<Rightarrow> int option" where
  "effective_cap model b =
     (case md_max_output_tokens model of
        None \<Rightarrow> bk_max_output_tokens b
      | Some c \<Rightarrow> (case bk_max_output_tokens b of
                     None \<Rightarrow> Some c
                   | Some d \<Rightarrow> if c < d then Some c else Some d))"

text \<open>One pass of the loop over \<open>model.backends\<close>: \<open>None\<close> is \<open>continue\<close>.\<close>

definition admit ::
    "gateway_config \<Rightarrow> model_config \<Rightarrow> string set \<Rightarrow> int option \<Rightarrow> int option \<Rightarrow> time_slot option
     \<Rightarrow> backend_config \<Rightarrow> provider_config option"
where
  "admit cfg model ignore max_tokens input_tokens slot b =
     (if \<not> bk_enabled b then None
      else if bk_provider b \<in> ignore then None
      else case provider_by_id cfg (bk_provider b) of
             None \<Rightarrow> None
           | Some p \<Rightarrow>
               if \<not> pv_enabled p then None
               else if (case max_tokens of None \<Rightarrow> False
                        | Some mt \<Rightarrow> (case effective_cap model b of None \<Rightarrow> False | Some c \<Rightarrow> c < mt))
               then None
               else if (case (input_tokens, bk_context_length b) of
                          (Some it, Some cl) \<Rightarrow> cl < it + opt0 max_tokens
                        | _ \<Rightarrow> False)
               then None
               else if (case slot of None \<Rightarrow> False
                        | Some sl \<Rightarrow> filter_backends_for_slot [(bk_provider b, bk_model b)] sl = [])
               then None
               else Some p)"

type_synonym tier_map = "(int, (provider_config \<times> backend_config) list) dict"

definition tier_get :: "('k, 'a list) dict \<Rightarrow> 'k \<Rightarrow> 'a list" where
  "tier_get d k = (case dget d k of None \<Rightarrow> [] | Some xs \<Rightarrow> xs)"

definition tier_add :: "'k \<Rightarrow> 'a \<Rightarrow> ('k, 'a list) dict \<Rightarrow> ('k, 'a list) dict" where
  "tier_add k x d = dset k (tier_get d k @ [x]) d"

fun build_tiers ::
    "(backend_config \<Rightarrow> provider_config option) \<Rightarrow> backend_config list \<Rightarrow> tier_map \<Rightarrow> tier_map" where
  "build_tiers adm [] tiers = tiers"
| "build_tiers adm (b # bs) tiers =
     build_tiers adm bs
       (case adm b of None \<Rightarrow> tiers | Some p \<Rightarrow> tier_add (bk_priority b) (p, b) tiers)"

definition tier_keys :: "(int, 'a) dict \<Rightarrow> int list" where
  "tier_keys tiers = sort (map fst tiers)"

definition preferred_backends :: "tier_map \<Rightarrow> string list \<Rightarrow> selected_backend list" where
  "preferred_backends tiers order =
     (let by_provider = foldl (\<lambda>d pb. tier_add (pv_id (fst pb)) pb d) []
                          (concat (map (tier_get tiers) (tier_keys tiers)))
      in map new_selected (concat (map (tier_get by_provider) order)))"

section \<open>Ordering within a tier\<close>

record plan =
  pl_cfg :: gateway_config
  pl_sort :: "sort_by option"
  pl_cache_key :: "string option"
  pl_speeds :: "(string, real) dict"
  pl_mode :: string
  pl_rotation :: nat

definition order_available ::
    "env \<Rightarrow> plan \<Rightarrow> selected_backend list \<Rightarrow> world \<Rightarrow> selected_backend list \<times> world" where
  "order_available e pl avail w =
     (if avail = [] then (avail, w)
      else if pl_speeds pl \<noteq> [] \<and> pl_mode pl = ''explore''
      then weighted_rotation e avail (pl_speeds pl) (pl_rotation pl) w
      else let weights = map (\<lambda>s. bk_weight (sl_backend s)) avail
           in if \<exists>x\<in>set weights. x \<noteq> 1
              then static_weight_rotation e avail weights (pl_rotation pl) w
              else (rotate_by (pl_rotation pl mod length avail) avail, w))"

definition arrange_tier ::
    "env \<Rightarrow> plan \<Rightarrow> (provider_config \<times> backend_config) list \<Rightarrow> world
     \<Rightarrow> (selected_backend list \<times> selected_backend list) \<times> world"
where
  "arrange_tier e pl members w =
     (let ((avail, limited), w1) = split_routable e (\<lambda>pb. (bk_provider (snd pb), bk_model (snd pb))) members w;
          avail_sel = map new_selected avail; limited_sel = map new_selected limited
      in case pl_sort pl of
           Some b \<Rightarrow> sort_pass e (pl_cfg pl) b (pl_cache_key pl) (pl_speeds pl) avail_sel limited_sel w1
         | None \<Rightarrow> let (a, w2) = order_available e pl avail_sel w1 in ((a, limited_sel), w2))"

text \<open>The two dictionaries by tier, as one list of (tier, (available, limited)).\<close>

type_synonym arrangement = "(int \<times> selected_backend list \<times> selected_backend list) list"

fun arrange_tiers ::
    "env \<Rightarrow> plan \<Rightarrow> (int \<times> (provider_config \<times> backend_config) list) list \<Rightarrow> world \<Rightarrow> arrangement \<times> world"
where
  "arrange_tiers e pl [] w = ([], w)"
| "arrange_tiers e pl ((k, members) # rest) w =
     (let (r, w1) = arrange_tier e pl members w; (rs, w2) = arrange_tiers e pl rest w1
      in ((k, r) # rs, w2))"

definition available_in :: "arrangement \<Rightarrow> int \<Rightarrow> selected_backend list" where
  "available_in arr k = (case dget arr k of None \<Rightarrow> [] | Some (a, l) \<Rightarrow> a)"

definition limited_in :: "arrangement \<Rightarrow> int \<Rightarrow> selected_backend list" where
  "limited_in arr k = (case dget arr k of None \<Rightarrow> [] | Some (a, l) \<Rightarrow> l)"

section \<open>Cache affinity\<close>

fun rank_of :: "string list \<Rightarrow> nat \<Rightarrow> (string, nat) dict \<Rightarrow> (string, nat) dict" where
  "rank_of [] i d = d"
| "rank_of (p # ps) i d = rank_of ps (i + 1) (dset p i d)"

definition apply_tiebreak :: "selected_backend list \<Rightarrow> string list option \<Rightarrow> selected_backend list" where
  "apply_tiebreak items order =
     (case order of
        None \<Rightarrow> items
      | Some os \<Rightarrow>
          let rank = rank_of os 0 []
          in sort_key (\<lambda>s. case dget rank (pv_id (sl_provider s)) of
                             None \<Rightarrow> length os | Some i \<Rightarrow> i) items)"

definition in_flight_of :: "(string, stats_view) dict \<Rightarrow> selected_backend \<Rightarrow> nat" where
  "in_flight_of snap s = (case dget snap (sel_backend_key s) of None \<Rightarrow> 0 | Some v \<Rightarrow> sn_in_flight v)"

definition split_idle_busy ::
    "(string, stats_view) dict \<Rightarrow> selected_backend list \<Rightarrow> selected_backend list \<times> selected_backend list" where
  "split_idle_busy snap items =
     (filter (\<lambda>s. in_flight_of snap s = 0) items,
      sort_key (in_flight_of snap) (filter (\<lambda>s. in_flight_of snap s \<noteq> 0) items))"

text \<open>
  The available bands, warm-idle, warm-busy, cold-idle, cold-busy, in the order they are yielded.
  \<open>flat\<close> are the candidates in tier order.
\<close>

definition affinity_bands ::
    "env \<Rightarrow> string \<Rightarrow> real \<Rightarrow> int option \<Rightarrow> string list option \<Rightarrow> selected_backend list \<Rightarrow> world
     \<Rightarrow> (selected_backend list \<times> selected_backend list \<times> selected_backend list \<times> selected_backend list) \<times> world"
where
  "affinity_bands e cache_key cache_ttl max_inflight order flat w =
     (let snap = Stats.snapshot (wd_stats w);
          (warm_list, st1) = warm_backends_for (wd_stats w) (en_wall e) cache_key
                               (map sel_backend_key flat) cache_ttl;
          warm_keys = set warm_list;
          warm = filter (\<lambda>s. sel_backend_key s \<in> warm_keys) flat;
          cold = filter (\<lambda>s. sel_backend_key s \<notin> warm_keys) flat;
          (warm_idle0, warm_busy0) = split_idle_busy snap warm;
          (cold_idle0, cold_busy0) = split_idle_busy snap cold;
          warm_idle = tag_reason ''warm-idle'' (apply_tiebreak warm_idle0 order);
          warm_busy = tag_reason ''warm-busy'' (apply_tiebreak warm_busy0 order);
          cold_idle = tag_reason ''cold-idle'' (apply_tiebreak cold_idle0 order);
          cold_busy = tag_reason ''cold-busy'' (apply_tiebreak cold_busy0 order);
          bands = (case max_inflight of
                     None \<Rightarrow> (warm_idle, warm_busy, cold_idle, cold_busy)
                   | Some cap \<Rightarrow>
                       if warm_busy = [] then (warm_idle, warm_busy, cold_idle, cold_busy)
                       else (warm_idle,
                             filter (\<lambda>s. int (in_flight_of snap s) < cap) warm_busy,
                             cold_idle,
                             apply_tiebreak
                               (filter (\<lambda>s. \<not> int (in_flight_of snap s) < cap) warm_busy @ cold_busy) order))
      in (bands, w\<lparr>wd_stats := st1\<rparr>))"

text \<open>
  The world in which the code goes on after its \<open>n\<close>-th yield (\<open>n = 0\<close>: it has not been suspended).
\<close>

definition resumed :: "env \<Rightarrow> nat \<Rightarrow> world \<Rightarrow> world" where
  "resumed e n w = (if n = 0 then w else en_resume e n w)"

text \<open>
  The tail of the affinity order: a preferred backend is asked when its turn comes, so the
  generator has been suspended by every backend yielded since.  \<open>fresh\<close> says that this query
  is the first one after a yield.
\<close>

fun emit_limited_preferred ::
    "env \<Rightarrow> nat \<Rightarrow> bool \<Rightarrow> selected_backend list \<Rightarrow> world \<Rightarrow> selected_backend list \<times> world" where
  "emit_limited_preferred e n fresh [] w = ([], w)"
| "emit_limited_preferred e n fresh (s # ss) w =
     (let (ok, w1) = routable e (sel_key s) (if fresh then resumed e n w else w)
      in if ok then emit_limited_preferred e n False ss w1
         else let (out, w2) = emit_limited_preferred e (n + 1) True ss w1
              in (s\<lparr>sl_reason := ''ratelimited-fallback''\<rparr> # out, w2))"

definition emit_cache_affinity ::
    "env \<Rightarrow> string \<Rightarrow> real \<Rightarrow> int option \<Rightarrow> string list option \<Rightarrow> selected_backend list \<Rightarrow> arrangement
     \<Rightarrow> int list \<Rightarrow> world \<Rightarrow> selected_backend list \<times> world"
where
  "emit_cache_affinity e cache_key cache_ttl max_inflight order preferred arr keys w =
     (let preferred_keys = set (map sel_key preferred);
          (pref_ok, w1) = filter_state (\<lambda>s. routable e (sel_key s)) preferred w;
          flat = pref_ok @ filter (\<lambda>s. sel_key s \<notin> preferred_keys) (concat (map (available_in arr) keys));
          ((warm_idle, warm_busy, cold_idle, cold_busy), w2) =
             affinity_bands e cache_key cache_ttl max_inflight order flat w1;
          front = warm_idle @ warm_busy @ cold_idle @ cold_busy;
          (pref_limited, w3) = emit_limited_preferred e (length front) True preferred w2;
          rest = filter (\<lambda>s. sel_key s \<notin> preferred_keys) (concat (map (limited_in arr) keys))
      in (front @ pref_limited @ tag_reason ''ratelimited-fallback'' rest, w3))"

definition add_suffix :: "string \<Rightarrow> selected_backend \<Rightarrow> selected_backend" where
  "add_suffix sfx s =
     (if sfx \<noteq> [] \<and> sl_reason s \<noteq> [] \<and> \<not> prefix ''ratelimited'' (sl_reason s)
      then s\<lparr>sl_reason := sl_reason s @ sfx\<rparr> else s)"

section \<open>Selection\<close>

text \<open>
  \<open>select_backends\<close> in the order of the code.  \<open>emit_preferred_only\<close> is the branch without
  fallbacks and \<open>emit_legacy\<close> the emission with cache affinity off.
\<close>

definition emit_preferred_only ::
    "env \<Rightarrow> plan \<Rightarrow> selected_backend list \<Rightarrow> world \<Rightarrow> selected_backend list \<times> world" where
  "emit_preferred_only e pl preferred w =
     (let ((avail, limited), w1) = split_routable e sel_key preferred w;
          ((avail1, limited1), w2) =
            (case pl_sort pl of
               Some b \<Rightarrow> sort_pass e (pl_cfg pl) b (pl_cache_key pl) (pl_speeds pl) avail limited w1
             | None \<Rightarrow> ((avail, limited), w1))
      in (tag_reason (''order-pref'' @ sort_suffix (pl_sort pl)) avail1
            @ tag_reason ''ratelimited-fallback'' limited1, w2))"

definition tier_label :: "int \<Rightarrow> string" where
  "tier_label k = ''tier-'' @ int_str k"

definition preferred_first ::
    "env \<Rightarrow> plan \<Rightarrow> selected_backend list \<Rightarrow> world \<Rightarrow> selected_backend list \<times> world" where
  "preferred_first e pl preferred w =
     (if preferred = [] then ([], w)
      else let ((avail_p, limited_p), wa) = split_routable e sel_key preferred w;
               ((avail_p1, limited_p1), wb) =
                 (case pl_sort pl of
                    Some b \<Rightarrow> sort_pass e (pl_cfg pl) b (pl_cache_key pl) (pl_speeds pl) avail_p limited_p wa
                  | None \<Rightarrow> ((avail_p, limited_p), wa))
           in (tag_reason (''order-pref'' @ sort_suffix (pl_sort pl)) avail_p1, wb))"

definition legacy_tier_order ::
    "env \<Rightarrow> plan \<Rightarrow> string list option \<Rightarrow> int list \<Rightarrow> world \<Rightarrow> int list \<times> world" where
  "legacy_tier_order e pl order keys w =
     (let server = gw_server (pl_cfg pl);
          decay = (if sv_routing_decay server = 0 then 2 / 5 else sv_routing_decay server)
      in if pl_mode pl = ''explore'' \<and> length keys > 1 \<and> order = None
         then sample_tier_order e keys decay w else (keys, w))"

definition emit_legacy ::
    "env \<Rightarrow> plan \<Rightarrow> string list option \<Rightarrow> selected_backend list \<Rightarrow> arrangement \<Rightarrow> int list
     \<Rightarrow> world \<Rightarrow> selected_backend list \<times> world"
where
  "emit_legacy e pl order preferred arr keys w =
     (let (first, w1) = preferred_first e pl preferred w;
          (tier_order, w2) = legacy_tier_order e pl order keys (resumed e (length first) w1);
          tier_part = concat (map (\<lambda>k. tag_reason (tier_label k @ sort_suffix (pl_sort pl)) (available_in arr k))
                                tier_order);
          (leftover, w3) =
            (if preferred = [] then ([], w2)
             else filter_state (\<lambda>s. not_routable e (sel_key s)) preferred
                    (if tier_part = [] then w2 else resumed e (length (first @ tier_part)) w2))
      in (first @ tier_part @ tag_reason ''ratelimited-fallback'' leftover
            @ concat (map (\<lambda>k. tag_reason ''ratelimited-fallback'' (limited_in arr k)) keys), w3))"

definition speeds_for :: "env \<Rightarrow> gateway_config \<Rightarrow> sort_by option \<Rightarrow> string \<Rightarrow> string \<Rightarrow> (string, real) dict" where
  "speeds_for e cfg sb mode mid =
     (if sv_stats_routing_enabled (gw_server cfg)
         \<and> (sb = Some Throughput \<or> sb = Some Best_value \<or> mode = ''explore'')
      then (case en_speeds e mid of None \<Rightarrow> [] | Some d \<Rightarrow> d) else [])"

definition mode_of :: "gateway_config \<Rightarrow> string" where
  "mode_of cfg =
     (let m = sv_routing_mode (gw_server cfg) in if m = [] then ''failover'' else m)"

definition order_of :: "provider_prefs option \<Rightarrow> string list option" where
  "order_of prefs =
     (case Option.bind prefs pf_order of Some os \<Rightarrow> if os = [] then None else Some os | None \<Rightarrow> None)"

definition ignore_of :: "provider_prefs option \<Rightarrow> string set" where
  "ignore_of prefs = (case Option.bind prefs pf_ignore of Some xs \<Rightarrow> set xs | None \<Rightarrow> {})"

definition fallbacks_of :: "provider_prefs option \<Rightarrow> bool" where
  "fallbacks_of prefs = (case prefs of None \<Rightarrow> True | Some p \<Rightarrow> pf_allow_fallbacks p)"

definition sort_of :: "provider_prefs option \<Rightarrow> sort_by option" where
  "sort_of prefs = Option.bind prefs pf_sort"

definition affinity_active :: "gateway_config \<Rightarrow> string option \<Rightarrow> bool" where
  "affinity_active cfg cache_key \<longleftrightarrow>
     sv_cache_affinity_enabled (gw_server cfg) \<and> str_or_empty cache_key \<noteq> []"

definition eligible ::
    "env \<Rightarrow> gateway_config \<Rightarrow> model_config \<Rightarrow> provider_prefs option \<Rightarrow> int option \<Rightarrow> int option
     \<Rightarrow> backend_config \<Rightarrow> provider_config option"
where
  "eligible e cfg model prefs max_tokens input_tokens =
     admit cfg model (ignore_of prefs) max_tokens input_tokens (active_slot e model)"

definition tiers_of ::
    "env \<Rightarrow> gateway_config \<Rightarrow> model_config \<Rightarrow> provider_prefs option \<Rightarrow> int option \<Rightarrow> int option \<Rightarrow> tier_map"
where
  "tiers_of e cfg model prefs max_tokens input_tokens =
     build_tiers (eligible e cfg model prefs max_tokens input_tokens) (md_backends model) []"

definition preferred_of :: "tier_map \<Rightarrow> provider_prefs option \<Rightarrow> selected_backend list" where
  "preferred_of tiers prefs =
     (case order_of prefs of None \<Rightarrow> [] | Some os \<Rightarrow> preferred_backends tiers os)"

text \<open>The backends of a tier; those already preferred are emitted separately.\<close>

definition tier_group ::
    "bool \<Rightarrow> selected_backend list \<Rightarrow> tier_map \<Rightarrow> int \<Rightarrow> (provider_config \<times> backend_config) list" where
  "tier_group affinity preferred tiers k =
     (let preferred_keys = sel_key ` set preferred
      in if preferred_keys \<noteq> {} \<and> \<not> affinity
         then filter (\<lambda>pb. (pv_id (fst pb), bk_model (snd pb)) \<notin> preferred_keys) (tier_get tiers k)
         else tier_get tiers k)"

definition plan_of :: "env \<Rightarrow> gateway_config \<Rightarrow> model_config \<Rightarrow> provider_prefs option \<Rightarrow> string option \<Rightarrow> plan" where
  "plan_of e cfg model prefs cache_key =
     \<lparr>pl_cfg = cfg, pl_sort = sort_of prefs, pl_cache_key = cache_key,
      pl_speeds = speeds_for e cfg (sort_of prefs) (mode_of cfg) (md_id model),
      pl_mode = mode_of cfg, pl_rotation = 0\<rparr>"

definition select_backends ::
    "env \<Rightarrow> gateway_config \<Rightarrow> string \<Rightarrow> int option \<Rightarrow> int option
     \<Rightarrow> provider_prefs option \<Rightarrow> string option \<Rightarrow> world \<Rightarrow> selected_backend list \<times> world"
where
  "select_backends e cfg model_id max_tokens input_tokens prefs cache_key w0 =
     (case model_by_id cfg model_id of
        None \<Rightarrow> ([], w0)
      | Some model \<Rightarrow>
          if \<not> md_enabled model then ([], w0)
          else
            let w = w0\<lparr>wd_circuits := configure_from_config cfg (wd_circuits w0)\<rparr>;
                order = order_of prefs;
                affinity = affinity_active cfg cache_key;
                pl = plan_of e cfg model prefs cache_key;
                tiers = tiers_of e cfg model prefs max_tokens input_tokens
            in if tiers = [] then ([], w)
               else
                 let preferred = preferred_of tiers prefs
                 in if preferred \<noteq> [] \<and> \<not> fallbacks_of prefs \<and> \<not> affinity
                    then emit_preferred_only e pl preferred w
                    else
                      let (rotation, w1) = next_rotation (md_id model) w;
                          pl1 = pl\<lparr>pl_rotation := rotation\<rparr>;
                          keys = tier_keys tiers;
                          (arr, w2) = arrange_tiers e pl1
                                        (map (\<lambda>k. (k, tier_group affinity preferred tiers k)) keys) w1
                      in if affinity
                         then let (out, w3) = emit_cache_affinity e (str_or_empty cache_key) (ttl_or_300 cfg)
                                                (sv_max_inflight_before_spill (gw_server cfg)) order preferred arr keys w2
                              in (map (add_suffix (sort_suffix (sort_of prefs))) out, w3)
                         else emit_legacy e pl1 order preferred arr keys w2)"

section \<open>The availability of a backend at one instant\<close>

text \<open>
  Planning a selection takes microseconds.  \<open>at_instant t e\<close> is the environment in which every
  query of the call reads the clock as \<open>t\<close>, and \<open>quiet e\<close> the one in which nobody changes a
  registry while the generator is suspended.
\<close>

definition at_instant :: "time \<Rightarrow> env \<Rightarrow> env" where
  "at_instant t e = e\<lparr>en_clock := \<lambda>_. t\<rparr>"

definition quiet :: "env \<Rightarrow> env" where
  "quiet e = e\<lparr>en_resume := \<lambda>_ w. w\<rparr>"

definition open_at :: "time \<Rightarrow> world \<Rightarrow> string \<times> string \<Rightarrow> bool" where
  "open_at t w k \<longleftrightarrow>
     limit_free (wd_limits w) t (backend_key (fst k) (snd k)) \<and> \<not> is_open (wd_circuits w) t (fst k) (snd k)"

lemma open_at_frame [simp]:
  "open_at t (w\<lparr>wd_stats := x\<rparr>) = open_at t w"
  "open_at t (w\<lparr>wd_rr := y\<rparr>) = open_at t w"
  "open_at t (w\<lparr>wd_reads := n\<rparr>) = open_at t w"
  "open_at t (w\<lparr>wd_draws := n\<rparr>) = open_at t w"
  by (simp_all add: open_at_def fun_eq_iff)

lemma env_instant [simp]:
  "en_clock (at_instant t e) = (\<lambda>_. t)" "en_resume (at_instant t e) = en_resume e"
  "en_resume (quiet e) = (\<lambda>_ w. w)" "en_clock (quiet e) = en_clock e"
  "en_speeds (at_instant t e) = en_speeds e" "en_speeds (quiet e) = en_speeds e"
  "en_local (at_instant t e) = en_local e" "en_local (quiet e) = en_local e"
  by (simp_all add: at_instant_def quiet_def)

lemma resumed_quiet [simp]: "resumed (at_instant t (quiet e)) n w = w"
  by (simp add: resumed_def)

lemma routable_result: "fst (routable (at_instant t e) k w) = open_at t w k"
  by (simp add: routable_def split_beta Let_def open_at_def is_available_result)

lemma routable_stable: "open_at t (snd (routable (at_instant t e) k w)) = open_at t w"
  by (simp add: routable_def split_beta Let_def open_at_def is_available_stable fun_eq_iff)

interpretation rt: lazy_gate "\<lambda>k w. routable (at_instant t e) k w" "open_at t" for t e
  by unfold_locales (simp_all add: routable_result routable_stable)

interpretation nrt: lazy_gate "\<lambda>k w. not_routable (at_instant t e) k w" "\<lambda>w k. \<not> open_at t w k" for t e
  by unfold_locales (simp_all add: not_routable_def split_beta Let_def routable_result routable_stable)

lemma nrt_open [simp]:
  "open_at t (snd (filter_state (\<lambda>x. not_routable (at_instant t e) (f x)) xs w)) = open_at t w"
  using nrt.filter_stable [of t e f xs w] by (simp add: fun_eq_iff)

lemma rt_open [simp]:
  "open_at t (snd (filter_state (\<lambda>x. routable (at_instant t e) (f x)) xs w)) = open_at t w"
  by (rule rt.filter_stable)

lemma split_routable_result:
  "fst (split_routable (at_instant t e) key xs w)
     = (filter (\<lambda>x. open_at t w (key x)) xs, filter (\<lambda>x. \<not> open_at t w (key x)) xs)"
  by (simp add: split_routable_def split_beta Let_def rt.filter_result nrt.filter_result)

lemma split_routable_open [simp]:
  "open_at t (snd (split_routable (at_instant t e) key xs w)) = open_at t w"
  by (simp add: split_routable_def split_beta Let_def)

section \<open>What each stage keeps\<close>

text \<open>
  \<open>core\<close> forgets the reason.  \<open>parts t w out G\<close>: \<open>out\<close> lists the backends of the multiset
  \<open>G\<close>, those that are open at \<open>t\<close> before those that are not.
\<close>

definition core :: "selected_backend \<Rightarrow> provider_config \<times> backend_config" where
  "core s = (sl_provider s, sl_backend s)"

definition pair_key :: "provider_config \<times> backend_config \<Rightarrow> string \<times> string" where
  "pair_key pb = (pv_id (fst pb), bk_model (snd pb))"

definition parts ::
    "(string \<times> string \<Rightarrow> bool) \<Rightarrow> selected_backend list \<Rightarrow> (provider_config \<times> backend_config) multiset \<Rightarrow> bool" where
  "parts open_key out G \<longleftrightarrow>
     (\<exists>xs ys. out = xs @ ys \<and> image_mset core (mset xs) = filter_mset (\<lambda>pb. open_key (pair_key pb)) G
        \<and> image_mset core (mset ys) = filter_mset (\<lambda>pb. \<not> open_key (pair_key pb)) G)"

lemma sel_key_core: "sel_key s = pair_key (core s)"
  by (simp add: sel_key_def pair_key_def core_def)

lemma core_new [simp]: "core (new_selected pb) = pb"
  by (simp add: core_def new_selected_def)

lemma core_reason [simp]: "core (s\<lparr>sl_reason := x\<rparr>) = core s"
  by (simp add: core_def)

lemma image_mset_new [simp]: "image_mset core (image_mset new_selected M) = M"
  by (simp add: multiset.map_comp comp_def)

lemma core_tag [simp]: "image_mset core (mset (tag_reason x xs)) = image_mset core (mset xs)"
  by (simp add: tag_reason_def multiset.map_comp comp_def)

lemma core_add_suffix [simp]: "core (add_suffix x s) = core s"
  by (simp add: add_suffix_def)

lemma mset_rotate [perm_simps]: "mset (rotate_by r xs) = mset xs"
  unfolding rotate_by_def by (metis append_take_drop_id mset_append add.commute)

lemma mset_tiebreak [perm_simps]: "mset (apply_tiebreak xs order) = mset xs"
  by (simp add: apply_tiebreak_def Let_def split: option.splits)

lemma draw_open [simp]: "open_at t (snd (draw e w)) = open_at t w"
  by (simp add: draw_def)

lemma sort_pass_parts:
  "mset (fst (fst (sort_pass e cfg b ck tps a l w))) = mset a"
  "mset (snd (fst (sort_pass e cfg b ck tps a l w))) = mset l"
  by (simp_all add: sort_pass_def split_beta Let_def perm_simps)

lemma sort_pass_open [simp]: "open_at t (snd (sort_pass e cfg b ck tps a l w)) = open_at t w"
  by (simp add: sort_pass_def sort_context_def split_beta Let_def)

lemma order_available_parts: "mset (fst (order_available e pl a w)) = mset a"
  by (simp add: order_available_def weighted_rotation_def static_weight_rotation_def split_beta Let_def
      perm_simps)

lemma order_available_open [simp]: "open_at t (snd (order_available e pl a w)) = open_at t w"
  by (simp add: order_available_def weighted_rotation_def static_weight_rotation_def split_beta Let_def)

text \<open>In a tier the provider record belongs to the backend's provider id.\<close>

definition matched :: "provider_config \<times> backend_config \<Rightarrow> bool" where
  "matched pb \<longleftrightarrow> pv_id (fst pb) = bk_provider (snd pb)"

lemma arrange_tier_parts:
  assumes "list_all matched members"
  shows "image_mset core (mset (fst (fst (arrange_tier (at_instant t e) pl members w))))
           = filter_mset (\<lambda>pb. open_at t w (pair_key pb)) (mset members)"
    and "image_mset core (mset (snd (fst (arrange_tier (at_instant t e) pl members w))))
           = filter_mset (\<lambda>pb. \<not> open_at t w (pair_key pb)) (mset members)"
    and "open_at t (snd (arrange_tier (at_instant t e) pl members w)) = open_at t w"
proof -
  have eq: "filter (\<lambda>pb. P (bk_provider (snd pb), bk_model (snd pb))) members
      = filter (\<lambda>pb. P (pair_key pb)) members" for P
    using assms by (induction members) (simp_all add: matched_def pair_key_def)
  show "image_mset core (mset (fst (fst (arrange_tier (at_instant t e) pl members w))))
           = filter_mset (\<lambda>pb. open_at t w (pair_key pb)) (mset members)"
    by (cases "pl_sort pl")
       (simp_all add: arrange_tier_def split_beta Let_def split_routable_result
          eq [of "open_at t w"] eq [of "\<lambda>k. \<not> open_at t w k"] order_available_parts sort_pass_parts
          image_mset_new flip: mset_filter)
  show "image_mset core (mset (snd (fst (arrange_tier (at_instant t e) pl members w))))
           = filter_mset (\<lambda>pb. \<not> open_at t w (pair_key pb)) (mset members)"
    by (cases "pl_sort pl")
       (simp_all add: arrange_tier_def split_beta Let_def split_routable_result
          eq [of "open_at t w"] eq [of "\<lambda>k. \<not> open_at t w k"] order_available_parts sort_pass_parts
          image_mset_new flip: mset_filter)
  show "open_at t (snd (arrange_tier (at_instant t e) pl members w)) = open_at t w"
    by (cases "pl_sort pl") (simp_all add: arrange_tier_def split_beta Let_def)
qed

lemma arrange_tiers_Cons:
  "arrange_tiers e pl (kg # rest) w =
     (let r = arrange_tier e pl (snd kg) w; rs = arrange_tiers e pl rest (snd r)
      in ((fst kg, fst r) # fst rs, snd rs))"
  by (cases kg) (simp add: split_beta Let_def)

lemma arrange_tiers_keys: "map fst (fst (arrange_tiers e pl gs w)) = map fst gs"
  by (induction gs arbitrary: w) (simp_all add: arrange_tiers_Cons Let_def del: arrange_tiers.simps(2))

lemma arrange_tiers_open [simp]:
  "list_all (\<lambda>kg. list_all matched (snd kg)) gs \<Longrightarrow>
   open_at t (snd (arrange_tiers (at_instant t e) pl gs w)) = open_at t w"
  by (induction gs arbitrary: w)
     (simp_all add: arrange_tiers_Cons Let_def arrange_tier_parts del: arrange_tiers.simps(2))

lemma arrange_tiers_parts:
  assumes "list_all (\<lambda>kg. list_all matched (snd kg)) gs" and "distinct (map fst gs)" and "(k, members) \<in> set gs"
  shows "image_mset core (mset (available_in (fst (arrange_tiers (at_instant t e) pl gs w)) k))
           = filter_mset (\<lambda>pb. open_at t w (pair_key pb)) (mset members)
       \<and> image_mset core (mset (limited_in (fst (arrange_tiers (at_instant t e) pl gs w)) k))
           = filter_mset (\<lambda>pb. \<not> open_at t w (pair_key pb)) (mset members)"
  using assms
proof (induction gs arbitrary: w)
  case (Cons kg gs)
  let ?r = "arrange_tier (at_instant t e) pl (snd kg) w"
  have first: "image_mset core (mset (fst (fst ?r))) = filter_mset (\<lambda>pb. open_at t w (pair_key pb)) (mset (snd kg))"
    "image_mset core (mset (snd (fst ?r))) = filter_mset (\<lambda>pb. \<not> open_at t w (pair_key pb)) (mset (snd kg))"
    "open_at t (snd ?r) = open_at t w"
    using Cons.prems(1) by (simp_all add: arrange_tier_parts)
  show ?case
  proof (cases "fst kg = k")
    case True
    with Cons.prems have "kg = (k, members)" by (force simp: rev_image_eqI)
    with first show ?thesis
      by (simp add: arrange_tiers_Cons Let_def available_in_def limited_in_def split_beta
          del: arrange_tiers.simps(2))
  next
    case False
    then show ?thesis
      using Cons.IH [of "snd ?r"] Cons.prems first(3)
      by (auto simp: arrange_tiers_Cons Let_def available_in_def limited_in_def simp del: arrange_tiers.simps(2))
  qed
qed simp

lemma tier_get_add [simp]: "tier_get (tier_add k x d) k' = (if k' = k then tier_get d k @ [x] else tier_get d k')"
  by (simp add: tier_get_def tier_add_def)

lemma tier_get_Nil [simp]: "tier_get [] k = []"
  by (simp add: tier_get_def)

lemma dict_ok_tier_add [dict_intros]: "dict_ok d \<Longrightarrow> dict_ok (tier_add k x d)"
  by (simp add: tier_add_def dict_intros)

text \<open>The backends of a model that \<open>admit\<close> lets through, with their providers.\<close>

definition admitted ::
    "(backend_config \<Rightarrow> provider_config option) \<Rightarrow> backend_config list \<Rightarrow> (provider_config \<times> backend_config) list" where
  "admitted adm bs = List.map_filter (\<lambda>b. map_option (\<lambda>p. (p, b)) (adm b)) bs"

lemma admitted_simps [simp]:
  "admitted adm [] = []"
  "admitted adm (b # bs) = (case adm b of None \<Rightarrow> admitted adm bs | Some p \<Rightarrow> (p, b) # admitted adm bs)"
  by (simp_all add: admitted_def List.map_filter_simps split: option.splits)

lemma dict_ok_build_tiers: "dict_ok d \<Longrightarrow> dict_ok (build_tiers adm bs d)"
  by (induction adm bs d rule: build_tiers.induct) (auto simp: dict_ok_tier_add split: option.splits)

lemma tier_get_build:
  "tier_get (build_tiers adm bs d) k = tier_get d k @ filter (\<lambda>pb. bk_priority (snd pb) = k) (admitted adm bs)"
  by (induction adm bs d rule: build_tiers.induct) (auto split: option.splits)

lemma keys_tier_add [simp]: "fst ` set (tier_add k x d) = insert k (fst ` set d)"
  by (simp add: tier_add_def)

lemma keys_build:
  "fst ` set (build_tiers adm bs d) = fst ` set d \<union> (\<lambda>pb. bk_priority (snd pb)) ` set (admitted adm bs)"
  by (induction adm bs d rule: build_tiers.induct) (auto split: option.splits)

lemma set_tier_keys [simp]: "set (tier_keys d) = fst ` set d"
  by (simp add: tier_keys_def)

lemma distinct_tier_keys: "dict_ok d \<Longrightarrow> distinct (tier_keys d)"
  by (simp add: tier_keys_def dict_ok_def)

lemma filter_mset_insert:
  "k \<notin> K \<Longrightarrow> filter_mset (\<lambda>x. f x = k) M + filter_mset (\<lambda>x. f x \<in> K) M = filter_mset (\<lambda>x. f x \<in> insert k K) M"
  by (induction M) auto

lemma mset_concat_filter:
  assumes "distinct ks"
  shows "mset (concat (map (\<lambda>k. filter (\<lambda>x. f x = k) xs) ks)) = filter_mset (\<lambda>x. f x \<in> set ks) (mset xs)"
  using assms
proof (induction ks)
  case (Cons k ks)
  then show ?case
    using filter_mset_insert [of k "set ks" f "mset xs"] by simp
qed simp

lemma build_tiers_all:
  "mset (concat (map (tier_get (build_tiers adm bs [])) (tier_keys (build_tiers adm bs [])))) = mset (admitted adm bs)"
proof -
  have "tier_get (build_tiers adm bs []) = (\<lambda>k. filter (\<lambda>pb. bk_priority (snd pb) = k) (admitted adm bs))"
    by (rule ext) (simp add: tier_get_build)
  then have "mset (concat (map (tier_get (build_tiers adm bs [])) (tier_keys (build_tiers adm bs []))))
      = filter_mset (\<lambda>pb. bk_priority (snd pb) \<in> set (tier_keys (build_tiers adm bs []))) (mset (admitted adm bs))"
    by (simp only:) (rule mset_concat_filter, simp add: distinct_tier_keys dict_ok_build_tiers)
  also have "\<dots> = mset (admitted adm bs)"
    by (simp add: keys_build filter_mset_eq_conv)
  finally show ?thesis .
qed

lemma tier_get_group:
  "tier_get (foldl (\<lambda>d pb. tier_add (f pb) pb d) d xs) = (\<lambda>k. tier_get d k @ filter (\<lambda>pb. f pb = k) xs)"
  by (induction xs arbitrary: d) (simp_all add: fun_eq_iff)

definition all_tiers :: "tier_map \<Rightarrow> (provider_config \<times> backend_config) list" where
  "all_tiers tiers = concat (map (tier_get tiers) (tier_keys tiers))"

lemma preferred_eq:
  "preferred_backends tiers order =
     map new_selected (concat (map (\<lambda>p. filter (\<lambda>pb. pv_id (fst pb) = p) (all_tiers tiers)) order))"
  by (simp add: preferred_backends_def Let_def tier_get_group all_tiers_def)

lemma preferred_core:
  "distinct order \<Longrightarrow>
   image_mset core (mset (preferred_backends tiers order))
     = filter_mset (\<lambda>pb. pv_id (fst pb) \<in> set order) (mset (all_tiers tiers))"
  by (simp only: preferred_eq mset_map image_mset_new mset_concat_filter)

lemma preferred_keys:
  "sel_key ` set (preferred_backends tiers order)
     = pair_key ` {pb \<in> set (all_tiers tiers). pv_id (fst pb) \<in> set order}"
  by (auto simp: preferred_eq sel_key_core image_image)

lemma preferred_keys_iff:
  "pb \<in> set (all_tiers tiers) \<Longrightarrow>
   pair_key pb \<in> sel_key ` set (preferred_backends tiers order) \<longleftrightarrow> pv_id (fst pb) \<in> set order"
  unfolding preferred_keys by (auto simp: pair_key_def)

lemma arranged_all:
  assumes "list_all (\<lambda>k. list_all matched (g k)) keys" and "distinct keys" and "set ks \<subseteq> set keys"
    and "arr = fst (arrange_tiers (at_instant t e) pl (map (\<lambda>k. (k, g k)) keys) w)"
  shows "image_mset core (mset (concat (map (available_in arr) ks)))
           = filter_mset (\<lambda>pb. open_at t w (pair_key pb)) (mset (concat (map g ks)))
       \<and> image_mset core (mset (concat (map (limited_in arr) ks)))
           = filter_mset (\<lambda>pb. \<not> open_at t w (pair_key pb)) (mset (concat (map g ks)))"
  using assms(3)
proof (induction ks)
  case (Cons k ks)
  have "image_mset core (mset (available_in arr k)) = filter_mset (\<lambda>pb. open_at t w (pair_key pb)) (mset (g k))
      \<and> image_mset core (mset (limited_in arr k)) = filter_mset (\<lambda>pb. \<not> open_at t w (pair_key pb)) (mset (g k))"
    unfolding assms(4)
    by (rule arrange_tiers_parts) (use assms Cons.prems in \<open>simp_all add: list_all_iff comp_def\<close>)
  with Cons show ?case by simp
qed simp

lemma emit_limited_quiet:
  "fst (emit_limited_preferred (at_instant t (quiet e)) n fresh ss w)
     = map (\<lambda>s. s\<lparr>sl_reason := ''ratelimited-fallback''\<rparr>) (filter (\<lambda>s. \<not> open_at t w (sel_key s)) ss)"
proof (induction ss arbitrary: n fresh w)
  case (Cons s ss)
  show ?case
    by (simp add: split_beta Let_def Cons.IH routable_result routable_stable)
qed simp

lemma split_idle_busy_mset:
  "mset (fst (split_idle_busy snap xs)) + mset (snd (split_idle_busy snap xs)) = mset xs"
  by (simp add: split_idle_busy_def)

lemma filter_both: "mset (filter P xs) + mset (filter (\<lambda>x. \<not> P x) xs) = mset xs"
  by simp

lemma image_partition:
  "image_mset f (filter_mset P M) + image_mset f (filter_mset (\<lambda>x. \<not> P x) M) = image_mset f M"
  by (metis image_mset_union multiset_partition)

definition band_list ::
    "(selected_backend list \<times> selected_backend list \<times> selected_backend list \<times> selected_backend list)
     \<Rightarrow> selected_backend list" where
  "band_list b = fst b @ fst (snd b) @ fst (snd (snd b)) @ snd (snd (snd b))"

lemma affinity_bands_mset:
  "image_mset core (mset (band_list (fst (affinity_bands e ck ttl cap order flat w)))) = image_mset core (mset flat)"
proof -
  define snap where "snap = Stats.snapshot (wd_stats w)"
  define warm where "warm = set (fst (warm_backends_for (wd_stats w) (en_wall e) ck (map sel_backend_key flat) ttl))"
  define W where "W = split_idle_busy snap (filter (\<lambda>s. sel_backend_key s \<in> warm) flat)"
  define C where "C = split_idle_busy snap (filter (\<lambda>s. sel_backend_key s \<notin> warm) flat)"
  define B where "B = tag_reason ''warm-busy'' (apply_tiebreak (snd W) order)"
  have "mset flat = mset (fst W) + mset (snd W) + (mset (fst C) + mset (snd C))"
    by (simp add: W_def C_def split_idle_busy_mset filter_both)
  moreover have "image_mset core (mset (band_list (fst (affinity_bands e ck ttl cap order flat w))))
      = image_mset core (mset (fst W)) + image_mset core (mset B)
        + (image_mset core (mset (fst C)) + image_mset core (mset (snd C)))"
    unfolding affinity_bands_def band_list_def
    by (simp add: split_beta Let_def warm_def [symmetric] snap_def [symmetric] W_def [symmetric]
        C_def [symmetric] B_def [symmetric] perm_simps image_partition split: option.splits)
  moreover have "image_mset core (mset B) = image_mset core (mset (snd W))"
    by (simp add: B_def perm_simps)
  ultimately show ?thesis by simp
qed

lemma affinity_bands_open [simp]:
  "open_at t (snd (affinity_bands e ck ttl cap order flat w)) = open_at t w"
  by (simp add: affinity_bands_def split_beta Let_def)

lemma partsI:
  "image_mset core (mset xs) = filter_mset (\<lambda>pb. P (pair_key pb)) G \<Longrightarrow>
   image_mset core (mset ys) = filter_mset (\<lambda>pb. \<not> P (pair_key pb)) G \<Longrightarrow> parts P (xs @ ys) G"
  by (auto simp: parts_def)

lemma core_filter:
  "image_mset core (filter_mset (\<lambda>s. P (sel_key s)) (mset ss)) = filter_mset (\<lambda>pb. P (pair_key pb)) (image_mset core (mset ss))"
  by (induction ss) (auto simp: sel_key_core)

lemma core_limited [simp]:
  "image_mset core (image_mset (\<lambda>s. s\<lparr>sl_reason := x\<rparr>) M) = image_mset core M"
  by (simp add: multiset.map_comp comp_def)

lemma emit_preferred_only_parts:
  "parts (open_at t w) (fst (emit_preferred_only (at_instant t e) pl preferred w)) (image_mset core (mset preferred))"
  by (cases "pl_sort pl")
     (auto simp: emit_preferred_only_def split_beta Let_def split_routable_result sort_pass_parts core_filter
        core_filter [of "\<lambda>k. \<not> open_at t w k"] intro!: partsI)

lemma mset_concat_perm:
  assumes "mset xs = mset ys"
  shows "mset (concat (map f xs)) = mset (concat (map f ys))"
proof -
  have "mset (concat (map f zs)) = sum_mset (image_mset (\<lambda>x. mset (f x)) (mset zs))" for zs
    by (induction zs) simp_all
  then show ?thesis using assms by simp
qed

lemma pick_start_bound: "pick_start ws pick acc i < i + length ws \<or> pick_start ws pick acc i = 0"
  by (induction ws pick acc i rule: pick_start.induct) (auto simp: Let_def)

lemma pick_start_lt: "ws \<noteq> [] \<Longrightarrow> pick_start ws pick acc 0 < length ws"
  using pick_start_bound [of ws pick acc 0] by auto

lemma mset_to_front: "distinct ks \<Longrightarrow> k \<in> set ks \<Longrightarrow> mset (k # filter (\<lambda>x. x \<noteq> k) ks) = mset ks"
  by (induction ks) (auto simp: filter_mset_eq_conv)

lemma sample_tier_order_perm:
  assumes "distinct keys" and "keys \<noteq> []"
  shows "mset (fst (sample_tier_order e keys decay w)) = mset keys"
proof -
  define probs where "probs =
    map (\<lambda>x. x / sum_list (map (\<lambda>i. decay ^ i) [0..<length keys])) (map (\<lambda>i. decay ^ i) [0..<length keys])"
  have "length probs = length keys" by (simp add: probs_def)
  with assms(2) have "pick_start probs (fst (draw e w)) 0 0 < length keys"
    using pick_start_lt [of probs "fst (draw e w)" 0] by (metis length_0_conv)
  then have "keys ! pick_start probs (fst (draw e w)) 0 0 \<in> set keys" by (rule nth_mem)
  with assms(1) show ?thesis
    unfolding sample_tier_order_def Let_def split_beta fst_conv probs_def by (rule mset_to_front)
qed

lemma sample_tier_order_open [simp]: "open_at t (snd (sample_tier_order e keys decay w)) = open_at t w"
  by (simp add: sample_tier_order_def split_beta Let_def)

lemma core_concat_tag:
  "image_mset core (mset (concat (map (\<lambda>k. tag_reason (r k) (f k)) ks))) = image_mset core (mset (concat (map f ks)))"
  by (induction ks) simp_all

lemma preferred_first_parts:
  "image_mset core (mset (fst (preferred_first (at_instant t e) pl preferred w)))
     = filter_mset (\<lambda>pb. open_at t w (pair_key pb)) (image_mset core (mset preferred))"
  by (cases "pl_sort pl")
     (simp_all add: preferred_first_def split_beta Let_def split_routable_result sort_pass_parts core_filter)

lemma preferred_first_open [simp]:
  "open_at t (snd (preferred_first (at_instant t e) pl preferred w)) = open_at t w"
  by (cases "pl_sort pl") (simp_all add: preferred_first_def split_beta Let_def)

lemma legacy_tier_order_perm:
  assumes "distinct keys"
  shows "mset (fst (legacy_tier_order e pl order keys w)) = mset keys"
  using assms sample_tier_order_perm [of keys]
  by (cases "keys = []") (simp_all add: legacy_tier_order_def Let_def)

lemma legacy_tier_order_open [simp]: "open_at t (snd (legacy_tier_order e pl order keys w)) = open_at t w"
  by (simp add: legacy_tier_order_def Let_def)

text \<open>
  \<open>arranged t w g keys arr\<close>: the arrangement lists the backends \<open>g k\<close> of every tier, split by
  availability.
\<close>

definition arranged ::
    "time \<Rightarrow> world \<Rightarrow> (int \<Rightarrow> (provider_config \<times> backend_config) list) \<Rightarrow> int list \<Rightarrow> arrangement \<Rightarrow> bool" where
  "arranged t w g keys arr \<longleftrightarrow>
     (\<forall>ks. set ks \<subseteq> set keys \<longrightarrow>
        image_mset core (mset (concat (map (available_in arr) ks)))
          = filter_mset (\<lambda>pb. open_at t w (pair_key pb)) (mset (concat (map g ks)))
        \<and> image_mset core (mset (concat (map (limited_in arr) ks)))
          = filter_mset (\<lambda>pb. \<not> open_at t w (pair_key pb)) (mset (concat (map g ks))))"

lemma arrange_tiers_arranged:
  assumes "list_all (\<lambda>k. list_all matched (g k)) keys" and "distinct keys"
  shows "arranged t w g keys (fst (arrange_tiers (at_instant t e) pl (map (\<lambda>k. (k, g k)) keys) w))"
  unfolding arranged_def using arranged_all [OF assms _ refl] by blast

lemma emit_legacy_parts:
  assumes "arranged t w g keys arr" and "distinct keys"
  shows "parts (open_at t w) (fst (emit_legacy (at_instant t (quiet e)) pl order preferred arr keys w))
           (image_mset core (mset preferred) + mset (concat (map g keys)))"
proof -
  let ?e = "at_instant t (quiet e)"
  define first where "first = preferred_first ?e pl preferred w"
  define ord where "ord = legacy_tier_order ?e pl order keys (snd first)"
  have first: "image_mset core (mset (fst first))
      = filter_mset (\<lambda>pb. open_at t w (pair_key pb)) (image_mset core (mset preferred))"
    "open_at t (snd first) = open_at t w"
    by (simp_all add: first_def preferred_first_parts)
  have perm: "mset (fst ord) = mset keys" "open_at t (snd ord) = open_at t w"
    using assms(2) by (simp_all add: ord_def legacy_tier_order_perm first)
  have tiers: "image_mset core (mset (concat (map (available_in arr) (fst ord))))
      = filter_mset (\<lambda>pb. open_at t w (pair_key pb)) (mset (concat (map g keys)))"
    using assms(1) mset_eq_setD [OF perm(1)] mset_concat_perm [OF perm(1), of g] by (simp add: arranged_def)
  have limited: "image_mset core (mset (concat (map (limited_in arr) keys)))
      = filter_mset (\<lambda>pb. \<not> open_at t w (pair_key pb)) (mset (concat (map g keys)))"
    using assms(1) by (simp add: arranged_def)
  have "fst (emit_legacy ?e pl order preferred arr keys w) =
       (fst first @ concat (map (\<lambda>k. tag_reason (tier_label k @ sort_suffix (pl_sort pl)) (available_in arr k)) (fst ord)))
       @ tag_reason ''ratelimited-fallback'' (filter (\<lambda>s. \<not> open_at t w (sel_key s)) preferred)
       @ concat (map (\<lambda>k. tag_reason ''ratelimited-fallback'' (limited_in arr k)) keys)"
    by (simp add: emit_legacy_def split_beta Let_def first_def [symmetric] ord_def [symmetric]
        nrt.filter_result perm(2))
  then show ?thesis
    by (simp only:)
       (rule partsI, simp_all only: mset_append image_mset_union filter_union_mset core_concat_tag core_tag
          mset_filter core_filter [of "\<lambda>k. \<not> open_at t w k"] first tiers limited)
qed

lemma emit_affinity_parts:
  assumes "arranged t w g keys arr" and "pk = sel_key ` set preferred"
  shows "parts (open_at t w)
           (fst (emit_cache_affinity (at_instant t (quiet e)) ck ttl cap order preferred arr keys w))
           (image_mset core (mset preferred)
             + filter_mset (\<lambda>pb. pair_key pb \<notin> pk) (mset (concat (map g keys))))"
proof -
  let ?e = "at_instant t (quiet e)"
  define w1 where "w1 = snd (filter_state (\<lambda>s. routable ?e (sel_key s)) preferred w)"
  define flat where "flat = filter (\<lambda>s. open_at t w (sel_key s)) preferred
      @ filter (\<lambda>s. sel_key s \<notin> pk) (concat (map (available_in arr) keys))"
  define bands where "bands = affinity_bands ?e ck ttl cap order flat w1"
  have "open_at t (snd bands) = open_at t w1" and "open_at t w1 = open_at t w"
    by (simp_all add: bands_def w1_def)
  then have out: "fst (emit_cache_affinity ?e ck ttl cap order preferred arr keys w) =
       band_list (fst bands)
       @ map (\<lambda>s. s\<lparr>sl_reason := ''ratelimited-fallback''\<rparr>) (filter (\<lambda>s. \<not> open_at t w (sel_key s)) preferred)
       @ tag_reason ''ratelimited-fallback'' (filter (\<lambda>s. sel_key s \<notin> pk) (concat (map (limited_in arr) keys)))"
    by (simp add: emit_cache_affinity_def split_beta Let_def rt.filter_result emit_limited_quiet
        assms(2) [symmetric] w1_def [symmetric] flat_def [symmetric] bands_def [symmetric] band_list_def)
  have front: "image_mset core (mset (band_list (fst bands))) = image_mset core (mset flat)"
    by (simp add: bands_def affinity_bands_mset)
  have arr: "image_mset core (mset (concat (map (available_in arr) keys)))
          = filter_mset (\<lambda>pb. open_at t w (pair_key pb)) (mset (concat (map g keys)))"
    "image_mset core (mset (concat (map (limited_in arr) keys)))
          = filter_mset (\<lambda>pb. \<not> open_at t w (pair_key pb)) (mset (concat (map g keys)))"
    using assms(1) by (simp_all add: arranged_def)
  have "image_mset core (mset (filter (\<lambda>s. sel_key s \<notin> pk) xs))
      = filter_mset (\<lambda>pb. pair_key pb \<notin> pk) (image_mset core (mset xs))" for xs
    using core_filter [of "\<lambda>k. k \<notin> pk" xs] by simp
  then show ?thesis
    unfolding out
    by (intro partsI)
       (simp_all only: mset_append mset_map core_limited image_mset_union filter_union_mset core_tag front flat_def
          arr mset_filter core_filter core_filter [of "\<lambda>k. \<not> open_at t w k"] filter_filter_mset conj_commute)
qed

definition configured :: "gateway_config \<Rightarrow> world \<Rightarrow> world" where
  "configured cfg w = w\<lparr>wd_circuits := configure_from_config cfg (wd_circuits w)\<rparr>"

lemma eligible_env [simp]:
  "eligible (at_instant t e) = eligible e" "eligible (quiet e) = eligible e"
  by (intro ext; simp add: eligible_def active_slot_def at_instant_def quiet_def Let_def)+

lemma speeds_env [simp]:
  "speeds_for (at_instant t e) = speeds_for e" "speeds_for (quiet e) = speeds_for e"
  by (intro ext; simp only: speeds_for_def env_instant)+

lemma admit_matched: "admit cfg model ig mt it sl b = Some p \<Longrightarrow> matched (p, b)"
  by (auto simp: admit_def matched_def split: if_splits option.splits dest: provider_by_id_Some)

lemma admitted_matched: "list_all matched (admitted (eligible e cfg model prefs mt it) bs)"
  by (induction bs) (auto simp: eligible_def dest: admit_matched split: option.splits)

lemma next_rotation_open [simp]: "open_at t (snd (next_rotation m w)) = open_at t w"
  by (simp add: next_rotation_def Let_def)

lemma mset_all_tiers: "mset (all_tiers (build_tiers adm bs [])) = mset (admitted adm bs)"
  by (simp only: all_tiers_def build_tiers_all)

lemma tiers_empty_iff: "build_tiers adm bs [] = [] \<longleftrightarrow> admitted adm bs = []"
proof -
  have "fst ` set (build_tiers adm bs []) = {} \<longleftrightarrow> admitted adm bs = []"
    by (simp add: keys_build)
  then show ?thesis by simp
qed

lemma preferred_Nil_iff:
  "preferred_backends tiers os = [] \<longleftrightarrow> (\<forall>pb\<in>set (all_tiers tiers). pv_id (fst pb) \<notin> set os)"
  by (auto simp: preferred_eq filter_empty_conv)

lemma parts_map: "(\<And>s. core (f s) = core s) \<Longrightarrow> parts P out G \<Longrightarrow> parts P (map f out) G"
  unfolding parts_def
  by (elim exE conjE, rule_tac x = "map f xs" in exI, rule_tac x = "map f ys" in exI)
     (simp add: multiset.map_comp comp_def)

lemma tiers_of_all:
  assumes "all = admitted (eligible e cfg model prefs mt it) (md_backends model)"
  shows "mset (all_tiers (tiers_of e cfg model prefs mt it)) = mset all"
    and "set (all_tiers (tiers_of e cfg model prefs mt it)) = set all"
    and "distinct (tier_keys (tiers_of e cfg model prefs mt it))"
    and "tiers_of e cfg model prefs mt it = [] \<longleftrightarrow> all = []"
  using mset_eq_setD [OF mset_all_tiers]
  by (simp_all add: assms tiers_of_def mset_all_tiers distinct_tier_keys dict_ok_build_tiers tiers_empty_iff)

lemma tiers_of_matched:
  "list_all (\<lambda>k. list_all matched (tier_group aff preferred (tiers_of e cfg model prefs mt it) k)) ks"
  using admitted_matched [of e cfg model prefs mt it "md_backends model"]
  by (auto simp: tier_group_def Let_def tiers_of_def tier_get_build list_all_iff)

definition wanted :: "provider_prefs option \<Rightarrow> (provider_config \<times> backend_config) list \<Rightarrow> (provider_config \<times> backend_config) list" where
  "wanted prefs all =
     filter (\<lambda>pb. pv_id (fst pb) \<in> set (case order_of prefs of None \<Rightarrow> [] | Some os \<Rightarrow> os)) all"

lemma wanted_Nil [simp]: "wanted prefs [] = []"
  by (simp add: wanted_def)

lemma preferred_of_core:
  assumes "case order_of prefs of None \<Rightarrow> True | Some os \<Rightarrow> distinct os" and "mset (all_tiers tiers) = mset all"
  shows "image_mset core (mset (preferred_of tiers prefs)) = mset (wanted prefs all)"
  using assms by (auto simp: preferred_of_def wanted_def preferred_core split: option.splits)

text \<open>What the preferred backends leave to the tiers.\<close>

lemma wanted_and_rest:
  assumes "mset (all_tiers tiers) = mset all"
  shows "mset (wanted prefs all)
           + filter_mset (\<lambda>pb. pair_key pb \<notin> sel_key ` set (preferred_of tiers prefs)) (mset all) = mset all"
proof -
  let ?os = "case order_of prefs of None \<Rightarrow> [] | Some os \<Rightarrow> os"
  have "filter_mset (\<lambda>pb. pair_key pb \<notin> sel_key ` set (preferred_of tiers prefs)) (mset all)
      = filter_mset (\<lambda>pb. pv_id (fst pb) \<notin> set ?os) (mset all)"
  proof (rule filter_mset_cong [OF refl])
    fix pb assume "pb \<in># mset all"
    then show "pair_key pb \<notin> sel_key ` set (preferred_of tiers prefs) \<longleftrightarrow> pv_id (fst pb) \<notin> set ?os"
      using mset_eq_setD [OF assms] preferred_keys_iff [of pb tiers ?os]
      by (cases "order_of prefs") (simp_all add: preferred_of_def)
  qed
  then show ?thesis
    by (simp add: wanted_def flip: multiset_partition)
qed

lemma tier_groups_all:
  assumes "mset (all_tiers tiers) = mset all"
  shows "mset (concat (map (tier_group aff preferred tiers) (tier_keys tiers)))
      = (if aff then mset all else filter_mset (\<lambda>pb. pair_key pb \<notin> sel_key ` set preferred) (mset all))"
proof (cases "sel_key ` set preferred = {} \<or> aff")
  case True
  then show ?thesis
    using assms by (auto simp: tier_group_def [abs_def] all_tiers_def)
next
  case False
  then have "concat (map (tier_group aff preferred tiers) (tier_keys tiers))
      = filter (\<lambda>pb. pair_key pb \<notin> sel_key ` set preferred) (all_tiers tiers)"
    by (simp add: tier_group_def [abs_def] filter_concat comp_def pair_key_def all_tiers_def)
  with False show ?thesis
    by (simp add: assms)
qed

text \<open>
  What a request is offered: every eligible backend of the model, or only those of the providers in
  \<open>order\<close> when the request allows no fallback (and cache affinity is not active).
\<close>

definition offered ::
    "env \<Rightarrow> gateway_config \<Rightarrow> model_config \<Rightarrow> provider_prefs option \<Rightarrow> int option \<Rightarrow> int option
     \<Rightarrow> string option \<Rightarrow> (provider_config \<times> backend_config) list"
where
  "offered e cfg model prefs max_tokens input_tokens cache_key =
     (let all = admitted (eligible e cfg model prefs max_tokens input_tokens) (md_backends model)
      in if wanted prefs all \<noteq> [] \<and> \<not> fallbacks_of prefs \<and> \<not> affinity_active cfg cache_key
         then wanted prefs all else all)"

lemma plan_of_env [simp]:
  "plan_of (at_instant t e) = plan_of e" "plan_of (quiet e) = plan_of e"
  "tiers_of (at_instant t e) = tiers_of e" "tiers_of (quiet e) = tiers_of e"
  by (intro ext; simp add: plan_of_def tiers_of_def)+

lemma select_parts:
  assumes model: "model_by_id cfg mid = Some model" "md_enabled model"
    and order: "case order_of prefs of None \<Rightarrow> True | Some os \<Rightarrow> distinct os"
  shows "parts (open_at t (configured cfg w))
           (fst (select_backends (at_instant t (quiet e)) cfg mid mt it prefs ck w))
           (mset (offered e cfg model prefs mt it ck))"
proof -
  define all where "all = admitted (eligible e cfg model prefs mt it) (md_backends model)"
  define tiers where "tiers = tiers_of e cfg model prefs mt it"
  define pref where "pref = preferred_of tiers prefs"
  define aff where "aff = affinity_active cfg ck"
  define pl where "pl = plan_of e cfg model prefs ck"
  define rot where "rot = next_rotation (md_id model) (configured cfg w)"
  define arr where "arr = arrange_tiers (at_instant t (quiet e)) (pl\<lparr>pl_rotation := fst rot\<rparr>)
      (map (\<lambda>k. (k, tier_group aff pref tiers k)) (tier_keys tiers)) (snd rot)"
  have all: "mset (all_tiers tiers) = mset all" "distinct (tier_keys tiers)" "tiers = [] \<longleftrightarrow> all = []"
    unfolding tiers_def by (rule tiers_of_all [OF all_def])+
  have core_pref: "image_mset core (mset pref) = mset (wanted prefs all)"
    unfolding pref_def using order all(1) by (rule preferred_of_core)
  then have nil: "pref = [] \<longleftrightarrow> wanted prefs all = []"
    by (metis image_mset_is_empty_iff mset_zero_iff)
  note rest = wanted_and_rest [OF all(1), of prefs, folded pref_def]
  note groups = tier_groups_all [OF all(1), of aff pref]
  have matched: "list_all (\<lambda>k. list_all matched (tier_group aff pref tiers k)) (tier_keys tiers)"
    unfolding tiers_def by (rule tiers_of_matched)
  have opens: "open_at t (snd rot) = open_at t (configured cfg w)" "open_at t (snd arr) = open_at t (configured cfg w)"
    using matched by (simp_all add: rot_def arr_def list_all_iff)
  have arranged: "arranged t (snd arr) (tier_group aff pref tiers) (tier_keys tiers) (fst arr)"
    using arrange_tiers_arranged [OF matched all(2), of t "snd rot"] opens by (simp add: arr_def arranged_def)
  have select: "fst (select_backends (at_instant t (quiet e)) cfg mid mt it prefs ck w) =
     (if tiers = [] then []
      else if pref \<noteq> [] \<and> \<not> fallbacks_of prefs \<and> \<not> aff
      then fst (emit_preferred_only (at_instant t (quiet e)) pl pref (configured cfg w))
      else if aff
      then map (add_suffix (sort_suffix (sort_of prefs)))
             (fst (emit_cache_affinity (at_instant t (quiet e)) (str_or_empty ck) (ttl_or_300 cfg)
                (sv_max_inflight_before_spill (gw_server cfg)) (order_of prefs) pref (fst arr)
                (tier_keys tiers) (snd arr)))
      else fst (emit_legacy (at_instant t (quiet e)) (pl\<lparr>pl_rotation := fst rot\<rparr>) (order_of prefs) pref
                  (fst arr) (tier_keys tiers) (snd arr)))"
    by (simp add: select_backends_def model Let_def split_beta if_distrib [of fst] configured_def [symmetric]
        tiers_def [symmetric] pref_def [symmetric] aff_def [symmetric] pl_def [symmetric] rot_def [symmetric]
        arr_def [symmetric] split del: if_split cong del: if_weak_cong)
  have only: "parts (open_at t (configured cfg w))
      (fst (emit_preferred_only (at_instant t (quiet e)) pl pref (configured cfg w))) (mset (wanted prefs all))"
    using emit_preferred_only_parts [of t "configured cfg w" "quiet e" pl pref] by (simp add: core_pref)
  have affinity: "parts (open_at t (configured cfg w))
      (map (add_suffix (sort_suffix (sort_of prefs)))
        (fst (emit_cache_affinity (at_instant t (quiet e)) (str_or_empty ck) (ttl_or_300 cfg)
                (sv_max_inflight_before_spill (gw_server cfg)) (order_of prefs) pref (fst arr)
                (tier_keys tiers) (snd arr)))) (mset all)" if aff
    using emit_affinity_parts [OF arranged refl, where preferred = pref, unfolded opens core_pref groups]
    by (intro parts_map) (simp_all only: core_add_suffix that if_True rest)
  have legacy: "parts (open_at t (configured cfg w))
      (fst (emit_legacy (at_instant t (quiet e)) (pl\<lparr>pl_rotation := fst rot\<rparr>) (order_of prefs) pref
                  (fst arr) (tier_keys tiers) (snd arr))) (mset all)" if "\<not> aff"
    using emit_legacy_parts [OF arranged all(2), where preferred = pref, unfolded opens core_pref groups]
    by (simp only: that if_False rest)
  show ?thesis
    using only affinity legacy all(3) wanted_Nil
    by (auto simp: select offered_def Let_def all_def [symmetric] aff_def [symmetric] nil parts_def)
qed

section \<open>Properties\<close>

text \<open>
  C5. When the clock stands still during the selection, nobody changes a registry while the caller
  tries a backend, and the provider order of the request (if any) names no provider twice, no backend is lost and
  none is offered more often than the model lists it: for every routing mode, with cache affinity or
  without, for every sorting and all weights, and for every draw of the random numbers, the
  backends the request can draw are exactly the enabled, fitting backends of the model that its
  preferences allow, rate-limited ones included.  Without these conditions it is false:
  \<open>repeated_order_repeats_backend\<close>, \<open>expiring_cooldown_hides_backend\<close> and
  \<open>recovered_preferred_is_skipped\<close> below.
\<close>

theorem selection_complete:
  assumes "model_by_id cfg mid = Some model" and "md_enabled model"
    and "case order_of prefs of None \<Rightarrow> True | Some os \<Rightarrow> distinct os"
  shows "mset (map core (fst (select_backends (at_instant t (quiet e)) cfg mid mt it prefs ck w)))
           = mset (offered e cfg model prefs mt it ck)"
  using select_parts [OF assms, of t w e mt it ck] by (force simp: parts_def simp flip: multiset_partition)

text \<open>
  C6. A backend that is cooling down, snoozed or whose circuit is open is only tried after every
  backend that is available.
\<close>

theorem unavailable_last:
  assumes "model_by_id cfg mid = Some model" and "md_enabled model"
    and "case order_of prefs of None \<Rightarrow> True | Some os \<Rightarrow> distinct os"
  shows "sorted (map (\<lambda>s. if open_at t (configured cfg w) (sel_key s) then 0 else (1::nat))
           (fst (select_backends (at_instant t (quiet e)) cfg mid mt it prefs ck w)))"
proof -
  let ?open = "open_at t (configured cfg w)"
  obtain xs ys where out: "fst (select_backends (at_instant t (quiet e)) cfg mid mt it prefs ck w) = xs @ ys"
    and xs: "image_mset core (mset xs) = filter_mset (\<lambda>pb. ?open (pair_key pb)) (mset (offered e cfg model prefs mt it ck))"
    and ys: "image_mset core (mset ys) = filter_mset (\<lambda>pb. \<not> ?open (pair_key pb)) (mset (offered e cfg model prefs mt it ck))"
    using select_parts [OF assms, of t w e mt it ck] by (auto simp: parts_def)
  have "?open (sel_key s)" if "s \<in> set xs" for s
    using that arg_cong [OF xs, of set_mset] by (auto simp: sel_key_core)
  moreover have "\<not> ?open (sel_key s)" if "s \<in> set ys" for s
    using that arg_cong [OF ys, of set_mset] by (auto simp: sel_key_core)
  ultimately have "map (\<lambda>s. if ?open (sel_key s) then 0 else (1::nat)) (xs @ ys) = map (\<lambda>_. 0) xs @ map (\<lambda>_. 1) ys"
    by simp
  then show ?thesis
    unfolding out by (simp only: map_replicate_const) (auto simp: sorted_append)
qed

section \<open>A concrete gateway\<close>

definition demo_backend :: "string \<Rightarrow> int \<Rightarrow> real \<Rightarrow> backend_config" where
  "demo_backend p prio weight = (default_backend p ''m'')\<lparr>bk_priority := prio, bk_weight := weight\<rparr>"

definition demo_config :: "string \<Rightarrow> bool \<Rightarrow> backend_config list \<Rightarrow> gateway_config" where
  "demo_config mode affinity bs =
     default_gateway
       \<lparr>gw_server := default_server\<lparr>sv_routing_mode := mode, sv_cache_affinity_enabled := affinity\<rparr>,
        gw_providers := [default_provider ''a'' [], default_provider ''b'' [], default_provider ''c'' []],
        gw_models := [default_model ''x'' bs]\<rparr>"

definition demo_env :: env where
  "demo_env = \<lparr>en_clock = (\<lambda>_. 0), en_wall = 0, en_random = (\<lambda>_. 0), en_speeds = (\<lambda>_. Some []),
               en_local = (\<lambda>_. (0, 0)), en_resume = (\<lambda>_ w. w)\<rparr>"

definition demo_world :: world where
  "demo_world = \<lparr>wd_rr = [], wd_limits = rl_init, wd_circuits = cb_init, wd_stats = st_init,
                 wd_reads = 0, wd_draws = 0\<rparr>"

definition ordered_prefs :: "string list \<Rightarrow> provider_prefs" where
  "ordered_prefs os = \<lparr>pf_order = Some os, pf_ignore = None, pf_allow_fallbacks = True, pf_sort = None\<rparr>"

lemmas demo_defs = demo_backend_def demo_config_def demo_env_def demo_world_def ordered_prefs_def
  default_gateway_def default_server_def default_provider_def default_model_def default_backend_def
  default_time_routing_def model_by_id_def order_of_def

theorem selection_complete_witness:
  "mset (map core (fst (select_backends (at_instant 0 (quiet demo_env))
       (demo_config ''explore'' True [demo_backend ''a'' 1 1, demo_backend ''b'' 2 1]) ''x'' None None
       (Some (ordered_prefs [''b'', ''a''])) (Some ''k'') demo_world)))
   = mset (offered demo_env (demo_config ''explore'' True [demo_backend ''a'' 1 1, demo_backend ''b'' 2 1])
       (default_model ''x'' [demo_backend ''a'' 1 1, demo_backend ''b'' 2 1]) (Some (ordered_prefs [''b'', ''a'']))
       None None (Some ''k''))"
  by (rule selection_complete) (simp_all add: demo_defs)

theorem unavailable_last_witness:
  "sorted (map (\<lambda>s. if open_at 3 (configured (demo_config ''failover'' False [demo_backend ''a'' 1 1, demo_backend ''b'' 2 1])
             (demo_world\<lparr>wd_limits := set_cooldown rl_init 0 ''a'' ''m'' None\<rparr>)) (sel_key s) then 0 else (1::nat))
     (fst (select_backends (at_instant 3 (quiet demo_env))
       (demo_config ''failover'' False [demo_backend ''a'' 1 1, demo_backend ''b'' 2 1]) ''x'' None None
       None None (demo_world\<lparr>wd_limits := set_cooldown rl_init 0 ''a'' ''m'' None\<rparr>))))"
  by (rule unavailable_last [where model = "default_model ''x'' [demo_backend ''a'' 1 1, demo_backend ''b'' 2 1]"])
     (simp_all add: demo_defs)

section \<open>Draws and rotation\<close>

lemma pick_start_interval:
  assumes "\<forall>x\<in>set ws. 0 \<le> x" and "acc + sum_list (take i ws) \<le> pick"
    and "pick < acc + sum_list (take (Suc i) ws)" and "i < length ws"
  shows "pick_start ws pick acc j = j + i"
  using assms
proof (induction ws arbitrary: acc i j)
  case (Cons x ws)
  show ?case
  proof (cases i)
    case 0
    with Cons.prems show ?thesis by (simp add: Let_def)
  next
    case (Suc k)
    have "0 \<le> sum_list (take k ws)"
      using Cons.prems(1) by (intro sum_list_nonneg) (auto dest: in_set_takeD)
    with Suc Cons.prems Cons.IH [of "acc + x" k "j + 1"] show ?thesis
      by (simp add: Let_def add.assoc)
  qed
qed simp

lemma hd_rotate_by: "i < length xs \<Longrightarrow> hd (rotate_by i xs) = xs ! i"
  by (simp add: rotate_by_def hd_append hd_drop_conv_nth)

text \<open>
  Static weights: the draw splits the unit interval into one stretch per backend, of length
  weight over total weight; the backend whose stretch holds the random number comes first and the
  others follow in rotation.  A drained backend (weight 0) has an empty stretch and never comes
  first while another one has weight.
\<close>

theorem static_weight_draw:
  assumes "ws = map (\<lambda>x. max x 0) weights" and "length weights = length items" and "1 < length items"
    and "i < length items" and "0 < sum_list ws"
    and "sum_list (take i ws) / sum_list ws \<le> en_random e (wd_draws w)"
    and "en_random e (wd_draws w) < sum_list (take (Suc i) ws) / sum_list ws"
  shows "fst (static_weight_rotation e items weights rotation w) = rotate_by i items
       \<and> hd (rotate_by i items) = items ! i \<and> 0 < weights ! i"
proof -
  have "sum_list (take i ws) \<le> en_random e (wd_draws w) * sum_list ws"
    and "en_random e (wd_draws w) * sum_list ws < sum_list (take (Suc i) ws)"
    using assms(5,6,7) by (simp_all add: pos_divide_le_eq pos_less_divide_eq)
  moreover from this have "0 < ws ! i"
    using assms(1,2,4) by (simp add: take_Suc_conv_app_nth)
  ultimately show ?thesis
    using assms pick_start_interval [of ws 0 i "en_random e (wd_draws w) * sum_list ws" 0]
    by (auto simp: static_weight_rotation_def Let_def draw_def hd_rotate_by)
qed

theorem static_weight_draw_witness:
  "let items = map (\<lambda>b. new_selected (default_provider (bk_provider b) [], b))
                 [demo_backend ''a'' 1 0, demo_backend ''b'' 1 1, demo_backend ''c'' 1 3]
   in fst (static_weight_rotation demo_env items [0, 1, 3] 0 demo_world) = rotate_by 1 items
      \<and> hd (rotate_by 1 items) = items ! 1 \<and> 0 < [0, 1, 3 :: real] ! 1"
  unfolding Let_def
  by (rule static_weight_draw [OF refl]) (simp_all add: demo_env_def demo_world_def)

section \<open>Orders\<close>

lemma arranged_members:
  assumes "arranged t w g keys arr" and "k \<in> set keys" and "s \<in> set (available_in arr k)"
  shows "core s \<in> set (g k)" and "open_at t w (sel_key s)"
proof -
  have "image_mset core (mset (available_in arr k)) = filter_mset (\<lambda>pb. open_at t w (pair_key pb)) (mset (g k))"
    using assms(1) [unfolded arranged_def, rule_format, of "[k]"] assms(2) by simp
  from arg_cong [OF this, of set_mset] assms(3)
  show "core s \<in> set (g k)" "open_at t w (sel_key s)"
    by (auto simp: sel_key_core)
qed

lemma arranged_limited:
  assumes "arranged t w g keys arr" and "k \<in> set keys" and "s \<in> set (limited_in arr k)"
  shows "\<not> open_at t w (sel_key s)"
proof -
  have "image_mset core (mset (limited_in arr k)) = filter_mset (\<lambda>pb. \<not> open_at t w (pair_key pb)) (mset (g k))"
    using assms(1) [unfolded arranged_def, rule_format, of "[k]"] assms(2) by simp
  from arg_cong [OF this, of set_mset] assms(3) show ?thesis
    by (auto simp: sel_key_core)
qed

lemma sorted_concat_map:
  assumes "sorted keys" and "\<And>k x. k \<in> set keys \<Longrightarrow> x \<in> set (f k) \<Longrightarrow> g x = k"
  shows "sorted (map g (concat (map f keys)))"
  using assms
proof (induction keys)
  case (Cons k ks)
  have "map g (f k) = map (\<lambda>_. k) (f k)"
    using Cons.prems(2) [of k] by simp
  with Cons show ?case
    by (auto simp: sorted_append map_replicate_const)
qed simp

lemma sel_key_tag [simp]: "sel_key (s\<lparr>sl_reason := r\<rparr>) = sel_key s"
  by (simp add: sel_key_def)

lemma failover_emission:
  assumes "arranged t w (tier_group False [] (tiers_of e cfg model prefs mt it)) keys arr"
    and "keys = tier_keys (tiers_of e cfg model prefs mt it)" and "pl_mode pl \<noteq> ''explore''"
  shows "sorted (map (\<lambda>s. bk_priority (sl_backend s)) (filter (\<lambda>s. open_at t w (sel_key s))
           (fst (emit_legacy e' pl order [] arr keys w'))))"
proof -
  have out: "fst (emit_legacy e' pl order [] arr keys w') =
      concat (map (\<lambda>k. tag_reason (tier_label k @ sort_suffix (pl_sort pl)) (available_in arr k)) keys)
      @ concat (map (\<lambda>k. tag_reason ''ratelimited-fallback'' (limited_in arr k)) keys)"
    using assms(3)
    by (simp add: emit_legacy_def preferred_first_def legacy_tier_order_def Let_def split_beta tag_reason_def)
  have shut: "filter (\<lambda>s. open_at t w (sel_key s))
      (concat (map (\<lambda>k. tag_reason ''ratelimited-fallback'' (limited_in arr k)) keys)) = []"
    using arranged_limited [OF assms(1)] by (auto simp: filter_empty_conv tag_reason_def)
  have "sorted (map (\<lambda>s. bk_priority (sl_backend s)) (concat (map
      (\<lambda>k. filter (\<lambda>s. open_at t w (sel_key s)) (tag_reason (tier_label k @ sort_suffix (pl_sort pl)) (available_in arr k))) keys)))"
  proof (rule sorted_concat_map)
    show "sorted keys" by (simp add: assms(2) tier_keys_def)
    fix k s
    assume "k \<in> set keys"
      and "s \<in> set (filter (\<lambda>s. open_at t w (sel_key s)) (tag_reason (tier_label k @ sort_suffix (pl_sort pl)) (available_in arr k)))"
    then show "bk_priority (sl_backend s) = k"
      using arranged_members(1) [OF assms(1)]
      by (fastforce simp: tag_reason_def tier_group_def tiers_of_def tier_get_build core_def)
  qed
  then show ?thesis
    unfolding out filter_append shut by (simp add: filter_concat comp_def)
qed

text \<open>
  C7. Strict failover: without provider order and cache affinity, the available backends are tried in
  the order of their tiers.
\<close>

theorem failover_tier_order:
  assumes "model_by_id cfg mid = Some model" and "md_enabled model" and "mode_of cfg \<noteq> ''explore''"
    and "order_of prefs = None" and "\<not> affinity_active cfg ck"
  shows "sorted (map (\<lambda>s. bk_priority (sl_backend s))
           (filter (\<lambda>s. open_at t (configured cfg w) (sel_key s))
             (fst (select_backends (at_instant t (quiet e)) cfg mid mt it prefs ck w))))"
proof -
  define tiers where "tiers = tiers_of e cfg model prefs mt it"
  define pl where "pl = plan_of e cfg model prefs ck"
  define rot where "rot = next_rotation (md_id model) (configured cfg w)"
  define arr where "arr = arrange_tiers (at_instant t (quiet e)) (pl\<lparr>pl_rotation := fst rot\<rparr>)
      (map (\<lambda>k. (k, tier_group False [] tiers k)) (tier_keys tiers)) (snd rot)"
  have "arranged t (snd rot) (tier_group False [] tiers) (tier_keys tiers) (fst arr)"
    unfolding arr_def tiers_def by (rule arrange_tiers_arranged [OF tiers_of_matched]) (simp add: tiers_of_all [OF refl])
  then have arranged: "arranged t (configured cfg w) (tier_group False [] tiers) (tier_keys tiers) (fst arr)"
    by (simp add: arranged_def rot_def)
  have "fst (select_backends (at_instant t (quiet e)) cfg mid mt it prefs ck w) =
     (if tiers = [] then []
      else fst (emit_legacy (at_instant t (quiet e)) (pl\<lparr>pl_rotation := fst rot\<rparr>) None []
                  (fst arr) (tier_keys tiers) (snd arr)))"
    using assms by (simp add: select_backends_def Let_def split_beta preferred_of_def configured_def [symmetric]
        tiers_def [symmetric] pl_def [symmetric] rot_def [symmetric] arr_def [symmetric])
  moreover have "pl_mode (pl\<lparr>pl_rotation := fst rot\<rparr>) \<noteq> ''explore''"
    using assms(3) by (simp add: pl_def plan_of_def)
  ultimately show ?thesis
    using failover_emission [OF arranged [unfolded tiers_def] refl] by (simp add: tiers_def)
qed

theorem failover_tier_order_witness:
  "sorted (map (\<lambda>s. bk_priority (sl_backend s))
     (filter (\<lambda>s. open_at 1 (configured (demo_config ''failover'' False
                [demo_backend ''b'' 2 1, demo_backend ''a'' 1 1]) demo_world) (sel_key s))
       (fst (select_backends (at_instant 1 (quiet demo_env)) (demo_config ''failover'' False
                [demo_backend ''b'' 2 1, demo_backend ''a'' 1 1]) ''x'' None None None None demo_world))))"
  by (rule failover_tier_order [where model = "default_model ''x'' [demo_backend ''b'' 2 1, demo_backend ''a'' 1 1]"])
     (simp_all add: demo_defs mode_of_def affinity_active_def str_or_empty_def)

section \<open>What the stages leave alone\<close>

lemma filter_state_keeps:
  assumes "\<And>x w. f (snd (p x w)) = f w"
  shows "f (snd (filter_state p xs w)) = f w"
  by (induction xs arbitrary: w) (simp_all add: split_beta Let_def assms)

lemma routable_stats [simp]: "wd_stats (snd (routable e k w)) = wd_stats w"
  by (simp add: routable_def split_beta Let_def)

lemma not_routable_stats [simp]: "wd_stats (snd (not_routable e k w)) = wd_stats w"
  by (simp add: not_routable_def split_beta Let_def)

lemma split_routable_stats [simp]: "wd_stats (snd (split_routable e key xs w)) = wd_stats w"
  by (simp add: split_routable_def split_beta Let_def filter_state_keeps [of wd_stats])

lemma order_available_stats [simp]: "wd_stats (snd (order_available e pl a w)) = wd_stats w"
  by (simp add: order_available_def weighted_rotation_def static_weight_rotation_def draw_def split_beta Let_def)

lemma routable_rr [simp]: "wd_rr (snd (routable e k w)) = wd_rr w"
  by (simp add: routable_def split_beta Let_def)

lemma not_routable_rr [simp]: "wd_rr (snd (not_routable e k w)) = wd_rr w"
  by (simp add: not_routable_def split_beta Let_def)

lemma split_routable_rr [simp]: "wd_rr (snd (split_routable e key xs w)) = wd_rr w"
  by (simp add: split_routable_def split_beta Let_def filter_state_keeps [of wd_rr])

lemma sort_pass_rr [simp]: "wd_rr (snd (sort_pass e cfg b ck tps a l w)) = wd_rr w"
  by (simp add: sort_pass_def sort_context_def split_beta Let_def)

lemma order_available_rr [simp]: "wd_rr (snd (order_available e pl a w)) = wd_rr w"
  by (simp add: order_available_def weighted_rotation_def static_weight_rotation_def draw_def split_beta Let_def)

lemma arrange_tier_rr [simp]: "wd_rr (snd (arrange_tier e pl members w)) = wd_rr w"
  by (cases "pl_sort pl") (simp_all add: arrange_tier_def split_beta Let_def)

lemma arrange_tiers_rr [simp]: "wd_rr (snd (arrange_tiers e pl gs w)) = wd_rr w"
  by (induction gs arbitrary: w) (simp_all add: arrange_tiers_Cons Let_def del: arrange_tiers.simps(2))

section \<open>Warmth and load as the request finds them\<close>

text \<open>A backend is warm for a prompt when it was last seen serving it at most \<open>ttl\<close> seconds ago.\<close>

definition warm_at :: "st_state \<Rightarrow> time \<Rightarrow> string \<Rightarrow> real \<Rightarrow> string \<Rightarrow> bool" where
  "warm_at s now ck ttl k \<longleftrightarrow>
     (case dget (st_warmth s) ck of None \<Rightarrow> False
      | Some b \<Rightarrow> \<exists>be\<in>set b. fst be = k \<and> now - we_last_seen_ts (snd be) \<le> ttl)"

text \<open>
  The rank of a backend for a request with cache affinity: 0 warm and idle, 1 warm with fewer
  requests in flight than the cap, 2 cold and idle, 3 every other busy one.
\<close>

definition affinity_rank :: "env \<Rightarrow> gateway_config \<Rightarrow> string option \<Rightarrow> world \<Rightarrow> selected_backend \<Rightarrow> nat" where
  "affinity_rank e cfg ck w s =
     (let key = sel_backend_key s;
          n = bs_in_flight (get_stats (wd_stats w) key);
          warm = warm_at (wd_stats w) (en_wall e) (str_or_empty ck) (ttl_or_300 cfg) key;
          below = (case sv_max_inflight_before_spill (gw_server cfg) of None \<Rightarrow> True | Some c \<Rightarrow> int n < c)
      in if n = 0 then (if warm then 0 else 2) else if warm \<and> below then 1 else 3)"

lemma warm_backends_set:
  "ck \<noteq> [] \<Longrightarrow> set (fst (warm_backends_for s now ck cands ttl)) = {k \<in> set cands. warm_at s now ck ttl k}"
  by (cases "dget (st_warmth s) ck")
     (auto simp: warm_backends_for_def warm_at_def Let_def not_less image_iff filter_empty_conv)

lemma warm_backends_keep:
  "warm_at (snd (warm_backends_for s now ck' cands ttl)) now ck ttl = warm_at s now ck ttl"
  "st_stats (snd (warm_backends_for s now ck' cands ttl)) = st_stats s"
proof -
  show "warm_at (snd (warm_backends_for s now ck' cands ttl)) now ck ttl = warm_at s now ck ttl"
    by (cases "dget (st_warmth s) ck'"; rule ext)
       (auto simp: warm_backends_for_def warm_at_def Let_def not_less filter_empty_conv bex_simps split: prod.splits
         intro: bexI [rotated])
  show "st_stats (snd (warm_backends_for s now ck' cands ttl)) = st_stats s"
    by (cases "dget (st_warmth s) ck'") (simp_all add: warm_backends_for_def Let_def)
qed

definition affinity_view :: "env \<Rightarrow> gateway_config \<Rightarrow> string option \<Rightarrow> world \<Rightarrow> (string, backend_stats) dict \<times> (string \<Rightarrow> bool)" where
  "affinity_view e cfg ck w =
     (st_stats (wd_stats w), warm_at (wd_stats w) (en_wall e) (str_or_empty ck) (ttl_or_300 cfg))"

lemma affinity_view_stats:
  "wd_stats w' = wd_stats w \<Longrightarrow> affinity_view e cfg ck w' = affinity_view e cfg ck w"
  by (simp add: affinity_view_def)

lemma sort_pass_view:
  "affinity_view e cfg ck (snd (sort_pass e cfg b ck tps a l w)) = affinity_view e cfg ck w"
  by (simp add: affinity_view_def sort_pass_def sort_context_def split_beta Let_def warm_backends_keep)

lemma arrange_tier_view:
  assumes "pl_cfg pl = cfg" and "pl_cache_key pl = ck"
  shows "affinity_view e cfg ck (snd (arrange_tier e pl members w)) = affinity_view e cfg ck w"
proof (cases "pl_sort pl")
  case None
  then show ?thesis by (auto simp: arrange_tier_def split_beta Let_def intro: affinity_view_stats)
next
  case (Some b)
  then show ?thesis using assms 
    by (simp add: arrange_tier_def split_beta Let_def sort_pass_view) (rule affinity_view_stats, simp)
qed

lemma arrange_tiers_view:
  "pl_cfg pl = cfg \<Longrightarrow> pl_cache_key pl = ck \<Longrightarrow>
   affinity_view e cfg ck (snd (arrange_tiers e pl gs w)) = affinity_view e cfg ck w"
  by (induction gs arbitrary: w) (simp_all add: arrange_tiers_Cons Let_def arrange_tier_view del: arrange_tiers.simps(2))

lemma affinity_rank_view:
  "affinity_view e cfg ck w = affinity_view e cfg ck w' \<Longrightarrow> affinity_rank e cfg ck w = affinity_rank e cfg ck w'"
  by (simp add: affinity_rank_def affinity_view_def get_stats_def fun_eq_iff Let_def)

lemma affinity_rank_core: "core s = core s' \<Longrightarrow> affinity_rank e cfg ck w s = affinity_rank e cfg ck w s'"
  by (simp add: affinity_rank_def core_def sel_backend_key_def Let_def)

lemma in_flight_count: "in_flight_of (Stats.snapshot st) s = bs_in_flight (get_stats st (sel_backend_key s))"
proof -
  have "dget (Stats.snapshot st) k = map_option view_stats (dget (st_stats st) k)" for k
    by (simp add: Stats.snapshot_def map_of_map)
  then show ?thesis
    by (simp add: in_flight_of_def get_stats_def view_stats_def new_stats_def Let_def split: option.split)
qed

section \<open>Cache affinity\<close>

lemma sel_backend_key_tag [simp]: "sel_backend_key (s\<lparr>sl_reason := r\<rparr>) = sel_backend_key s"
  by (simp add: sel_backend_key_def)

lemma in_flight_tag [simp]: "in_flight_of snap (s\<lparr>sl_reason := r\<rparr>) = in_flight_of snap s"
  by (simp add: in_flight_of_def)

lemma affinity_rank_tag [simp]:
  "affinity_rank e cfg ck w (s\<lparr>sl_reason := r\<rparr>) = affinity_rank e cfg ck w s"
  by (rule affinity_rank_core) simp

lemma set_tiebreak [simp]: "set (apply_tiebreak xs order) = set xs"
  by (metis mset_tiebreak set_mset_mset)

lemma sorted_bands:
  fixes f :: "'a \<Rightarrow> nat"
  assumes "\<forall>x\<in>set A. f x = 0" and "\<forall>x\<in>set B. f x = 1" and "\<forall>x\<in>set C. f x = 2" and "\<forall>x\<in>set D. f x = 3"
  shows "sorted (map f (A @ B @ C @ D))"
proof -
  have "sorted (map f xs)" if "\<forall>x\<in>set xs. f x = n" for xs n
    using that by (induction xs) auto
  with assms have "sorted (map f A)" "sorted (map f B)" "sorted (map f C)" "sorted (map f D)"
    by blast+
  with assms show ?thesis by (auto simp: sorted_append)
qed

lemma affinity_bands_ranked:
  assumes "str_or_empty ck \<noteq> []"
  shows "sorted (map (affinity_rank e cfg ck w)
    (band_list (fst (affinity_bands e (str_or_empty ck) (ttl_or_300 cfg)
       (sv_max_inflight_before_spill (gw_server cfg)) order flat w))))"
proof -
  define warm where "warm = set (fst (warm_backends_for (wd_stats w) (en_wall e) (str_or_empty ck)
      (map sel_backend_key flat) (ttl_or_300 cfg)))"
  let ?snap = "Stats.snapshot (wd_stats w)"
  have warm: "sel_backend_key s \<in> warm \<longleftrightarrow>
      warm_at (wd_stats w) (en_wall e) (str_or_empty ck) (ttl_or_300 cfg) (sel_backend_key s)"
    if "s \<in> set flat" for s
    using that warm_backends_set [OF assms] by (simp add: warm_def)
  have rank: "affinity_rank e cfg ck w s =
     (if in_flight_of ?snap s = 0 then (if sel_backend_key s \<in> warm then 0 else 2)
      else if sel_backend_key s \<in> warm
              \<and> (case sv_max_inflight_before_spill (gw_server cfg) of None \<Rightarrow> True
                 | Some c \<Rightarrow> int (in_flight_of ?snap s) < c) then 1 else 3)" if "s \<in> set flat" for s
    using warm [OF that] by (simp add: affinity_rank_def Let_def in_flight_count cong: option.case_cong)
  note bands = affinity_bands_def band_list_def Let_def split_beta fst_conv snd_conv warm_def [symmetric]
  show ?thesis
  proof (cases "sv_max_inflight_before_spill (gw_server cfg)")
    case None
    then have below: "(case sv_max_inflight_before_spill (gw_server cfg) of None \<Rightarrow> True | Some c \<Rightarrow> int n < c)" for n
      by simp
    show ?thesis
      unfolding bands None option.case
      by (intro sorted_bands) (auto simp: tag_reason_def split_idle_busy_def rank below)
  next
    case (Some cap)
    then have below: "(case sv_max_inflight_before_spill (gw_server cfg) of None \<Rightarrow> True | Some c \<Rightarrow> int n < c)
        \<longleftrightarrow> int n < cap" for n
      by simp
    show ?thesis
      unfolding bands Some option.case
      by (split if_split; intro conjI impI; simp only: fst_conv snd_conv; intro sorted_bands)
         (auto simp: tag_reason_def split_idle_busy_def rank below)
  qed
qed

lemma emit_affinity_ranked:
  assumes "arranged t w g keys arr" and "str_or_empty ck \<noteq> []"
  shows "sorted (map (affinity_rank e cfg ck w) (filter (\<lambda>s. open_at t w (sel_key s))
           (fst (emit_cache_affinity (at_instant t (quiet e)) (str_or_empty ck) (ttl_or_300 cfg)
              (sv_max_inflight_before_spill (gw_server cfg)) order preferred arr keys w))))"
proof -
  let ?e = "at_instant t (quiet e)" and ?cap = "sv_max_inflight_before_spill (gw_server cfg)"
  define pk where "pk = sel_key ` set preferred"
  define w1 where "w1 = snd (filter_state (\<lambda>s. routable ?e (sel_key s)) preferred w)"
  define flat where "flat = filter (\<lambda>s. open_at t w (sel_key s)) preferred
      @ filter (\<lambda>s. sel_key s \<notin> pk) (concat (map (available_in arr) keys))"
  define bands where "bands = affinity_bands ?e (str_or_empty ck) (ttl_or_300 cfg) ?cap order flat w1"
  have "open_at t (snd bands) = open_at t w1" and "open_at t w1 = open_at t w"
    by (simp_all add: bands_def w1_def)
  then have out: "fst (emit_cache_affinity ?e (str_or_empty ck) (ttl_or_300 cfg) ?cap order preferred arr keys w) =
       band_list (fst bands)
       @ map (\<lambda>s. s\<lparr>sl_reason := ''ratelimited-fallback''\<rparr>) (filter (\<lambda>s. \<not> open_at t w (sel_key s)) preferred)
       @ tag_reason ''ratelimited-fallback'' (filter (\<lambda>s. sel_key s \<notin> pk) (concat (map (limited_in arr) keys)))"
    by (simp add: emit_cache_affinity_def split_beta Let_def rt.filter_result emit_limited_quiet
        pk_def [symmetric] w1_def [symmetric] flat_def [symmetric] bands_def [symmetric] band_list_def)
  have shut: "filter (\<lambda>s. open_at t w (sel_key s))
       (map (\<lambda>s. s\<lparr>sl_reason := ''ratelimited-fallback''\<rparr>) (filter (\<lambda>s. \<not> open_at t w (sel_key s)) preferred)
       @ tag_reason ''ratelimited-fallback'' (filter (\<lambda>s. sel_key s \<notin> pk) (concat (map (limited_in arr) keys)))) = []"
    using arranged_limited [OF assms(1)] by (auto simp: filter_empty_conv tag_reason_def)
  have "affinity_view ?e cfg ck w1 = affinity_view ?e cfg ck w"
    unfolding w1_def by (intro affinity_view_stats filter_state_keeps routable_stats)
  then have "affinity_rank ?e cfg ck w1 = affinity_rank ?e cfg ck w"
    by (rule affinity_rank_view)
  then have "affinity_rank ?e cfg ck w1 = affinity_rank e cfg ck w"
    by (simp add: affinity_rank_def at_instant_def quiet_def fun_eq_iff)
  then have "sorted (map (affinity_rank e cfg ck w) (band_list (fst bands)))"
    using affinity_bands_ranked [OF assms(2), of ?e cfg w1 order flat] by (simp add: bands_def)
  then show ?thesis
    unfolding out filter_append shut [unfolded filter_append] append_Nil2 by (rule sorted_filter)
qed

lemma add_suffix_key [simp]: "sel_key (add_suffix x s) = sel_key s"
  by (simp add: add_suffix_def)

lemma add_suffix_rank [simp]: "affinity_rank e cfg ck w (add_suffix x s) = affinity_rank e cfg ck w s"
  by (rule affinity_rank_core) simp

text \<open>
  C8. Cache affinity decides first.  When it is active, the available backends of a request are
  tried in this order, whatever tier, rotation, sorting or provider order say: the idle ones that are
  warm for the prompt, the warm ones with fewer requests in flight than the cap (all of
  them without a cap), the cold idle ones, and then every other busy one.  Warmth and load are those of
  the registries at the time of the call, and the clock stands still during the call.
\<close>

theorem affinity_band_order:
  assumes "model_by_id cfg mid = Some model" and "md_enabled model" and "affinity_active cfg ck"
  shows "sorted (map (affinity_rank e cfg ck w)
           (filter (\<lambda>s. open_at t (configured cfg w) (sel_key s))
             (fst (select_backends (at_instant t (quiet e)) cfg mid mt it prefs ck w))))"
proof -
  let ?e = "at_instant t (quiet e)"
  define tiers where "tiers = tiers_of e cfg model prefs mt it"
  define pref where "pref = preferred_of tiers prefs"
  define pl where "pl = plan_of e cfg model prefs ck"
  define rot where "rot = next_rotation (md_id model) (configured cfg w)"
  define arr where "arr = arrange_tiers ?e (pl\<lparr>pl_rotation := fst rot\<rparr>)
      (map (\<lambda>k. (k, tier_group True pref tiers k)) (tier_keys tiers)) (snd rot)"
  have matched: "list_all (\<lambda>k. list_all matched (tier_group True pref tiers k)) (tier_keys tiers)"
    unfolding tiers_def by (rule tiers_of_matched)
  have opens: "open_at t (snd rot) = open_at t (configured cfg w)" "open_at t (snd arr) = open_at t (configured cfg w)"
    using matched by (simp_all add: rot_def arr_def list_all_iff)
  have arranged: "arranged t (snd arr) (tier_group True pref tiers) (tier_keys tiers) (fst arr)"
    using arrange_tiers_arranged [OF matched, of t "snd rot"] opens
    by (simp add: arr_def arranged_def tiers_def tiers_of_all [OF refl])
  have "affinity_view ?e cfg ck (snd arr) = affinity_view ?e cfg ck (snd rot)"
    unfolding arr_def by (rule arrange_tiers_view) (simp_all add: pl_def plan_of_def)
  also have "\<dots> = affinity_view ?e cfg ck w"
    by (rule affinity_view_stats) (simp add: rot_def next_rotation_def Let_def configured_def)
  finally have "affinity_rank ?e cfg ck (snd arr) = affinity_rank ?e cfg ck w"
    by (rule affinity_rank_view)
  then have rank: "affinity_rank e cfg ck (snd arr) = affinity_rank e cfg ck w"
    by (simp add: affinity_rank_def at_instant_def quiet_def fun_eq_iff)
  have "fst (select_backends ?e cfg mid mt it prefs ck w) =
     (if tiers = [] then []
      else map (add_suffix (sort_suffix (sort_of prefs)))
             (fst (emit_cache_affinity ?e (str_or_empty ck) (ttl_or_300 cfg)
                (sv_max_inflight_before_spill (gw_server cfg)) (order_of prefs) pref (fst arr)
                (tier_keys tiers) (snd arr))))"
    using assms by (simp add: select_backends_def Let_def split_beta if_distrib [of fst] configured_def [symmetric]
        tiers_def [symmetric] pref_def [symmetric] pl_def [symmetric] rot_def [symmetric]
        arr_def [symmetric] split del: if_split cong del: if_weak_cong)
  moreover have "str_or_empty ck \<noteq> []"
    using assms(3) by (simp add: affinity_active_def)
  ultimately show ?thesis
    using emit_affinity_ranked [OF arranged, of ck e cfg "order_of prefs" pref]
    by (simp add: filter_map comp_def opens rank)
qed

section \<open>Round robin\<close>

text \<open>The eligible backends of the model's first tier, and the number the counter gives next.\<close>

definition first_tier ::
    "env \<Rightarrow> gateway_config \<Rightarrow> model_config \<Rightarrow> provider_prefs option \<Rightarrow> int option \<Rightarrow> int option
     \<Rightarrow> (provider_config \<times> backend_config) list" where
  "first_tier e cfg model prefs mt it =
     (let tiers = tiers_of e cfg model prefs mt it
      in case tier_keys tiers of [] \<Rightarrow> [] | k # ks \<Rightarrow> tier_get tiers k)"

definition rotation_of :: "world \<Rightarrow> string \<Rightarrow> nat" where
  "rotation_of w model_id = (case dget (wd_rr w) model_id of None \<Rightarrow> 0 | Some n \<Rightarrow> n)"

lemma next_rotation_result:
  "fst (next_rotation m w) = rotation_of w m" "rotation_of (snd (next_rotation m w)) m = Suc (rotation_of w m)"
  by (simp_all add: next_rotation_def rotation_of_def Let_def)

lemma arrange_tier_rotates:
  assumes "list_all matched members" and "pl_sort pl = None" and "pl_mode pl \<noteq> ''explore''"
    and "filter (\<lambda>pb. open_at t w (pair_key pb)) members = A" and "A \<noteq> []" and "\<forall>pb\<in>set A. bk_weight (snd pb) = 1"
  shows "fst (fst (arrange_tier (at_instant t e) pl members w))
       = rotate_by (pl_rotation pl mod length A) (map new_selected A)"
proof -
  have "filter (\<lambda>pb. open_at t w (bk_provider (snd pb), bk_model (snd pb))) members = A"
    unfolding assms(4) [symmetric]
    by (rule filter_cong [OF refl]) (use assms(1) in \<open>auto simp: list_all_iff matched_def pair_key_def\<close>)
  with assms show ?thesis
    by (auto simp: arrange_tier_def split_beta Let_def split_routable_result order_available_def new_selected_def)
qed

lemma legacy_rr:
  "pl_mode pl \<noteq> ''explore'' \<Longrightarrow>
   rotation_of (snd (emit_legacy (at_instant t (quiet e)) pl order [] arr keys w)) m = rotation_of w m"
  by (simp add: emit_legacy_def preferred_first_def legacy_tier_order_def Let_def split_beta)

lemma hd_legacy:
  assumes "pl_mode pl \<noteq> ''explore''" and "keys = k # ks" and "available_in arr k \<noteq> []"
  shows "core (hd (fst (emit_legacy (at_instant t (quiet e)) pl order [] arr keys w))) = core (hd (available_in arr k))"
  using assms
  by (cases "available_in arr k")
     (simp_all add: emit_legacy_def preferred_first_def legacy_tier_order_def Let_def split_beta tag_reason_def)

lemma select_rotates:
  assumes "model_by_id cfg mid = Some model" and "md_enabled model" and "mode_of cfg \<noteq> ''explore''"
    and "order_of prefs = None" and "sort_of prefs = None" and "\<not> affinity_active cfg ck"
    and avail: "filter (\<lambda>pb. open_at t (configured cfg w) (pair_key pb)) (first_tier e cfg model prefs mt it) = A"
    and "A \<noteq> []" and "\<forall>pb\<in>set A. bk_weight (snd pb) = 1"
  shows "core (hd (fst (select_backends (at_instant t (quiet e)) cfg mid mt it prefs ck w)))
           = A ! (rotation_of w (md_id model) mod length A)"
    and "rotation_of (snd (select_backends (at_instant t (quiet e)) cfg mid mt it prefs ck w)) (md_id model)
           = Suc (rotation_of w (md_id model))"
proof -
  let ?e = "at_instant t (quiet e)" and ?r = "rotation_of w (md_id model)"
  define tiers where "tiers = tiers_of e cfg model prefs mt it"
  define rot where "rot = next_rotation (md_id model) (configured cfg w)"
  define pl where "pl = (plan_of e cfg model prefs ck)\<lparr>pl_rotation := fst rot\<rparr>"
  define arr where "arr = arrange_tiers ?e pl (map (\<lambda>k. (k, tier_group False [] tiers k)) (tier_keys tiers)) (snd rot)"
  have "first_tier e cfg model prefs mt it \<noteq> []"
    using assms(8) avail by auto
  then obtain k ks where keys: "tier_keys tiers = k # ks" and first: "tier_get tiers k = first_tier e cfg model prefs mt it"
    by (auto simp: first_tier_def Let_def tiers_def split: list.splits)
  have ne: "tiers \<noteq> []"
    using keys by (auto simp: tier_keys_def)
  have rots: "fst rot = ?r" "rotation_of (snd rot) (md_id model) = Suc ?r"
    by (simp_all add: rot_def next_rotation_result) (simp_all add: rotation_of_def configured_def)
  have pl: "pl_mode pl \<noteq> ''explore''" "pl_sort pl = None" "pl_rotation pl = ?r"
    using assms(3,5) rots by (simp_all add: pl_def plan_of_def)
  have "list_all matched (tier_get tiers k)"
    using tiers_of_matched [of False "[]" e cfg model prefs mt it "[k]"] by (simp add: tiers_def tier_group_def)
  then have "available_in (fst arr) k = rotate_by (?r mod length A) (map new_selected A)"
    using assms(8,9) pl avail
    by (simp add: arr_def keys arrange_tiers_Cons Let_def available_in_def split_beta tier_group_def first
        arrange_tier_rotates rot_def del: arrange_tiers.simps(2))
  moreover have "?r mod length A < length A"
    using assms(8) by simp
  ultimately have hd: "available_in (fst arr) k \<noteq> []" "core (hd (available_in (fst arr) k)) = A ! (?r mod length A)"
    using assms(8) by (simp_all add: hd_rotate_by) (metis append_is_Nil_conv length_0_conv length_map rotate_by_def
        append_take_drop_id)
  have "select_backends ?e cfg mid mt it prefs ck w
      = emit_legacy ?e pl None [] (fst arr) (tier_keys tiers) (snd arr)"
    using assms(1-6) ne by (simp add: select_backends_def Let_def split_beta preferred_of_def configured_def [symmetric]
        tiers_def [symmetric] pl_def [symmetric] rot_def [symmetric] arr_def [symmetric])
  then show "core (hd (fst (select_backends ?e cfg mid mt it prefs ck w))) = A ! (?r mod length A)"
    and "rotation_of (snd (select_backends ?e cfg mid mt it prefs ck w)) (md_id model) = Suc ?r"
    using hd_legacy [OF pl(1) keys hd(1)] hd(2) legacy_rr [OF pl(1)] rots(2)
    by (simp_all add: arr_def rotation_of_def)
qed

lemma mset_rotate_lib: "mset (rotate n xs) = mset xs"
  using mset_rotate [of "n mod length xs" xs] by (simp add: rotate_drop_take rotate_by_def)

lemma mset_turns: "mset (map (\<lambda>i. xs ! ((r + i) mod length xs)) [0..<length xs]) = mset xs"
proof -
  have "map (\<lambda>i. xs ! ((r + i) mod length xs)) [0..<length xs] = rotate r xs"
    by (rule nth_equalityI) (simp_all add: nth_rotate)
  then show ?thesis by (simp only: mset_rotate_lib)
qed

text \<open>
  C9. Round robin is fair.  Take as many consecutive selections for a model as its first tier has
  available backends, in failover mode, without provider order, sorting and cache affinity, all weights of
  the available ones being 1 and the same ones available at every selection: each of them is offered first exactly
  once.  Between two selections anything may happen to the registries but another selection for this model;
  the counter each selection finds is the one its predecessor left.
\<close>

theorem round_robin_fair:
  assumes "model_by_id cfg mid = Some model" and "md_enabled model" and "mode_of cfg \<noteq> ''explore''"
    and "order_of prefs = None" and "sort_of prefs = None" and "\<not> affinity_active cfg ck"
    and avail: "\<forall>i<length A. filter (\<lambda>pb. open_at (ts i) (configured cfg (ws i)) (pair_key pb))
                               (first_tier e cfg model prefs mt it) = A"
    and "\<forall>pb\<in>set A. bk_weight (snd pb) = 1"
    and counter: "\<forall>i. Suc i < length A \<longrightarrow> rotation_of (ws (Suc i)) (md_id model)
        = rotation_of (snd (select_backends (at_instant (ts i) (quiet e)) cfg mid mt it prefs ck (ws i))) (md_id model)"
  shows "mset (map (\<lambda>i. core (hd (fst (select_backends (at_instant (ts i) (quiet e)) cfg mid mt it prefs ck (ws i)))))
                 [0..<length A]) = mset A"
proof -
  have step: "core (hd (fst (select_backends (at_instant (ts i) (quiet e)) cfg mid mt it prefs ck (ws i))))
        = A ! (rotation_of (ws i) (md_id model) mod length A)"
    "rotation_of (snd (select_backends (at_instant (ts i) (quiet e)) cfg mid mt it prefs ck (ws i))) (md_id model)
        = Suc (rotation_of (ws i) (md_id model))" if "i < length A" for i
  proof -
    from that have "A \<noteq> []" by auto
    from select_rotates [OF assms(1-6) avail [rule_format, OF that] this assms(8)]
    show "core (hd (fst (select_backends (at_instant (ts i) (quiet e)) cfg mid mt it prefs ck (ws i))))
        = A ! (rotation_of (ws i) (md_id model) mod length A)"
      and "rotation_of (snd (select_backends (at_instant (ts i) (quiet e)) cfg mid mt it prefs ck (ws i))) (md_id model)
        = Suc (rotation_of (ws i) (md_id model))" .
  qed
  have turn: "rotation_of (ws i) (md_id model) = rotation_of (ws 0) (md_id model) + i" if "i < length A" for i
    using that by (induction i) (simp_all add: counter step(2))
  have "map (\<lambda>i. core (hd (fst (select_backends (at_instant (ts i) (quiet e)) cfg mid mt it prefs ck (ws i))))) [0..<length A]
      = map (\<lambda>i. A ! ((rotation_of (ws 0) (md_id model) + i) mod length A)) [0..<length A]"
    by (rule map_cong) (simp_all add: step(1) turn)
  then show ?thesis by (simp only: mset_turns)
qed

text \<open>Two available backends of one tier, the counter being at 7 when the first request comes.\<close>

definition fair_config :: gateway_config where
  "fair_config = demo_config ''failover'' False [demo_backend ''a'' 1 1, demo_backend ''b'' 1 1]"

definition fair_worlds :: "nat \<Rightarrow> world" where
  "fair_worlds i = demo_world\<lparr>wd_rr := [(''x'', 7 + i)]\<rparr>"

definition fair_model :: model_config where
  "fair_model = default_model ''x'' [demo_backend ''a'' 1 1, demo_backend ''b'' 1 1]"

definition fair_pool :: "(provider_config \<times> backend_config) list" where
  "fair_pool = [(default_provider ''a'' [], demo_backend ''a'' 1 1), (default_provider ''b'' [], demo_backend ''b'' 1 1)]"

lemma fair_avail:
  "filter (\<lambda>pb. open_at (real i) (configured fair_config (fair_worlds i)) (pair_key pb))
     (first_tier demo_env fair_config fair_model None None None) = fair_pool"
  by (simp add: first_tier_def fair_config_def fair_model_def fair_pool_def demo_defs tiers_of_def eligible_def active_slot_def
      admit_def effective_cap_def ignore_of_def provider_by_id_def tier_add_def tier_get_def tier_keys_def Let_def
      open_at_def limit_free_def is_open_def configured_def fair_worlds_def configure_from_config_def configure_def
      rl_init_def cb_init_def)

lemma fair_request:
  "model_by_id fair_config ''x'' = Some fair_model" "md_enabled fair_model" "mode_of fair_config \<noteq> ''explore''"
  "order_of None = None" "sort_of None = None" "\<not> affinity_active fair_config None" "fair_pool \<noteq> []"
  "\<forall>pb\<in>set fair_pool. bk_weight (snd pb) = 1" "md_id fair_model = ''x''"
  by (simp_all add: fair_config_def fair_model_def fair_pool_def demo_defs mode_of_def sort_of_def affinity_active_def
      str_or_empty_def)

theorem round_robin_fair_witness:
  "mset (map (\<lambda>i. core (hd (fst (select_backends (at_instant (real i) (quiet demo_env)) fair_config ''x'' None None None None
            (fair_worlds i))))) [0..<length fair_pool]) = mset fair_pool"
  by (rule round_robin_fair [OF fair_request(1-6) _ fair_request(8)])
     (simp_all add: fair_avail select_rotates(2) [OF fair_request(1-6) fair_avail fair_request(7,8), unfolded fair_request(9)]
       fair_request(9),
      simp add: rotation_of_def fair_worlds_def)

theorem affinity_band_order_witness:
  "let cfg = demo_config ''failover'' True [demo_backend ''a'' 1 1, demo_backend ''b'' 2 1];
       w = demo_world\<lparr>wd_stats := start_request st_init ''a'' ''m''\<rparr>
   in sorted (map (affinity_rank demo_env cfg (Some ''k'') w)
        (filter (\<lambda>s. open_at 1 (configured cfg w) (sel_key s))
          (fst (select_backends (at_instant 1 (quiet demo_env)) cfg ''x'' None None None (Some ''k'') w))))"
  unfolding Let_def
  by (rule affinity_band_order [where model = "default_model ''x'' [demo_backend ''a'' 1 1, demo_backend ''b'' 2 1]"])
     (simp_all add: demo_defs affinity_active_def str_or_empty_def)

section \<open>What the emission order does not guarantee\<close>

text \<open>The gateway of these examples: two providers, \<open>a\<close> preferred and cooling down until 5.\<close>

definition cooling_world :: world where
  "cooling_world = demo_world\<lparr>wd_limits := set_cooldown rl_init 0 ''a'' ''m'' None\<rparr>"

definition two_backends :: gateway_config where
  "two_backends = demo_config ''failover'' False [demo_backend ''a'' 1 1, demo_backend ''b'' 2 1]"

lemmas emission_defs = demo_defs cooling_world_def two_backends_def select_backends_def tiers_of_def
  preferred_of_def tier_group_def plan_of_def eligible_def active_slot_def admit_def effective_cap_def
  ignore_of_def fallbacks_of_def sort_of_def affinity_active_def str_or_empty_def mode_of_def speeds_for_def
  provider_by_id_def tier_add_def tier_get_def tier_keys_def preferred_backends_def new_selected_def
  configure_from_config_def configure_def next_rotation_def arrange_tier_def split_routable_def routable_def
  not_routable_def order_available_def rotate_by_def available_in_def limited_in_def sel_key_def
  emit_legacy_def preferred_first_def legacy_tier_order_def tag_reason_def resumed_def
  at_instant_def is_available_def is_open_def rl_init_def cb_init_def set_cooldown_def backend_key_def
  core_def opt0_def

text \<open>
  A preferred backend whose cooldown runs out while the fallback is being tried is skipped: the
  generator asks again after the fallback's yield, finds it available, and leaves it out of the
  rate-limited rest.
\<close>

theorem recovered_preferred_is_skipped:
  "map (pv_id \<circ> sl_provider)
     (fst (select_backends (demo_env\<lparr>en_resume := \<lambda>n w. w\<lparr>wd_limits := rl_init\<rparr>\<rparr>) two_backends ''x'' None None
        (Some (ordered_prefs [''a''])) None cooling_world)) = [''b'']"
  by (simp add: emission_defs Let_def)

text \<open>
  A cooldown that ends between the two comprehensions over a tier hides the backend for this
  request: it is rate limited for the first and available for the second.
\<close>

theorem expiring_cooldown_hides_backend:
  "map (pv_id \<circ> sl_provider)
     (fst (select_backends (demo_env\<lparr>en_clock := \<lambda>n. if n = 0 then 4 else 5\<rparr>) two_backends ''x'' None None
        None None cooling_world)) = [''b'']"
  by (simp add: emission_defs Let_def)

text \<open>
  A provider named twice in \<open>order\<close> is offered twice.
\<close>

theorem repeated_order_repeats_backend:
  "map (pv_id \<circ> sl_provider)
     (fst (select_backends demo_env two_backends ''x'' None None (Some (ordered_prefs [''b'', ''b''])) None demo_world))
   = [''b'', ''b'', ''a'']"
  by (simp add: emission_defs Let_def)

end
