(* ===== verification/ConfigStore.thy ===== *)
theory ConfigStore
  imports Config
begin

text \<open>
  The configuration file on disk (\<^verbatim>\<open>src/localgateway/config.py\<close>, from \<open>_file_mtime\<close> on): five
  rotating backups, saving, mtime-based reloading with recovery from the newest backup that parses.

  The directory is \<open>main\<close> (\<open>config.json\<close>) and the slots \<open>.bak\<close>, \<open>.bak.1\<close>, \<dots>, a function
  from slot number to file content.  Reading a file and validating it (\<open>json.loads\<close> and pydantic)
  is \<open>parse\<close>, rendering one is \<open>dump\<close>; \<open>parse\<close> is \<open>None\<close> for the errors \<open>load_config\<close> catches
  (\<open>JSONDecodeError\<close>, \<open>ValueError\<close>, which pydantic's \<open>ValidationError\<close> is, and
  \<open>OSError\<close>); a file on which \<open>_parse\<close> raises something else is outside the model.  The
  \<open>OSError\<close>s the code swallows while it moves files are the argument \<open>faults\<close>: of a slot's
  \<open>unlink\<close> or \<open>rename\<close>, of dropping the slot past the last one, and of renaming the current file
  into slot 0.
\<close>

section \<open>State\<close>

record config_store =
  cs_main :: "bytes option"
  cs_slots :: "nat \<Rightarrow> bytes option"
  cs_mtime :: real
  cs_config :: "gateway_config option"
  cs_config_mtime :: real
  cs_recovered :: "nat option"

definition backup_keep :: nat where
  "backup_keep = 5"

datatype shift_fault = No_fault | Unlink_fails | Rename_fails

record disk_faults =
  df_shift :: "nat \<Rightarrow> shift_fault"
  df_drop :: bool
  df_current :: bool

definition no_faults :: disk_faults where
  "no_faults = \<lparr>df_shift = (\<lambda>_. No_fault), df_drop = False, df_current = False\<rparr>"

section \<open>Rotation\<close>

definition shift_slot :: "(nat \<Rightarrow> shift_fault) \<Rightarrow> nat \<Rightarrow> (nat \<Rightarrow> bytes option) \<Rightarrow> (nat \<Rightarrow> bytes option)" where
  "shift_slot faults i slots =
     (case slots i of
        None \<Rightarrow> slots
      | Some src \<Rightarrow>
          (case faults i of
             No_fault \<Rightarrow> slots(i + 1 := Some src, i := None)
           | Unlink_fails \<Rightarrow>
               (if slots (i + 1) \<noteq> None then slots else slots(i + 1 := Some src, i := None))
           | Rename_fails \<Rightarrow> slots(i + 1 := None)))"

text \<open>The slots from \<open>BACKUP_KEEP - 2\<close> down to 0, after the slot past the last one is dropped.\<close>

definition rotate_backups :: "disk_faults \<Rightarrow> (nat \<Rightarrow> bytes option) \<Rightarrow> (nat \<Rightarrow> bytes option)" where
  "rotate_backups faults slots =
     foldl (\<lambda>sl i. shift_slot (df_shift faults) i sl)
       (if df_drop faults then slots else slots(backup_keep := None)) (rev [0..<backup_keep - 1])"

definition last_good_backup :: "config_store \<Rightarrow> nat option" where
  "last_good_backup st = find (\<lambda>i. cs_slots st i \<noteq> None) [0..<backup_keep]"

definition file_mtime :: "config_store \<Rightarrow> real" where
  "file_mtime st = (if cs_main st = None then 0 else cs_mtime st)"

section \<open>Loading and saving\<close>

text \<open>The candidates are the file itself and then the backups, newest first.\<close>

definition candidates :: "config_store \<Rightarrow> (nat option \<times> bytes) list" where
  "candidates st =
     (case cs_main st of None \<Rightarrow> [] | Some c \<Rightarrow> [(None, c)])
     @ concat (map (\<lambda>i. case cs_slots st i of None \<Rightarrow> [] | Some c \<Rightarrow> [(Some i, c)]) [0..<backup_keep])"

fun first_parsed ::
    "(bytes \<Rightarrow> gateway_config option) \<Rightarrow> (nat option \<times> bytes) list \<Rightarrow> (nat option \<times> gateway_config) option"
where
  "first_parsed parse [] = None"
| "first_parsed parse ((src, c) # rest) =
     (case parse c of Some cfg \<Rightarrow> Some (src, cfg) | None \<Rightarrow> first_parsed parse rest)"

definition load_config ::
    "(bytes \<Rightarrow> gateway_config option) \<Rightarrow> config_store \<Rightarrow> gateway_config \<times> config_store" where
  "load_config parse st =
     (let mtime = file_mtime st
      in case cs_config st of
           Some cfg \<Rightarrow>
             if mtime = cs_config_mtime st then (cfg, st)
             else (let (cfg', used) =
                     (case first_parsed parse (candidates st) of
                        None \<Rightarrow> (default_gateway, None)
                      | Some (src, c) \<Rightarrow> (c, src))
                   in (cfg', st\<lparr>cs_config := Some cfg', cs_recovered := used, cs_config_mtime := mtime\<rparr>))
         | None \<Rightarrow>
             (let (cfg', used) =
                (case first_parsed parse (candidates st) of
                   None \<Rightarrow> (default_gateway, None)
                 | Some (src, c) \<Rightarrow> (c, src))
              in (cfg', st\<lparr>cs_config := Some cfg', cs_recovered := used, cs_config_mtime := mtime\<rparr>)))"

text \<open>
  \<open>save_config\<close> bumps the version, moves the current file out of the way (\<open>set_aside\<close>: rotate the
  backups and rename the file into slot 0; when that rename fails the file stays where it is) and puts
  the new one in place; \<open>mtime\<close> is the time stamp the file system gives it.  Writing the temporary
  file or \<open>os.replace\<close> may raise, which leaves the function after \<open>set_aside\<close>:
  \<open>failed_save\<close>, where \<open>cached\<close> is what the cached object has become by then (the callers change
  it in place before they save).
\<close>

definition set_aside :: "disk_faults \<Rightarrow> config_store \<Rightarrow> config_store" where
  "set_aside faults st =
     (case cs_main st of
        None \<Rightarrow> st
      | Some cur \<Rightarrow>
          (let slots = rotate_backups faults (cs_slots st)
           in if df_current faults then st\<lparr>cs_slots := slots\<rparr>
              else st\<lparr>cs_slots := slots(0 := Some cur), cs_main := None\<rparr>))"

definition save_config ::
    "(gateway_config \<Rightarrow> bytes) \<Rightarrow> disk_faults \<Rightarrow> real \<Rightarrow> gateway_config \<Rightarrow> config_store \<Rightarrow> config_store"
where
  "save_config dump faults mtime cfg st =
     (let cfg' = cfg\<lparr>gw_version := gw_version cfg + 1\<rparr>;
          data = dump cfg';
          st1 = set_aside faults st
      in st1\<lparr>cs_main := Some data, cs_mtime := mtime, cs_config := Some cfg', cs_recovered := None,
             cs_config_mtime := mtime\<rparr>)"

definition failed_save :: "disk_faults \<Rightarrow> gateway_config option \<Rightarrow> config_store \<Rightarrow> config_store" where
  "failed_save faults cached st = (set_aside faults st)\<lparr>cs_config := cached\<rparr>"

definition reload_config ::
    "(bytes \<Rightarrow> gateway_config option) \<Rightarrow> config_store \<Rightarrow> gateway_config \<times> config_store" where
  "reload_config parse st = load_config parse (st\<lparr>cs_config := None, cs_config_mtime := -1\<rparr>)"

section \<open>Lemmas\<close>

lemma rotate_backups_unfold:
  "rotate_backups faults slots =
     shift_slot (df_shift faults) 0 (shift_slot (df_shift faults) 1 (shift_slot (df_shift faults) 2
       (shift_slot (df_shift faults) 3 (if df_drop faults then slots else slots(5 := None)))))"
  by (simp add: rotate_backups_def backup_keep_def numeral_eq_Suc)

definition contiguous :: "(nat \<Rightarrow> bytes option) \<Rightarrow> bool" where
  "contiguous slots \<longleftrightarrow> (\<forall>i. slots i = None \<longrightarrow> slots (i + 1) = None)"

lemma rotate_contiguous:
  assumes "contiguous slots" and "i < 4"
  shows "rotate_backups no_faults slots (i + 1) = slots i"
proof -
  have step: "slots (Suc j) = None" if "slots j = None" for j
    using that assms(1) by (simp add: contiguous_def)
  have "i = 0 \<or> i = 1 \<or> i = 2 \<or> i = 3" using assms(2) by arith
  then show ?thesis
    using step [of 0] step [of 1] step [of 2] step [of 3]
    by (auto simp: rotate_backups_unfold shift_slot_def no_faults_def numeral_eq_Suc split: option.splits)
qed

lemma file_mtime_save [simp]: "file_mtime (save_config dump f mt cfg st) = mt"
  by (simp add: file_mtime_def save_config_def Let_def)

section \<open>Properties\<close>

text \<open>
  C14. Saving keeps the five newest generations: the file that was current becomes the first
  backup and every earlier backup moves up one slot.
\<close>

theorem save_keeps_generations:
  assumes "contiguous (cs_slots st)" and "cs_main st = Some cur" and "i < 4"
  shows "cs_slots (save_config dump no_faults mtime cfg st) 0 = Some cur
    \<and> cs_slots (save_config dump no_faults mtime cfg st) (i + 1) = cs_slots st i
    \<and> cs_main (save_config dump no_faults mtime cfg st)
        = Some (dump (cfg\<lparr>gw_version := gw_version cfg + 1\<rparr>))"
  using assms rotate_contiguous [OF assms(1,3)]
  by (simp add: save_config_def set_aside_def no_faults_def Let_def)

theorem save_keeps_generations_witness:
  "let st = \<lparr>cs_main = Some ''now'', cs_slots = (\<lambda>i. if i < 2 then Some ''old'' else None), cs_mtime = 1,
             cs_config = None, cs_config_mtime = -1, cs_recovered = None\<rparr>;
       st' = save_config (\<lambda>c. ''new'') no_faults 2 default_gateway st
   in cs_slots st' 0 = Some ''now'' \<and> cs_slots st' (1 + 1) = cs_slots st 1
      \<and> cs_main st' = Some ((\<lambda>c. ''new'') (default_gateway\<lparr>gw_version := gw_version default_gateway + 1\<rparr>))"
  unfolding Let_def
  by (rule save_keeps_generations) (simp_all add: contiguous_def)

text \<open>A file that is missing or that the loader rejects.\<close>

definition unreadable :: "(bytes \<Rightarrow> gateway_config option) \<Rightarrow> bytes option \<Rightarrow> bool" where
  "unreadable parse c = (case c of None \<Rightarrow> True | Some b \<Rightarrow> parse b = None)"

lemma first_parsed_append:
  "first_parsed parse (xs @ ys)
     = (case first_parsed parse xs of None \<Rightarrow> first_parsed parse ys | Some r \<Rightarrow> Some r)"
  by (induction xs) (auto split: option.splits)

definition slot_candidates :: "config_store \<Rightarrow> nat list \<Rightarrow> (nat option \<times> bytes) list" where
  "slot_candidates st is = concat (map (\<lambda>i. case cs_slots st i of None \<Rightarrow> [] | Some c \<Rightarrow> [(Some i, c)]) is)"

lemma first_parsed_none:
  "\<forall>i\<in>set is. unreadable parse (cs_slots st i) \<Longrightarrow> first_parsed parse (slot_candidates st is) = None"
  by (induction "is") (auto simp: slot_candidates_def unreadable_def split: option.splits)

lemma first_parsed_some:
  assumes "i < n" and "\<forall>j<i. unreadable parse (cs_slots st j)" and "cs_slots st i = Some b" and "parse b = Some cfg"
  shows "first_parsed parse (slot_candidates st [0..<n]) = Some (Some i, cfg)"
proof -
  have split: "[0..<n] = [0..<i] @ i # [Suc i..<n]"
    using assms(1) by (metis le_add1 add_0 less_imp_add_positive upt_add_eq_append upt_conv_Cons)
  have "slot_candidates st [0..<n] = slot_candidates st [0..<i] @ (Some i, b) # slot_candidates st [Suc i..<n]"
    unfolding split by (simp add: slot_candidates_def assms(3))
  moreover have "first_parsed parse (slot_candidates st [0..<i]) = None"
    using assms(2) by (intro first_parsed_none) simp
  ultimately show ?thesis
    by (simp add: first_parsed_append assms(4))
qed

lemma first_candidate:
  "first_parsed parse (candidates st) =
     (case cs_main st of
        None \<Rightarrow> first_parsed parse (slot_candidates st [0..<backup_keep])
      | Some b \<Rightarrow> (case parse b of
                     None \<Rightarrow> first_parsed parse (slot_candidates st [0..<backup_keep])
                   | Some cfg \<Rightarrow> Some (None, cfg)))"
  by (simp add: candidates_def slot_candidates_def split: option.split)

text \<open>
  C15. When nothing is cached or the file's time stamp has changed, a load serves the file if it can
  be read.  If not, it serves the newest of the five backups that can be read, missing or unreadable newer
  ones being passed over, and reports that backup's slot; if none can, the empty configuration.  What was loaded is
  served from then on, until the time stamp changes.
\<close>

theorem load_recovers_newest:
  assumes "cs_config st = None \<or> file_mtime st \<noteq> cs_config_mtime st"
  shows "(cs_main st = Some b \<and> parse b = Some cfg
            \<longrightarrow> fst (load_config parse st) = cfg \<and> cs_recovered (snd (load_config parse st)) = None)
       \<and> (unreadable parse (cs_main st) \<and> i < 5 \<and> (\<forall>j<i. unreadable parse (cs_slots st j))
            \<and> cs_slots st i = Some b \<and> parse b = Some cfg
            \<longrightarrow> fst (load_config parse st) = cfg \<and> cs_recovered (snd (load_config parse st)) = Some i)
       \<and> (unreadable parse (cs_main st) \<and> (\<forall>j<5. unreadable parse (cs_slots st j))
            \<longrightarrow> fst (load_config parse st) = default_gateway \<and> cs_recovered (snd (load_config parse st)) = None)
       \<and> load_config parse (snd (load_config parse st)) = load_config parse st"
proof -
  have load: "load_config parse st =
      (case first_parsed parse (candidates st) of
         None \<Rightarrow> (default_gateway, st\<lparr>cs_config := Some default_gateway, cs_recovered := None, cs_config_mtime := file_mtime st\<rparr>)
       | Some (src, c) \<Rightarrow> (c, st\<lparr>cs_config := Some c, cs_recovered := src, cs_config_mtime := file_mtime st\<rparr>))"
    using assms by (auto simp: load_config_def Let_def split: option.split)
  have "cs_config (snd (load_config parse st)) = Some (fst (load_config parse st))"
    and "cs_config_mtime (snd (load_config parse st)) = file_mtime (snd (load_config parse st))"
    by (simp_all add: load file_mtime_def split: option.split prod.split)
  then have again: "load_config parse (snd (load_config parse st)) = load_config parse st"
    by (simp add: load_config_def [of parse "snd (load_config parse st)"] Let_def)
  have newest: "unreadable parse (cs_main st) \<Longrightarrow>
      first_parsed parse (candidates st) = first_parsed parse (slot_candidates st [0..<5])"
    by (simp add: first_candidate unreadable_def backup_keep_def split: option.splits)
  show ?thesis
  proof (intro conjI impI again)
    assume a: "unreadable parse (cs_main st) \<and> i < 5 \<and> (\<forall>j<i. unreadable parse (cs_slots st j))
            \<and> cs_slots st i = Some b \<and> parse b = Some cfg"
    then have "first_parsed parse (candidates st) = Some (Some i, cfg)"
      using first_parsed_some [of i 5 parse st b cfg] newest by simp
    then show "fst (load_config parse st) = cfg" and "cs_recovered (snd (load_config parse st)) = Some i"
      by (simp_all add: load)
  next
    assume a: "unreadable parse (cs_main st) \<and> (\<forall>j<5. unreadable parse (cs_slots st j))"
    then have "first_parsed parse (candidates st) = None"
      using first_parsed_none [of "[0..<5]" parse st] newest by simp
    then show "fst (load_config parse st) = default_gateway" and "cs_recovered (snd (load_config parse st)) = None"
      by (simp_all add: load)
  qed (simp_all add: load first_candidate)
qed

text \<open>A file cut short, a missing slot 0 and an unreadable slot 1: slot 2 is served.\<close>

definition toy_parse :: "bytes \<Rightarrow> gateway_config option" where
  "toy_parse b =
     (if b = ''v0'' then Some default_gateway
      else if b = ''v1'' then Some (default_gateway\<lparr>gw_version := 1\<rparr>) else None)"

definition broken_store :: config_store where
  "broken_store = \<lparr>cs_main = Some ''{'', cs_slots = (\<lambda>i. if i = 1 then Some ''x'' else if i = 2 then Some ''v1''
                     else if i = 3 then Some ''v0'' else None), cs_mtime = 1,
                   cs_config = None, cs_config_mtime = -1, cs_recovered = None\<rparr>"

theorem load_recovers_newest_witness:
  "fst (load_config toy_parse broken_store) = default_gateway\<lparr>gw_version := 1\<rparr>
   \<and> cs_recovered (snd (load_config toy_parse broken_store)) = Some 2"
proof -
  have "\<forall>j<2. unreadable toy_parse (cs_slots broken_store j)"
    by (simp add: broken_store_def unreadable_def toy_parse_def)
  then show ?thesis
    using load_recovers_newest [of broken_store "''v1''" toy_parse "default_gateway\<lparr>gw_version := 1\<rparr>" 2]
    by (simp add: broken_store_def unreadable_def toy_parse_def)
qed

text \<open>
  A save that dies between setting the old file aside and putting the new one in place loses
  nothing that was on disk: the next load finds the old configuration in slot 0.
\<close>

theorem failed_save_recovers:
  assumes "\<not> df_current faults" and "cs_main st = Some old" and "parse old = Some cfg" and "cs_config_mtime st \<noteq> 0"
  shows "fst (load_config parse (failed_save faults cached st)) = cfg
       \<and> cs_recovered (snd (load_config parse (failed_save faults cached st))) = Some 0"
  using assms by (auto simp: load_config_def failed_save_def set_aside_def file_mtime_def Let_def first_candidate
      slot_candidates_def backup_keep_def upt_rec split: option.split)

text \<open>
  When the rename of the current file fails, which \<open>save_config\<close> swallows, the save goes through and
  the generation it replaces is in none of the files.
\<close>

theorem swallowed_rename_loses_generation:
  assumes "df_current faults" and "df_shift faults 0 = No_fault" and "cs_main st = Some cur"
    and "cs_slots st 0 = Some prev" and "\<not> df_drop faults"
  shows "cs_slots (save_config dump faults mtime cfg st) 0 = None
       \<and> cs_main (save_config dump faults mtime cfg st) = Some (dump (cfg\<lparr>gw_version := gw_version cfg + 1\<rparr>))"
proof -
  have "cs_slots (save_config dump faults mtime cfg st) 0 = rotate_backups faults (cs_slots st) 0"
    using assms by (simp add: save_config_def set_aside_def Let_def)
  moreover have "shift_slot f i sl 0 = sl 0" if "0 < i" for f i sl
    using that by (auto simp: shift_slot_def split: option.split shift_fault.split)
  ultimately have "cs_slots (save_config dump faults mtime cfg st) 0 = None"
    using assms by (auto simp: rotate_backups_unfold shift_slot_def [of _ 0] split: option.split)
  then show ?thesis by (simp add: save_config_def Let_def)
qed

end
