(* ===== verification/Sse.thy ===== *)
theory Sse
  imports Json
begin

text \<open>
  Server-sent events (\<^verbatim>\<open>src/localgateway/sse.py\<close>): the incremental parser, rendering, usage
  extraction and the stream accumulator.

  A parser is its buffer.  The codec of the standard library is the record \<open>codec\<close>:
  \<open>cd_decode\<close> is \<open>raw.decode("utf-8", errors="replace")\<close>, \<open>cd_loads\<close> is \<open>json.loads\<close> of a
  \<open>str\<close> and \<open>cd_loads_bytes\<close> of \<open>bytes\<close> (\<open>None\<close> when it raises), \<open>cd_dumps\<close> is
  \<open>json.dumps\<close> and \<open>cd_dumps_raw\<close> the variant with \<open>ensure_ascii=False\<close>.
\<close>

record codec =
  cd_decode :: "bytes \<Rightarrow> string"
  cd_loads :: "string \<Rightarrow> json option"
  cd_loads_bytes :: "bytes \<Rightarrow> json option"
  cd_dumps :: "json \<Rightarrow> string"
  cd_dumps_raw :: "json \<Rightarrow> string"

text \<open>A codec that reads nothing and prints everything as an empty object, for concrete runs.\<close>

definition demo_codec :: codec where
  "demo_codec = \<lparr>cd_decode = (\<lambda>s. s), cd_loads = (\<lambda>_. None), cd_loads_bytes = (\<lambda>_. None),
                 cd_dumps = (\<lambda>_. ''{}''), cd_dumps_raw = (\<lambda>_. ''{}'')\<rparr>"

lemma demo_codec_decode [simp]: "cd_decode demo_codec = (\<lambda>s. s)"
  by (simp add: demo_codec_def)

section \<open>Bytes\<close>

abbreviation (input) LF :: char where "LF \<equiv> CHR 0x0A"
abbreviation (input) CR :: char where "CR \<equiv> CHR 0x0D"

text \<open>\<open>b.replace(b"\\r\\n", b"\\n").replace(b"\\r", b"\\n")\<close>.\<close>

fun norm_newlines :: "bytes \<Rightarrow> bytes" where
  "norm_newlines [] = []"
| "norm_newlines (c # s) =
     (if c = CR then LF # (case s of [] \<Rightarrow> [] | d # s' \<Rightarrow> if d = LF then norm_newlines s' else norm_newlines s)
      else c # norm_newlines s)"

text \<open>\<open>buf.split(b"\\n\\n", 1)\<close> when the separator occurs.\<close>

fun find_break :: "bytes \<Rightarrow> (bytes \<times> bytes) option" where
  "find_break [] = None"
| "find_break (c # s) =
     (if c = LF \<and> s \<noteq> [] \<and> hd s = LF then Some ([], tl s)
      else case find_break s of None \<Rightarrow> None | Some (a, b) \<Rightarrow> Some (c # a, b))"

fun split_lines :: "string \<Rightarrow> string list" where
  "split_lines [] = [[]]"
| "split_lines (c # s) =
     (if c = LF then [] # split_lines s
      else case split_lines s of [] \<Rightarrow> [[c]] | l # ls \<Rightarrow> (c # l) # ls)"

fun join_lines :: "string list \<Rightarrow> string" where
  "join_lines [] = []"
| "join_lines [l] = l"
| "join_lines (l # ls) = l @ LF # join_lines ls"

definition rstrip_lf :: "bytes \<Rightarrow> bytes" where
  "rstrip_lf s = rev (dropWhile (\<lambda>c. c = LF) (rev s))"

text \<open>\<open>not b.strip()\<close> of \<open>bytes\<close>.\<close>

definition blank_bytes :: "bytes \<Rightarrow> bool" where
  "blank_bytes s \<longleftrightarrow> list_all (\<lambda>c. byte c = 32 \<or> (9 \<le> byte c \<and> byte c \<le> 13)) s"

section \<open>Events\<close>

record sse_event =
  ev_data :: string
  ev_done :: bool
  ev_raw :: "bytes option"

definition done_marker :: string where
  "done_marker = ''[DONE]''"

definition data_line :: "string \<Rightarrow> string option" where
  "data_line line =
     (if line = [] \<or> prefix '':'' line then None
      else if prefix ''data:'' line
      then Some (let r = drop 5 line in if prefix '' '' r then drop 1 r else r)
      else None)"

definition parse_block :: "codec \<Rightarrow> bytes \<Rightarrow> sse_event option" where
  "parse_block cd raw =
     (let data_lines = List.map_filter data_line (split_lines (cd_decode cd raw))
      in if data_lines = [] then None
         else let data = join_lines data_lines
              in Some \<lparr>ev_data = data, ev_done = (strip data = done_marker), ev_raw = None\<rparr>)"

text \<open>The loop \<open>while b"\\n\\n" in self._buf\<close>.\<close>

lemma find_break_length: "find_break s = Some (a, b) \<Longrightarrow> length b + 2 \<le> length s"
  by (induction s arbitrary: a b) (auto split: if_splits option.splits simp: neq_Nil_conv)

function drain :: "codec \<Rightarrow> bytes \<Rightarrow> sse_event list \<times> bytes" where
  "drain cd buf =
     (case find_break buf of
        None \<Rightarrow> ([], buf)
      | Some (raw, rest) \<Rightarrow>
          (let (evs, buf') = drain cd rest
           in (case parse_block cd raw of
                 None \<Rightarrow> evs
               | Some ev \<Rightarrow> ev\<lparr>ev_raw := Some (raw @ [LF, LF])\<rparr> # evs, buf')))"
  by pat_completeness auto
termination
  by (relation "measure (length \<circ> snd)") (auto dest: find_break_length)

declare drain.simps [simp del]

definition feed :: "codec \<Rightarrow> bytes \<Rightarrow> bytes \<Rightarrow> sse_event list \<times> bytes" where
  "feed cd buf chunk =
     (let (buf1, chunk1) =
        (if chunk = [] then (buf, chunk)
         else if buf \<noteq> [] \<and> last buf = CR
         then (butlast buf @ [LF], if hd chunk = LF then tl chunk else chunk)
         else (buf, chunk))
      in drain cd (if chunk = [] then buf1 else buf1 @ norm_newlines chunk1))"

definition flush :: "codec \<Rightarrow> bytes \<Rightarrow> sse_event option \<times> bytes" where
  "flush cd buf =
     (if blank_bytes buf then (None, [])
      else (case parse_block cd buf of
              None \<Rightarrow> None
            | Some ev \<Rightarrow> Some (ev\<lparr>ev_raw := Some (rstrip_lf buf @ [LF, LF])\<rparr>), []))"

definition render_event :: "sse_event \<Rightarrow> bytes" where
  "render_event ev =
     (case ev_raw ev of
        Some raw \<Rightarrow> raw
      | None \<Rightarrow>
          if ev_done ev then ''data: [DONE]'' @ [LF, LF]
          else concat (map (\<lambda>line. ''data: '' @ line @ [LF]) (split_lines (ev_data ev))) @ [LF])"

text \<open>A parser fed with a list of chunks.\<close>

fun feed_all :: "codec \<Rightarrow> bytes \<Rightarrow> bytes list \<Rightarrow> sse_event list \<times> bytes" where
  "feed_all cd buf [] = ([], buf)"
| "feed_all cd buf (c # cs) =
     (let (e1, b1) = feed cd buf c; (e2, b2) = feed_all cd b1 cs in (e1 @ e2, b2))"

section \<open>Usage\<close>

record stream_usage =
  su_input :: "int option"
  su_output :: "int option"
  su_reasoning :: "int option"
  su_cached :: "int option"
  su_cache_write :: "int option"

definition no_usage :: stream_usage where
  "no_usage = \<lparr>su_input = None, su_output = None, su_reasoning = None, su_cached = None, su_cache_write = None\<rparr>"

definition or_else :: "'a option \<Rightarrow> 'a option \<Rightarrow> 'a option" where
  "or_else a b = (case a of None \<Rightarrow> b | Some x \<Rightarrow> Some x)"

definition py_or :: "json \<Rightarrow> json \<Rightarrow> json" where
  "py_or a b = (if truthy a then a else b)"

definition usage_from_dict :: "jobj \<Rightarrow> stream_usage" where
  "usage_from_dict usage =
     (let details = as_obj (jget usage ''completion_tokens_details'');
          prompt_details = as_obj (jget usage ''prompt_tokens_details'');
          cached = Option.bind prompt_details (\<lambda>d. as_int (jget d ''cached_tokens''));
          cw = Option.bind prompt_details
                 (\<lambda>d. as_int (py_or (jget d ''cache_write_tokens'') (jget d ''cache_read_tokens'')))
      in \<lparr>su_input = as_int (jget usage ''prompt_tokens''),
          su_output = as_int (jget usage ''completion_tokens''),
          su_reasoning = Option.bind details (\<lambda>d. as_int (jget d ''reasoning_tokens'')),
          su_cached = or_else (as_int (jget usage ''cache_read_input_tokens'')) cached,
          su_cache_write = or_else (as_int (jget usage ''cache_creation_input_tokens'')) cw\<rparr>)"

definition merge_usage :: "stream_usage \<Rightarrow> stream_usage \<Rightarrow> stream_usage" where
  "merge_usage a b =
     \<lparr>su_input = or_else (su_input b) (su_input a), su_output = or_else (su_output b) (su_output a),
      su_reasoning = or_else (su_reasoning b) (su_reasoning a), su_cached = or_else (su_cached b) (su_cached a),
      su_cache_write = or_else (su_cache_write b) (su_cache_write a)\<rparr>"

section \<open>The accumulator\<close>

text \<open>
  \<open>elapsed\<close> is \<open>int((time.monotonic() - self._start) * 1000)\<close> at the call.  \<open>len(content)\<close> raises
  \<open>TypeError\<close> for a truthy number.
\<close>

record accumulator =
  ac_buf :: bytes
  ac_usage :: stream_usage
  ac_saw_done :: bool
  ac_ttft_ms :: "int option"
  ac_content_len :: nat
  ac_first_byte_ms :: "int option"

definition new_accumulator :: accumulator where
  "new_accumulator = \<lparr>ac_buf = [], ac_usage = no_usage, ac_saw_done = False, ac_ttft_ms = None,
                      ac_content_len = 0, ac_first_byte_ms = None\<rparr>"

fun py_json_len :: "json \<Rightarrow> nat option" where
  "py_json_len (JStr s) = Some (py_len s)"
| "py_json_len (JList xs) = Some (length xs)"
| "py_json_len (JObj d) = Some (length d)"
| "py_json_len _ = None"

definition delta_content :: "jobj \<Rightarrow> json" where
  "delta_content delta =
     py_or (py_or (jget delta ''content'') (jget delta ''reasoning_content'')) (jget delta ''reasoning'')"

definition first_delta :: "jobj \<Rightarrow> jobj option" where
  "first_delta obj =
     (case jget obj ''choices'' of
        JList (JObj c # _) \<Rightarrow> as_obj (jget c ''delta'')
      | _ \<Rightarrow> None)"

definition observe :: "codec \<Rightarrow> int \<Rightarrow> accumulator \<Rightarrow> sse_event \<Rightarrow> py_error + accumulator" where
  "observe cd elapsed acc ev =
     (if ev_done ev then Inr (acc\<lparr>ac_saw_done := True\<rparr>)
      else case Option.bind (cd_loads cd (ev_data ev)) as_obj of
             None \<Rightarrow> Inr acc
           | Some obj \<Rightarrow>
               let acc1 = (case as_obj (jget obj ''usage'') of
                             None \<Rightarrow> acc
                           | Some u \<Rightarrow> acc\<lparr>ac_usage := merge_usage (ac_usage acc) (usage_from_dict u)\<rparr>)
               in case first_delta obj of
                    None \<Rightarrow> Inr acc1
                  | Some delta \<Rightarrow>
                      let content = delta_content delta
                      in if \<not> truthy content then Inr acc1
                         else let acc2 = (if ac_ttft_ms acc1 = None then acc1\<lparr>ac_ttft_ms := Some elapsed\<rparr> else acc1)
                              in case py_json_len content of
                                   None \<Rightarrow> Inl TypeError
                                 | Some n \<Rightarrow> Inr (acc2\<lparr>ac_content_len := ac_content_len acc2 + n\<rparr>))"

fun observe_all :: "codec \<Rightarrow> int \<Rightarrow> accumulator \<Rightarrow> sse_event list \<Rightarrow> py_error + accumulator" where
  "observe_all cd elapsed acc [] = Inr acc"
| "observe_all cd elapsed acc (ev # evs) =
     (case observe cd elapsed acc ev of Inl e \<Rightarrow> Inl e | Inr acc1 \<Rightarrow> observe_all cd elapsed acc1 evs)"

definition acc_feed :: "codec \<Rightarrow> int \<Rightarrow> accumulator \<Rightarrow> bytes \<Rightarrow> (py_error + accumulator) \<times> sse_event list" where
  "acc_feed cd elapsed acc chunk =
     (let acc1 = (if ac_first_byte_ms acc = None \<and> \<not> blank_bytes chunk
                  then acc\<lparr>ac_first_byte_ms := Some elapsed\<rparr> else acc);
          (evs, buf) = feed cd (ac_buf acc1) chunk
      in (observe_all cd elapsed (acc1\<lparr>ac_buf := buf\<rparr>) evs, evs))"

definition acc_finish :: "codec \<Rightarrow> int \<Rightarrow> accumulator \<Rightarrow> (py_error + accumulator) \<times> sse_event list" where
  "acc_finish cd elapsed acc =
     (let (ev, buf) = flush cd (ac_buf acc); acc1 = acc\<lparr>ac_buf := buf\<rparr>
      in case ev of
           None \<Rightarrow> (Inr acc1, [])
         | Some e \<Rightarrow> (observe cd elapsed acc1 e, [e]))"

definition estimated_output_tokens :: "accumulator \<Rightarrow> int option" where
  "estimated_output_tokens acc =
     (if ac_content_len acc \<le> 0 then None else Some (max 1 (int (ac_content_len acc div 4))))"

section \<open>Lemmas\<close>

lemma find_break_append: "find_break s = Some (a, b) \<Longrightarrow> find_break (s @ t) = Some (a, b @ t)"
proof (induction s arbitrary: a b)
  case (Cons c s)
  then show ?case
    by (cases s) (auto split: if_splits option.splits)
qed simp

lemma find_break_split: "find_break s = Some (a, b) \<Longrightarrow> s = a @ LF # LF # b"
  by (induction s arbitrary: a b) (auto split: if_splits option.splits simp: neq_Nil_conv)

lemma drain_append:
  "drain cd (s @ t) =
     (let (e1, b1) = drain cd s; (e2, b2) = drain cd (b1 @ t) in (e1 @ e2, b2))"
proof (induction cd s rule: drain.induct)
  case (1 cd s)
  show ?case
  proof (cases "find_break s")
    case None
    then show ?thesis by (simp add: drain.simps [of cd s])
  next
    case (Some ab)
    obtain a b where ab: "ab = (a, b)" by (cases ab)
    with Some 1 show ?thesis
      by (simp add: drain.simps [of cd s] drain.simps [of cd "s @ t"] find_break_append split_beta Let_def
          split: option.splits)
  qed
qed

lemma norm_simps [simp]:
  "norm_newlines [CR] = [LF]"
  "norm_newlines (CR # LF # s) = LF # norm_newlines s"
  "d \<noteq> LF \<Longrightarrow> norm_newlines (CR # d # s) = LF # norm_newlines (d # s)"
  "c \<noteq> CR \<Longrightarrow> norm_newlines (c # s) = c # norm_newlines s"
  by simp_all

declare norm_newlines.simps(2) [simp del]

lemma norm_induct [case_names Nil One Both Lone Other]:
  assumes "P []" and "P [CR]" and "\<And>s. P s \<Longrightarrow> P (CR # LF # s)"
    and "\<And>d s. d \<noteq> LF \<Longrightarrow> P (d # s) \<Longrightarrow> P (CR # d # s)" and "\<And>c s. c \<noteq> CR \<Longrightarrow> P s \<Longrightarrow> P (c # s)"
  shows "P s"
proof (induction s rule: length_induct)
  case (1 s)
  then show ?case
  proof (cases s)
    case (Cons c s')
    show ?thesis
    proof (cases "c = CR")
      case True
      with Cons 1 assms show ?thesis
        by (cases s'; cases "hd s' = LF") auto
    qed (use Cons 1 assms in auto)
  qed (use assms in simp)
qed

lemma norm_no_CR: "CR \<notin> set (norm_newlines s)"
  by (induction s rule: norm_induct) simp_all

lemma norm_id: "CR \<notin> set s \<Longrightarrow> norm_newlines s = s"
  by (induction s) auto

lemma norm_append:
  "\<not> (s \<noteq> [] \<and> last s = CR \<and> t \<noteq> [] \<and> hd t = LF) \<Longrightarrow> norm_newlines (s @ t) = norm_newlines s @ norm_newlines t"
proof (induction s rule: norm_induct)
  case One
  then show ?case by (cases t) simp_all
next
  case (Both s)
  then show ?case by (cases s) simp_all
next
  case (Lone d s)
  then show ?case by simp
next
  case (Other c s)
  then show ?case by (cases s) simp_all
qed simp

lemma drain_buffer: "set (snd (drain cd s)) \<subseteq> set s"
proof (induction cd s rule: drain.induct)
  case (1 cd s)
  show ?case
  proof (cases "find_break s")
    case (Some ab)
    then obtain a b where ab: "find_break s = Some (a, b)" by (cases ab) simp
    have "set (snd (drain cd s)) = set (snd (drain cd b))"
      by (simp add: drain.simps [of cd s] ab split_beta Let_def split: option.splits)
    with 1 [OF ab refl] find_break_split [OF ab] show ?thesis by auto
  qed (simp add: drain.simps [of cd s])
qed

text \<open>The buffer never holds a carriage return, so the branch for a split line ending is dead.\<close>

lemma feed_eq: "CR \<notin> set buf \<Longrightarrow> feed cd buf chunk = drain cd (buf @ norm_newlines chunk)"
proof -
  assume "CR \<notin> set buf"
  then have "\<not> (buf \<noteq> [] \<and> last buf = CR)" using last_in_set by fastforce
  then show ?thesis by (auto simp: feed_def)
qed

lemma feed_buffer: "CR \<notin> set buf \<Longrightarrow> CR \<notin> set (snd (feed cd buf chunk))"
  using drain_buffer [of cd "buf @ norm_newlines chunk"] norm_no_CR [of chunk] by (auto simp: feed_eq)

fun clean_cuts :: "bool \<Rightarrow> bytes list \<Rightarrow> bool" where
  "clean_cuts after_cr [] = True"
| "clean_cuts after_cr (c # cs) =
     (if c = [] then clean_cuts after_cr cs else \<not> (after_cr \<and> hd c = LF) \<and> clean_cuts (last c = CR) cs)"

lemma clean_cuts_hd: "clean_cuts True cs \<Longrightarrow> concat cs \<noteq> [] \<Longrightarrow> hd (concat cs) \<noteq> LF"
  by (induction cs) (auto simp: hd_append split: if_splits)

lemma clean_cuts_mono: "clean_cuts b cs \<Longrightarrow> clean_cuts False cs"
  by (induction cs arbitrary: b) (auto split: if_splits)

lemma norm_concat: "clean_cuts b cs \<Longrightarrow> norm_newlines (concat cs) = concat (map norm_newlines cs)"
proof (induction cs arbitrary: b)
  case (Cons c cs)
  show ?case
  proof (cases "c = []")
    case False
    then have "clean_cuts (last c = CR) cs" using Cons.prems by simp
    then have "\<not> (c \<noteq> [] \<and> last c = CR \<and> concat cs \<noteq> [] \<and> hd (concat cs) = LF)"
      using clean_cuts_hd [of cs] by (cases "last c = CR") (auto simp del: concat_eq_Nil_conv)
    then have "norm_newlines (c @ concat cs) = norm_newlines c @ norm_newlines (concat cs)"
      by (rule norm_append)
    with Cons show ?thesis using \<open>clean_cuts (last c = CR) cs\<close> by simp
  qed (use Cons in simp)
qed simp

lemma feed_all_eq: "CR \<notin> set buf \<Longrightarrow> feed_all cd buf cs = (let r = drain cd (buf @ concat (map norm_newlines cs)) in
    if cs = [] then ([], buf) else r)"
proof (induction cs arbitrary: buf)
  case (Cons c cs)
  have IH: "feed_all cd (snd (feed cd buf c)) cs =
      (if cs = [] then ([], snd (feed cd buf c))
       else drain cd (snd (feed cd buf c) @ concat (map norm_newlines cs)))"
    using Cons.IH [OF feed_buffer [OF Cons.prems]] by (simp add: Let_def split del: if_split)
  show ?case
    using drain_append [of cd "buf @ norm_newlines c" "concat (map norm_newlines cs)"]
    by (cases "cs = []") (simp_all add: IH [unfolded feed_eq [OF Cons.prems]] split_beta Let_def feed_eq [OF Cons.prems])
qed simp

section \<open>Properties\<close>

text \<open>
  C17. How the network cuts the stream does not matter: whatever the chunks, the parser returns the
  same events and keeps the same rest as for the whole stream at once, unless a cut falls between
  the carriage return and the line feed of one line ending.
\<close>

theorem chunking_irrelevant:
  assumes "clean_cuts False chunks"
  shows "feed_all cd [] chunks = feed cd [] (concat chunks)"
  using norm_concat [OF assms] by (simp add: feed_all_eq feed_eq Let_def drain.simps)

theorem chunking_irrelevant_witness:
  "feed_all demo_codec [] [''data: a'' @ [CR, LF], [CR], ''da'', [], ''ta: b'' @ [LF]] =
   feed demo_codec [] (concat [''data: a'' @ [CR, LF], [CR], ''da'', [], ''ta: b'' @ [LF]])"
  by (rule chunking_irrelevant) simp

text \<open>
  A cut inside a CRLF turns one event into two: the parser has already rewritten the carriage
  return at the end of the first chunk, so its check for a split line ending never fires and the
  line feed of the next chunk reads as a blank line.
\<close>

theorem split_crlf_breaks_event:
  "map ev_data (fst (feed_all (cd\<lparr>cd_decode := \<lambda>s. s\<rparr>) [] [''data: a'' @ [CR], [LF] @ ''data: b'' @ [LF, LF]])) = [''a'', ''b'']
   \<and> map ev_data (fst (feed (cd\<lparr>cd_decode := \<lambda>s. s\<rparr>) [] (concat [''data: a'' @ [CR], [LF] @ ''data: b'' @ [LF, LF]])))
     = [''a'' @ [LF] @ ''b'']"
  by (simp add: feed_def drain.simps parse_block_def List.map_filter_simps data_line_def Let_def)

text \<open>The blocks of a stream, for reference: the pieces before each blank line, and the rest.\<close>

function blocks :: "bytes \<Rightarrow> bytes list \<times> bytes" where
  "blocks s = (case find_break s of None \<Rightarrow> ([], s) | Some (b, r) \<Rightarrow> (b # fst (blocks r), snd (blocks r)))"
  by pat_completeness auto
termination
  by (relation "measure length") (auto dest: find_break_length)

declare blocks.simps [simp del]

lemma blocks_concat: "concat (map (\<lambda>b. b @ [LF, LF]) (fst (blocks s))) @ snd (blocks s) = s"
proof (induction s rule: blocks.induct)
  case (1 s)
  show ?case
  proof (cases "find_break s")
    case (Some br)
    then obtain b r where br: "find_break s = Some (b, r)" by (cases br) simp
    have "concat (map (\<lambda>b. b @ [LF, LF]) (fst (blocks s))) @ snd (blocks s) = b @ LF # LF # r"
      using 1 [OF br refl] by (simp add: blocks.simps [of s] br)
    with find_break_split [OF br] show ?thesis by simp
  qed (simp add: blocks.simps [of s])
qed

lemma drain_blocks:
  "drain cd s =
     (List.map_filter (\<lambda>b. map_option (\<lambda>ev. ev\<lparr>ev_raw := Some (b @ [LF, LF])\<rparr>) (parse_block cd b)) (fst (blocks s)),
      snd (blocks s))"
proof (induction cd s rule: drain.induct)
  case (1 cd s)
  show ?case
  proof (cases "find_break s")
    case (Some br)
    then obtain b r where br: "find_break s = Some (b, r)" by (cases br) simp
    with 1 [OF br refl] show ?thesis
      by (simp add: blocks.simps [of s] drain.simps [of cd s] List.map_filter_simps split: option.splits)
  qed (simp add: blocks.simps [of s] drain.simps [of cd s] List.map_filter_simps)
qed

lemma render_blocks:
  "\<forall>b\<in>set bs. parse_block cd b \<noteq> None \<Longrightarrow>
   concat (map render_event
     (List.map_filter (\<lambda>b. map_option (\<lambda>ev. ev\<lparr>ev_raw := Some (b @ [LF, LF])\<rparr>) (parse_block cd b)) bs))
   = concat (map (\<lambda>b. b @ [LF, LF]) bs)"
  by (induction bs) (auto simp: List.map_filter_simps render_event_def)

text \<open>
  Passing events through changes no byte but the line endings: rendering the events of a chunk
  gives the buffered and the new bytes back, up to the rest that is still buffered, as long as every
  block has a data line.
\<close>

theorem passthrough_verbatim:
  assumes "CR \<notin> set buf" and "\<forall>b\<in>set (fst (blocks (buf @ norm_newlines chunk))). parse_block cd b \<noteq> None"
  shows "concat (map render_event (fst (feed cd buf chunk))) @ snd (feed cd buf chunk) = buf @ norm_newlines chunk"
  by (simp only: feed_eq [OF assms(1)] drain_blocks fst_conv snd_conv render_blocks [OF assms(2)] blocks_concat)

theorem passthrough_verbatim_witness:
  "let cd = demo_codec; chunk = ''nt: m'' @ [CR, LF] @ ''data: a'' @ [LF, LF] @ ''data''
   in concat (map render_event (fst (feed cd ''eve'' chunk))) @ snd (feed cd ''eve'' chunk)
        = ''eve'' @ norm_newlines chunk"
  unfolding Let_def
  by (rule passthrough_verbatim)
     (simp_all add: blocks.simps parse_block_def List.map_filter_simps data_line_def Let_def)

lemma split_lines_neq [simp]: "split_lines s \<noteq> []"
  by (cases s) (auto split: list.splits)

lemma split_lines_clean: "l \<in> set (split_lines s) \<Longrightarrow> LF \<notin> set l"
  by (induction s arbitrary: l) (auto split: list.splits if_splits)

lemma split_lines_chars: "l \<in> set (split_lines s) \<Longrightarrow> c \<in> set l \<Longrightarrow> c \<in> set s"
proof (induction s arbitrary: l)
  case (Cons d s)
  obtain l' ls where "split_lines s = l' # ls" by (cases "split_lines s") auto
  with Cons.prems Cons.IH [of l] Cons.IH [of l'] show ?case by (auto split: if_splits)
qed simp

lemma split_lines_append: "LF \<notin> set l \<Longrightarrow> split_lines (l @ LF # s) = l # split_lines s"
  by (induction l) auto

lemma split_line_single: "LF \<notin> set l \<Longrightarrow> split_lines l = [l]"
  by (induction l) auto

lemma split_join_lines:
  "ls \<noteq> [] \<Longrightarrow> \<forall>l\<in>set ls. LF \<notin> set l \<Longrightarrow> split_lines (join_lines ls) = ls"
  by (induction ls rule: join_lines.induct) (auto simp: split_lines_append split_line_single)

lemma join_split_lines: "join_lines (split_lines s) = s"
proof (induction s)
  case (Cons c s)
  obtain l ls where "split_lines s = l # ls" by (cases "split_lines s") auto
  with Cons show ?case by (cases ls) auto
qed simp

lemma find_break_line:
  "LF \<notin> set l \<Longrightarrow> s \<noteq> [] \<Longrightarrow> hd s \<noteq> LF \<Longrightarrow>
   find_break (l @ LF # s) = map_option (\<lambda>(a, b). (l @ LF # a, b)) (find_break s)"
  by (induction l) (auto split: option.splits)

lemma find_break_end: "LF \<notin> set l \<Longrightarrow> find_break (l @ [LF, LF]) = Some (l, [])"
  by (induction l) auto

definition data_line_of :: "string \<Rightarrow> string" where
  "data_line_of l = ''data: '' @ l"

lemma data_line_of [simp]: "data_line (data_line_of l) = Some l"
  by (simp add: data_line_of_def data_line_def)

lemma find_break_data:
  "ls \<noteq> [] \<Longrightarrow> \<forall>l\<in>set ls. LF \<notin> set l \<Longrightarrow>
   find_break (concat (map (\<lambda>l. data_line_of l @ [LF]) ls) @ [LF]) = Some (join_lines (map data_line_of ls), [])"
proof (induction ls rule: join_lines.induct)
  case (2 l)
  then show ?case using find_break_end [of "data_line_of l"] by (simp add: data_line_of_def)
next
  case (3 l l' ls)
  let ?s = "concat (map (\<lambda>l. data_line_of l @ [LF]) (l' # ls)) @ [LF]"
  have "find_break (data_line_of l @ LF # ?s) = map_option (\<lambda>(a, b). (data_line_of l @ LF # a, b)) (find_break ?s)"
    using "3.prems" by (intro find_break_line) (simp_all add: data_line_of_def)
  with 3 show ?case by simp
qed simp

lemma map_filter_data: "List.map_filter data_line (map data_line_of ls) = ls"
  by (induction ls) (simp_all add: List.map_filter_simps)

text \<open>
  Well-formed UTF-8 (Unicode, table 3-7).  Encoding a \<open>str\<close> gives nothing else (lone surrogates raise),
  and decoding it gives the \<open>str\<close> back, which in this development is the same list of bytes.
\<close>

definition byte_in :: "nat \<Rightarrow> nat \<Rightarrow> char \<Rightarrow> bool" where
  "byte_in lo hi c \<longleftrightarrow> lo \<le> byte c \<and> byte c \<le> hi"

fun utf8_char :: "bytes \<Rightarrow> bool" where
  "utf8_char [a] = byte_in 0 0x7F a"
| "utf8_char [a, b] = (byte_in 0xC2 0xDF a \<and> byte_in 0x80 0xBF b)"
| "utf8_char [a, b, c] =
     (byte_in 0xE0 0xEF a \<and> byte_in (if byte a = 0xE0 then 0xA0 else 0x80) (if byte a = 0xED then 0x9F else 0xBF) b
      \<and> byte_in 0x80 0xBF c)"
| "utf8_char [a, b, c, d] =
     (byte_in 0xF0 0xF4 a \<and> byte_in (if byte a = 0xF0 then 0x90 else 0x80) (if byte a = 0xF4 then 0x8F else 0xBF) b
      \<and> byte_in 0x80 0xBF c \<and> byte_in 0x80 0xBF d)"
| "utf8_char _ = False"

inductive is_utf8 :: "bytes \<Rightarrow> bool" where
  utf8_Nil: "is_utf8 []"
| utf8_Char: "utf8_char c \<Longrightarrow> is_utf8 s \<Longrightarrow> is_utf8 (c @ s)"

lemma utf8_append: "is_utf8 s \<Longrightarrow> is_utf8 t \<Longrightarrow> is_utf8 (s @ t)"
  by (induction s rule: is_utf8.induct) (auto intro: utf8_Char)

lemma utf8_ascii: "list_all (\<lambda>c. byte c < 128) s \<Longrightarrow> is_utf8 s"
proof (induction s)
  case (Cons c s)
  then show ?case using utf8_Char [of "[c]" s] by (simp add: byte_in_def)
qed (rule utf8_Nil)

lemma utf8_char_cases: "utf8_char c \<Longrightarrow> (\<exists>a. c = [a]) \<or> LF \<notin> set c"
  by (induction c rule: utf8_char.induct) (auto simp: byte_in_def byte_def split: if_splits)

lemma utf8_lines: "is_utf8 s \<Longrightarrow> \<forall>l\<in>set (split_lines s). is_utf8 l"
proof (induction s rule: is_utf8.induct)
  case (utf8_Char c s)
  obtain l ls where ls: "split_lines s = l # ls" by (cases "split_lines s") auto
  with utf8_Char have ok: "is_utf8 l" "\<forall>l\<in>set ls. is_utf8 l" "is_utf8 (c @ l)"
    by (auto intro: is_utf8.utf8_Char)
  show ?case
  proof (cases "LF \<in> set c")
    case True
    with utf8_char_cases [OF utf8_Char.hyps(1)] have "c = [LF]" by auto
    with ls ok show ?thesis by (auto intro: utf8_Nil)
  next
    case False
    then have "split_lines (c @ s) = (c @ l) # ls"
      by (induction c) (auto simp: ls)
    with ok show ?thesis by simp
  qed
qed (simp add: utf8_Nil)

lemma utf8_data_line: "is_utf8 l \<Longrightarrow> is_utf8 (data_line_of l)"
  unfolding data_line_of_def by (rule utf8_append [OF utf8_ascii]) (simp_all add: byte_def)

lemma utf8_join: "\<forall>l\<in>set ls. is_utf8 l \<Longrightarrow> is_utf8 (join_lines (map data_line_of ls))"
proof (induction ls rule: join_lines.induct)
  case (3 l l' ls)
  have "is_utf8 [LF]" by (rule utf8_ascii) (simp add: byte_def)
  with 3 show ?case
    using utf8_append [of "data_line_of l" "LF # join_lines (map data_line_of (l' # ls))"]
      utf8_append [of "[LF]" "join_lines (map data_line_of (l' # ls))"]
    by (simp add: utf8_data_line)
qed (simp_all add: utf8_data_line utf8_Nil)

lemma break_alone: "find_break s = Some (a, b) \<Longrightarrow> find_break (a @ [LF, LF]) = Some (a, [])"
proof (induction s arbitrary: a)
  case (Cons c s)
  show ?case
  proof (cases "c = LF \<and> s \<noteq> [] \<and> hd s = LF")
    case False
    with Cons.prems obtain a' where a: "a = c # a'" "find_break s = Some (a', b)"
      by (auto split: option.splits)
    have "\<not> (c = LF \<and> hd (a' @ [LF, LF]) = LF)"
      using False a(2) by (cases s; cases a') (auto split: if_splits option.splits)
    with Cons.IH [OF a(2)] show ?thesis by (simp add: a(1))
  qed (use Cons.prems in auto)
qed simp

text \<open>An event the parser made carries its block, which alone gives the event again.\<close>

lemma drained_again:
  assumes "ev \<in> set (fst (drain cd s))"
  shows "drain cd (render_event ev) = ([ev], []) \<and> set (render_event ev) \<subseteq> set s"
  using assms
proof (induction cd s rule: drain.induct)
  case (1 cd s)
  show ?case
  proof (cases "find_break s")
    case (Some br)
    then obtain b r where br: "find_break s = Some (b, r)" by (cases br) simp
    have sub: "set r \<subseteq> set s" "set (b @ [LF, LF]) \<subseteq> set s"
      using find_break_split [OF br] by auto
    show ?thesis
    proof (cases "ev \<in> set (fst (drain cd r))")
      case True
      with "1.IH" [OF br refl] sub(1) show ?thesis by auto
    next
      case False
      with "1.prems" obtain ev' where parsed: "parse_block cd b = Some ev'" "ev = ev'\<lparr>ev_raw := Some (b @ [LF, LF])\<rparr>"
        by (auto simp: drain.simps [of cd s] br split: option.splits prod.splits)
      then show ?thesis
        using sub(2) by (simp add: render_event_def drain.simps [of cd "b @ [LF, LF]"] break_alone [OF br]
            drain.simps [of cd "[]"])
    qed
  qed (use "1.prems" in \<open>simp add: drain.simps [of cd s]\<close>)
qed

text \<open>
  C18. A rendered event parses back to itself.  An event that was parsed from the wire, and so carries its
  block, is rendered as that block, and any fresh parser reads the same event from it.  An event the
  gateway built from text without carriage returns (well-formed UTF-8 of any alphabet, newlines included, or the end
  marker) reaches a fresh parser as one event with the same data.  It rests on the codec law that
  well-formed UTF-8 decodes to itself, and on the parser having no carriage return in its buffer,
  which holds from its start on (\<open>feed_buffer\<close>).
\<close>

theorem render_parse_roundtrip:
  assumes "\<forall>s. is_utf8 s \<longrightarrow> cd_decode cd s = s"
  shows "(CR \<notin> set buf \<and> parsed \<in> set (fst (feed cd buf chunk)) \<longrightarrow> feed cd [] (render_event parsed) = ([parsed], []))
       \<and> (ev_raw built = None \<and> is_utf8 (ev_data built) \<and> CR \<notin> set (ev_data built) \<longrightarrow>
            feed cd [] (render_event built) =
              ([\<lparr>ev_data = (if ev_done built then done_marker else ev_data built),
                 ev_done = (ev_done built \<or> strip (ev_data built) = done_marker),
                 ev_raw = Some (render_event built)\<rparr>], []))"
proof (intro conjI impI)
  assume a: "CR \<notin> set buf \<and> parsed \<in> set (fst (feed cd buf chunk))"
  then have "parsed \<in> set (fst (drain cd (buf @ norm_newlines chunk)))"
    using feed_eq [of buf cd chunk] by simp
  from drained_again [OF this] have again: "drain cd (render_event parsed) = ([parsed], [])"
    and "set (render_event parsed) \<subseteq> set (buf @ norm_newlines chunk)"
    by blast+
  then have "CR \<notin> set (render_event parsed)"
    using a norm_no_CR [of chunk] by auto
  with again show "feed cd [] (render_event parsed) = ([parsed], [])"
    by (simp add: feed_eq norm_id)
next
  assume a: "ev_raw built = None \<and> is_utf8 (ev_data built) \<and> CR \<notin> set (ev_data built)"
  define shown where "shown = (if ev_done built then done_marker else ev_data built)"
  define ls where "ls = split_lines shown"
  have plain: "is_utf8 shown" "CR \<notin> set shown"
    using a by (auto simp: shown_def done_marker_def byte_def intro: utf8_ascii)
  have clean: "ls \<noteq> []" "\<forall>l\<in>set ls. LF \<notin> set l" "\<forall>l\<in>set ls. is_utf8 l"
    using utf8_lines [OF plain(1)] by (auto simp: ls_def dest: split_lines_clean)
  have wire: "render_event built = concat (map (\<lambda>l. data_line_of l @ [LF]) ls) @ [LF]"
    using a by (simp add: render_event_def ls_def shown_def data_line_of_def done_marker_def)
  have no_CR: "CR \<notin> set (render_event built)"
    using plain(2) by (auto simp: wire data_line_of_def ls_def dest: split_lines_chars)
  have brk: "find_break (render_event built) = Some (join_lines (map data_line_of ls), [])"
    unfolding wire using clean by (intro find_break_data)
  have "split_lines (join_lines (map data_line_of ls)) = map data_line_of ls"
    using clean by (intro split_join_lines) (auto simp: data_line_of_def)
  then have parse: "parse_block cd (join_lines (map data_line_of ls))
      = Some \<lparr>ev_data = shown, ev_done = (strip shown = done_marker), ev_raw = None\<rparr>"
    using assms(1) utf8_join [OF clean(3)] clean(1)
    by (simp add: parse_block_def map_filter_data Let_def) (simp add: ls_def join_split_lines)
  have "strip shown = done_marker \<longleftrightarrow> ev_done built \<or> strip (ev_data built) = done_marker"
    by (simp add: shown_def done_marker_def strip_def is_space_def byte_def)
  then show "feed cd [] (render_event built) =
      ([\<lparr>ev_data = (if ev_done built then done_marker else ev_data built),
         ev_done = (ev_done built \<or> strip (ev_data built) = done_marker),
         ev_raw = Some (render_event built)\<rparr>], [])"
    using find_break_split [OF brk, symmetric]
    by (simp add: feed_eq norm_id [OF no_CR] drain.simps [of cd "render_event built"] brk parse
        drain.simps [of cd "[]"] shown_def)
qed

text \<open>A named event from the wire, and one built from text with a two-byte character and an empty line.\<close>

theorem render_parse_roundtrip_witness:
  "let cd = demo_codec; wire = ''event: x'' @ [LF] @ ''data: a'' @ [LF, LF];
       parsed = \<lparr>ev_data = ''a'', ev_done = False, ev_raw = Some wire\<rparr>;
       built = \<lparr>ev_data = [CHR 0xC3, CHR 0xA9, LF, LF] @ '' b'', ev_done = False, ev_raw = None\<rparr>
   in feed cd [] (render_event parsed) = ([parsed], [])
      \<and> feed cd [] (render_event built) = ([built\<lparr>ev_raw := Some (render_event built)\<rparr>], [])"
proof -
  have "\<lparr>ev_data = ''a'', ev_done = False, ev_raw = Some (''event: x'' @ [LF] @ ''data: a'' @ [LF, LF])\<rparr>
      \<in> set (fst (feed demo_codec [] (''event: x'' @ [LF] @ ''data: a'' @ [LF, LF])))"
    by (simp add: feed_def drain.simps parse_block_def List.map_filter_simps data_line_def Let_def strip_def
        done_marker_def is_space_def byte_def)
  moreover have "is_utf8 [CHR 0xC3, CHR 0xA9, LF, LF, CHR '' '', CHR ''b'']"
    using utf8_append [OF utf8_Char [OF _ utf8_Nil] utf8_ascii, of "[CHR 0xC3, CHR 0xA9]" "[LF, LF, CHR '' '', CHR ''b'']"]
    by (simp add: byte_def byte_in_def)
  ultimately show ?thesis
    using render_parse_roundtrip [of demo_codec "[]"
        "\<lparr>ev_data = ''a'', ev_done = False, ev_raw = Some (''event: x'' @ [LF] @ ''data: a'' @ [LF, LF])\<rparr>"
        "''event: x'' @ [LF] @ ''data: a'' @ [LF, LF]"
        "\<lparr>ev_data = [CHR 0xC3, CHR 0xA9, LF, LF] @ '' b'', ev_done = False, ev_raw = None\<rparr>"]
    by (simp add: byte_def byte_in_def strip_def is_space_def done_marker_def)
qed

end
