(* ===== verification/Events.thy ===== *)
theory Events
  imports Sse Stats CircuitBreaker
begin

text \<open>
  The event bus (\<^verbatim>\<open>src/localgateway/events.py\<close>), the stream \<^verbatim>\<open>/admin/events\<close>
  (\<^verbatim>\<open>endpoints/events.py\<close>) and the tick of \<^verbatim>\<open>worker.py\<close>.

  A subscriber is the number of its queue.  With a running loop \<open>publish\<close> only schedules the delivery;
  \<open>run_scheduled\<close> is the turn of the loop that makes it.
\<close>

section \<open>The bus\<close>

record message =
  ms_type :: string
  ms_data :: jobj
  ms_ts :: time

record bus =
  bu_queues :: "(nat, message list) dict"
  bu_next :: nat
  bu_version :: nat
  bu_loop :: bool
  bu_scheduled :: "message list"

definition new_bus :: bus where
  "new_bus = \<lparr>bu_queues = [], bu_next = 0, bu_version = 0, bu_loop = False, bu_scheduled = []\<rparr>"

definition queue_limit :: nat where
  "queue_limit = 256"

definition set_loop :: "bool \<Rightarrow> bus \<Rightarrow> bus" where
  "set_loop running b = b\<lparr>bu_loop := running\<rparr>"

definition bump_state_version :: "bus \<Rightarrow> bus" where
  "bump_state_version b = b\<lparr>bu_version := bu_version b + 1\<rparr>"

definition subscribe :: "bus \<Rightarrow> nat \<times> bus" where
  "subscribe b = (bu_next b, b\<lparr>bu_queues := dset (bu_next b) [] (bu_queues b), bu_next := bu_next b + 1\<rparr>)"

definition unsubscribe :: "nat \<Rightarrow> bus \<Rightarrow> bus" where
  "unsubscribe q b = b\<lparr>bu_queues := ddel q (bu_queues b)\<rparr>"

definition subscriber_count :: "bus \<Rightarrow> nat" where
  "subscriber_count b = length (bu_queues b)"

text \<open>A full queue loses its oldest message.\<close>

definition put_message :: "message \<Rightarrow> message list \<Rightarrow> message list" where
  "put_message msg q = (if length q < queue_limit then q @ [msg] else tl q @ [msg])"

definition do_publish :: "message \<Rightarrow> bus \<Rightarrow> bus" where
  "do_publish msg b = b\<lparr>bu_queues := map (\<lambda>(k, q). (k, put_message msg q)) (bu_queues b)\<rparr>"

definition publish :: "string \<Rightarrow> jobj \<Rightarrow> time \<Rightarrow> bus \<Rightarrow> bus" where
  "publish event_type data now b =
     (let msg = \<lparr>ms_type = event_type, ms_data = data, ms_ts = now\<rparr>
      in if bu_loop b then b\<lparr>bu_scheduled := bu_scheduled b @ [msg]\<rparr> else do_publish msg b)"

definition run_scheduled :: "bus \<Rightarrow> bus" where
  "run_scheduled b =
     (case bu_scheduled b of [] \<Rightarrow> b | msg # rest \<Rightarrow> do_publish msg (b\<lparr>bu_scheduled := rest\<rparr>))"

section \<open>Publishers\<close>

definition tick :: "st_state \<Rightarrow> time \<Rightarrow> bus \<Rightarrow> bus" where
  "tick st now b =
     (if subscriber_count b = 0 then b
      else publish ''tick''
             [(''version'', JInt (int (bu_version b))),
              (''inflight'', JObj (map (\<lambda>(k, v). (k, JInt (int (sn_in_flight v)))) (Stats.snapshot st)))]
             now b)"

text \<open>The calls the circuit breaker makes on the bus.\<close>

fun circuit_effect :: "time \<Rightarrow> cb_effect \<Rightarrow> bus \<Rightarrow> bus" where
  "circuit_effect now Bump_version b = bump_state_version b"
| "circuit_effect now (Publish_trip key error) b =
     publish ''circuit'' [(''backend'', JStr key), (''action'', JStr ''trip''), (''error'', JStr error)] now b"
| "circuit_effect now (Publish_reset key) b =
     publish ''circuit'' [(''backend'', JStr key), (''action'', JStr ''reset'')] now b"
| "circuit_effect now _ b = b"

section \<open>The stream of a subscriber\<close>

definition hello_frame :: "codec \<Rightarrow> time \<Rightarrow> bytes" where
  "hello_frame cd now = ''event: hello'' @ [LF] @ ''data: '' @ cd_dumps cd (JObj [(''ts'', JFloat now)]) @ [LF, LF]"

definition message_frame :: "codec \<Rightarrow> message \<Rightarrow> bytes" where
  "message_frame cd msg = ''event: '' @ ms_type msg @ [LF] @ ''data: '' @ cd_dumps cd (JObj (ms_data msg)) @ [LF, LF]"

definition heartbeat :: bytes where
  "heartbeat = '': heartbeat'' @ [LF, LF]"

definition open_stream :: "codec \<Rightarrow> time \<Rightarrow> bus \<Rightarrow> nat \<times> bytes \<times> bus" where
  "open_stream cd now b = (let (q, b1) = subscribe b in (q, hello_frame cd now, b1))"

text \<open>
  A turn of the loop of \<open>generate\<close>: \<open>None\<close> ends the stream.  On an empty queue it is the turn whose
  fifteen seconds have passed.
\<close>

definition stream_turn :: "codec \<Rightarrow> bool \<Rightarrow> nat \<Rightarrow> bus \<Rightarrow> bytes option \<times> bus" where
  "stream_turn cd disconnected q b =
     (if disconnected then (None, unsubscribe q b)
      else case dget (bu_queues b) q of
             Some (msg # rest) \<Rightarrow> (Some (message_frame cd msg), b\<lparr>bu_queues := dset q rest (bu_queues b)\<rparr>)
           | _ \<Rightarrow> (Some heartbeat, b))"

section \<open>Runs\<close>

text \<open>
  What the gateway and the subscribers do to the bus, one event after the other; \<open>Turn gone q\<close> is a turn
  of the stream of \<open>q\<close>.
\<close>

datatype bus_event =
    Publish string jobj time
  | Bump
  | Loop_turn
  | Subscribe
  | Turn bool nat

fun bus_step :: "codec \<Rightarrow> bus \<Rightarrow> bus_event \<Rightarrow> bus" where
  "bus_step cd b (Publish t d now) = publish t d now b"
| "bus_step cd b Bump = bump_state_version b"
| "bus_step cd b Loop_turn = run_scheduled b"
| "bus_step cd b Subscribe = snd (subscribe b)"
| "bus_step cd b (Turn gone q) = snd (stream_turn cd gone q b)"

definition taken :: "nat \<Rightarrow> bus_event \<Rightarrow> bus \<Rightarrow> message list" where
  "taken q ev b =
     (if ev = Turn False q then (case dget (bu_queues b) q of Some (msg # _) \<Rightarrow> [msg] | _ \<Rightarrow> []) else [])"

text \<open>The messages the stream of \<open>q\<close> sends in a run.\<close>

fun sent_to :: "codec \<Rightarrow> nat \<Rightarrow> bus \<Rightarrow> bus_event list \<Rightarrow> message list" where
  "sent_to cd q b [] = []"
| "sent_to cd q b (ev # evs) = taken q ev b @ sent_to cd q (bus_step cd b ev) evs"

lemma taken_is_sent:
  "taken q (Turn False q) b = [msg] \<Longrightarrow> fst (stream_turn cd False q b) = Some (message_frame cd msg)"
  by (auto simp: taken_def stream_turn_def split: option.splits list.splits)

section \<open>A reader of the whole log\<close>

text \<open>
  What a subscriber is promised, without queues: it reads along a log of all messages delivered since it
  subscribed.  Its cursor is behind the last message it read; when more than 256 messages wait, it goes on at
  the oldest of the newest 256.  \<open>rd_scheduled\<close> are the messages published but not delivered yet.
\<close>

record reader =
  rd_log :: "message list"
  rd_scheduled :: "message list"
  rd_cursor :: nat

definition next_read :: "reader \<Rightarrow> nat" where
  "next_read r = max (rd_cursor r) (length (rd_log r) - 256)"

definition unread :: "reader \<Rightarrow> message list" where
  "unread r = drop (next_read r) (rd_log r)"

fun read_step :: "bool \<Rightarrow> nat \<Rightarrow> reader \<Rightarrow> bus_event \<Rightarrow> reader" where
  "read_step loop q r (Publish t d now) =
     (let msg = \<lparr>ms_type = t, ms_data = d, ms_ts = now\<rparr>
      in if loop then r\<lparr>rd_scheduled := rd_scheduled r @ [msg]\<rparr> else r\<lparr>rd_log := rd_log r @ [msg]\<rparr>)"
| "read_step loop q r Loop_turn =
     r\<lparr>rd_log := rd_log r @ take 1 (rd_scheduled r), rd_scheduled := drop 1 (rd_scheduled r)\<rparr>"
| "read_step loop q r (Turn gone p) =
     (if p = q \<and> next_read r < length (rd_log r) then r\<lparr>rd_cursor := Suc (next_read r)\<rparr> else r)"
| "read_step loop q r _ = r"

definition read_now :: "nat \<Rightarrow> bus_event \<Rightarrow> reader \<Rightarrow> message list" where
  "read_now q ev r = (if ev = Turn False q \<and> next_read r < length (rd_log r) then [rd_log r ! next_read r] else [])"

fun read_run :: "bool \<Rightarrow> nat \<Rightarrow> reader \<Rightarrow> bus_event list \<Rightarrow> message list" where
  "read_run loop q r [] = []"
| "read_run loop q r (ev # evs) = read_now q ev r @ read_run loop q (read_step loop q r ev) evs"

section \<open>Lemmas\<close>

lemma unread_put:
  "unread (r\<lparr>rd_log := rd_log r @ [msg]\<rparr>) = put_message msg (unread r)" if "rd_cursor r \<le> length (rd_log r)"
proof (cases "length (unread r) < 256")
  case True
  then have "next_read (r\<lparr>rd_log := rd_log r @ [msg]\<rparr>) = next_read r"
    by (auto simp: unread_def next_read_def)
  with True that show ?thesis
    by (simp add: unread_def put_message_def queue_limit_def next_read_def)
next
  case False
  then have "next_read r = length (rd_log r) - 256" "256 \<le> length (rd_log r)"
    by (auto simp: unread_def next_read_def)
  then have "next_read (r\<lparr>rd_log := rd_log r @ [msg]\<rparr>) = Suc (next_read r)"
    by (auto simp: next_read_def)
  with False show ?thesis
    by (simp add: unread_def put_message_def queue_limit_def drop_Suc tl_drop)
qed

lemma unread_take:
  "next_read r < length (rd_log r) \<Longrightarrow>
   unread r = rd_log r ! next_read r # unread (r\<lparr>rd_cursor := Suc (next_read r)\<rparr>)"
proof -
  assume lt: "next_read r < length (rd_log r)"
  then have "next_read (r\<lparr>rd_cursor := Suc (next_read r)\<rparr>) = Suc (next_read r)"
    by (auto simp: next_read_def)
  with lt show ?thesis by (simp add: unread_def Cons_nth_drop_Suc)
qed

lemma unread_Nil: "\<not> next_read r < length (rd_log r) \<Longrightarrow> unread r = []"
  by (simp add: unread_def)

lemma unread_scheduled [simp]: "unread (r\<lparr>rd_scheduled := x\<rparr>) = unread r"
  by (simp add: unread_def next_read_def)

lemma queues_do_publish: "dget (bu_queues (do_publish msg b)) q = map_option (put_message msg) (dget (bu_queues b) q)"
  by (simp add: do_publish_def map_of_map)

text \<open>The queue of a subscriber is what its reader has not read.\<close>

definition follows :: "nat \<Rightarrow> reader \<Rightarrow> bus \<Rightarrow> bool" where
  "follows q r b \<longleftrightarrow>
     q < bu_next b \<and> dget (bu_queues b) q = Some (unread r) \<and> bu_scheduled b = rd_scheduled r
     \<and> rd_cursor r \<le> length (rd_log r)"

lemma follows_delivery:
  "follows q r b \<Longrightarrow> follows q (r\<lparr>rd_log := rd_log r @ [msg]\<rparr>) (do_publish msg b)"
  by (auto simp: follows_def queues_do_publish unread_put) (simp_all add: do_publish_def)

lemma follows_scheduled:
  "follows q r b \<Longrightarrow> follows q (r\<lparr>rd_scheduled := x\<rparr>) (b\<lparr>bu_scheduled := x\<rparr>)"
  by (simp add: follows_def)

lemma follows_loop: "follows q r b \<Longrightarrow> follows q (read_step loop q r Loop_turn) (run_scheduled b)"
proof (cases "bu_scheduled b")
  case (Cons msg rest)
  assume f: "follows q r b"
  with Cons have "rd_scheduled r = msg # rest" by (simp add: follows_def)
  then have "read_step loop q r Loop_turn = r\<lparr>rd_scheduled := rest, rd_log := rd_log r @ [msg]\<rparr>"
    by simp
  with follows_delivery [OF follows_scheduled [OF f, of rest], of msg] Cons show ?thesis
    by (simp add: run_scheduled_def)
qed (simp add: follows_def run_scheduled_def)

lemma follows_turn:
  assumes "follows q r b" and "ev = Turn gone p" and "ev \<noteq> Turn True q"
  shows "follows q (read_step loop q r ev) (bus_step cd b ev) \<and> taken q ev b = read_now q ev r"
proof (cases "p = q")
  case True
  with assms(2,3) have ev: "ev = Turn False q" by simp
  show ?thesis
  proof (cases "next_read r < length (rd_log r)")
    case True
    from unread_take [OF this] assms(1) True show ?thesis
      by (simp add: ev follows_def taken_def read_now_def stream_turn_def)
  next
    case False
    with unread_Nil [OF False] assms(1) show ?thesis
      by (simp add: ev follows_def taken_def read_now_def stream_turn_def)
  qed
next
  case False
  with assms show ?thesis
    by (auto simp: follows_def taken_def read_now_def stream_turn_def unsubscribe_def split: option.splits list.splits)
qed

lemma follows_step:
  assumes "follows q r b" and "ev \<noteq> Turn True q"
  shows "follows q (read_step (bu_loop b) q r ev) (bus_step cd b ev) \<and> taken q ev b = read_now q ev r
       \<and> bu_loop (bus_step cd b ev) = bu_loop b"
proof (cases ev)
  case (Turn gone p)
  with follows_turn [OF assms(1) Turn assms(2)] show ?thesis
    by (auto simp: stream_turn_def unsubscribe_def split: option.split list.split)
next
  case (Publish t d now)
  with assms(1) follows_delivery [OF assms(1)] follows_scheduled [OF assms(1)] show ?thesis
    by (auto simp: publish_def Let_def taken_def read_now_def follows_def) (simp_all add: do_publish_def)
next
  case Loop_turn
  with follows_loop [OF assms(1)] show ?thesis
    by (auto simp: taken_def read_now_def run_scheduled_def do_publish_def split: list.split)
qed (use assms in \<open>auto simp: follows_def taken_def read_now_def bump_state_version_def subscribe_def\<close>)

lemma follows_run:
  "follows q r b \<Longrightarrow> Turn True q \<notin> set evs \<Longrightarrow>
   follows q (foldl (read_step (bu_loop b) q) r evs) (foldl (bus_step cd) b evs)
   \<and> sent_to cd q b evs = read_run (bu_loop b) q r evs"
proof (induction evs arbitrary: r b)
  case (Cons ev evs)
  then have step: "follows q (read_step (bu_loop b) q r ev) (bus_step cd b ev)" "taken q ev b = read_now q ev r"
    "bu_loop (bus_step cd b ev) = bu_loop b"
    using follows_step [of q r b ev cd] by auto
  from Cons.IH [OF step(1)] Cons.prems(2) show ?case by (simp add: step)
qed simp

section \<open>Properties\<close>

text \<open>
  C36. A subscriber misses a message only when more than 256 wait, and then only the oldest: from its
  subscription to its end, whatever is published, with a running loop or without, and however slowly its stream is
  read, the stream sends exactly what the reader of the whole log reads, in order, and what waits in the queue is
  exactly what that reader has not read.
\<close>

theorem subscriber_reads_log:
  assumes "subscribe b = (q, b1)" and "Turn True q \<notin> set evs"
    and "r = \<lparr>rd_log = [], rd_scheduled = bu_scheduled b, rd_cursor = 0\<rparr>"
  shows "sent_to cd q b1 evs = read_run (bu_loop b) q r evs
       \<and> dget (bu_queues (foldl (bus_step cd) b1 evs)) q = Some (unread (foldl (read_step (bu_loop b) q) r evs))"
proof -
  have "follows q r b1" "bu_loop b1 = bu_loop b"
    using assms(1,3) by (auto simp: subscribe_def follows_def unread_def)
  with follows_run [of q r b1 evs cd] assms(2) show ?thesis by (simp add: follows_def)
qed

theorem subscriber_reads_log_witness:
  "let b1 = snd (subscribe new_bus); r = \<lparr>rd_log = [], rd_scheduled = [], rd_cursor = 0\<rparr>;
       evs = [Publish ''tick'' [] 1, Publish ''tick'' [] 2, Turn False 0, Subscribe]
   in sent_to demo_codec 0 b1 evs = read_run False 0 r evs
      \<and> dget (bu_queues (foldl (bus_step demo_codec) b1 evs)) 0 = Some (unread (foldl (read_step False 0) r evs))"
  unfolding Let_def
  using subscriber_reads_log [of new_bus 0 "snd (subscribe new_bus)"
      "[Publish ''tick'' [] 1, Publish ''tick'' [] 2, Turn False 0, Subscribe]" _ demo_codec, OF _ _ refl]
  by (simp add: subscribe_def new_bus_def)

end
