(* ===== verification/Text.thy ===== *)
theory Text
  imports Prelude
begin

text \<open>
  String operations of Python's standard library that the front end of the gateway uses: fixed-point
  formatting, \<open>replace\<close>, \<open>split\<close>, \<open>lower\<close>, \<open>ipaddress.ip_address(s).is_loopback\<close> and the
  \<open>netloc\<close> of \<open>urlparse\<close>.
\<close>

section \<open>Formatting and replacing\<close>

definition zero_pad :: "nat \<Rightarrow> string \<Rightarrow> string" where
  "zero_pad n s = replicate (n - length s) (CHR ''0'') @ s"

text \<open>\<open>f"{x:.nf}"\<close>; \<open>str(x)\<close> of a float that was rounded to one decimal is \<open>fixed 1 x\<close>.\<close>

definition fixed :: "nat \<Rightarrow> real \<Rightarrow> string" where
  "fixed n x =
     (let i = nat (round_half_even (\<bar>x\<bar> * 10 ^ n))
      in (if x < 0 then ''-'' else []) @ nat_str (i div 10 ^ n)
         @ (if n = 0 then [] else CHR ''.'' # zero_pad n (nat_str (i mod 10 ^ n))))"

text \<open>\<open>s.replace(pat, "")\<close> of a pattern that is not empty.\<close>

function remove_all :: "string \<Rightarrow> string \<Rightarrow> string" where
  "remove_all pat s =
     (if s = [] then []
      else if pat \<noteq> [] \<and> prefix pat s then remove_all pat (drop (length pat) s)
      else hd s # remove_all pat (tl s))"
  by pat_completeness auto
termination
  by (relation "measure (length \<circ> snd)") auto

declare remove_all.simps [simp del]

text \<open>\<open>s.split(c)\<close>; \<open>partition\<close> at the first separator.\<close>

fun split_at :: "char \<Rightarrow> string \<Rightarrow> string list" where
  "split_at c [] = [[]]"
| "split_at c (x # xs) =
     (if x = c then [] # split_at c xs
      else case split_at c xs of [] \<Rightarrow> [[x]] | w # ws \<Rightarrow> (x # w) # ws)"

definition before :: "char \<Rightarrow> string \<Rightarrow> string" where
  "before c s = takeWhile (\<lambda>x. x \<noteq> c) s"

definition after :: "char \<Rightarrow> string \<Rightarrow> string" where
  "after c s = tl (dropWhile (\<lambda>x. x \<noteq> c) s)"

definition lower_char :: "char \<Rightarrow> char" where
  "lower_char c = (if 65 \<le> byte c \<and> byte c \<le> 90 then char_of (byte c + 32) else c)"

definition lower :: "string \<Rightarrow> string" where
  "lower s = map lower_char s"

definition upper_char :: "char \<Rightarrow> char" where
  "upper_char c = (if 97 \<le> byte c \<and> byte c \<le> 122 then char_of (byte c - 32) else c)"

text \<open>\<open>capitalize()\<close> of a text in lower case.\<close>

definition capitalize :: "string \<Rightarrow> string" where
  "capitalize s = (case s of [] \<Rightarrow> [] | c # cs \<Rightarrow> upper_char c # lower cs)"

definition is_digit :: "char \<Rightarrow> bool" where
  "is_digit c \<longleftrightarrow> 48 \<le> byte c \<and> byte c \<le> 57"

definition is_letter :: "char \<Rightarrow> bool" where
  "is_letter c \<longleftrightarrow> 65 \<le> byte c \<and> byte c \<le> 90 \<or> 97 \<le> byte c \<and> byte c \<le> 122"

text \<open>The code points of a text.\<close>

fun code_points :: "string \<Rightarrow> string list" where
  "code_points [] = []"
| "code_points (c # s) =
     (case code_points s of
        [] \<Rightarrow> [[c]]
      | w # ws \<Rightarrow> if is_cont (hd w) then (c # w) # ws else [c] # w # ws)"

lemma split_at_nonempty [simp]: "split_at c s \<noteq> []"
  by (induction s) (auto split: list.splits)

section \<open>IP addresses\<close>

text \<open>The values of the four octets, and of the eight groups.\<close>

definition octet :: "string \<Rightarrow> nat option" where
  "octet s =
     (if s = [] \<or> \<not> list_all is_digit s \<or> length s > 3 \<or> (s \<noteq> ''0'' \<and> hd s = CHR ''0'') then None
      else let v = foldl (\<lambda>a c. a * 10 + (byte c - 48)) 0 s in if v > 255 then None else Some v)"

definition ipv4 :: "string \<Rightarrow> nat list option" where
  "ipv4 s =
     (let os = map octet (split_at (CHR ''.'') s)
      in if length os = 4 \<and> None \<notin> set os then Some (map the os) else None)"

definition hex_digit :: "char \<Rightarrow> nat option" where
  "hex_digit c =
     (if is_digit c then Some (byte c - 48)
      else if 97 \<le> byte c \<and> byte c \<le> 102 then Some (byte c - 87)
      else if 65 \<le> byte c \<and> byte c \<le> 70 then Some (byte c - 55) else None)"

definition hextet :: "string \<Rightarrow> nat option" where
  "hextet s =
     (let ds = map hex_digit s
      in if s = [] \<or> None \<in> set ds \<or> length s > 4 then None else Some (foldl (\<lambda>a d. a * 16 + the d) 0 ds))"

definition hextets :: "string list \<Rightarrow> nat list option" where
  "hextets ps = (let hs = map hextet ps in if None \<in> set hs then None else Some (map the hs))"

text \<open>A dotted quad at the end stands for the last two groups.\<close>

definition end_groups :: "string list \<Rightarrow> (string list \<times> nat list) option" where
  "end_groups ps =
     (if CHR ''.'' \<in> set (last ps)
      then (case ipv4 (last ps) of
              Some [a, b, c, d] \<Rightarrow> Some (butlast ps, [a * 256 + b, c * 256 + d])
            | _ \<Rightarrow> None)
      else Some (ps, []))"

text \<open>The positions of empty parts other than the first and the last: where \<open>::\<close> stands.\<close>

definition inner_gaps :: "string list \<Rightarrow> nat list" where
  "inner_gaps ps = filter (\<lambda>i. ps ! i = []) [1 ..< length ps - 1]"

definition ipv6_groups :: "string list \<Rightarrow> nat list option" where
  "ipv6_groups ps =
     (if length ps > 9 \<or> length (inner_gaps ps) > 1 then None
      else case inner_gaps ps of
             [] \<Rightarrow> if length ps = 8 then hextets ps else None
           | i # _ \<Rightarrow>
               (let front = take i ps; rear = drop (i + 1) ps;
                    high = (if hd ps = [] then tl front else front);
                    low = (if last ps = [] then butlast rear else rear)
                in if hd ps = [] \<and> high \<noteq> [] \<or> last ps = [] \<and> low \<noteq> [] \<or> length high + length low > 7 then None
                   else case (hextets high, hextets low) of
                          (Some h, Some l) \<Rightarrow> Some (h @ replicate (8 - (length h + length l)) 0 @ l)
                        | _ \<Rightarrow> None))"

definition ipv6 :: "string \<Rightarrow> nat list option" where
  "ipv6 s =
     (let addr = before (CHR ''%'') s; scope = after (CHR ''%'') s; ps = split_at (CHR '':'') addr
      in if CHR ''/'' \<in> set s \<or> (CHR ''%'' \<in> set s \<and> (scope = [] \<or> CHR ''%'' \<in> set scope)) \<or> length ps < 3 then None
         else case end_groups ps of
                None \<Rightarrow> None
              | Some (qs, quad) \<Rightarrow>
                  if quad = [] then ipv6_groups qs
                  else map_option (\<lambda>gs. take 6 gs @ quad) (ipv6_groups (qs @ [''0'', ''0''])))"

text \<open>\<open>None\<close> is the \<open>ValueError\<close> of a text that is no address.\<close>

definition ip_is_loopback :: "string \<Rightarrow> bool option" where
  "ip_is_loopback s =
     (case ipv4 s of
        Some os \<Rightarrow> Some (hd os = 127)
      | None \<Rightarrow> map_option (\<lambda>gs. gs = [0, 0, 0, 0, 0, 0, 0, 1]) (ipv6 s))"

section \<open>The host of a URL\<close>

definition scheme_char :: "char \<Rightarrow> bool" where
  "scheme_char c \<longleftrightarrow> is_letter c \<or> is_digit c \<or> c \<in> {CHR ''+'', CHR ''-'', CHR ''.''}"

definition after_scheme :: "string \<Rightarrow> string" where
  "after_scheme url =
     (let scheme = before (CHR '':'') url
      in if CHR '':'' \<in> set url \<and> scheme \<noteq> [] \<and> is_letter (hd scheme) \<and> list_all scheme_char scheme
         then after (CHR '':'') url else url)"

text \<open>
  \<open>urlparse(url).netloc\<close> of an ASCII url; \<open>None\<close> is the \<open>ValueError\<close> of a lone bracket.  (Later releases
  of the library check what is between the brackets too.)
\<close>

definition netloc :: "string \<Rightarrow> string option" where
  "netloc url =
     (let clean = filter (\<lambda>c. byte c \<notin> {9, 10, 13}) (dropWhile (\<lambda>c. byte c \<le> 32) url);
          rest = after_scheme clean
      in if prefix ''//'' rest
         then let loc = takeWhile (\<lambda>c. c \<notin> {CHR ''/'', CHR ''?'', CHR ''#''}) (drop 2 rest)
              in if (CHR ''['' \<in> set loc) = (CHR '']'' \<in> set loc) then Some loc else None
         else Some [])"

lemma netloc_examples:
  "netloc ''http://a.b:80/x?y'' = Some ''a.b:80''" "netloc ''null'' = Some []" "netloc ''a:80'' = Some []"
  by (simp_all add: netloc_def after_scheme_def before_def after_def Let_def byte_def is_letter_def scheme_char_def is_digit_def)

text \<open>The origin of a page that was loaded from \<open>host\<close> over HTTP.\<close>

definition plain_host :: "string \<Rightarrow> bool" where
  "plain_host h \<longleftrightarrow> list_all (\<lambda>c. is_letter c \<or> is_digit c \<or> c = CHR ''.'' \<or> c = CHR ''-'' \<or> c = CHR '':'') h"

lemma netloc_http:
  assumes "plain_host h"
  shows "netloc (''http://'' @ h) = Some h"
proof -
  have c: "byte c \<notin> {9, 10, 13}" "c \<notin> {CHR ''/'', CHR ''?'', CHR ''#''}" "c \<noteq> CHR ''[''" "c \<noteq> CHR '']''"
    if "c \<in> set h" for c
    using assms that by (auto simp: plain_host_def list_all_iff is_letter_def is_digit_def byte_def)
  then have tw: "takeWhile (\<lambda>c. c \<notin> {CHR ''/'', CHR ''?'', CHR ''#''}) h = h"
    by (simp add: takeWhile_eq_all_conv)
  have "filter (\<lambda>c. byte c \<notin> {9, 10, 13}) h = h" using c by (simp add: filter_id_conv)
  moreover have "CHR ''['' \<notin> set h" "CHR '']'' \<notin> set h" using c by blast+
  ultimately show ?thesis
    using tw by (auto simp: netloc_def after_scheme_def before_def after_def Let_def byte_def is_letter_def scheme_char_def
        dest: set_takeWhileD)
qed

end
