(* ===== verification/Auth.thy ===== *)
theory Auth
  imports Text Config
begin

text \<open>
  Authentication (\<^verbatim>\<open>src/localgateway/auth.py\<close>), shared by the supervisor and the worker.

  \<open>web_request\<close> is what the code reads of a request: method, path, query, the address of the peer, the
  headers (names in lower case) and the body.
\<close>

section \<open>Requests\<close>

record web_request =
  wq_method :: string
  wq_path :: string
  wq_query :: string
  wq_client :: "string option"
  wq_headers :: "(string, string) dict"
  wq_body :: bytes

definition header_or_empty :: "web_request \<Rightarrow> string \<Rightarrow> string" where
  "header_or_empty req name = (case dget (wq_headers req) name of None \<Rightarrow> [] | Some v \<Rightarrow> v)"

text \<open>A reply: \<open>JSONResponse\<close>, \<open>Response\<close> or \<open>StreamingResponse\<close> with the chunks it streams.\<close>

datatype reply_body = Json_body json | Raw_body bytes | Chunks "bytes list"

record reply =
  rp_status :: int
  rp_headers :: "(string, string) dict"
  rp_body :: reply_body

definition json_reply :: "int \<Rightarrow> json \<Rightarrow> reply" where
  "json_reply status v = \<lparr>rp_status = status, rp_headers = [], rp_body = Json_body v\<rparr>"

definition error_reply :: "int \<Rightarrow> (string \<times> string) list \<Rightarrow> reply" where
  "error_reply status entries = json_reply status (JObj [(''error'', JObj (map (\<lambda>(k, v). (k, JStr v)) entries))])"

definition invalid_key_reply :: reply where
  "invalid_key_reply = error_reply 401 [(''message'', ''Invalid API key''), (''type'', ''authentication_error'')]"

section \<open>Pages and peers\<close>

definition page_paths :: "string list" where
  "page_paths = [''/'', ''/models'', ''/providers'', ''/usage'', ''/logs'', ''/settings'']"

definition page_prefixes :: "string list" where
  "page_prefixes = [''/models/'', ''/compare/'']"

definition is_page_path :: "string \<Rightarrow> bool" where
  "is_page_path path \<longleftrightarrow> path \<in> set page_paths \<or> (\<exists>p\<in>set page_prefixes. prefix p path)"

definition is_loopback_host :: "string option \<Rightarrow> bool" where
  "is_loopback_host host =
     (case host of
        None \<Rightarrow> False
      | Some h \<Rightarrow>
          if h = [] then False
          else let h1 = (if prefix ''::ffff:'' h then drop 7 h else h)
               in case ip_is_loopback h1 of
                    Some b \<Rightarrow> b
                  | None \<Rightarrow> h1 = ''localhost'' \<or> h1 = ''::1'')"

section \<open>Keys\<close>

definition legacy_key_id :: string where
  "legacy_key_id = ''default''"

definition key_with :: "string \<Rightarrow> string \<Rightarrow> string \<Rightarrow> api_key_config" where
  "key_with kid key label =
     \<lparr>ak_id = kid, ak_key = key, ak_label = label, ak_enabled = True, ak_rpm = None, ak_daily_budget_usd = None,
      ak_monthly_budget_usd = None, ak_model_allowlist = []\<rparr>"

definition legacy_key :: "string \<Rightarrow> api_key_config" where
  "legacy_key key = key_with legacy_key_id key ''Legacy default key''"

definition open_access :: api_key_config where
  "open_access = key_with [] [] ''(open access)''"

definition bearer_token :: "web_request \<Rightarrow> string" where
  "bearer_token req =
     (let auth = header_or_empty req ''authorization''
      in if prefix ''Bearer'' auth then strip (remove_all ''Bearer '' auth) else auth)"

text \<open>\<open>server.api_key\<close>, the empty one counting as none.\<close>

definition server_key :: "gateway_config \<Rightarrow> string option" where
  "server_key cfg = (case sv_api_key (gw_server cfg) of None \<Rightarrow> None | Some k \<Rightarrow> if k = [] then None else Some k)"

definition keys_configured :: "gateway_config \<Rightarrow> bool" where
  "keys_configured cfg \<longleftrightarrow> server_key cfg \<noteq> None \<or> sv_api_keys (gw_server cfg) \<noteq> []"

definition resolve_api_key :: "web_request \<Rightarrow> gateway_config \<Rightarrow> api_key_config option" where
  "resolve_api_key req cfg =
     (let token = bearer_token req; keys = sv_api_keys (gw_server cfg)
      in if keys \<noteq> []
         then (case find (\<lambda>k. ak_enabled k \<and> token \<noteq> [] \<and> ak_key k = token) keys of
                 Some k \<Rightarrow> Some k
               | None \<Rightarrow>
                   (case server_key cfg of
                      Some sk \<Rightarrow> if token = sk then Some (legacy_key sk) else None
                    | None \<Rightarrow> None))
         else (case server_key cfg of
                 Some sk \<Rightarrow> if token \<noteq> [] \<and> token = sk then Some (legacy_key sk) else None
               | None \<Rightarrow> Some open_access))"

definition check_api_key :: "web_request \<Rightarrow> gateway_config \<Rightarrow> bool" where
  "check_api_key req cfg =
     (if \<not> keys_configured cfg then True
      else if is_loopback_host (wq_client req) then True
      else resolve_api_key req cfg \<noteq> None)"

section \<open>Lemmas\<close>

text \<open>The keys a token can stand for.\<close>

definition key_of_token :: "gateway_config \<Rightarrow> string \<Rightarrow> api_key_config \<Rightarrow> bool" where
  "key_of_token cfg token k \<longleftrightarrow>
     token \<noteq> [] \<and>
     (k \<in> set (sv_api_keys (gw_server cfg)) \<and> ak_enabled k \<and> ak_key k = token
      \<or> server_key cfg = Some token \<and> k = legacy_key token)"

lemma server_key_nonempty: "server_key cfg = Some k \<Longrightarrow> k \<noteq> []"
  by (auto simp: server_key_def split: option.splits if_splits)

lemma resolve_sound:
  "keys_configured cfg \<Longrightarrow> resolve_api_key req cfg = Some k \<Longrightarrow> key_of_token cfg (bearer_token req) k"
  by (auto simp: resolve_api_key_def keys_configured_def key_of_token_def Let_def find_Some_iff
      dest: server_key_nonempty split: option.splits if_splits)

lemma resolve_complete:
  assumes "key_of_token cfg (bearer_token req) k"
  shows "resolve_api_key req cfg \<noteq> None"
  using assms by (auto simp: resolve_api_key_def key_of_token_def Let_def find_None_iff split: option.splits)

lemma resolve_open: "\<not> keys_configured cfg \<Longrightarrow> resolve_api_key req cfg = Some open_access"
  by (auto simp: resolve_api_key_def keys_configured_def)

lemma loopback_local [simp]: "is_loopback_host (Some ''127.0.0.1'')"
  by (simp add: is_loopback_host_def ip_is_loopback_def ipv4_def octet_def byte_def is_digit_def Let_def)

lemma remote_not_loopback: "\<not> is_loopback_host (Some ''10.0.0.7'')"
  by (simp add: is_loopback_host_def ip_is_loopback_def ipv4_def octet_def byte_def is_digit_def Let_def)

text \<open>The whole block of addresses that begin with 127 is local, and no other dotted quad is.\<close>

lemma loopback_ipv4: "ipv4 h = Some os \<Longrightarrow> h \<noteq> [] \<Longrightarrow> \<not> prefix ''::ffff:'' h \<Longrightarrow>
   is_loopback_host (Some h) \<longleftrightarrow> hd os = 127"
  by (simp add: is_loopback_host_def ip_is_loopback_def)

section \<open>Properties\<close>

text \<open>
  The keys decide who gets in: a peer that is not local passes the check of the console exactly when
  no key is configured or its token, which is not empty, is an enabled key or the server's own.
\<close>

theorem remote_needs_key:
  assumes "\<not> is_loopback_host (wq_client req)"
  shows "check_api_key req cfg \<longleftrightarrow> \<not> keys_configured cfg \<or> (\<exists>k. key_of_token cfg (bearer_token req) k)"
  using assms resolve_sound [of cfg req] resolve_complete [of cfg req] by (auto simp: check_api_key_def)

definition demo_web_request :: "string \<Rightarrow> string \<Rightarrow> string \<Rightarrow> web_request" where
  "demo_web_request method path client =
     \<lparr>wq_method = method, wq_path = path, wq_query = [], wq_client = Some client,
      wq_headers = [(''authorization'', ''Bearer s'')], wq_body = []\<rparr>"

definition keyed_gateway :: gateway_config where
  "keyed_gateway = default_gateway\<lparr>gw_server := default_server\<lparr>sv_api_key := Some ''s''\<rparr>\<rparr>"

theorem remote_needs_key_witness:
  "check_api_key (demo_web_request ''GET'' ''/admin/config'' ''10.0.0.7'') keyed_gateway \<longleftrightarrow>
   \<not> keys_configured keyed_gateway
   \<or> (\<exists>k. key_of_token keyed_gateway (bearer_token (demo_web_request ''GET'' ''/admin/config'' ''10.0.0.7'')) k)"
  by (rule remote_needs_key) (simp add: demo_web_request_def remote_not_loopback)

end
