(* ===== verification/ClientQuota.thy ===== *)
theory ClientQuota
  imports Config
begin

text \<open>
  Quotas of client keys (\<^verbatim>\<open>src/localgateway/clientquota.py\<close>): a sliding window of requests per key
  and spending budgets.  \<open>now\<close> is \<open>time.monotonic()\<close>.  The usage database is reached through
  \<open>key_spend\<close> and \<open>key_burn\<close> (\<open>usage.get_key_spend\<close> and \<open>get_key_daily_burn\<close>), and
  \<open>eta_date\<close> formats today plus a number of days.
\<close>

section \<open>State\<close>

record spend =
  sp_day_cost :: real
  sp_day_requests :: nat
  sp_month_cost :: real
  sp_month_requests :: nat

record cq_state =
  cq_hits :: "(string, time list) dict"
  cq_spend :: "(string, time \<times> spend) dict"
  cq_burn :: "(string, time \<times> real) dict"

definition cq_init :: cq_state where
  "cq_init = \<lparr>cq_hits = [], cq_spend = [], cq_burn = []\<rparr>"

definition no_spend :: spend where
  "no_spend = \<lparr>sp_day_cost = 0, sp_day_requests = 0, sp_month_cost = 0, sp_month_requests = 0\<rparr>"

section \<open>Requests per minute\<close>

definition hits_of :: "cq_state \<Rightarrow> string \<Rightarrow> time list" where
  "hits_of s kid = (case dget (cq_hits s) kid of None \<Rightarrow> [] | Some dq \<Rightarrow> dq)"

definition pop_old :: "time \<Rightarrow> time list \<Rightarrow> time list" where
  "pop_old now dq = dropWhile (\<lambda>t. now - t > 60) dq"

definition check_rpm :: "cq_state \<Rightarrow> time \<Rightarrow> api_key_config \<Rightarrow> real option \<times> cq_state" where
  "check_rpm s now key =
     (case ak_rpm key of
        None \<Rightarrow> (None, s)
      | Some rpm \<Rightarrow>
          if rpm \<le> 0 \<or> ak_id key = [] then (None, s)
          else let dq = pop_old now (hits_of s (ak_id key))
               in if rpm \<le> int (length dq)
                  then (Some (py_round 1 (60 - (now - hd dq))), s\<lparr>cq_hits := dset (ak_id key) dq (cq_hits s)\<rparr>)
                  else (None, s\<lparr>cq_hits := dset (ak_id key) (dq @ [now]) (cq_hits s)\<rparr>))"

definition current_rpm :: "cq_state \<Rightarrow> time \<Rightarrow> string \<Rightarrow> nat \<times> cq_state" where
  "current_rpm s now kid =
     (case dget (cq_hits s) kid of
        None \<Rightarrow> (0, s)
      | Some dq \<Rightarrow>
          if dq = [] then (0, s)
          else let dq1 = pop_old now dq in (length dq1, s\<lparr>cq_hits := dset kid dq1 (cq_hits s)\<rparr>))"

section \<open>Budgets\<close>

definition get_spend :: "(string \<Rightarrow> spend) \<Rightarrow> cq_state \<Rightarrow> time \<Rightarrow> string \<Rightarrow> spend \<times> cq_state" where
  "get_spend key_spend s now kid =
     (if kid = [] then (no_spend, s)
      else case dget (cq_spend s) kid of
             Some (t, sp) \<Rightarrow>
               if now - t < 5 then (sp, s)
               else (key_spend kid, s\<lparr>cq_spend := dset kid (now, key_spend kid) (cq_spend s)\<rparr>)
           | None \<Rightarrow> (key_spend kid, s\<lparr>cq_spend := dset kid (now, key_spend kid) (cq_spend s)\<rparr>))"

definition burn_rate :: "(string \<Rightarrow> real) \<Rightarrow> cq_state \<Rightarrow> time \<Rightarrow> string \<Rightarrow> real \<times> cq_state" where
  "burn_rate key_burn s now kid =
     (case dget (cq_burn s) kid of
        Some (t, b) \<Rightarrow>
          if now - t < 60 then (b, s)
          else (key_burn kid, s\<lparr>cq_burn := dset kid (now, key_burn kid) (cq_burn s)\<rparr>)
      | None \<Rightarrow> (key_burn kid, s\<lparr>cq_burn := dset kid (now, key_burn kid) (cq_burn s)\<rparr>))"

definition invalidate_spend :: "cq_state \<Rightarrow> string option \<Rightarrow> cq_state" where
  "invalidate_spend s kid =
     (case kid of
        None \<Rightarrow> s\<lparr>cq_spend := [], cq_burn := []\<rparr>
      | Some k \<Rightarrow> s\<lparr>cq_spend := ddel k (cq_spend s), cq_burn := ddel k (cq_burn s)\<rparr>)"

text \<open>A budget of 0 counts as none.\<close>

definition budget :: "real option \<Rightarrow> real option" where
  "budget b = (case b of Some x \<Rightarrow> if x = 0 then None else Some x | None \<Rightarrow> None)"

definition has_budget :: "api_key_config \<Rightarrow> bool" where
  "has_budget key \<longleftrightarrow> budget (ak_daily_budget_usd key) \<noteq> None \<or> budget (ak_monthly_budget_usd key) \<noteq> None"

definition check_budget ::
    "(string \<Rightarrow> spend) \<Rightarrow> cq_state \<Rightarrow> time \<Rightarrow> api_key_config \<Rightarrow> (string \<times> real \<times> real) option \<times> cq_state"
where
  "check_budget key_spend s now key =
     (if ak_id key = [] then (None, s)
      else if \<not> has_budget key then (None, s)
      else let (sp, s1) = get_spend key_spend s now (ak_id key)
           in (case budget (ak_daily_budget_usd key) of
                 Some d \<Rightarrow> if sp_day_cost sp \<ge> d then (Some (''daily'', sp_day_cost sp, d), s1)
                           else (case budget (ak_monthly_budget_usd key) of
                                   Some m \<Rightarrow> if sp_month_cost sp \<ge> m then (Some (''monthly'', sp_month_cost sp, m), s1)
                                             else (None, s1)
                                 | None \<Rightarrow> (None, s1))
               | None \<Rightarrow> (case budget (ak_monthly_budget_usd key) of
                            Some m \<Rightarrow> if sp_month_cost sp \<ge> m then (Some (''monthly'', sp_month_cost sp, m), s1)
                                      else (None, s1)
                          | None \<Rightarrow> (None, s1))))"

definition warning_for :: "string \<Rightarrow> real \<Rightarrow> real option \<Rightarrow> (string \<times> real \<times> real) list" where
  "warning_for period cost limit =
     (case budget limit of
        None \<Rightarrow> []
      | Some l \<Rightarrow> if 4 / 5 \<le> cost / l \<and> cost / l < 1 then [(period, cost, l)] else [])"

definition budget_warnings ::
    "(string \<Rightarrow> spend) \<Rightarrow> cq_state \<Rightarrow> time \<Rightarrow> api_key_config \<Rightarrow> (string \<times> real \<times> real) list \<times> cq_state" where
  "budget_warnings key_spend s now key =
     (if ak_id key = [] then ([], s)
      else let (sp, s1) = get_spend key_spend s now (ak_id key)
           in (warning_for ''daily'' (sp_day_cost sp) (ak_daily_budget_usd key)
               @ warning_for ''monthly'' (sp_month_cost sp) (ak_monthly_budget_usd key), s1))"

record eta =
  et_period :: string
  et_days :: real
  et_date :: string
  et_burn_rate :: real
  et_remaining :: real

definition eta_candidate :: "string \<Rightarrow> real \<Rightarrow> real option \<Rightarrow> real \<Rightarrow> (string \<times> real \<times> real) list" where
  "eta_candidate period cost limit burn =
     (case budget limit of
        None \<Rightarrow> []
      | Some l \<Rightarrow> let remaining = max (l - cost) 0 in [(period, remaining / burn, remaining)])"

text \<open>
  A date after the year 9999 cannot be computed: \<open>datetime.now() + timedelta\<close> raises.  \<open>wall\<close> is
  \<open>time.time()\<close>.
\<close>

definition end_of_calendar :: time where
  "end_of_calendar = 253402300800"

definition budget_eta ::
    "(string \<Rightarrow> spend) \<Rightarrow> (string \<Rightarrow> real) \<Rightarrow> (real \<Rightarrow> string) \<Rightarrow> time \<Rightarrow> cq_state \<Rightarrow> time \<Rightarrow> api_key_config
     \<Rightarrow> (py_error + eta option) \<times> cq_state"
where
  "budget_eta key_spend key_burn eta_date wall s now key =
     (if ak_id key = [] then (Inr None, s)
      else if \<not> has_budget key then (Inr None, s)
      else let (sp, s1) = get_spend key_spend s now (ak_id key);
               (burn, s2) = burn_rate key_burn s1 now (ak_id key)
           in if burn \<le> 0 then (Inr None, s2)
              else let cands = eta_candidate ''daily'' (sp_day_cost sp) (ak_daily_budget_usd key) burn
                             @ eta_candidate ''monthly'' (sp_month_cost sp) (ak_monthly_budget_usd key) burn;
                       (period, days, remaining) = arg_min_list (\<lambda>c. fst (snd c)) cands
                   in if end_of_calendar \<le> wall + days * 86400 then (Inl OverflowError, s2)
                      else (Inr (Some \<lparr>et_period = period, et_days = py_round 1 days, et_date = eta_date days,
                              et_burn_rate = py_round 6 burn, et_remaining = py_round 6 remaining\<rparr>), s2))"

section \<open>Runs of the window\<close>

text \<open>\<open>rpm_run\<close> asks at the given times and collects the times at which a request is let through.\<close>

fun rpm_run :: "api_key_config \<Rightarrow> time list \<Rightarrow> cq_state \<Rightarrow> time list \<Rightarrow> time list \<times> cq_state" where
  "rpm_run key [] s allowed = (allowed, s)"
| "rpm_run key (t # ts) s allowed =
     (let (r, s1) = check_rpm s t key in rpm_run key ts s1 (if r = None then allowed @ [t] else allowed))"

definition in_window :: "time \<Rightarrow> time \<Rightarrow> bool" where
  "in_window t x \<longleftrightarrow> t - 60 \<le> x \<and> x \<le> t"

definition window_inv :: "nat \<Rightarrow> time \<Rightarrow> time list \<Rightarrow> time list \<Rightarrow> bool" where
  "window_inv rpm upto_t allowed dq \<longleftrightarrow>
     sorted allowed \<and> (\<forall>x\<in>set allowed. x \<le> upto_t) \<and> dq = filter (\<lambda>x. \<not> upto_t - x > 60) allowed
     \<and> (\<forall>t. length (filter (in_window t) allowed) \<le> rpm)"

lemma dropWhile_sorted:
  "sorted xs \<Longrightarrow> dropWhile (\<lambda>t. now - t > (60::real)) xs = filter (\<lambda>t. \<not> now - t > 60) xs"
proof (induction xs)
  case (Cons x xs)
  then show ?case
    by (cases "now - x > 60") (auto simp: filter_id_conv intro!: sym [OF filter_True])
qed simp

lemma window_pop:
  assumes "window_inv rpm upto_t allowed dq" and "upto_t \<le> now"
  shows "window_inv rpm now allowed (pop_old now dq)"
proof -
  have "sorted dq" using assms(1) by (simp add: window_inv_def sorted_wrt_filter)
  then have "pop_old now dq = filter (\<lambda>x. \<not> now - x > 60) dq"
    by (simp add: pop_old_def dropWhile_sorted)
  also have "\<dots> = filter (\<lambda>x. \<not> now - x > 60) allowed"
    using assms by (auto simp: window_inv_def intro!: filter_cong)
  finally show ?thesis
    using assms by (auto simp: window_inv_def)
qed

lemma window_push:
  assumes "window_inv rpm now allowed dq" and "length dq < rpm"
  shows "window_inv rpm now (allowed @ [now]) (dq @ [now])"
proof -
  have "length (filter (in_window t) (allowed @ [now])) \<le> rpm" for t
  proof (cases "in_window t now")
    case True
    then have "filter (in_window t) allowed = filter (in_window t) dq"
      using assms(1) by (auto simp: window_inv_def in_window_def intro!: filter_cong)
    then have "length (filter (in_window t) allowed) \<le> length dq"
      by simp
    with True assms(2) show ?thesis by simp
  qed (use assms(1) in \<open>simp add: window_inv_def\<close>)
  with assms(1) show ?thesis
    by (auto simp: window_inv_def sorted_append)
qed

lemma hits_of_put [simp]: "hits_of (s\<lparr>cq_hits := dset k dq (cq_hits s)\<rparr>) k = dq"
  by (simp add: hits_of_def)

lemma rpm_run_inv:
  assumes "ak_rpm key = Some rpm" and "0 < rpm" and "ak_id key \<noteq> []"
  shows "window_inv (nat rpm) upto_t allowed (hits_of s (ak_id key)) \<Longrightarrow> sorted (upto_t # ts) \<Longrightarrow>
         \<exists>l. window_inv (nat rpm) l (fst (rpm_run key ts s allowed)) (hits_of (snd (rpm_run key ts s allowed)) (ak_id key))"
proof (induction ts arbitrary: s allowed upto_t)
  case (Cons t ts)
  have pop: "window_inv (nat rpm) t allowed (pop_old t (hits_of s (ak_id key)))"
    using Cons.prems by (intro window_pop) auto
  show ?case
  proof (cases "rpm \<le> int (length (pop_old t (hits_of s (ak_id key))))")
    case True
    with assms pop Cons show ?thesis by (auto simp: check_rpm_def Let_def)
  next
    case False
    then have "window_inv (nat rpm) t (allowed @ [t]) (pop_old t (hits_of s (ak_id key)) @ [t])"
      by (intro window_push pop) linarith
    with False assms Cons show ?thesis by (auto simp: check_rpm_def Let_def)
  qed
qed auto

section \<open>Properties\<close>

text \<open>
  C20. The request limit is exact: whenever a key with limit \<open>rpm\<close> is used, no stretch of 60 seconds
  ever contains more than \<open>rpm\<close> requests that were let through.
\<close>

theorem rpm_limit_holds:
  assumes "ak_rpm key = Some rpm" and "0 < rpm" and "ak_id key \<noteq> []" and "sorted ts"
  shows "length (filter (in_window t) (fst (rpm_run key ts cq_init []))) \<le> nat rpm"
proof (cases ts)
  case (Cons t0 rest)
  have "window_inv (nat rpm) t0 [] (hits_of cq_init (ak_id key))"
    by (simp add: window_inv_def hits_of_def cq_init_def)
  moreover have "sorted (t0 # ts)" using assms(4) Cons by auto
  ultimately show ?thesis
    using rpm_run_inv [OF assms(1-3), of t0 "[]" cq_init ts] by (auto simp: window_inv_def)
qed simp

definition limited_key :: "int \<Rightarrow> api_key_config" where
  "limited_key n = \<lparr>ak_id = ''k'', ak_key = ''s'', ak_label = [], ak_enabled = True, ak_rpm = Some n,
                    ak_daily_budget_usd = None, ak_monthly_budget_usd = Some 10, ak_model_allowlist = []\<rparr>"

theorem rpm_limit_holds_witness:
  "length (filter (in_window 70) (fst (rpm_run (limited_key 2) [0, 10, 20, 61, 65, 70, 71] cq_init []))) \<le> nat 2"
  by (rule rpm_limit_holds) (simp_all add: limited_key_def)

text \<open>
  A request that is turned away is told to wait until the window has room: asking again after the
  announced delay (and the tenth of a second it is rounded to) succeeds, if no other request of the
  key comes between.
\<close>

theorem retry_after_suffices:
  assumes "fst (check_rpm s now key) = Some delay" and "length (hits_of s (ak_id key)) \<le> nat (the (ak_rpm key))"
    and "now + delay + 1 / 10 \<le> later"
  shows "fst (check_rpm (snd (check_rpm s now key)) later key) = None"
proof -
  define dq where "dq = pop_old now (hits_of s (ak_id key))"
  obtain rpm where rpm: "ak_rpm key = Some rpm" "0 < rpm" "ak_id key \<noteq> []" "rpm \<le> int (length dq)"
    and delay: "delay = py_round 1 (60 - (now - hd dq))"
    and s1: "hits_of (snd (check_rpm s now key)) (ak_id key) = dq"
    using assms(1) by (auto simp: check_rpm_def Let_def dq_def split: option.splits if_splits)
  have "length dq \<le> length (hits_of s (ak_id key))"
    by (simp add: dq_def pop_old_def length_dropWhile_le)
  then have len: "int (length dq) = rpm" using assms(2) rpm by simp
  then obtain x xs where x: "dq = x # xs" using rpm(2) by (cases dq) auto
  have "\<bar>delay - (60 - (now - x))\<bar> \<le> 1 / 20"
    using py_round_error [of 1 "60 - (now - x)"] by (simp add: delay x)
  then have "later - x > 60"
    using assms(3) by linarith
  then have "length (pop_old later dq) < length dq"
    using length_dropWhile_le [of "\<lambda>t. later - t > 60" xs] by (simp add: pop_old_def x)
  then show ?thesis
    using rpm len s1 by (simp add: check_rpm_def Let_def)
qed

theorem retry_after_suffices_witness:
  "fst (check_rpm (snd (check_rpm (cq_init\<lparr>cq_hits := [(''k'', [0])]\<rparr>) 20 (limited_key 1))) 61 (limited_key 1)) = None"
  by (rule retry_after_suffices [where delay = 40])
     (simp_all add: check_rpm_def limited_key_def cq_init_def hits_of_def pop_old_def Let_def py_round_def
        round_half_even_def)

end
