(* ===== verification/Alerts.thy ===== *)
theory Alerts
  imports Json
begin

text \<open>
  Alerts to a webhook (\<^verbatim>\<open>src/localgateway/alerts.py\<close>): the six-hour throttle per key and what is
  posted.  \<open>url\<close> is \<open>_webhook_url()\<close>, the configured address (\<open>None\<close> too when the configuration cannot
  be read).  A posted alert is a thread that has been started; its delivery is not modelled, and one
  clock reading serves for a whole call.
\<close>

record alert =
  al_event :: string
  al_title :: string
  al_detail :: jobj
  al_ts :: time
  al_source :: string

record alert_state =
  as_last_sent :: "(string, time) dict"
  as_posted :: "(string option \<times> string \<times> alert) list"

definition no_alerts :: alert_state where
  "no_alerts = \<lparr>as_last_sent = [], as_posted = []\<rparr>"

definition dedup_interval :: real where
  "dedup_interval = 6 * 3600"

definition last_sent :: "alert_state \<Rightarrow> string \<Rightarrow> time" where
  "last_sent s key = (case dget (as_last_sent s) key of None \<Rightarrow> 0 | Some t \<Rightarrow> t)"

definition throttled :: "alert_state \<Rightarrow> time \<Rightarrow> string option \<Rightarrow> bool" where
  "throttled s now dedup_key = (case dedup_key of None \<Rightarrow> False | Some key \<Rightarrow> now - last_sent s key < dedup_interval)"

definition mark_sent :: "time \<Rightarrow> string option \<Rightarrow> alert_state \<Rightarrow> alert_state" where
  "mark_sent now dedup_key s =
     (case dedup_key of None \<Rightarrow> s | Some key \<Rightarrow> s\<lparr>as_last_sent := dset key now (as_last_sent s)\<rparr>)"

definition send ::
    "string option \<Rightarrow> time \<Rightarrow> string \<Rightarrow> string \<Rightarrow> jobj \<Rightarrow> string option \<Rightarrow> alert_state \<Rightarrow> bool \<times> alert_state"
where
  "send url now event title detail dedup_key s =
     (if throttled s now dedup_key then (False, s)
      else let s1 = mark_sent now dedup_key s
           in case url of
                None \<Rightarrow> (False, s1)
              | Some u \<Rightarrow>
                  if u = [] then (False, s1)
                  else (True, s1\<lparr>as_posted := as_posted s1 @
                                  [(dedup_key, u, \<lparr>al_event = event, al_title = title, al_detail = detail, al_ts = now,
                                              al_source = ''localgateway''\<rparr>)]\<rparr>))"

section \<open>Runs\<close>

record alert_call =
  ac_url :: "string option"
  ac_now :: time
  ac_event :: string
  ac_title :: string
  ac_detail :: jobj
  ac_key :: "string option"

definition send_call :: "alert_call \<Rightarrow> alert_state \<Rightarrow> alert_state" where
  "send_call c s = snd (send (ac_url c) (ac_now c) (ac_event c) (ac_title c) (ac_detail c) (ac_key c) s)"

definition posted_times :: "string \<Rightarrow> alert_state \<Rightarrow> time list" where
  "posted_times key s = map (\<lambda>(_, _, a). al_ts a) (filter (\<lambda>(k, _, _). k = Some key) (as_posted s))"

text \<open>
  The posts of a key are six hours apart, the last of them is not later than the time remembered for
  the key, and that is not later than now.
\<close>

definition throttle_inv :: "string \<Rightarrow> time \<Rightarrow> alert_state \<Rightarrow> bool" where
  "throttle_inv key now s \<longleftrightarrow>
     sorted_wrt (\<lambda>a b. a + dedup_interval \<le> b) (posted_times key s)
     \<and> (\<forall>t\<in>set (posted_times key s). t \<le> last_sent s key) \<and> (posted_times key s \<noteq> [] \<longrightarrow> last_sent s key \<le> now)"

lemma posted_times_mark [simp]: "posted_times key (mark_sent now k s) = posted_times key s"
  by (simp add: posted_times_def mark_sent_def split: option.split)

lemma last_sent_mark: "last_sent (mark_sent now k s) key = (if k = Some key then now else last_sent s key)"
  by (auto simp: last_sent_def mark_sent_def split: option.split)

lemma posted_times_snoc:
  "posted_times key (s\<lparr>as_posted := as_posted s @ [(k, u, a)]\<rparr>)
   = posted_times key s @ (if k = Some key then [al_ts a] else [])"
  by (simp add: posted_times_def)

lemma last_sent_post [simp]: "last_sent (s\<lparr>as_posted := p\<rparr>) key = last_sent s key"
  by (simp add: last_sent_def)

lemma dedup_pos: "0 < dedup_interval"
  by (simp add: dedup_interval_def)

lemma throttle_inv_later: "throttle_inv key t s \<Longrightarrow> t \<le> now \<Longrightarrow> throttle_inv key now s"
  by (auto simp: throttle_inv_def)

lemma throttle_inv_mark: "throttle_inv key now s \<Longrightarrow> throttle_inv key now (mark_sent now k s)"
  by (fastforce simp: throttle_inv_def last_sent_mark)

lemma throttle_inv_send:
  assumes "throttle_inv key t s" and "t \<le> ac_now c"
  shows "throttle_inv key (ac_now c) (send_call c s)"
proof -
  note inv = throttle_inv_later [OF assms]
  note marked = throttle_inv_mark [OF inv, of "ac_key c"]
  have apart: "p + dedup_interval \<le> ac_now c"
    if "\<not> throttled s (ac_now c) (Some key)" "p \<in> set (posted_times key s)" for p
    using inv that by (fastforce simp: throttle_inv_def throttled_def)
  show ?thesis
  proof (cases "throttled s (ac_now c) (ac_key c) \<or> ac_url c = None \<or> ac_url c = Some []")
    case True
    with inv marked show ?thesis by (auto simp: send_call_def send_def Let_def)
  next
    case False
    with marked apart dedup_pos show ?thesis
      by (auto simp: send_call_def send_def Let_def throttle_inv_def posted_times_snoc last_sent_mark
          sorted_wrt_append intro: order_trans [OF _ less_imp_le])
  qed
qed

section \<open>Properties\<close>

text \<open>
  The webhook is not flooded: whatever is sent, two alerts posted for the same key are at least six
  hours apart.
\<close>

theorem alerts_throttled:
  assumes "sorted (map ac_now calls)"
  shows "sorted_wrt (\<lambda>a b. a + dedup_interval \<le> b) (posted_times key (fold send_call calls no_alerts))"
proof -
  have "\<exists>now. throttle_inv key now (fold send_call cs s)"
    if "throttle_inv key t s" "sorted (t # map ac_now cs)" for cs t s
    using that
  proof (induction cs arbitrary: t s)
    case (Cons c cs)
    then show ?case using throttle_inv_send [of key t s c] by auto
  qed auto
  moreover have "throttle_inv key (case calls of [] \<Rightarrow> 0 | c # _ \<Rightarrow> ac_now c) no_alerts"
    by (simp add: throttle_inv_def posted_times_def no_alerts_def)
  moreover have "sorted ((case calls of [] \<Rightarrow> 0 | c # _ \<Rightarrow> ac_now c) # map ac_now calls)"
    using assms by (cases calls) auto
  ultimately show ?thesis by (fastforce simp: throttle_inv_def)
qed

definition demo_call :: "time \<Rightarrow> alert_call" where
  "demo_call t = \<lparr>ac_url = Some ''u'', ac_now = t, ac_event = ''e'', ac_title = ''t'', ac_detail = [],
                  ac_key = Some ''eta:k''\<rparr>"

theorem alerts_throttled_witness:
  "sorted_wrt (\<lambda>a b. a + dedup_interval \<le> b)
     (posted_times ''eta:k'' (fold send_call (map demo_call [100000, 100001, 130000]) no_alerts))"
  by (rule alerts_throttled) (simp add: demo_call_def)

text \<open>
  An alert that went nowhere throttles as well: when no webhook is configured at the time of a call, the
  key is marked as sent, and the alert stays silent for six hours after a webhook has been set.
\<close>

theorem unsent_alert_silences:
  assumes "\<not> throttled s now (Some key)" and "later < now + dedup_interval"
  shows "send url later event title detail (Some key) (snd (send None now event title detail (Some key) s))
         = (False, snd (send None now event title detail (Some key) s))"
  using assms by (simp add: send_def Let_def throttled_def last_sent_mark)

theorem unsent_alert_silences_witness:
  "send (Some ''u'') 100060 ''e'' ''t'' [] (Some ''k'') (snd (send None 100000 ''e'' ''t'' [] (Some ''k'') no_alerts))
   = (False, snd (send None 100000 ''e'' ''t'' [] (Some ''k'') no_alerts))"
  by (rule unsent_alert_silences) (simp_all add: throttled_def last_sent_def no_alerts_def dedup_interval_def)

end
