(* ===== verification/Worker.thy ===== *)
theory Worker
  imports Auth ClientQuota Alerts
begin

text \<open>
  The middleware of the worker (\<^verbatim>\<open>auth_middleware\<close> in \<^verbatim>\<open>src/localgateway/worker.py\<close>): who gets
  to the endpoints.

  \<open>gate_env\<close> holds the clock readings (\<open>time.monotonic()\<close> and \<open>time.time()\<close>) and the answers of the
  usage database; \<open>gate_state\<close> the quotas and the alerts.
\<close>

section \<open>State\<close>

record gate_env =
  ge_now :: time
  ge_wall :: time
  ge_key_spend :: "string \<Rightarrow> spend"
  ge_key_burn :: "string \<Rightarrow> real"
  ge_eta_date :: "real \<Rightarrow> string"

record gate_state =
  gs_quota :: cq_state
  gs_alerts :: alert_state

text \<open>\<open>Admitted k\<close> goes on to the endpoint with \<open>request.state.api_key_cfg\<close> set to \<open>k\<close> (or left unset).\<close>

datatype verdict = Rejected reply | Admitted "api_key_config option"

section \<open>The middleware\<close>

definition is_admin_path :: "string \<Rightarrow> bool" where
  "is_admin_path path \<longleftrightarrow> prefix ''/admin'' path \<or> is_page_path path"

definition is_api_path :: "string \<Rightarrow> bool" where
  "is_api_path path \<longleftrightarrow> prefix ''/v1'' path \<or> prefix ''/api/v1'' path"

definition rpm_reply :: "api_key_config \<Rightarrow> real \<Rightarrow> reply" where
  "rpm_reply key retry =
     (error_reply 429
        [(''message'', ''Rate limit exceeded for API key '' @ [CHR 0x27] @ ak_id key @ [CHR 0x27] @ '' (''
                       @ (case ak_rpm key of None \<Rightarrow> ''None'' | Some n \<Rightarrow> int_str n) @ '' rpm)''),
         (''type'', ''rate_limit_error''), (''code'', ''rpm_exceeded'')])
     \<lparr>rp_headers := [(''Retry-After'', fixed 1 retry)]\<rparr>"

definition budget_reply :: "api_key_config \<Rightarrow> string \<Rightarrow> real \<Rightarrow> real \<Rightarrow> reply" where
  "budget_reply key period spent limit =
     error_reply 402
       [(''message'', capitalize period @ '' budget exceeded for API key '' @ [CHR 0x27] @ ak_id key @ [CHR 0x27]
                      @ '' ($'' @ fixed 4 spent @ '' of $'' @ fixed 2 limit @ '')''),
        (''type'', ''billing_error''), (''code'', ''budget_exceeded'')]"

definition budget_alert ::
    "gate_env \<Rightarrow> gateway_config \<Rightarrow> api_key_config \<Rightarrow> string \<Rightarrow> real \<Rightarrow> real \<Rightarrow> alert_state \<Rightarrow> alert_state" where
  "budget_alert e cfg key period spent limit a =
     snd (send (sv_alert_webhook_url (gw_server cfg)) (ge_wall e) ''budget_exceeded''
            (''Budget exceeded for key '' @ [CHR 0x27] @ ak_id key @ [CHR 0x27])
            [(''key'', JStr (ak_id key)), (''period'', JStr period), (''spent'', JFloat spent), (''limit'', JFloat limit)]
            None a)"

definition check_quotas ::
    "gate_env \<Rightarrow> gateway_config \<Rightarrow> api_key_config \<Rightarrow> gate_state \<Rightarrow> verdict \<times> gate_state" where
  "check_quotas e cfg key s =
     (let (retry, q1) = check_rpm (gs_quota s) (ge_now e) key
      in case retry of
           Some r \<Rightarrow> (Rejected (rpm_reply key r), s\<lparr>gs_quota := q1\<rparr>)
         | None \<Rightarrow>
             (let (exceeded, q2) = check_budget (ge_key_spend e) q1 (ge_now e) key
              in case exceeded of
                   Some (period, spent, limit) \<Rightarrow>
                     (Rejected (budget_reply key period spent limit),
                      s\<lparr>gs_quota := q2, gs_alerts := budget_alert e cfg key period spent limit (gs_alerts s)\<rparr>)
                 | None \<Rightarrow> (Admitted (Some key), s\<lparr>gs_quota := q2\<rparr>)))"

definition auth_middleware ::
    "gate_env \<Rightarrow> gateway_config \<Rightarrow> web_request \<Rightarrow> gate_state \<Rightarrow> verdict \<times> gate_state" where
  "auth_middleware e cfg req s =
     (if is_admin_path (wq_path req)
      then (if \<not> check_api_key req cfg then (Rejected invalid_key_reply, s) else (Admitted None, s))
      else if is_api_path (wq_path req)
      then (if keys_configured cfg
            then (case resolve_api_key req cfg of
                    None \<Rightarrow> (Rejected invalid_key_reply, s)
                  | Some key \<Rightarrow> check_quotas e cfg key s)
            else (Admitted (resolve_api_key req cfg), s))
      else (Admitted None, s))"

section \<open>Lemmas\<close>

text \<open>What the budget check saw when it let a request through: a spend below both budgets.\<close>

definition within_budget :: "api_key_config \<Rightarrow> spend \<Rightarrow> bool" where
  "within_budget key sp \<longleftrightarrow>
     (\<forall>d. budget (ak_daily_budget_usd key) = Some d \<longrightarrow> sp_day_cost sp < d)
     \<and> (\<forall>m. budget (ak_monthly_budget_usd key) = Some m \<longrightarrow> sp_month_cost sp < m)"

lemma check_budget_passes:
  assumes "check_budget key_spend s now key = (None, s')" and "ak_id key \<noteq> []"
  shows "within_budget key (fst (get_spend key_spend s now (ak_id key)))"
proof (cases "has_budget key")
  case True
  with assms show ?thesis
    by (auto simp: check_budget_def within_budget_def Let_def split_beta split: option.splits if_splits)
next
  case False
  then show ?thesis by (simp add: within_budget_def has_budget_def)
qed

lemma check_rpm_spend [simp]: "cq_spend (snd (check_rpm s now key)) = cq_spend s"
  by (simp add: check_rpm_def Let_def split: option.split)

text \<open>The spend the middleware sees: the cached one while it is less than five seconds old.\<close>

definition spend_seen :: "gate_env \<Rightarrow> gate_state \<Rightarrow> string \<Rightarrow> spend" where
  "spend_seen e s kid = fst (get_spend (ge_key_spend e) (gs_quota s) (ge_now e) kid)"

lemma spend_seen_rpm:
  "fst (get_spend (ge_key_spend e) (snd (check_rpm (gs_quota s) now key)) (ge_now e) kid) = spend_seen e s kid"
  by (simp add: spend_seen_def get_spend_def split: option.split prod.split)

lemma check_quotas_passes:
  assumes "check_quotas e cfg key s = (Admitted k, s')"
  shows "k = Some key" and "fst (check_rpm (gs_quota s) (ge_now e) key) = None"
    and "ak_id key \<noteq> [] \<Longrightarrow> within_budget key (spend_seen e s (ak_id key))"
proof -
  obtain q2 where q: "fst (check_rpm (gs_quota s) (ge_now e) key) = None" "k = Some key"
      "check_budget (ge_key_spend e) (snd (check_rpm (gs_quota s) (ge_now e) key)) (ge_now e) key = (None, q2)"
    using assms by (auto simp: check_quotas_def Let_def split: prod.splits option.splits)
  then show "k = Some key" "fst (check_rpm (gs_quota s) (ge_now e) key) = None" by auto
  show "within_budget key (spend_seen e s (ak_id key))" if "ak_id key \<noteq> []"
    using check_budget_passes [OF q(3) that] by (simp add: spend_seen_rpm)
qed

section \<open>Properties\<close>

text \<open>
  C4. Nobody uses the API without a key and a quota: when keys are configured, a request for an API path
  reaches an endpoint only with a token that is an enabled key or the server's own, inside that key's
  requests per minute, and below its budgets; and the endpoint is told that key.
\<close>

theorem no_api_access_without_key:
  assumes "auth_middleware e cfg req s = (Admitted k, s')"
    and "is_api_path (wq_path req)" and "\<not> is_admin_path (wq_path req)" and "keys_configured cfg"
  shows "\<exists>key. k = Some key \<and> key_of_token cfg (bearer_token req) key
           \<and> fst (check_rpm (gs_quota s) (ge_now e) key) = None
           \<and> (ak_id key \<noteq> [] \<longrightarrow> within_budget key (spend_seen e s (ak_id key)))"
proof -
  obtain key where key: "resolve_api_key req cfg = Some key" "check_quotas e cfg key s = (Admitted k, s')"
    using assms by (auto simp: auth_middleware_def split: option.splits)
  with check_quotas_passes [OF key(2)] resolve_sound [OF assms(4) key(1)] show ?thesis by blast
qed

definition demo_gate_env :: gate_env where
  "demo_gate_env = \<lparr>ge_now = 100, ge_wall = 0, ge_key_spend = (\<lambda>_. no_spend), ge_key_burn = (\<lambda>_. 0),
                    ge_eta_date = (\<lambda>_. [])\<rparr>"

definition demo_gate :: gate_state where
  "demo_gate = \<lparr>gs_quota = cq_init, gs_alerts = no_alerts\<rparr>"

definition quota_gateway :: "real \<Rightarrow> gateway_config" where
  "quota_gateway b = default_gateway\<lparr>gw_server := default_server\<lparr>sv_alert_webhook_url := Some ''u'',
     sv_api_keys := [(limited_key 5)\<lparr>ak_daily_budget_usd := Some b\<rparr>]\<rparr>\<rparr>"

definition api_request :: web_request where
  "api_request = demo_web_request ''POST'' ''/v1/chat/completions'' ''10.0.0.7''"

lemma api_request_simps [simp]:
  "wq_path api_request = ''/v1/chat/completions''" "bearer_token api_request = ''s''"
  by (simp_all add: api_request_def demo_web_request_def bearer_token_def header_or_empty_def Let_def
      remove_all.simps strip_def is_space_def byte_def)

lemma api_request_gate:
  "\<not> is_admin_path ''/v1/chat/completions''" "is_api_path ''/v1/chat/completions''" "keys_configured (quota_gateway b)"
  "resolve_api_key api_request (quota_gateway b) = Some ((limited_key 5)\<lparr>ak_daily_budget_usd := Some b\<rparr>)"
  by (simp_all add: is_admin_path_def is_page_path_def page_paths_def page_prefixes_def is_api_path_def
      keys_configured_def quota_gateway_def default_gateway_def default_server_def resolve_api_key_def limited_key_def
      api_request_simps)

lemmas quota_defs = check_quotas_def check_rpm_def hits_of_def cq_init_def demo_gate_env_def demo_gate_def
  limited_key_def pop_old_def check_budget_def has_budget_def budget_def get_spend_def no_spend_def Let_def

theorem no_api_access_without_key_witness:
  "\<exists>key. fst (auth_middleware demo_gate_env (quota_gateway 3) api_request demo_gate) = Admitted (Some key)
     \<and> key_of_token (quota_gateway 3) (bearer_token api_request) key
     \<and> fst (check_rpm (gs_quota demo_gate) (ge_now demo_gate_env) key) = None
     \<and> (ak_id key = [] \<or> within_budget key (spend_seen demo_gate_env demo_gate (ak_id key)))"
proof -
  let ?r = "auth_middleware demo_gate_env (quota_gateway 3) api_request demo_gate"
  have r: "?r = (Admitted (Some ((limited_key 5)\<lparr>ak_daily_budget_usd := Some 3\<rparr>)), snd ?r)"
    by (simp add: auth_middleware_def api_request_gate) (simp add: quota_defs)
  have a: "is_api_path (wq_path api_request)" "\<not> is_admin_path (wq_path api_request)" "keys_configured (quota_gateway 3)"
    by (simp_all add: api_request_gate)
  show ?thesis using no_api_access_without_key [OF r a] r by (metis fst_conv)
qed

text \<open>
  A key that has spent its budget posts an alert for every request it goes on making: the alert is sent
  without a key for the throttle.
\<close>

theorem budget_alert_each_time:
  assumes "check_rpm (gs_quota s) (ge_now e) key = (None, q)"
    and "check_budget (ge_key_spend e) q (ge_now e) key = (Some x, q')"
    and "sv_alert_webhook_url (gw_server cfg) = Some u" and "u \<noteq> []"
  shows "length (as_posted (gs_alerts (snd (check_quotas e cfg key s)))) = length (as_posted (gs_alerts s)) + 1"
  using assms
  by (cases x) (simp add: check_quotas_def budget_alert_def send_def throttled_def mark_sent_def Let_def)

theorem budget_alert_each_time_witness:
  "length (as_posted (gs_alerts (snd (check_quotas (demo_gate_env\<lparr>ge_key_spend := (\<lambda>_. no_spend\<lparr>sp_day_cost := 9\<rparr>)\<rparr>)
      (quota_gateway 3) ((limited_key 5)\<lparr>ak_daily_budget_usd := Some 3\<rparr>) demo_gate)))) = length (as_posted (gs_alerts demo_gate)) + 1"
proof -
  let ?e = "demo_gate_env\<lparr>ge_key_spend := (\<lambda>_. no_spend\<lparr>sp_day_cost := 9\<rparr>)\<rparr>"
  let ?key = "(limited_key 5)\<lparr>ak_daily_budget_usd := Some 3\<rparr>"
  have r: "check_rpm (gs_quota demo_gate) (ge_now ?e) ?key = (None, snd (check_rpm (gs_quota demo_gate) (ge_now ?e) ?key))"
    by (simp add: quota_defs)
  have "fst (check_budget (ge_key_spend ?e) q (ge_now ?e) ?key) = Some (''daily'', 9, 3)"
    if "cq_spend q = []" for q using that by (simp add: quota_defs)
  then have b: "check_budget (ge_key_spend ?e) (snd (check_rpm (gs_quota demo_gate) (ge_now ?e) ?key)) (ge_now ?e) ?key
      = (Some (''daily'', 9, 3), snd (check_budget (ge_key_spend ?e) (snd (check_rpm (gs_quota demo_gate) (ge_now ?e) ?key)) (ge_now ?e) ?key))"
    by (intro prod_eqI) (simp_all add: demo_gate_def cq_init_def)
  show ?thesis by (rule budget_alert_each_time [OF r b, of _ "''u''"]) (simp_all add: quota_gateway_def)
qed

end
