(* ===== verification/Reasoning.thy ===== *)
theory Reasoning
  imports Sse
begin

text \<open>
  Reasoning fields (\<^verbatim>\<open>src/localgateway/reasoning.py\<close>): chat deltas and messages carry the same
  reasoning text under \<open>reasoning_content\<close> and \<open>reasoning\<close>, whatever the provider calls it.
  The in-place changes of Python's dictionaries are returned as a new value beside the flag
  \<open>changed\<close>.  \<open>"".join(parts)\<close> raises \<open>TypeError\<close> for a part that is no string.
\<close>

definition reasoning_keys :: "string list" where
  "reasoning_keys = [''reasoning_content'', ''reasoning'', ''thinking'']"

section \<open>One delta\<close>

definition block_part :: "json \<Rightarrow> json option" where
  "block_part block =
     (case block of
        JObj b \<Rightarrow>
          if jget b ''type'' \<in> {JNull, JStr ''thinking'', JStr ''text''}
          then let t = py_or (jget b ''thinking'') (jget b ''text'') in if truthy t then Some t else None
          else None
      | JStr s \<Rightarrow> Some (JStr s)
      | _ \<Rightarrow> None)"

fun join_parts :: "json list \<Rightarrow> py_error + string" where
  "join_parts [] = Inr []"
| "join_parts (JStr s # ps) = (case join_parts ps of Inl e \<Rightarrow> Inl e | Inr r \<Rightarrow> Inr (s @ r))"
| "join_parts (_ # ps) = Inl TypeError"

text \<open>The loop over the keys; \<open>value\<close> is the empty string while nothing has been found.\<close>

fun find_value :: "jobj \<Rightarrow> string list \<Rightarrow> string \<Rightarrow> py_error + string" where
  "find_value delta [] value = Inr value"
| "find_value delta (k # ks) value =
     (let v = jget delta k
      in if \<not> truthy v then find_value delta ks value
         else case v of
                JList xs \<Rightarrow>
                  (let parts = List.map_filter block_part xs
                   in if parts = []
                      then (if value \<noteq> [] then Inr value else find_value delta ks value)
                      else case join_parts parts of
                             Inl e \<Rightarrow> Inl e
                           | Inr s \<Rightarrow> if s \<noteq> [] then Inr s else find_value delta ks s)
              | JStr s \<Rightarrow> Inr s
              | _ \<Rightarrow> if value \<noteq> [] then Inr value else find_value delta ks value)"

fun fill_targets :: "string list \<Rightarrow> string \<Rightarrow> jobj \<Rightarrow> bool \<times> jobj" where
  "fill_targets [] value d = (False, d)"
| "fill_targets (t # ts) value d =
     (if truthy (jget d t) then fill_targets ts value d
      else (True, snd (fill_targets ts value (dset t (JStr value) d))))"

definition normalize_dict :: "jobj \<Rightarrow> py_error + bool \<times> jobj" where
  "normalize_dict delta =
     (case find_value delta reasoning_keys [] of
        Inl e \<Rightarrow> Inl e
      | Inr value \<Rightarrow>
          if value = [] then Inr (False, delta)
          else Inr (fill_targets [''reasoning_content'', ''reasoning''] value delta))"

definition normalize_delta :: "json \<Rightarrow> py_error + bool \<times> json" where
  "normalize_delta v =
     (case v of
        JObj d \<Rightarrow> (case normalize_dict d of Inl e \<Rightarrow> Inl e | Inr (c, d') \<Rightarrow> Inr (c, JObj d'))
      | _ \<Rightarrow> Inr (False, v))"

section \<open>A response object\<close>

definition normalize_field :: "string \<Rightarrow> jobj \<Rightarrow> py_error + bool \<times> jobj" where
  "normalize_field f d =
     (case normalize_delta (jget d f) of
        Inl e \<Rightarrow> Inl e
      | Inr (c, v) \<Rightarrow> Inr (c, if jhas d f then dset f v d else d))"

definition normalize_choice :: "json \<Rightarrow> py_error + bool \<times> json" where
  "normalize_choice choice =
     (case choice of
        JObj c \<Rightarrow>
          (case normalize_field ''delta'' c of
             Inl e \<Rightarrow> Inl e
           | Inr (ch1, c1) \<Rightarrow>
               (case normalize_field ''message'' c1 of
                  Inl e \<Rightarrow> Inl e
                | Inr (ch2, c2) \<Rightarrow> Inr (ch1 \<or> ch2, JObj c2)))
      | _ \<Rightarrow> Inr (False, choice))"

fun normalize_choices :: "json list \<Rightarrow> py_error + bool \<times> json list" where
  "normalize_choices [] = Inr (False, [])"
| "normalize_choices (c # cs) =
     (case normalize_choice c of
        Inl e \<Rightarrow> Inl e
      | Inr (ch, c') \<Rightarrow>
          (case normalize_choices cs of Inl e \<Rightarrow> Inl e | Inr (ch', cs') \<Rightarrow> Inr (ch \<or> ch', c' # cs')))"

definition normalize_obj :: "jobj \<Rightarrow> py_error + bool \<times> jobj" where
  "normalize_obj obj =
     (case (case jget obj ''choices'' of
              JList cs \<Rightarrow>
                (case normalize_choices cs of
                   Inl e \<Rightarrow> Inl e | Inr (ch, cs') \<Rightarrow> Inr (ch, dset ''choices'' (JList cs') obj))
            | _ \<Rightarrow> Inr (False, obj)) of
        Inl e \<Rightarrow> Inl e
      | Inr (ch1, obj1) \<Rightarrow>
          (case normalize_dict obj1 of Inl e \<Rightarrow> Inl e | Inr (ch2, obj2) \<Rightarrow> Inr (ch1 \<or> ch2, obj2)))"

section \<open>Bodies and streams\<close>

fun contains :: "string \<Rightarrow> string \<Rightarrow> bool" where
  "contains needle [] = (needle = [])"
| "contains needle (c # s) = (prefix needle (c # s) \<or> contains needle s)"

definition mentions_reasoning :: "string \<Rightarrow> bool" where
  "mentions_reasoning s \<longleftrightarrow> contains ''reasoning'' s \<or> contains ''thinking'' s"

definition normalize_response_body :: "codec \<Rightarrow> bytes \<Rightarrow> py_error + bytes" where
  "normalize_response_body cd body =
     (if \<not> mentions_reasoning body then Inr body
      else case Option.bind (cd_loads_bytes cd body) as_obj of
             None \<Rightarrow> Inr body
           | Some obj \<Rightarrow>
               (case normalize_obj obj of
                  Inl e \<Rightarrow> Inl e
                | Inr (changed, obj') \<Rightarrow> Inr (if changed then cd_dumps_raw cd (JObj obj') else body)))"

text \<open>\<open>f"data: {json.dumps(obj, ensure_ascii=False)}\\n\\n"\<close>, or the event as it came.\<close>

definition normalize_event :: "codec \<Rightarrow> sse_event \<Rightarrow> py_error + bytes" where
  "normalize_event cd ev =
     (case Option.bind (cd_loads cd (ev_data ev)) as_obj of
        None \<Rightarrow> Inr (render_event ev)
      | Some obj \<Rightarrow>
          (case normalize_obj obj of
             Inl e \<Rightarrow> Inl e
           | Inr (changed, obj') \<Rightarrow>
               Inr (if changed then ''data: '' @ cd_dumps_raw cd (JObj obj') @ [LF, LF] else render_event ev)))"

definition transform_event :: "codec \<Rightarrow> sse_event \<Rightarrow> py_error + bytes" where
  "transform_event cd ev =
     (if ev_done ev then Inr (render_event ev)
      else if \<not> mentions_reasoning (ev_data ev) then Inr (render_event ev)
      else normalize_event cd ev)"

fun transform_events :: "codec \<Rightarrow> sse_event list \<Rightarrow> py_error + bytes" where
  "transform_events cd [] = Inr []"
| "transform_events cd (ev # evs) =
     (case transform_event cd ev of
        Inl e \<Rightarrow> Inl e
      | Inr b \<Rightarrow> (case transform_events cd evs of Inl e \<Rightarrow> Inl e | Inr bs \<Rightarrow> Inr (b @ bs)))"

definition transform_stream_chunk :: "codec \<Rightarrow> bytes \<Rightarrow> bytes \<Rightarrow> (py_error + bytes) \<times> bytes" where
  "transform_stream_chunk cd buf chunk =
     (let (events, buf') = feed cd buf chunk in (transform_events cd events, buf'))"

definition flush_stream_chunk :: "codec \<Rightarrow> bytes \<Rightarrow> (py_error + bytes) \<times> bytes" where
  "flush_stream_chunk cd buf =
     (let (ev, buf') = flush cd buf
      in (case ev of
            None \<Rightarrow> Inr []
          | Some e \<Rightarrow> if ev_done e then Inr (render_event e) else normalize_event cd e, buf'))"

section \<open>Lemmas\<close>

lemma fill_targets_sound:
  "value \<noteq> [] \<Longrightarrow> fill_targets ts value d = (c, d') \<Longrightarrow>
   (\<forall>k. (truthy (jget d k) \<longrightarrow> jget d' k = jget d k) \<and> (k \<in> set ts \<longrightarrow> truthy (jget d' k))
        \<and> (k \<notin> set ts \<longrightarrow> jget d' k = jget d k))"
proof (induction ts arbitrary: c d d')
  case (Cons t ts)
  show ?case
  proof (cases "truthy (jget d t)")
    case True
    with Cons.prems Cons.IH [of d c d'] show ?thesis by auto
  next
    case False
    obtain c1 d1 where r: "fill_targets ts value (dset t (JStr value) d) = (c1, d1)" by fastforce
    with False Cons.prems have "d' = d1" by simp
    with Cons.IH [OF Cons.prems(1) r] False Cons.prems(1) show ?thesis by (auto split: if_splits)
  qed
qed simp

lemma fill_targets_done:
  "\<forall>t\<in>set ts. truthy (jget d t) \<Longrightarrow> fill_targets ts value d = (False, d)"
  by (induction ts) auto

lemma fill_targets_values:
  "fill_targets ts value d = (c, d') \<Longrightarrow> jget d' k = jget d k \<or> \<not> truthy (jget d k) \<and> jget d' k = JStr value"
proof (induction ts arbitrary: c d d')
  case (Cons t ts)
  show ?case
  proof (cases "truthy (jget d t)")
    case False
    obtain c1 d1 where r: "fill_targets ts value (dset t (JStr value) d) = (c1, d1)" by fastforce
    with False Cons.prems have "d' = d1" by simp
    with Cons.IH [OF r] False show ?thesis by (auto split: if_splits)
  qed (use Cons in simp)
qed simp

lemma find_value_Inr:
  assumes "\<And>k. jget d' k = jget d k \<or> \<not> truthy (jget d k) \<and> jget d' k = JStr w"
  shows "find_value d ks val = Inr v \<Longrightarrow> \<exists>v'. find_value d' ks val = Inr v'"
proof (induction ks arbitrary: val)
  case (Cons k ks)
  from assms [of k] Cons show ?case
    by (auto simp: Let_def split: json.splits if_splits sum.splits)
qed simp

section \<open>Properties\<close>

text \<open>
  Normalising loses nothing and is done once: fields that had a value keep it, fields other than
  the two reasoning ones are untouched, when something changed both reasoning fields are set
  afterwards, and a second pass changes nothing.
\<close>

theorem normalize_dict_correct:
  assumes "normalize_dict d = Inr (changed, d')"
  shows "(\<forall>k. truthy (jget d k) \<longrightarrow> jget d' k = jget d k)
       \<and> (\<forall>k. k \<notin> {''reasoning_content'', ''reasoning''} \<longrightarrow> jget d' k = jget d k)
       \<and> (changed \<longrightarrow> truthy (jget d' ''reasoning_content'') \<and> truthy (jget d' ''reasoning''))
       \<and> normalize_dict d' = Inr (False, d')"
proof (cases "find_value d reasoning_keys []")
  case (Inr v)
  show ?thesis
  proof (cases "v = []")
    case False
    then have fill: "fill_targets [''reasoning_content'', ''reasoning''] v d = (changed, d')"
      using Inr assms by (simp add: normalize_dict_def)
    note sound = fill_targets_sound [OF False fill]
    then have "\<forall>t\<in>set [''reasoning_content'', ''reasoning'']. truthy (jget d' t)" by simp
    then have "fill_targets [''reasoning_content'', ''reasoning''] w d' = (False, d')" for w
      by (rule fill_targets_done)
    moreover obtain v' where "find_value d' reasoning_keys [] = Inr v'"
      using find_value_Inr [OF fill_targets_values [OF fill] Inr] by blast
    ultimately have "normalize_dict d' = Inr (False, d')"
      by (simp add: normalize_dict_def)
    with sound show ?thesis by auto
  next
    case True
    with Inr assms have "changed = False" "d' = d" by (auto simp: normalize_dict_def)
    with assms show ?thesis by simp
  qed
qed (use assms in \<open>simp add: normalize_dict_def\<close>)

theorem normalize_dict_correct_witness:
  "let d = [(''content'', JStr ''x''), (''thinking'', JList [JObj [(''thinking'', JStr ''ab'')], JStr ''c''])];
       d' = d @ [(''reasoning_content'', JStr ''abc''), (''reasoning'', JStr ''abc'')]
   in (\<forall>k. truthy (jget d k) \<longrightarrow> jget d' k = jget d k)
       \<and> (\<forall>k. k \<notin> {''reasoning_content'', ''reasoning''} \<longrightarrow> jget d' k = jget d k)
       \<and> (True \<longrightarrow> truthy (jget d' ''reasoning_content'') \<and> truthy (jget d' ''reasoning''))
       \<and> normalize_dict d' = Inr (False, d')"
  unfolding Let_def
  by (rule normalize_dict_correct)
     (simp add: normalize_dict_def reasoning_keys_def jget_def block_part_def py_or_def List.map_filter_simps)

end
