(* ===== verification/Provider.thy ===== *)
theory Provider
  imports RateLimit Config Reasoning
begin

text \<open>
  Calls to a provider (\<^verbatim>\<open>src/localgateway/provider.py\<close>).

  The HTTP client is not part of the repository: what a POST returns is a value of
  \<open>http_outcome\<close>, and what a streamed response delivers is an \<open>http_stream\<close> (the status and,
  chunk by chunk, what \<open>__anext__\<close> gives within the idle timeout).  \<open>parse_float\<close> is
  \<open>float(retry_after)\<close> (\<open>None\<close> for \<open>ValueError\<close>); \<open>text_of\<close> is the \<open>str\<close> of an exception the
  code catches.  A latency is the integer of milliseconds the code computes from its two clock
  readings.
\<close>

section \<open>Types\<close>

definition retryable_status :: "int list" where
  "retryable_status = [429, 500, 502, 503, 504]"

definition default_idle_timeout :: real where
  "default_idle_timeout = 60"

record provider_result =
  rs_success :: bool
  rs_status_code :: int
  rs_body :: bytes
  rs_headers :: "(string, string) dict"
  rs_error :: "string option"
  rs_provider_id :: string
  rs_backend_model :: string
  rs_usage :: stream_usage
  rs_latency_ms :: int
  rs_retryable :: bool

datatype stream_event =
    Stream_chunk bytes
  | Stream_done stream_usage int "int option" bool
  | Stream_failed string int bool bool

record http_request =
  hq_url :: string
  hq_headers :: "(string, string) dict"
  hq_body :: jobj
  hq_timeout :: real

record http_response =
  hp_status :: int
  hp_retry_after :: "string option"
  hp_headers :: "(string, string) dict"
  hp_text :: string
  hp_content :: bytes

datatype http_outcome =
    Http_response http_response
  | Http_timeout
  | Http_error string

text \<open>
  The steps of a streamed body: one more chunk (with the milliseconds since the start of the call),
  an idle timeout, or an exception of the client; the end of the list is the end of the body.
  The \<open>Retry-After\<close> header is looked up without regard to case, so it has a field of its own.
\<close>

datatype body_step =
    Chunk int bytes
  | Idle
  | Client_timeout
  | Client_error string

record http_stream =
  hs_status :: int
  hs_retry_after :: "string option"
  hs_steps :: "body_step list"

datatype stream_open =
    Opened http_stream
  | Open_timeout
  | Open_error string

section \<open>The request\<close>

definition rstrip_slash :: "string \<Rightarrow> string" where
  "rstrip_slash s = rev (dropWhile (\<lambda>c. c = CHR ''/'') (rev s))"

definition provider_url :: "provider_config \<Rightarrow> string \<Rightarrow> string" where
  "provider_url p path = rstrip_slash (pv_base_url p) @ path"

definition update_all :: "('k, 'v) dict \<Rightarrow> ('k, 'v) dict \<Rightarrow> ('k, 'v) dict" where
  "update_all new d = foldl (\<lambda>d kv. dset (fst kv) (snd kv) d) d new"

definition provider_headers :: "provider_config \<Rightarrow> py_error + (string, string) dict" where
  "provider_headers p =
     (case validated_api_key p of
        Inl e \<Rightarrow> Inl e
      | Inr key \<Rightarrow>
          Inr (update_all (pv_headers p)
                 [(''Authorization'', ''Bearer '' @ key), (''Content-Type'', ''application/json'')]))"

definition inject_stream_options :: "jobj \<Rightarrow> jobj" where
  "inject_stream_options body =
     (let so = (case as_obj (jget body ''stream_options'') of None \<Rightarrow> [] | Some d \<Rightarrow> d);
          so1 = (if jhas so ''include_usage'' then so else dset ''include_usage'' (JBool True) so)
      in dset ''stream_options'' (JObj so1) body)"

definition call_body :: "jobj \<Rightarrow> string \<Rightarrow> bool \<Rightarrow> jobj" where
  "call_body request_body backend_model stream =
     dset ''stream'' (JBool stream) (dset ''model'' (JStr backend_model) request_body)"

section \<open>Usage of a response\<close>

text \<open>
  The \<open>except Exception\<close> covers everything, also a body that is no dictionary and a content
  without length.
\<close>

definition extract_usage :: "codec \<Rightarrow> bytes \<Rightarrow> stream_usage" where
  "extract_usage cd body =
     (case Option.bind (cd_loads_bytes cd body) as_obj of
        None \<Rightarrow> no_usage
      | Some data \<Rightarrow>
          (case as_obj (jget data ''usage'') of
             Some usage \<Rightarrow> usage_from_dict usage
           | None \<Rightarrow>
               (case jget data ''choices'' of
                  JList (JObj c # _) \<Rightarrow>
                    (case as_obj (jget c ''message'') of
                       None \<Rightarrow> no_usage
                     | Some msg \<Rightarrow>
                         let content = py_or (jget msg ''content'') (JStr [])
                         in if \<not> truthy content then no_usage
                            else case py_json_len content of
                                   None \<Rightarrow> no_usage
                                 | Some n \<Rightarrow> no_usage\<lparr>su_output := Some (max 1 (int (n div 4)))\<rparr>)
                | _ \<Rightarrow> no_usage)))"

section \<open>The two calls\<close>

definition nonempty :: "string option \<Rightarrow> string option" where
  "nonempty x = (case x of Some [] \<Rightarrow> None | _ \<Rightarrow> x)"

definition note_429 ::
    "(string \<Rightarrow> real option) \<Rightarrow> time \<Rightarrow> string \<Rightarrow> string \<Rightarrow> int \<Rightarrow> string option \<Rightarrow> rl_state \<Rightarrow> rl_state" where
  "note_429 parse_float now p m status retry_after rl =
     (if status = 429
      then set_cooldown rl now p m (Option.bind (nonempty retry_after) parse_float)
      else rl)"

definition failed_result ::
    "provider_config \<Rightarrow> string \<Rightarrow> int \<Rightarrow> (string, string) dict \<Rightarrow> string \<Rightarrow> int \<Rightarrow> bool \<Rightarrow> provider_result" where
  "failed_result p m status headers error latency retryable =
     \<lparr>rs_success = False, rs_status_code = status, rs_body = [], rs_headers = headers, rs_error = Some error,
      rs_provider_id = pv_id p, rs_backend_model = m, rs_usage = no_usage, rs_latency_ms = latency,
      rs_retryable = retryable\<rparr>"

definition call_provider ::
    "codec \<Rightarrow> (string \<Rightarrow> real option) \<Rightarrow> (py_error \<Rightarrow> string) \<Rightarrow> (http_request \<Rightarrow> http_outcome) \<Rightarrow> time \<Rightarrow> int
     \<Rightarrow> provider_config \<Rightarrow> string \<Rightarrow> jobj \<Rightarrow> bool \<Rightarrow> string \<Rightarrow> rl_state \<Rightarrow> provider_result \<times> rl_state"
where
  "call_provider cd parse_float text_of post now latency p m request_body stream path rl =
     (case provider_headers p of
        Inl e \<Rightarrow> (failed_result p m 0 [] (py_take 500 (text_of e)) latency True, rl)
      | Inr headers \<Rightarrow>
          (case post \<lparr>hq_url = provider_url p path, hq_headers = headers,
                      hq_body = call_body request_body m stream, hq_timeout = pv_timeout p\<rparr> of
             Http_timeout \<Rightarrow> (failed_result p m 0 [] ''timeout'' latency True, rl)
           | Http_error e \<Rightarrow> (failed_result p m 0 [] (py_take 500 e) latency True, rl)
           | Http_response resp \<Rightarrow>
               (let rl1 = note_429 parse_float now (pv_id p) m (hp_status resp) (hp_retry_after resp) rl
                in if hp_status resp \<noteq> 200
                   then (failed_result p m (hp_status resp) (hp_headers resp)
                           (if hp_text resp \<noteq> [] then py_take 500 (hp_text resp)
                            else ''HTTP '' @ int_str (hp_status resp))
                           latency (hp_status resp \<in> set retryable_status), rl1)
                   else (\<lparr>rs_success = True, rs_status_code = 200, rs_body = hp_content resp,
                          rs_headers = hp_headers resp, rs_error = None, rs_provider_id = pv_id p,
                          rs_backend_model = m, rs_usage = extract_usage cd (hp_content resp),
                          rs_latency_ms = latency, rs_retryable = False\<rparr>, rl1))))"

text \<open>
  The loop over the chunks.  \<open>first\<close> says whether a chunk has been forwarded.  The last component
  of the result is the accumulator at the end of the body, or \<open>None\<close> when the loop returned.
\<close>

definition idle_message :: "(real \<Rightarrow> string) \<Rightarrow> real \<Rightarrow> string" where
  "idle_message fmt idle = ''idle timeout ('' @ fmt idle @ ''s) waiting for chunks''"

fun pump ::
    "codec \<Rightarrow> (py_error \<Rightarrow> string) \<Rightarrow> string \<Rightarrow> bool \<Rightarrow> accumulator \<Rightarrow> body_step list
     \<Rightarrow> stream_event list \<times> bool \<times> accumulator option"
where
  "pump cd text_of idle_msg first acc [] = ([], first, Some acc)"
| "pump cd text_of idle_msg first acc (Idle # steps) =
     ([Stream_failed idle_msg 0 True first], first, None)"
| "pump cd text_of idle_msg first acc (Client_timeout # steps) =
     ([Stream_failed ''timeout'' 0 True first], first, None)"
| "pump cd text_of idle_msg first acc (Client_error e # steps) =
     ([Stream_failed (py_take 500 e) 0 True first], first, None)"
| "pump cd text_of idle_msg first acc (Chunk ms c # steps) =
     (if c = [] then pump cd text_of idle_msg first acc steps
      else case fst (acc_feed cd ms acc c) of
             Inl e \<Rightarrow> ([Stream_failed (py_take 500 (text_of e)) 0 True True], True, None)
           | Inr acc1 \<Rightarrow>
               (let (evs, r) = pump cd text_of idle_msg True acc1 steps in (Stream_chunk c # evs, r)))"

definition finish_stream :: "codec \<Rightarrow> (py_error \<Rightarrow> string) \<Rightarrow> int \<Rightarrow> int \<Rightarrow> bool \<Rightarrow> accumulator \<Rightarrow> stream_event list" where
  "finish_stream cd text_of elapsed latency first acc =
     (case acc_finish cd elapsed acc of
        (Inl e, evs) \<Rightarrow> [Stream_failed (py_take 500 (text_of e)) 0 True first]
      | (Inr acc1, evs) \<Rightarrow>
          map (\<lambda>ev. Stream_chunk (render_event ev)) evs @
          (let usage = ac_usage acc1;
               final_usage = (if su_output usage = None
                              then (case estimated_output_tokens acc1 of
                                      None \<Rightarrow> usage | Some est \<Rightarrow> usage\<lparr>su_output := Some est\<rparr>)
                              else usage);
               final_ttft = or_else (ac_ttft_ms acc1) (ac_first_byte_ms acc1)
           in [Stream_done final_usage latency final_ttft (ac_saw_done acc1)]))"

fun chunk_bytes :: "body_step list \<Rightarrow> bytes" where
  "chunk_bytes [] = []"
| "chunk_bytes (Chunk ms c # steps) = c @ chunk_bytes steps"
| "chunk_bytes (_ # steps) = chunk_bytes steps"

text \<open>
  Reading an error body is not guarded by the idle timeout; a client exception there ends in the
  outer handlers.
\<close>

fun body_failure :: "body_step list \<Rightarrow> string option" where
  "body_failure [] = None"
| "body_failure (Client_timeout # steps) = Some ''timeout''"
| "body_failure (Client_error e # steps) = Some (py_take 500 e)"
| "body_failure (_ # steps) = body_failure steps"

definition call_provider_stream ::
    "codec \<Rightarrow> (string \<Rightarrow> real option) \<Rightarrow> (py_error \<Rightarrow> string) \<Rightarrow> (real \<Rightarrow> string) \<Rightarrow> (http_request \<Rightarrow> stream_open)
     \<Rightarrow> time \<Rightarrow> int \<Rightarrow> int \<Rightarrow> provider_config \<Rightarrow> string \<Rightarrow> jobj \<Rightarrow> string \<Rightarrow> rl_state
     \<Rightarrow> stream_event list \<times> rl_state"
where
  "call_provider_stream cd parse_float text_of fmt open_stream now elapsed latency p m request_body path rl =
     (case provider_headers p of
        Inl e \<Rightarrow> ([Stream_failed (py_take 500 (text_of e)) 0 True False], rl)
      | Inr headers \<Rightarrow>
          (case open_stream \<lparr>hq_url = provider_url p path, hq_headers = headers,
                      hq_body = call_body (inject_stream_options request_body) m True,
                      hq_timeout = pv_timeout p\<rparr> of
             Open_timeout \<Rightarrow> ([Stream_failed ''timeout'' 0 True False], rl)
           | Open_error e \<Rightarrow> ([Stream_failed (py_take 500 e) 0 True False], rl)
           | Opened resp \<Rightarrow>
               if hs_status resp \<noteq> 200
               then (case body_failure (hs_steps resp) of
                       Some e \<Rightarrow> ([Stream_failed e 0 True False], rl)
                     | None \<Rightarrow>
                         ([Stream_failed (py_take 500 (cd_decode cd (chunk_bytes (hs_steps resp)))) (hs_status resp)
                             (hs_status resp \<in> set retryable_status) False],
                          note_429 parse_float now (pv_id p) m (hs_status resp) (hs_retry_after resp) rl))
               else
                 (let idle = (case pv_stream_idle_timeout p of
                                None \<Rightarrow> default_idle_timeout
                              | Some i \<Rightarrow> if i = 0 then default_idle_timeout else i);
                      (evs, first, r) = pump cd text_of (idle_message fmt idle) False new_accumulator
                                          (hs_steps resp)
                  in (case r of
                        None \<Rightarrow> evs
                      | Some acc \<Rightarrow> evs @ finish_stream cd text_of elapsed latency first acc, rl))))"

section \<open>The stream protocol\<close>

text \<open>
  What a consumer may rely on: some chunks, then exactly one final event; a failure that says that
  nothing was sent yet (\<open>mid_stream = False\<close>) follows no chunk.
\<close>

fun stream_ok :: "bool \<Rightarrow> stream_event list \<Rightarrow> bool" where
  "stream_ok sent [] = False"
| "stream_ok sent (Stream_chunk b # evs) = stream_ok True evs"
| "stream_ok sent (Stream_done u l t d # evs) = (evs = [])"
| "stream_ok sent (Stream_failed e s r mid # evs) = (evs = [] \<and> (sent \<longrightarrow> mid))"

lemma stream_ok_append_chunks:
  "stream_ok b (map (\<lambda>ev. Stream_chunk (f ev)) evs @ rest) = stream_ok (b \<or> evs \<noteq> []) rest"
  by (induction evs arbitrary: b) auto

lemma stream_ok_mono: "stream_ok True evs \<Longrightarrow> stream_ok b evs"
  by (cases evs; cases "hd evs") auto

text \<open>
  \<open>tail_ok\<close>: the loop forwarded chunks only and left an accumulator, or it ended with a failure.
\<close>

lemma pump_ok:
  "pump cd text_of msg first acc steps = (evs, first', r) \<Longrightarrow>
   (case r of
      None \<Rightarrow> stream_ok first evs
    | Some acc' \<Rightarrow> (\<forall>rest. stream_ok first' rest \<longrightarrow> stream_ok first (evs @ rest)) \<and> (first \<longrightarrow> first'))"
proof (induction cd text_of msg first acc steps arbitrary: evs first' r rule: pump.induct)
  case (5 cd text_of msg first acc ms c steps)
  show ?case
  proof (cases "c = []")
    case False
    show ?thesis
    proof (cases "fst (acc_feed cd ms acc c)")
      case (Inr acc1)
      obtain evs1 first1 r1 where p: "pump cd text_of msg True acc1 steps = (evs1, first1, r1)"
        by (metis prod_cases3)
      with 5 False Inr have "evs = Stream_chunk c # evs1" "first' = first1" "r = r1" by auto
      with "5.IH"(2) [OF False Inr p] show ?thesis by (auto split: option.splits)
    qed (use 5 False in auto)
  qed (use 5 in auto)
qed (auto split: option.splits)

lemma pump_first:
  "pump cd text_of msg first acc steps = (evs, first', Some acc') \<Longrightarrow> \<not> first' \<Longrightarrow> acc' = acc \<and> evs = [] \<and> \<not> first"
  by (induction cd text_of msg first acc steps arbitrary: evs first' acc' rule: pump.induct)
     (auto split: if_splits sum.splits prod.splits)

lemma finish_stream_ok: "stream_ok first (finish_stream cd text_of elapsed latency first acc)"
  by (auto simp: finish_stream_def stream_ok_append_chunks Let_def split: prod.splits sum.splits)

lemma call_provider_stream_ok:
  "stream_ok False (fst (call_provider_stream cd pf text_of fmt opn now elapsed latency p m body path rl))"
proof -
  have "stream_ok False (case r of None \<Rightarrow> evs
          | Some acc \<Rightarrow> evs @ finish_stream cd text_of elapsed latency first acc)"
    if "pump cd text_of msg False new_accumulator steps = (evs, first, r)" for msg steps evs first r
    using pump_ok [OF that] finish_stream_ok by (auto split: option.splits)
  then show ?thesis
    by (auto simp: call_provider_stream_def Let_def split: sum.splits stream_open.splits option.splits prod.splits)
qed

definition is_chunk :: "stream_event \<Rightarrow> bool" where
  "is_chunk ev \<longleftrightarrow> (case ev of Stream_chunk _ \<Rightarrow> True | _ \<Rightarrow> False)"

lemma stream_ok_cases:
  "stream_ok sent evs \<Longrightarrow>
   \<exists>cs fin. evs = map Stream_chunk cs @ [fin] \<and> \<not> is_chunk fin
     \<and> (\<forall>e s r. fin = Stream_failed e s r False \<longrightarrow> cs = [] \<and> \<not> sent)"
proof (induction sent evs rule: stream_ok.induct)
  case (2 sent b evs)
  then obtain cs fin where "evs = map Stream_chunk cs @ [fin]" "\<not> is_chunk fin"
    "\<forall>e s r. fin \<noteq> Stream_failed e s r False" by auto
  then show ?case by (intro exI [of _ "b # cs"] exI [of _ fin]) auto
qed (auto simp: is_chunk_def intro!: exI [of _ "[]"])

text \<open>The contract of a source of stream events, as the request handler uses it.\<close>

locale stream_source =
  fixes source :: "'q \<Rightarrow> 's \<Rightarrow> stream_event list \<times> 's"
  assumes protocol: "stream_ok False (fst (source q s))"
begin

lemma shape:
  "\<exists>cs fin. fst (source q s) = map Stream_chunk cs @ [fin] \<and> \<not> is_chunk fin
     \<and> (\<forall>e st r. fin = Stream_failed e st r False \<longrightarrow> cs = [])"
  using stream_ok_cases [OF protocol [of q s]] by blast

lemma not_empty: "fst (source q s) \<noteq> []"
  using shape [of q s] by auto

end

interpretation upstream: stream_source
  "\<lambda>q rl. call_provider_stream cd pf text_of fmt (fst q) now elapsed latency (fst (snd q)) (fst (snd (snd q)))
            (snd (snd (snd q))) path rl"
  for cd pf text_of fmt now elapsed latency path
  by unfold_locales (rule call_provider_stream_ok)

section \<open>Properties\<close>

text \<open>
  The code notes that a chunk came (\<open>first = True\<close>) before the accumulator looks at it.
  \<open>first_rejected\<close>: the accumulator raises on the first chunk that is not empty.
\<close>

fun first_rejected :: "codec \<Rightarrow> accumulator \<Rightarrow> body_step list \<Rightarrow> bool" where
  "first_rejected cd acc (Chunk ms c # steps) =
     (if c = [] then first_rejected cd acc steps else \<exists>e. fst (acc_feed cd ms acc c) = Inl e)"
| "first_rejected cd acc _ = False"

lemma pump_mid:
  "pump cd text_of msg first acc steps = (evs, first', r) \<Longrightarrow>
   (Stream_failed e st rt True \<in> set evs \<longrightarrow> first \<or> (\<exists>c. Stream_chunk c \<in> set evs) \<or> first_rejected cd acc steps)
   \<and> (r \<noteq> None \<longrightarrow> first' \<longrightarrow> first \<or> (\<exists>c. Stream_chunk c \<in> set evs))
   \<and> (r \<noteq> None \<longrightarrow> Stream_failed e st rt True \<notin> set evs)"
proof (induction cd text_of msg first acc steps arbitrary: evs first' r rule: pump.induct)
  case (5 cd text_of msg first acc ms c steps)
  show ?case
  proof (cases "c = []")
    case False
    show ?thesis
    proof (cases "fst (acc_feed cd ms acc c)")
      case (Inr acc1)
      obtain evs1 first1 r1 where p: "pump cd text_of msg True acc1 steps = (evs1, first1, r1)"
        by (metis prod_cases3)
      with 5 False Inr have "evs = Stream_chunk c # evs1" "first' = first1" "r = r1" by auto
      with "5.IH"(2) [OF False Inr p] show ?thesis by auto
    qed (use 5 False in auto)
  qed (use 5 in auto)
qed auto

lemma finish_mid:
  "Stream_failed e st rt True \<in> set (finish_stream cd text_of elapsed latency first acc) \<Longrightarrow> first"
  by (cases "acc_finish cd elapsed acc"; cases "fst (acc_finish cd elapsed acc)")
     (auto simp: finish_stream_def Let_def)

lemma call_mid:
  assumes "Stream_failed e st rt True
             \<in> set (fst (call_provider_stream cd pf text_of fmt opn now elapsed latency p m body path rl))"
  shows "(\<exists>c. Stream_chunk c \<in> set (fst (call_provider_stream cd pf text_of fmt opn now elapsed latency p m body path rl)))
       \<or> (\<exists>rq resp. opn rq = Opened resp \<and> hs_status resp = 200 \<and> first_rejected cd new_accumulator (hs_steps resp))"
proof -
  have "(\<exists>c. Stream_chunk c \<in> set (case r of None \<Rightarrow> evs | Some acc \<Rightarrow> evs @ finish_stream cd text_of elapsed latency first acc))
      \<or> first_rejected cd new_accumulator steps"
    if "pump cd text_of msg False new_accumulator steps = (evs, first, r)"
      and "Stream_failed e st rt True \<in> set (case r of None \<Rightarrow> evs | Some acc \<Rightarrow> evs @ finish_stream cd text_of elapsed latency first acc)"
    for msg steps evs first r
    using pump_mid [OF that(1), of e st rt] that(2) by (auto split: option.splits dest: finish_mid)
  with assms show ?thesis
    by (fastforce simp: call_provider_stream_def Let_def split: sum.splits stream_open.splits option.splits prod.splits if_splits)
qed

text \<open>
  C16. Every call of a streaming provider yields chunks and then exactly one end: \<open>StreamDone\<close> or
  \<open>StreamFailed\<close>.  A failure that allows a fallback (\<open>mid_stream = False\<close>) comes with no chunk before
  it, whatever the provider, the network and the body do; one that does not (\<open>mid_stream = True\<close>) comes
  after a chunk, but for one case: the accumulator raised on the very first chunk of a reply with status
  200, which then was not forwarded.
\<close>

theorem stream_protocol:
  "\<exists>cs fin. fst (call_provider_stream cd pf text_of fmt opn now elapsed latency p m body path rl)
       = map Stream_chunk cs @ [fin] \<and> \<not> is_chunk fin
     \<and> (\<forall>e st r. fin = Stream_failed e st r False \<longrightarrow> cs = [])
     \<and> (\<forall>e st r. fin = Stream_failed e st r True \<longrightarrow> cs \<noteq> []
          \<or> (\<exists>rq resp. opn rq = Opened resp \<and> hs_status resp = 200 \<and> first_rejected cd new_accumulator (hs_steps resp)))"
proof -
  have "\<exists>cs fin. fst (call_provider_stream cd pf text_of fmt opn now elapsed latency p m body path rl)
       = map Stream_chunk cs @ [fin] \<and> \<not> is_chunk fin \<and> (\<forall>e st r. fin = Stream_failed e st r False \<longrightarrow> cs = [])"
    using upstream.shape [where q = "(opn, p, m, body)"] by simp
  then obtain cs fin where shape: "fst (call_provider_stream cd pf text_of fmt opn now elapsed latency p m body path rl)
       = map Stream_chunk cs @ [fin]" "\<not> is_chunk fin" "\<forall>e st r. fin = Stream_failed e st r False \<longrightarrow> cs = []"
    by blast
  have "cs \<noteq> [] \<or> (\<exists>rq resp. opn rq = Opened resp \<and> hs_status resp = 200 \<and> first_rejected cd new_accumulator (hs_steps resp))"
    if "fin = Stream_failed e st r True" for e st r
    using call_mid [of e st r cd pf text_of fmt opn now elapsed latency p m body path rl] shape(2) that
    unfolding shape(1) by (auto simp: is_chunk_def)
  with shape show ?thesis by blast
qed

theorem stream_protocol_witness:
  "\<exists>cs fin. fst (call_provider_stream demo_codec (\<lambda>_. None) (\<lambda>_. ''e'') (\<lambda>_. ''60'')
       (\<lambda>_. Opened \<lparr>hs_status = 200, hs_retry_after = None, hs_steps = [Chunk 3 ''data: x'', Idle]\<rparr>)
       0 5 9 (default_provider ''p'' ''http://h'') ''m'' [] ''/chat/completions'' rl_init)
       = map Stream_chunk cs @ [fin] \<and> \<not> is_chunk fin
     \<and> (\<forall>e st r. fin = Stream_failed e st r False \<longrightarrow> cs = [])"
  using stream_protocol [of demo_codec "\<lambda>_. None" "\<lambda>_. ''e''" "\<lambda>_. ''60''"
      "\<lambda>_. Opened \<lparr>hs_status = 200, hs_retry_after = None, hs_steps = [Chunk 3 ''data: x'', Idle]\<rparr>"
      0 5 9 "default_provider ''p'' ''http://h''" "''m''" "[]" "''/chat/completions''" rl_init]
  by blast

text \<open>
  Only a 429 touches the rate limits: whatever a call of a provider does, the limits are as
  before, except that a 429 sets one cooldown, for the backend that was called; a permanent snooze is
  never set or lifted.
\<close>

theorem only_429_cools_down:
  "rl_permanent (snd (call_provider cd pf text_of post now latency p m body stream path rl)) = rl_permanent rl
   \<and> (snd (call_provider cd pf text_of post now latency p m body stream path rl) = rl
      \<or> rs_status_code (fst (call_provider cd pf text_of post now latency p m body stream path rl)) = 429
        \<and> (\<exists>ra. snd (call_provider cd pf text_of post now latency p m body stream path rl)
                   = set_cooldown rl now (pv_id p) m ra))"
  by (auto simp: call_provider_def note_429_def failed_result_def Let_def set_cooldown_def
      split: sum.splits http_outcome.splits)

text \<open>
  A stream that ends without a blank line has its last event delivered twice: the raw bytes are
  forwarded when they arrive, and the accumulator's rest is rendered again at the end.
\<close>

lemma trailing_event_repeated:
  "cd_decode cd = (\<lambda>s. s) \<Longrightarrow>
   call_provider_stream cd pf text_of fmt
     (\<lambda>_. Opened \<lparr>hs_status = 200, hs_retry_after = None, hs_steps = [Chunk 7 ''data: [DONE]'']\<rparr>)
     now elapsed latency (default_provider p url) m body path rl
   = ([Stream_chunk ''data: [DONE]'', Stream_chunk (''data: [DONE]'' @ [LF, LF]),
       Stream_done no_usage latency (Some 7) True], rl)"
  by (simp add: call_provider_stream_def provider_headers_def validated_api_key_def default_provider_def
      is_ascii_def Let_def acc_feed_def acc_finish_def feed_def drain.simps flush_def new_accumulator_def
      blank_bytes_def byte_def parse_block_def List.map_filter_simps data_line_def strip_def is_space_def
      done_marker_def rstrip_lf_def finish_stream_def observe_def render_event_def or_else_def
      estimated_output_tokens_def no_usage_def update_all_def)

end
