(* ===== verification/Tokenizer.thy ===== *)
theory Tokenizer
  imports Json
begin

text \<open>
  Token estimates (\<^verbatim>\<open>src/localgateway/tokenizer.py\<close>).  \<open>encode\<close> is the length of
  \<open>enc.encode(text)\<close> of the installed encoder: the outer \<open>None\<close> means that tiktoken is not
  installed, the inner one that encoding this text raises.
\<close>

type_synonym encoder = "(string \<Rightarrow> int option) option"

definition tokenizer_name :: "encoder \<Rightarrow> string \<Rightarrow> string" where
  "tokenizer_name enc mode =
     (if mode = ''heuristic'' then ''heuristic''
      else if enc \<noteq> None then ''tiktoken:cl100k_base'' else ''heuristic'')"

definition count_text :: "encoder \<Rightarrow> string \<Rightarrow> string \<Rightarrow> int" where
  "count_text enc mode text =
     (if text = [] then 0
      else case (if mode = ''heuristic'' then None else Option.bind enc (\<lambda>f. f text)) of
             Some n \<Rightarrow> n
           | None \<Rightarrow> max 1 (int (py_len text) div 4))"

definition text_part :: "json \<Rightarrow> string option" where
  "text_part p = (case p of JObj d \<Rightarrow> as_str (jget d ''text'') | _ \<Rightarrow> None)"

fun join_nl :: "string list \<Rightarrow> string" where
  "join_nl [] = []"
| "join_nl [x] = x"
| "join_nl (x # xs) = x @ CHR 0x0A # join_nl xs"

definition message_text :: "jobj \<Rightarrow> string" where
  "message_text msg =
     (case jget msg ''content'' of
        JStr s \<Rightarrow> s
      | JList parts \<Rightarrow> join_nl (List.map_filter text_part parts)
      | _ \<Rightarrow> [])"

definition message_tokens :: "encoder \<Rightarrow> string \<Rightarrow> json \<Rightarrow> int" where
  "message_tokens enc mode msg =
     (case msg of
        JObj m \<Rightarrow>
          (let text = message_text m
           in if text = [] then 0
              else count_text enc mode text + 4 + (if truthy (jget m ''name'') then 1 else 0))
      | _ \<Rightarrow> 0)"

definition nonzero :: "int \<Rightarrow> int option" where
  "nonzero n = (if n = 0 then None else Some n)"

definition count_messages :: "encoder \<Rightarrow> string \<Rightarrow> json \<Rightarrow> int option" where
  "count_messages enc mode messages =
     (case messages of
        JList ms \<Rightarrow> if ms = [] then None else nonzero (sum_list (map (message_tokens enc mode) ms))
      | _ \<Rightarrow> None)"

definition item_tokens :: "encoder \<Rightarrow> string \<Rightarrow> json \<Rightarrow> int" where
  "item_tokens enc mode item =
     (case item of
        JStr s \<Rightarrow> count_text enc mode s
      | JList ts \<Rightarrow> int (length ts)
      | _ \<Rightarrow> 0)"

definition count_embedding_input :: "encoder \<Rightarrow> string \<Rightarrow> json \<Rightarrow> int option" where
  "count_embedding_input enc mode inp =
     (case inp of
        JStr s \<Rightarrow> if s = [] then None else Some (count_text enc mode s)
      | JList items \<Rightarrow> nonzero (sum_list (map (item_tokens enc mode) items))
      | _ \<Rightarrow> None)"

section \<open>Lemmas\<close>

definition encoder_ok :: "encoder \<Rightarrow> bool" where
  "encoder_ok enc \<longleftrightarrow> (\<forall>f s n. enc = Some f \<longrightarrow> f s = Some n \<longrightarrow> 0 \<le> n)"

lemma count_text_nonneg: "encoder_ok enc \<Longrightarrow> 0 \<le> count_text enc mode text"
  by (auto simp: count_text_def encoder_ok_def split: option.splits Option.bind_splits)

lemma message_tokens_nonneg: "encoder_ok enc \<Longrightarrow> 0 \<le> message_tokens enc mode msg"
  by (cases msg) (auto simp: message_tokens_def Let_def intro: add_nonneg_nonneg count_text_nonneg)

text \<open>
  The estimate of a conversation is positive when it is given at all, and a turn more never lowers
  it, so a context-length check never gets laxer as a conversation grows.
\<close>

lemma count_messages_mono:
  assumes "encoder_ok enc" and "count_messages enc mode (JList ms) = Some n"
  shows "0 < n \<and> (\<exists>n'. count_messages enc mode (JList (ms @ [m])) = Some n' \<and> n \<le> n')"
proof -
  have "n = sum_list (map (message_tokens enc mode) ms)" "n \<noteq> 0"
    using assms(2) by (auto simp: count_messages_def nonzero_def split: if_splits)
  moreover have "0 \<le> sum_list (map (message_tokens enc mode) ms)"
    using message_tokens_nonneg [OF assms(1)] by (intro sum_list_nonneg) auto
  ultimately show ?thesis
    using message_tokens_nonneg [OF assms(1), of mode m] by (auto simp: count_messages_def nonzero_def)
qed

end
