(* ===== verification/Usage.thy ===== *)
theory Usage
  imports Prelude
begin

text \<open>
  The usage database (\<^verbatim>\<open>src/localgateway/usage.py\<close>): one row per attempt, and the aggregates the
  console, the quotas and the router read from them.

  The table is the list of its rows in insertion order, as the queries see it after the background
  writer has caught up.  A nullable column is an \<open>option\<close>; \<open>sql_sum\<close> and \<open>sql_avg\<close> skip NULL and
  are NULL of nothing, as in SQL.  \<open>GROUP BY\<close> without \<open>ORDER BY\<close> leaves the order of the groups
  open; the model lists them by first occurrence.  Times are seconds since the epoch.
\<close>

section \<open>Rows\<close>

record usage_row =
  ur_ts :: time
  ur_logical_model :: string
  ur_provider :: string
  ur_backend_model :: string
  ur_success :: bool
  ur_error :: "string option"
  ur_input :: "int option"
  ur_output :: "int option"
  ur_reasoning :: "int option"
  ur_cached :: "int option"
  ur_cache_write :: "int option"
  ur_cost :: "real option"
  ur_latency_ms :: "int option"
  ur_ttft_ms :: "int option"
  ur_tps :: "real option"
  ur_stream :: bool
  ur_is_probe :: bool
  ur_api_key_id :: "string option"
  ur_end_user :: "string option"
  ur_request_id :: "string option"
  ur_cache_hit :: bool

text \<open>The keyword defaults of \<open>log_request\<close>, and the insertion of a row.\<close>

definition default_row :: "time \<Rightarrow> string \<Rightarrow> string \<Rightarrow> string \<Rightarrow> bool \<Rightarrow> usage_row" where
  "default_row now logical_model provider backend_model success =
     \<lparr>ur_ts = now, ur_logical_model = logical_model, ur_provider = provider, ur_backend_model = backend_model,
      ur_success = success, ur_error = None, ur_input = None, ur_output = None, ur_reasoning = None,
      ur_cached = None, ur_cache_write = None, ur_cost = None, ur_latency_ms = None, ur_ttft_ms = None,
      ur_tps = None, ur_stream = False, ur_is_probe = False, ur_api_key_id = None, ur_end_user = None,
      ur_request_id = None, ur_cache_hit = False\<rparr>"

definition log_request :: "usage_row \<Rightarrow> usage_row list \<Rightarrow> usage_row list" where
  "log_request row rows = rows @ [row]"

definition backend_of :: "usage_row \<Rightarrow> string" where
  "backend_of r = backend_key (ur_provider r) (ur_backend_model r)"

section \<open>SQL aggregates\<close>

definition sql_sum :: "(usage_row \<Rightarrow> 'a::monoid_add option) \<Rightarrow> usage_row list \<Rightarrow> 'a option" where
  "sql_sum f rows = (let vs = List.map_filter f rows in if vs = [] then None else Some (sum_list vs))"

definition or0 :: "'a::zero option \<Rightarrow> 'a" where
  "or0 x = (case x of None \<Rightarrow> 0 | Some v \<Rightarrow> v)"

definition sql_avg :: "(usage_row \<Rightarrow> real option) \<Rightarrow> usage_row list \<Rightarrow> real option" where
  "sql_avg f rows =
     (let vs = List.map_filter f rows in if vs = [] then None else Some (sum_list vs / real (length vs)))"

definition count_success :: "usage_row list \<Rightarrow> nat" where
  "count_success rows = length (filter ur_success rows)"

definition group_rows :: "(usage_row \<Rightarrow> 'k) \<Rightarrow> usage_row list \<Rightarrow> ('k, usage_row list) dict" where
  "group_rows f rows = map (\<lambda>k. (k, filter (\<lambda>r. f r = k) rows)) (remdups (map f rows))"

definition since :: "time \<Rightarrow> int \<Rightarrow> usage_row list \<Rightarrow> usage_row list" where
  "since now hours rows = filter (\<lambda>r. ur_ts r \<ge> now - of_int (hours * 3600) \<and> \<not> ur_is_probe r) rows"

text \<open>\<open>_AGG_COLS\<close> and \<open>_row\<close>.\<close>

record agg =
  ag_requests :: nat
  ag_successes :: nat
  ag_input :: int
  ag_output :: int
  ag_reasoning :: int
  ag_cached :: int
  ag_cache_write :: int
  ag_avg_ttft_ms :: "real option"
  ag_avg_latency_ms :: "real option"
  ag_cost :: real

definition if_success :: "(usage_row \<Rightarrow> int option) \<Rightarrow> usage_row \<Rightarrow> real option" where
  "if_success f r = (if ur_success r then map_option of_int (f r) else None)"

definition agg_row :: "usage_row list \<Rightarrow> agg" where
  "agg_row rows =
     \<lparr>ag_requests = length rows, ag_successes = count_success rows,
      ag_input = or0 (sql_sum ur_input rows), ag_output = or0 (sql_sum ur_output rows),
      ag_reasoning = or0 (sql_sum ur_reasoning rows), ag_cached = or0 (sql_sum ur_cached rows),
      ag_cache_write = or0 (sql_sum ur_cache_write rows),
      ag_avg_ttft_ms = map_option (py_round 1) (sql_avg (if_success ur_ttft_ms) rows),
      ag_avg_latency_ms = map_option (py_round 1) (sql_avg (if_success ur_latency_ms) rows),
      ag_cost = py_round 6 (or0 (sql_sum ur_cost rows))\<rparr>"

definition agg_by :: "(usage_row \<Rightarrow> 'k) \<Rightarrow> usage_row list \<Rightarrow> ('k, agg) dict" where
  "agg_by f rows = map (\<lambda>kr. (fst kr, agg_row (snd kr))) (group_rows f rows)"

record usage_summary =
  us_hours :: int
  us_total :: agg
  us_by_provider :: "(string, agg) dict"
  us_by_model :: "(string, agg) dict"
  us_by_backend :: "(string, agg) dict"
  us_by_key :: "(string option, agg) dict"
  us_by_user :: "(string option, agg) dict"

definition named_user :: "usage_row \<Rightarrow> bool" where
  "named_user r \<longleftrightarrow> ur_end_user r \<noteq> None \<and> ur_end_user r \<noteq> Some []"

definition get_usage_summary :: "usage_row list \<Rightarrow> time \<Rightarrow> int \<Rightarrow> usage_summary" where
  "get_usage_summary rows now hours =
     (let w = since now hours rows
      in \<lparr>us_hours = hours, us_total = agg_row w, us_by_provider = agg_by ur_provider w,
          us_by_model = agg_by ur_logical_model w,
          us_by_backend = sort_key (\<lambda>ka. - int (ag_requests (snd ka))) (agg_by backend_of w),
          us_by_key = agg_by ur_api_key_id (filter (\<lambda>r. ur_api_key_id r \<noteq> None) w),
          us_by_user = agg_by ur_end_user (filter named_user w)\<rparr>)"

section \<open>Percentiles\<close>

definition percentile :: "real list \<Rightarrow> real \<Rightarrow> real option" where
  "percentile values p =
     (if values = [] then None
      else let s = sort_key (\<lambda>x. x) values;
               k = real (length s - 1) * p;
               f = nat \<lfloor>k\<rfloor>;
               c = min (f + 1) (length s - 1)
           in if f = c then Some (py_round 2 (s ! f))
              else Some (py_round 2 (s ! f + (s ! c - s ! f) * (k - real f))))"

record model_agg =
  ma_requests :: nat
  ma_successes :: nat
  ma_tokens :: int
  ma_cost :: real
  ma_tps_p50 :: "real option"
  ma_tps_p90 :: "real option"
  ma_tps_p99 :: "real option"

definition tps_of :: "usage_row list \<Rightarrow> real list" where
  "tps_of rows = List.map_filter (\<lambda>r. if ur_success r then ur_tps r else None) rows"

definition total_tokens :: "usage_row list \<Rightarrow> int" where
  "total_tokens rows = or0 (sql_sum ur_input rows) + or0 (sql_sum ur_output rows)"

definition model_agg_of :: "usage_row list \<Rightarrow> model_agg" where
  "model_agg_of rows =
     \<lparr>ma_requests = length rows, ma_successes = count_success rows, ma_tokens = total_tokens rows,
      ma_cost = py_round 6 (or0 (sql_sum ur_cost rows)), ma_tps_p50 = percentile (tps_of rows) (1 / 2),
      ma_tps_p90 = percentile (tps_of rows) (9 / 10), ma_tps_p99 = percentile (tps_of rows) (99 / 100)\<rparr>"

definition get_model_aggregates :: "usage_row list \<Rightarrow> time \<Rightarrow> int \<Rightarrow> (string, model_agg) dict" where
  "get_model_aggregates rows now hours =
     map (\<lambda>kr. (fst kr, model_agg_of (snd kr))) (group_rows ur_logical_model (since now hours rows))"

record backend_percentiles =
  bp_requests :: nat
  bp_success_rate :: "real option"
  bp_ttft_ms :: "real option"
  bp_tps :: "real option"
  bp_tps_p50 :: "real option"
  bp_tps_p90 :: "real option"
  bp_tps_p99 :: "real option"
  bp_latency_ms :: "real option"

definition success_rate :: "usage_row list \<Rightarrow> real option" where
  "success_rate rows =
     (if rows = [] then None
      else Some (py_round 2 (real (count_success rows) / real (length rows) * 100)))"

definition percentiles_of :: "real \<Rightarrow> usage_row list \<Rightarrow> backend_percentiles" where
  "percentiles_of p rows =
     (let tps = tps_of rows
      in \<lparr>bp_requests = length rows, bp_success_rate = success_rate rows,
          bp_ttft_ms = percentile (List.map_filter (if_success ur_ttft_ms) rows) p,
          bp_tps = percentile tps (1 - p), bp_tps_p50 = percentile tps (1 / 2),
          bp_tps_p90 = percentile tps (9 / 10), bp_tps_p99 = percentile tps (99 / 100),
          bp_latency_ms = percentile (List.map_filter (if_success ur_latency_ms) rows) p\<rparr>)"

definition get_backend_percentiles ::
    "usage_row list \<Rightarrow> time \<Rightarrow> string \<Rightarrow> int \<Rightarrow> real \<Rightarrow> (string, backend_percentiles) dict" where
  "get_backend_percentiles rows now model_id hours p =
     map (\<lambda>kr. (fst kr, percentiles_of p (snd kr)))
       (group_rows backend_of (filter (\<lambda>r. ur_logical_model r = model_id) (since now hours rows)))"

record model_totals =
  mt_requests :: nat
  mt_success_rate :: "real option"
  mt_input :: int
  mt_output :: int
  mt_tokens :: int
  mt_cost :: real

definition get_model_totals :: "usage_row list \<Rightarrow> time \<Rightarrow> string \<Rightarrow> int \<Rightarrow> model_totals" where
  "get_model_totals rows now model_id hours =
     (let w = filter (\<lambda>r. ur_logical_model r = model_id) (since now hours rows)
      in \<lparr>mt_requests = length w, mt_success_rate = success_rate w, mt_input = or0 (sql_sum ur_input w),
          mt_output = or0 (sql_sum ur_output w), mt_tokens = total_tokens w, mt_cost = or0 (sql_sum ur_cost w)\<rparr>)"

section \<open>Series for the charts\<close>

definition bucket_of :: "int \<Rightarrow> usage_row \<Rightarrow> int" where
  "bucket_of width r = \<lfloor>ur_ts r / of_int width\<rfloor> * width"

record backend_point =
  bt_t :: int
  bt_tps :: real
  bt_ttft_ms :: "real option"
  bt_n :: nat

definition backend_point_of :: "int \<times> usage_row list \<Rightarrow> backend_point" where
  "backend_point_of tr =
     \<lparr>bt_t = fst tr, bt_tps = py_round 1 (or0 (sql_avg ur_tps (snd tr))),
      bt_ttft_ms = map_option (py_round 1) (sql_avg (\<lambda>r. map_option of_int (ur_ttft_ms r)) (snd tr)),
      bt_n = length (snd tr)\<rparr>"

definition get_backend_series ::
    "usage_row list \<Rightarrow> time \<Rightarrow> string \<Rightarrow> int \<Rightarrow> int \<times> (string, backend_point list) dict" where
  "get_backend_series rows now model_id hours =
     (let width = (if hours \<le> 72 then 3600 else 6 * 3600);
          w = filter (\<lambda>r. ur_logical_model r = model_id \<and> ur_success r \<and> ur_tps r \<noteq> None) (since now hours rows)
      in (width, map (\<lambda>kr. (fst kr, map backend_point_of (sort_key fst (group_rows (bucket_of width) (snd kr)))))
                  (group_rows backend_of w)))"

text \<open>The tokens of a point are \<open>SUM(input_tokens) + SUM(output_tokens)\<close>, NULL when one of them is.\<close>

record daily_point =
  dp_t :: int
  dp_cost :: real
  dp_tokens :: int
  dp_requests :: nat

definition daily_point_of :: "int \<times> usage_row list \<Rightarrow> daily_point" where
  "daily_point_of tr =
     \<lparr>dp_t = fst tr, dp_cost = py_round 6 (or0 (sql_sum ur_cost (snd tr))),
      dp_tokens = or0 (Option.bind (sql_sum ur_input (snd tr))
                         (\<lambda>i. map_option (\<lambda>out. i + out) (sql_sum ur_output (snd tr)))),
      dp_requests = length (snd tr)\<rparr>"

definition get_daily_series :: "usage_row list \<Rightarrow> time \<Rightarrow> int \<Rightarrow> int \<times> (string, daily_point list) dict" where
  "get_daily_series rows now hours =
     (let width = (if hours > 48 then 86400 else 3600)
      in (width, map (\<lambda>kr. (fst kr, map daily_point_of (sort_key fst (group_rows (bucket_of width) (snd kr)))))
                  (group_rows ur_provider (since now hours rows))))"

section \<open>Housekeeping\<close>

definition clear_usage :: "usage_row list \<Rightarrow> usage_row list" where
  "clear_usage rows = []"

text \<open>The log table is the list of its rows' ids and texts, oldest id first.\<close>

definition enforce_retention ::
    "time \<Rightarrow> int option \<Rightarrow> int option \<Rightarrow> usage_row list \<times> 'l list \<Rightarrow> usage_row list \<times> 'l list" where
  "enforce_retention now usage_days log_lines db =
     ((case usage_days of
         Some d \<Rightarrow> if d > 0 then filter (\<lambda>r. \<not> ur_ts r < now - of_int (d * 86400)) (fst db) else fst db
       | None \<Rightarrow> fst db),
      (case log_lines of
         Some n \<Rightarrow> if n > 0 then drop (length (snd db) - nat n) (snd db) else snd db
       | None \<Rightarrow> snd db))"

definition export_rows :: "usage_row list \<Rightarrow> time \<Rightarrow> int \<Rightarrow> bool \<Rightarrow> usage_row list" where
  "export_rows rows now hours include_probes =
     sort_key (\<lambda>r. - ur_ts r)
       (filter (\<lambda>r. ur_ts r \<ge> now - of_int (hours * 3600) \<and> (include_probes \<or> \<not> ur_is_probe r)) rows)"

text \<open>\<open>rename_model\<close> and \<open>rename_provider\<close>: the tables with such a column, and the updated count.\<close>

record log_row =
  lr_model :: "string option"
  lr_provider :: "string option"

record probe_row =
  pb_model :: string
  pb_provider :: string

record tables =
  tb_usage :: "usage_row list"
  tb_logs :: "log_row list option"
  tb_probes :: "probe_row list option"

definition update_where :: "('r \<Rightarrow> bool) \<Rightarrow> ('r \<Rightarrow> 'r) \<Rightarrow> 'r list \<Rightarrow> nat \<times> 'r list" where
  "update_where p f rows = (length (filter p rows), map (\<lambda>r. if p r then f r else r) rows)"

definition update_table :: "('r \<Rightarrow> bool) \<Rightarrow> ('r \<Rightarrow> 'r) \<Rightarrow> 'r list option \<Rightarrow> nat \<times> 'r list option" where
  "update_table p f t =
     (case t of None \<Rightarrow> (0, None) | Some rows \<Rightarrow> (fst (update_where p f rows), Some (snd (update_where p f rows))))"

definition rename_model :: "string \<Rightarrow> string \<Rightarrow> tables \<Rightarrow> nat \<times> tables" where
  "rename_model old new t =
     (let (n1, u) = update_where (\<lambda>r. ur_logical_model r = old) (\<lambda>r. r\<lparr>ur_logical_model := new\<rparr>) (tb_usage t);
          (n2, l) = update_table (\<lambda>r. lr_model r = Some old) (\<lambda>r. r\<lparr>lr_model := Some new\<rparr>) (tb_logs t);
          (n3, p) = update_table (\<lambda>r. pb_model r = old) (\<lambda>r. r\<lparr>pb_model := new\<rparr>) (tb_probes t)
      in (n1 + n2 + n3, \<lparr>tb_usage = u, tb_logs = l, tb_probes = p\<rparr>))"

definition rename_provider_rows :: "string \<Rightarrow> string \<Rightarrow> tables \<Rightarrow> nat \<times> tables" where
  "rename_provider_rows old new t =
     (let (n1, u) = update_where (\<lambda>r. ur_provider r = old) (\<lambda>r. r\<lparr>ur_provider := new\<rparr>) (tb_usage t);
          (n2, l) = update_table (\<lambda>r. lr_provider r = Some old) (\<lambda>r. r\<lparr>lr_provider := Some new\<rparr>) (tb_logs t);
          (n3, p) = update_table (\<lambda>r. pb_provider r = old) (\<lambda>r. r\<lparr>pb_provider := new\<rparr>) (tb_probes t)
      in (n1 + n2 + n3, \<lparr>tb_usage = u, tb_logs = l, tb_probes = p\<rparr>))"

section \<open>Measured speed, with its cache\<close>

type_synonym tps_cache = "((string \<times> int), time \<times> (string, real) dict) dict"

definition tps_map_ttl :: real where
  "tps_map_ttl = 30"

definition measure_speeds :: "usage_row list \<Rightarrow> time \<Rightarrow> string \<Rightarrow> int \<Rightarrow> (string, real) dict" where
  "measure_speeds rows now model_id hours =
     List.map_filter (\<lambda>kr. map_option (Pair (fst kr)) (percentile (tps_of (snd kr)) (1 / 2)))
       (group_rows backend_of
          (filter (\<lambda>r. ur_ts r \<ge> now - of_int (hours * 3600) \<and> ur_logical_model r = model_id
                       \<and> ur_success r \<and> ur_tps r \<noteq> None) rows))"

definition get_backend_tps_map ::
    "usage_row list \<Rightarrow> time \<Rightarrow> string \<Rightarrow> int \<Rightarrow> tps_cache \<Rightarrow> (string, real) dict \<times> tps_cache" where
  "get_backend_tps_map rows now model_id hours cache =
     (case dget cache (model_id, hours) of
        Some (t, out) \<Rightarrow>
          if now - t < tps_map_ttl then (out, cache)
          else (let out' = measure_speeds rows now model_id hours
                in (out', dset (model_id, hours) (now, out') cache))
      | None \<Rightarrow>
          (let out' = measure_speeds rows now model_id hours
           in (out', dset (model_id, hours) (now, out') cache)))"

definition invalidate_tps_map :: "tps_cache \<Rightarrow> tps_cache" where
  "invalidate_tps_map cache = []"

section \<open>Spend\<close>

text \<open>
  \<open>day_start\<close> and \<open>month_start\<close> are the local midnights that \<open>time.mktime\<close> gives for the
  current local date.
\<close>

record key_spend =
  ks_day_cost :: real
  ks_day_requests :: nat
  ks_month_cost :: real
  ks_month_requests :: nat

definition key_rows :: "string \<Rightarrow> time \<Rightarrow> usage_row list \<Rightarrow> usage_row list" where
  "key_rows key_id start rows =
     filter (\<lambda>r. ur_api_key_id r = Some key_id \<and> ur_ts r \<ge> start \<and> \<not> ur_is_probe r) rows"

definition get_key_spend :: "usage_row list \<Rightarrow> time \<Rightarrow> time \<Rightarrow> string \<Rightarrow> key_spend" where
  "get_key_spend rows day_start month_start key_id =
     (let day = key_rows key_id day_start rows; month = key_rows key_id month_start rows
      in \<lparr>ks_day_cost = py_round 6 (or0 (sql_sum ur_cost day)), ks_day_requests = length day,
          ks_month_cost = py_round 6 (or0 (sql_sum ur_cost month)), ks_month_requests = length month\<rparr>)"

definition spend_of :: "time \<Rightarrow> usage_row list \<Rightarrow> key_spend" where
  "spend_of day_start rows =
     \<lparr>ks_day_cost = py_round 6 (or0 (sql_sum (\<lambda>r. if ur_ts r \<ge> day_start then ur_cost r else Some 0) rows)),
      ks_day_requests = length (filter (\<lambda>r. ur_ts r \<ge> day_start) rows),
      ks_month_cost = py_round 6 (or0 (sql_sum ur_cost rows)), ks_month_requests = length rows\<rparr>"

definition get_all_key_spend :: "usage_row list \<Rightarrow> time \<Rightarrow> time \<Rightarrow> (string option, key_spend) dict" where
  "get_all_key_spend rows day_start month_start =
     map (\<lambda>kr. (fst kr, spend_of day_start (snd kr)))
       (group_rows ur_api_key_id
          (filter (\<lambda>r. ur_api_key_id r \<noteq> None \<and> ur_ts r \<ge> month_start \<and> \<not> ur_is_probe r) rows))"

definition day_of :: "usage_row \<Rightarrow> int" where
  "day_of r = \<lfloor>ur_ts r / 86400\<rfloor>"

definition get_key_daily_burn :: "usage_row list \<Rightarrow> time \<Rightarrow> string \<Rightarrow> int \<Rightarrow> real" where
  "get_key_daily_burn rows now key_id days =
     (let w = key_rows key_id (now - of_int (days * 86400)) rows;
          active_days = length (remdups (map day_of w))
      in if active_days = 0 then 0 else py_round 6 (or0 (sql_sum ur_cost w) / real active_days))"

record user_spend =
  uu_requests :: nat
  uu_cost :: real
  uu_tokens :: int

text \<open>\<open>ORDER BY cost DESC\<close> puts NULL last.\<close>

definition get_user_spend :: "usage_row list \<Rightarrow> time \<Rightarrow> int \<Rightarrow> (string option, user_spend) dict" where
  "get_user_spend rows now hours =
     (let groups = group_rows ur_end_user (filter named_user (since now hours rows));
          priced = filter (\<lambda>kr. sql_sum ur_cost (snd kr) \<noteq> None) groups;
          unpriced = filter (\<lambda>kr. sql_sum ur_cost (snd kr) = None) groups
      in map (\<lambda>kr. (fst kr, \<lparr>uu_requests = length (snd kr), uu_cost = py_round 6 (or0 (sql_sum ur_cost (snd kr))),
                             uu_tokens = total_tokens (snd kr)\<rparr>))
           (sort_key (\<lambda>kr. - or0 (sql_sum ur_cost (snd kr))) priced @ unpriced))"

section \<open>Cost anomalies\<close>

text \<open>
  \<open>date_of\<close> is the date of an epoch day as \<open>strftime\<close> prints it.  The alerts to send are the
  anomalies returned.  A z score of \<open>inf\<close> is \<open>None\<close>, stored as 999.
\<close>

datatype scope = Key_scope | Model_scope

record anomaly =
  an_ts :: time
  an_scope :: scope
  an_scope_id :: string
  an_date :: string
  an_expected :: real
  an_actual :: real
  an_z_score :: real
  an_acknowledged :: bool

fun scope_column :: "scope \<Rightarrow> usage_row \<Rightarrow> string option" where
  "scope_column Key_scope r = ur_api_key_id r"
| "scope_column Model_scope r = Some (ur_logical_model r)"

definition scope_rows :: "scope \<Rightarrow> int \<Rightarrow> int \<Rightarrow> usage_row list \<Rightarrow> usage_row list" where
  "scope_rows sc from until rows =
     filter (\<lambda>r. ur_ts r \<ge> of_int from \<and> ur_ts r < of_int until \<and> scope_column sc r \<noteq> None
                \<and> scope_column sc r \<noteq> Some [] \<and> \<not> ur_is_probe r) rows"

definition daily_costs :: "usage_row list \<Rightarrow> real list" where
  "daily_costs rows = map (\<lambda>kr. or0 (sql_sum ur_cost (snd kr))) (group_rows day_of rows)"

definition mean :: "real list \<Rightarrow> real" where
  "mean xs = sum_list xs / real (length xs)"

definition std_dev :: "real list \<Rightarrow> real" where
  "std_dev xs =
     (let variance = sum_list (map (\<lambda>x. (x - mean xs)^2) xs) / real (length xs)
      in if variance > 0 then sqrt variance else 0)"

definition z_score :: "real list \<Rightarrow> real \<Rightarrow> real option" where
  "z_score daily actual =
     (if std_dev daily > 0 then Some ((actual - mean daily) / std_dev daily)
      else if actual > mean daily then None else Some 0)"

definition threshold_of :: "real list \<Rightarrow> real" where
  "threshold_of daily = max (mean daily + 3 * std_dev daily) (mean daily * 3)"

definition anomaly_of :: "time \<Rightarrow> string \<Rightarrow> scope \<Rightarrow> string \<Rightarrow> real list \<Rightarrow> real \<Rightarrow> anomaly option" where
  "anomaly_of now date sc sid daily actual =
     (if length daily < 3 then None
      else if mean daily < 1 / 10 then None
      else if actual > threshold_of daily
      then Some \<lparr>an_ts = now, an_scope = sc, an_scope_id = sid, an_date = date,
                 an_expected = py_round 6 (mean daily), an_actual = py_round 6 actual,
                 an_z_score = (case z_score daily actual of None \<Rightarrow> 999 | Some z \<Rightarrow> py_round 2 z),
                 an_acknowledged = False\<rparr>
      else None)"

definition anomaly_id :: "anomaly \<Rightarrow> scope \<times> string \<times> string" where
  "anomaly_id a = (an_scope a, an_scope_id a, an_date a)"

text \<open>\<open>INSERT OR IGNORE\<close> under \<open>UNIQUE(scope, scope_id, date)\<close>.\<close>

definition insert_or_ignore :: "anomaly \<Rightarrow> anomaly list \<times> anomaly list \<Rightarrow> anomaly list \<times> anomaly list" where
  "insert_or_ignore a s =
     (let (found, table) = s
      in if anomaly_id a \<in> anomaly_id ` set table then (found, table) else (found @ [a], table @ [a]))"

definition scan_scope :: "(int \<Rightarrow> string) \<Rightarrow> time \<Rightarrow> usage_row list \<Rightarrow> scope \<Rightarrow> anomaly list" where
  "scan_scope date_of now rows sc =
     (let today = \<lfloor>now\<rfloor> div 86400;
          base = scope_rows sc ((today - 14) * 86400) ((today - 1) * 86400) rows;
          yesterday = scope_rows sc ((today - 1) * 86400) (today * 86400) rows
      in List.map_filter
           (\<lambda>kr. case fst kr of
                    None \<Rightarrow> None
                  | Some sid \<Rightarrow>
                      anomaly_of now (date_of (today - 1)) sc sid
                        (daily_costs (filter (\<lambda>r. scope_column sc r = Some sid) base))
                        (or0 (sql_sum ur_cost (snd kr))))
           (group_rows (scope_column sc) yesterday))"

definition daily_anomaly_scan ::
    "(int \<Rightarrow> string) \<Rightarrow> time \<Rightarrow> usage_row list \<Rightarrow> anomaly list \<Rightarrow> anomaly list \<times> anomaly list" where
  "daily_anomaly_scan date_of now rows table =
     fold insert_or_ignore (scan_scope date_of now rows Key_scope @ scan_scope date_of now rows Model_scope)
       ([], table)"

text \<open>The row's number in the table stands for its id.\<close>

definition get_active_anomalies :: "anomaly list \<Rightarrow> anomaly list" where
  "get_active_anomalies table =
     take 20 (sort_key (\<lambda>a. - an_ts a) (filter (\<lambda>a. \<not> an_acknowledged a) table))"

definition ack_anomaly :: "nat \<Rightarrow> anomaly list \<Rightarrow> bool \<times> anomaly list" where
  "ack_anomaly i table =
     (if i < length table then (True, table[i := (table ! i)\<lparr>an_acknowledged := True\<rparr>]) else (False, table))"

section \<open>Lemmas\<close>

lemma sum_map_filter: "sum_list (List.map_filter f xs) = sum_list (map (\<lambda>x. or0 (f x)) xs)"
  for f :: "'a \<Rightarrow> 'b::monoid_add option"
  by (induction xs) (auto simp: List.map_filter_simps or0_def split: option.splits)

text \<open>A NULL sum reads as 0, so a sum is the sum over all rows with NULL as 0.\<close>

lemma or0_sql_sum: "or0 (sql_sum f rows) = sum_list (map (\<lambda>r. or0 (f r)) rows)"
  unfolding sum_map_filter [symmetric] by (simp add: sql_sum_def Let_def or0_def)

lemma sum_over_keys:
  fixes h :: "'a \<Rightarrow> 'b::comm_monoid_add"
  assumes "finite K" and "f ` set rows \<subseteq> K"
  shows "(\<Sum>k\<in>K. sum_list (map h (filter (\<lambda>r. f r = k) rows))) = sum_list (map h rows)"
  using assms
proof (induction rows)
  case (Cons r rows)
  have "(\<Sum>k\<in>K. sum_list (map h (filter (\<lambda>r. f r = k) (r # rows))))
      = (\<Sum>k\<in>K. (if k = f r then h r else 0) + sum_list (map h (filter (\<lambda>r. f r = k) rows)))"
    by (rule sum.cong) auto
  also have "\<dots> = h r + sum_list (map h rows)"
    using Cons by (simp add: sum.distrib)
  finally show ?case by simp
qed simp

lemma sum_groups:
  "sum_list (map (\<lambda>kr. sum_list (map h (snd kr))) (group_rows f rows)) = sum_list (map h rows)"
  for h :: "usage_row \<Rightarrow> 'b::comm_monoid_add"
  using sum_over_keys [of "f ` set rows" f rows h]
  by (simp add: group_rows_def sum_list_distinct_conv_sum_set comp_def)

lemma length_as_sum: "length xs = sum_list (map (\<lambda>_. 1) xs)"
  by (simp add: sum_list_triv)

lemma count_success_sum: "count_success rows = sum_list (map (\<lambda>r. if ur_success r then 1 else 0) rows)"
  by (induction rows) (simp_all add: count_success_def)

lemma agg_by_sums:
  "sum_list (map (\<lambda>ka. ag_requests (snd ka)) (agg_by f rows)) = length rows"
  "sum_list (map (\<lambda>ka. ag_successes (snd ka)) (agg_by f rows)) = count_success rows"
  "sum_list (map (\<lambda>ka. ag_input (snd ka)) (agg_by f rows)) = or0 (sql_sum ur_input rows)"
  "sum_list (map (\<lambda>ka. ag_output (snd ka)) (agg_by f rows)) = or0 (sql_sum ur_output rows)"
  by (simp_all add: agg_by_def agg_row_def comp_def or0_sql_sum length_as_sum count_success_sum sum_groups
      del: length_map)

lemma keys_group_rows: "fst ` set (group_rows f rows) = f ` set rows"
  by (force simp: group_rows_def)

lemma dict_ok_group_rows [dict_intros]: "dict_ok (group_rows f rows)"
  by (simp add: dict_ok_def group_rows_def comp_def)

subsection \<open>Order statistics\<close>

lemma nth_sorted_bounds:
  assumes "i < length xs"
  shows "Min (set xs) \<le> sort_key (\<lambda>x. x) xs ! i \<and> sort_key (\<lambda>x. x) xs ! i \<le> Max (set xs)"
proof -
  have "sort_key (\<lambda>x. x) xs ! i \<in> set xs"
    using assms by (metis length_sort nth_mem set_sort)
  then show ?thesis by simp
qed

lemma convex_bounds:
  fixes a b t lo hi :: real
  assumes "lo \<le> a" "a \<le> hi" "lo \<le> b" "b \<le> hi" "0 \<le> t" "t \<le> 1"
  shows "lo \<le> a + (b - a) * t \<and> a + (b - a) * t \<le> hi"
proof -
  have e: "a + (b - a) * t = (1 - t) * a + t * b" by (simp add: algebra_simps)
  have "(1 - t) * lo + t * lo \<le> (1 - t) * a + t * b" "(1 - t) * a + t * b \<le> (1 - t) * hi + t * hi"
    using assms by (auto intro!: add_mono mult_left_mono)
  then show ?thesis unfolding e by (simp add: algebra_simps)
qed

text \<open>
  A percentile lies between the smallest and the largest value, up to the rounding to two
  decimals, and there is one for every non-empty sample.
\<close>

theorem percentile_bounds:
  assumes "values \<noteq> []" and "0 \<le> p" and "p \<le> 1"
  shows "\<exists>v. percentile values p = Some v
           \<and> py_round 2 (Min (set values)) \<le> v \<and> v \<le> py_round 2 (Max (set values))"
proof -
  define s where "s = sort_key (\<lambda>x. x) values"
  define k where "k = real (length s - 1) * p"
  define f where "f = nat \<lfloor>k\<rfloor>"
  define c where "c = min (f + 1) (length s - 1)"
  define x where "x = (if f = c then s ! f else s ! f + (s ! c - s ! f) * (k - real f))"
  have n: "length s = length values" "0 < length s" using assms(1) by (simp_all add: s_def)
  have k: "0 \<le> k" "k \<le> real (length s - 1)"
    using assms mult_left_mono [of p 1 "real (length s - 1)"] by (simp_all add: k_def)
  then have f: "real f \<le> k" "k < real f + 1" by (simp_all add: f_def)
  then have i: "f < length s" "c < length s" using k n by (auto simp: c_def min_def)
  have "Min (set values) \<le> x \<and> x \<le> Max (set values)"
    using nth_sorted_bounds [of f "values"] nth_sorted_bounds [of c "values"] i n f
      convex_bounds [of _ "s ! f" _ "s ! c" "k - real f"]
    by (auto simp: x_def s_def [symmetric])
  then have "py_round 2 (Min (set values)) \<le> py_round 2 x \<and> py_round 2 x \<le> py_round 2 (Max (set values))"
    by (simp add: py_round_mono)
  moreover have "percentile values p = Some (py_round 2 x)"
    using assms(1) by (simp add: percentile_def Let_def x_def c_def f_def k_def s_def)
  ultimately show ?thesis by blast
qed

theorem percentile_bounds_witness:
  "\<exists>v. percentile [3, 1, 2] (1 / 2) = Some v
      \<and> py_round 2 (Min (set [3, 1, 2])) \<le> v \<and> v \<le> py_round 2 (Max (set [3, 1, 2]))"
  by (rule percentile_bounds) simp_all

definition adds_up :: "('k, agg) dict \<Rightarrow> agg \<Rightarrow> bool" where
  "adds_up d whole \<longleftrightarrow>
     sum_list (map (\<lambda>ka. ag_requests (snd ka)) d) = ag_requests whole
     \<and> sum_list (map (\<lambda>ka. ag_successes (snd ka)) d) = ag_successes whole
     \<and> sum_list (map (\<lambda>ka. ag_input (snd ka)) d) = ag_input whole
     \<and> sum_list (map (\<lambda>ka. ag_output (snd ka)) d) = ag_output whole"

text \<open>
  The breakdowns of a usage summary add up to its total: the requests, successes, input and output
  tokens of the providers, of the models and of the backends each sum to those of the whole window, so
  no row is lost or counted twice.
\<close>

theorem summary_partitions:
  "let s = get_usage_summary rows now hours
   in adds_up (us_by_provider s) (us_total s) \<and> adds_up (us_by_model s) (us_total s)
      \<and> adds_up (us_by_backend s) (us_total s)"
proof -
  have perm: "sum_list (map g (sort_key k xs)) = sum_list (map g xs)"
    for g :: "string \<times> agg \<Rightarrow> 'b::comm_monoid_add" and k :: "string \<times> agg \<Rightarrow> int" and xs
    by (metis mset_map mset_sort sum_mset_sum_list)
  show ?thesis
    by (simp add: get_usage_summary_def adds_up_def Let_def perm agg_by_sums agg_row_def)
qed

text \<open>
  Renaming a logical model moves its usage to the new id: afterwards the new id has the requests,
  tokens and cost of both, and the old id has none.  The totals of every other model stay.
\<close>

theorem rename_merges_totals:
  assumes "old \<noteq> new"
  shows "let rows = tb_usage t; rows' = tb_usage (snd (rename_model old new t));
             before = (\<lambda>m. get_model_totals rows now m hours); after = (\<lambda>m. get_model_totals rows' now m hours)
         in mt_requests (after new) = mt_requests (before old) + mt_requests (before new)
            \<and> mt_tokens (after new) = mt_tokens (before old) + mt_tokens (before new)
            \<and> mt_cost (after new) = mt_cost (before old) + mt_cost (before new)
            \<and> mt_requests (after old) = 0
            \<and> (\<forall>m. m \<noteq> old \<and> m \<noteq> new \<longrightarrow> after m = before m)"
proof -
  define ren where "ren = (\<lambda>r :: usage_row. if ur_logical_model r = old then r\<lparr>ur_logical_model := new\<rparr> else r)"
  define w where "w = (\<lambda>m rows. filter (\<lambda>r. ur_logical_model r = m) (since now hours rows))"
  have rows': "tb_usage (snd (rename_model old new t)) = map ren (tb_usage t)"
    by (simp add: rename_model_def update_where_def split_beta Let_def ren_def)
  have sums: "sum_list (map g (w new (map ren rows))) = sum_list (map g (w old rows)) + sum_list (map g (w new rows))"
    if "\<And>r. g (r\<lparr>ur_logical_model := new\<rparr>) = g r" for g :: "usage_row \<Rightarrow> 'b::comm_monoid_add" and rows
    using assms that by (induction rows) (auto simp: w_def since_def ren_def ac_simps)
  have len: "length (w new (map ren rows)) = length (w old rows) + length (w new rows)" for rows
    using sums [of "\<lambda>_. 1 :: nat"] by (simp add: sum_list_triv)
  have none: "w old (map ren rows) = []" for rows
    using assms by (induction rows) (auto simp: w_def since_def ren_def)
  have other: "w m (map ren rows) = w m rows" if "m \<noteq> old" "m \<noteq> new" for m rows
    using that by (induction rows) (auto simp: w_def since_def ren_def)
  have w: "filter (\<lambda>r. ur_logical_model r = m) (since now hours rows) = w m rows" for m rows
    by (simp add: w_def)
  show ?thesis
    by (simp add: rows' Let_def get_model_totals_def w len none other total_tokens_def or0_sql_sum sums)
qed

definition demo_row :: "string \<Rightarrow> usage_row" where
  "demo_row m = (default_row 100 m ''p'' ''x'' True)\<lparr>ur_input := Some 5, ur_cost := Some 2\<rparr>"

definition demo_tables :: tables where
  "demo_tables = \<lparr>tb_usage = [demo_row ''a'', demo_row ''b''], tb_logs = None, tb_probes = None\<rparr>"

theorem rename_merges_totals_witness:
  "let rows = tb_usage demo_tables; rows' = tb_usage (snd (rename_model ''a'' ''b'' demo_tables));
       before = (\<lambda>m. get_model_totals rows 100 m 1); after = (\<lambda>m. get_model_totals rows' 100 m 1)
   in mt_requests (after ''b'') = mt_requests (before ''a'') + mt_requests (before ''b'')
      \<and> mt_tokens (after ''b'') = mt_tokens (before ''a'') + mt_tokens (before ''b'')
      \<and> mt_cost (after ''b'') = mt_cost (before ''a'') + mt_cost (before ''b'')
      \<and> mt_requests (after ''a'') = 0
      \<and> (\<forall>m. m \<noteq> ''a'' \<and> m \<noteq> ''b'' \<longrightarrow> after m = before m)"
  by (rule rename_merges_totals) simp

subsection \<open>Anomalies\<close>

lemma insert_known: "anomaly_id a \<in> anomaly_id ` set table \<Longrightarrow> insert_or_ignore a (found, table) = (found, table)"
  by (simp add: insert_or_ignore_def)

lemma insert_new:
  "anomaly_id a \<notin> anomaly_id ` set table \<Longrightarrow> insert_or_ignore a (found, table) = (found @ [a], table @ [a])"
  by (simp add: insert_or_ignore_def)

text \<open>What \<open>fold insert_or_ignore\<close> finds is new, and it puts all of it in the table.\<close>

lemma fold_insert_or_ignore:
  "fold insert_or_ignore as (found, table) = (found', table') \<Longrightarrow>
   \<exists>new. found' = found @ new \<and> table' = table @ new \<and> set new \<subseteq> set as
     \<and> (\<forall>a\<in>set new. anomaly_id a \<notin> anomaly_id ` set table)
     \<and> (\<forall>a\<in>set as. anomaly_id a \<in> anomaly_id ` set table')"
proof (induction as arbitrary: found table)
  case (Cons a as)
  show ?case
  proof (cases "anomaly_id a \<in> anomaly_id ` set table")
    case True
    with Cons.prems have "fold insert_or_ignore as (found, table) = (found', table')"
      by (simp only: fold_simps insert_known)
    from Cons.IH [OF this] obtain new where new: "found' = found @ new" "table' = table @ new" "set new \<subseteq> set as"
        "\<forall>b\<in>set new. anomaly_id b \<notin> anomaly_id ` set table" "\<forall>b\<in>set as. anomaly_id b \<in> anomaly_id ` set table'"
      by blast
    with True show ?thesis by (intro exI [of _ new]) auto
  next
    case False
    with Cons.prems have "fold insert_or_ignore as (found @ [a], table @ [a]) = (found', table')"
      by (simp only: fold_simps insert_new simp_thms)
    from Cons.IH [OF this] obtain new where "found' = (found @ [a]) @ new" "table' = (table @ [a]) @ new" "set new \<subseteq> set as"
        "\<forall>b\<in>set new. anomaly_id b \<notin> anomaly_id ` set (table @ [a])"
        "\<forall>b\<in>set as. anomaly_id b \<in> anomaly_id ` set table'"
      by blast
    with False show ?thesis by (intro exI [of _ "a # new"]) auto
  qed
qed simp

lemma fold_insert_known:
  "\<forall>a\<in>set as. anomaly_id a \<in> anomaly_id ` set table \<Longrightarrow> fold insert_or_ignore as (found, table) = (found, table)"
  by (induction as) (simp_all add: insert_known)

lemma map_map_filter: "map h (List.map_filter f xs) = List.map_filter (\<lambda>x. map_option h (f x)) xs"
  by (induction xs) (simp_all add: List.map_filter_simps split: option.split)

lemma anomaly_id_of:
  "map_option anomaly_id (anomaly_of now d sc sid daily x)
   = (if length daily < 3 \<or> mean daily < 1 / 10 \<or> \<not> x > threshold_of daily then None else Some (sc, sid, d))"
  by (simp add: anomaly_of_def anomaly_id_def)

text \<open>The ids of the anomalies of a scan depend on the day only.\<close>

lemma scan_ids:
  "\<lfloor>now'\<rfloor> div 86400 = \<lfloor>now\<rfloor> div 86400 \<Longrightarrow>
   map anomaly_id (scan_scope date_of now' rows sc) = map anomaly_id (scan_scope date_of now rows sc)"
  unfolding scan_scope_def Let_def map_map_filter
  by (rule arg_cong [where f = "\<lambda>f. List.map_filter f xs" for xs, THEN trans], rule ext)
     (auto simp: anomaly_id_of split: option.split)

text \<open>
  A cost anomaly is reported once: every anomaly a scan reports exceeds three times its baseline
  mean and was not in the table before, and a scan repeated on the same day over the same rows reports
  nothing, whatever happened to the table in between as long as no anomaly was deleted.
\<close>

theorem anomaly_reported_once:
  assumes "daily_anomaly_scan date_of now rows table = (found, table')"
    and "\<lfloor>now'\<rfloor> div 86400 = \<lfloor>now\<rfloor> div 86400" and "anomaly_id ` set table' \<subseteq> anomaly_id ` set later"
  shows "table' = table @ found \<and> (\<forall>a\<in>set found. anomaly_id a \<notin> anomaly_id ` set table)
         \<and> daily_anomaly_scan date_of now' rows later = ([], later)"
proof -
  let ?as = "\<lambda>n. scan_scope date_of n rows Key_scope @ scan_scope date_of n rows Model_scope"
  obtain new where new: "found = [] @ new" "table' = table @ new"
      "\<forall>a\<in>set new. anomaly_id a \<notin> anomaly_id ` set table" "\<forall>a\<in>set (?as now). anomaly_id a \<in> anomaly_id ` set table'"
    using fold_insert_or_ignore [OF assms(1) [unfolded daily_anomaly_scan_def]] by blast
  have "map anomaly_id (?as now') = map anomaly_id (?as now)"
    by (simp only: map_append scan_ids [OF assms(2)])
  from arg_cong [OF this, of set] have "anomaly_id ` set (?as now') = anomaly_id ` set (?as now)"
    by (simp only: set_map)
  moreover have "anomaly_id ` set (?as now) \<subseteq> anomaly_id ` set later"
    using new(4) assms(3) by (auto simp only: image_subset_iff)
  ultimately have known: "\<forall>a\<in>set (?as now'). anomaly_id a \<in> anomaly_id ` set later"
    by (simp only: image_subset_iff [symmetric])
  have "daily_anomaly_scan date_of now' rows later = ([], later)"
    unfolding daily_anomaly_scan_def by (rule fold_insert_known [OF known])
  with new(1-3) show ?thesis by simp
qed

definition spike_rows :: "usage_row list" where
  "spike_rows =
     map (\<lambda>d. (default_row (of_int d * 86400) ''m'' ''p'' ''x'' True)\<lparr>ur_cost := Some (if d = 9 then 10 else 1)\<rparr>)
       [1, 2, 3, 9]"

theorem anomaly_reported_once_witness:
  "let (found, table') = daily_anomaly_scan (\<lambda>d. int_str d) 864000 spike_rows []
   in table' = [] @ found \<and> (\<forall>a\<in>set found. anomaly_id a \<notin> anomaly_id ` set [])
      \<and> daily_anomaly_scan (\<lambda>d. int_str d) 864100 spike_rows table' = ([], table')"
proof -
  obtain found table' where s: "daily_anomaly_scan (\<lambda>d. int_str d) 864000 spike_rows [] = (found, table')"
    by (cases "daily_anomaly_scan (\<lambda>d. int_str d) 864000 spike_rows []")
  show ?thesis
    unfolding Let_def s prod.case by (rule anomaly_reported_once [OF s]) simp_all
qed

end
