(* ===== verification/Accounting.thy ===== *)
theory Accounting
  imports Provider Router Tokenizer Usage
begin

text \<open>
  The accounting of a request (the functions before \<open>handle_request\<close> in
  \<^verbatim>\<open>src/localgateway/streaming.py\<close>): moving input tokens to cached tokens in the relayed usage,
  cost and speed, default parameters, and the errors of a request that no backend can serve.

  \<open>parse_int\<close> is \<open>int(s)\<close> of a string (\<open>None\<close> for a \<open>ValueError\<close>).
\<close>

section \<open>Strict UTF-8\<close>

text \<open>\<open>b.decode("utf-8")\<close> succeeds on these bytes.\<close>

fun conts :: "nat \<Rightarrow> bytes \<Rightarrow> bytes option" where
  "conts 0 s = Some s"
| "conts (Suc n) s = (case s of [] \<Rightarrow> None | c # s' \<Rightarrow> if is_cont c then conts n s' else None)"

definition after_lead :: "nat \<Rightarrow> bytes \<Rightarrow> bytes option" where
  "after_lead a s =
     (let b = (case s of [] \<Rightarrow> 0 | c # _ \<Rightarrow> byte c)
      in if a < 128 then Some s
         else if 194 \<le> a \<and> a \<le> 223 then conts 1 s
         else if a = 224 then (if 160 \<le> b then conts 2 s else None)
         else if a = 237 then (if b < 160 then conts 2 s else None)
         else if 225 \<le> a \<and> a \<le> 239 then conts 2 s
         else if a = 240 then (if 144 \<le> b then conts 3 s else None)
         else if 241 \<le> a \<and> a \<le> 243 then conts 3 s
         else if a = 244 then (if b < 144 then conts 3 s else None)
         else None)"

lemma conts_length: "conts n s = Some s' \<Longrightarrow> length s' \<le> length s"
  by (induction n s arbitrary: s' rule: conts.induct) (force split: list.splits if_splits)+

lemma after_lead_length: "after_lead a s = Some s' \<Longrightarrow> length s' \<le> length s"
  unfolding after_lead_def Let_def by (split if_splits | assumption | drule conts_length | clarsimp simp del: conts.simps)+

function utf8_ok :: "bytes \<Rightarrow> bool" where
  "utf8_ok [] = True"
| "utf8_ok (c # s) = (case after_lead (byte c) s of None \<Rightarrow> False | Some s' \<Rightarrow> utf8_ok s')"
  by pat_completeness auto
termination
  by (relation "measure length") (auto dest: after_lead_length simp: less_Suc_eq_le)

section \<open>Moving input tokens to cached tokens\<close>

text \<open>\<open>(x or 0) + n\<close>.\<close>

fun py_add :: "json \<Rightarrow> int \<Rightarrow> py_error + json" where
  "py_add (JInt i) n = Inr (JInt (i + n))"
| "py_add (JBool b) n = Inr (JInt ((if b then 1 else 0) + n))"
| "py_add (JFloat x) n = Inr (JFloat (x + of_int n))"
| "py_add _ n = Inl TypeError"

definition add_or_zero :: "json \<Rightarrow> int \<Rightarrow> py_error + json" where
  "add_or_zero v n = py_add (py_or v (JInt 0)) n"

definition shift_usage :: "jobj \<Rightarrow> int \<Rightarrow> py_error + jobj" where
  "shift_usage usage pt =
     (let pd = (case as_obj (jget usage ''prompt_tokens_details'') of None \<Rightarrow> [] | Some d \<Rightarrow> d)
      in case add_or_zero (jget pd ''cached_tokens'') pt of
           Inl e \<Rightarrow> Inl e
         | Inr cached \<Rightarrow>
             (case add_or_zero (jget usage ''cache_read_input_tokens'') pt of
                Inl e \<Rightarrow> Inl e
              | Inr cr \<Rightarrow>
                  Inr (dset ''cache_read_input_tokens'' cr
                        (dset ''prompt_tokens_details'' (JObj (dset ''cached_tokens'' cached pd))
                          (dset ''prompt_tokens'' (JInt 0) usage)))))"

definition shift_usage_obj :: "jobj \<Rightarrow> py_error + jobj option" where
  "shift_usage_obj obj =
     (case as_obj (jget obj ''usage'') of
        None \<Rightarrow> Inr None
      | Some usage \<Rightarrow>
          (case as_int (jget usage ''prompt_tokens'') of
             None \<Rightarrow> Inr None
           | Some pt \<Rightarrow>
               if pt = 0 then Inr None
               else (case shift_usage usage pt of
                       Inl e \<Rightarrow> Inl e
                     | Inr u \<Rightarrow> Inr (Some (dset ''usage'' (JObj u) obj)))))"

text \<open>A body that is valid JSON but no object raises: \<open>obj.get\<close> is outside the \<open>try\<close>.\<close>

definition shift_usage_to_cached :: "codec \<Rightarrow> bytes \<Rightarrow> py_error + bytes" where
  "shift_usage_to_cached cd body =
     (case cd_loads_bytes cd body of
        None \<Rightarrow> Inr body
      | Some (JObj data) \<Rightarrow>
          (case shift_usage_obj data of
             Inl e \<Rightarrow> Inl e
           | Inr None \<Rightarrow> Inr body
           | Inr (Some obj) \<Rightarrow> Inr (cd_dumps cd (JObj obj)))
      | Some _ \<Rightarrow> Inl AttributeError)"

definition shift_line :: "codec \<Rightarrow> string \<Rightarrow> py_error + bool \<times> string" where
  "shift_line cd line =
     (if \<not> prefix ''data: '' line then Inr (False, line)
      else if strip (drop 6 line) = done_marker then Inr (False, line)
      else case Option.bind (cd_loads cd (drop 6 line)) as_obj of
             None \<Rightarrow> Inr (False, line)
           | Some obj \<Rightarrow>
               (case shift_usage_obj obj of
                  Inl e \<Rightarrow> Inl e
                | Inr None \<Rightarrow> Inr (False, line)
                | Inr (Some obj') \<Rightarrow> Inr (True, ''data: '' @ cd_dumps cd (JObj obj'))))"

fun shift_lines :: "codec \<Rightarrow> string list \<Rightarrow> py_error + bool \<times> string list" where
  "shift_lines cd [] = Inr (False, [])"
| "shift_lines cd (l # ls) =
     (case shift_line cd l of
        Inl e \<Rightarrow> Inl e
      | Inr (b, l') \<Rightarrow>
          (case shift_lines cd ls of Inl e \<Rightarrow> Inl e | Inr (b', ls') \<Rightarrow> Inr (b \<or> b', l' # ls')))"

definition shift_stream_usage_to_cached :: "codec \<Rightarrow> bytes \<Rightarrow> py_error + bytes" where
  "shift_stream_usage_to_cached cd chunk =
     (if \<not> utf8_ok chunk \<or> \<not> contains (CHR 0x22 # ''usage'' @ [CHR 0x22]) chunk then Inr chunk
      else case shift_lines cd (split_lines chunk) of
             Inl e \<Rightarrow> Inl e
           | Inr (changed, ls) \<Rightarrow> Inr (if changed then join_lines ls @ [LF] else chunk))"

section \<open>Circuit, cost, speed\<close>

definition record_circuit_failure ::
    "cb_state \<Rightarrow> time \<Rightarrow> time \<Rightarrow> string \<Rightarrow> string \<Rightarrow> int option \<Rightarrow> string option \<Rightarrow> (py_error + bool) \<times> cb_state"
where
  "record_circuit_failure s now real_now p m status_code error =
     (case status_code of
        None \<Rightarrow> (Inr False, s)
      | Some c \<Rightarrow> if c = 0 \<or> c \<ge> 500 then record_outcome s now real_now p m False error else (Inr False, s))"

definition strip_gateway_fields :: "jobj \<Rightarrow> jobj" where
  "strip_gateway_fields body = ddel ''provider'' body"

definition compute_cost ::
    "gateway_config \<Rightarrow> string \<Rightarrow> string \<Rightarrow> int option \<Rightarrow> int option \<Rightarrow> int option \<Rightarrow> int option \<Rightarrow> real option"
where
  "compute_cost cfg p m input_tokens output_tokens cached_tokens cache_write_tokens =
     (case (input_tokens, output_tokens) of
        (Some inp, Some out) \<Rightarrow>
          (let pricing = pricing_for cfg p m;
               read_price = (case pr_cache_read pricing of None \<Rightarrow> pr_input pricing | Some x \<Rightarrow> x);
               write_price = (case pr_cache_write pricing of None \<Rightarrow> pr_input pricing | Some x \<Rightarrow> x);
               cached = opt0 cached_tokens; cache_write = opt0 cache_write_tokens;
               regular = max (inp - cached - cache_write) 0
           in Some (of_int regular * pr_input pricing + of_int cached * read_price
                    + of_int cache_write * write_price + of_int out * pr_output pricing))
      | _ \<Rightarrow> None)"

definition compute_tps :: "int option \<Rightarrow> int option \<Rightarrow> int option \<Rightarrow> real option" where
  "compute_tps output_tokens latency_ms ttft_ms =
     (if opt0 output_tokens = 0 \<or> opt0 latency_ms = 0 then None
      else let latency = opt0 latency_ms; gen = latency - opt0 ttft_ms; gen_ms = (if gen \<le> 0 then latency else gen)
           in Some (py_round 2 (of_int (opt0 output_tokens) / (of_int gen_ms / 1000))))"

section \<open>Errors and headers\<close>

definition error_obj :: "string \<Rightarrow> string \<Rightarrow> string \<Rightarrow> jobj" where
  "error_obj message kind code =
     [(''message'', JStr message), (''type'', JStr kind), (''code'', JStr code)]"

definition error_body :: "codec \<Rightarrow> jobj \<Rightarrow> bytes" where
  "error_body cd err = cd_dumps cd (JObj [(''error'', JObj err)])"

definition error_sse :: "codec \<Rightarrow> string \<Rightarrow> string \<Rightarrow> bytes" where
  "error_sse cd message code =
     ''data: '' @ error_body cd (error_obj message ''api_error'' code) @ [LF, LF]"

definition route_headers :: "string \<Rightarrow> string \<Rightarrow> string \<Rightarrow> string option \<Rightarrow> (string, string) dict" where
  "route_headers p m reason request_id =
     [(''Content-Type'', ''application/json''), (''X-Provider'', p), (''X-Backend'', p @ ''/'' @ m)]
     @ (if reason = [] then [] else [(''X-Routing-Reason'', reason)])
     @ (case nonempty request_id of None \<Rightarrow> [] | Some r \<Rightarrow> [(''X-Request-Id'', r)])"

section \<open>Limits of a request\<close>

text \<open>\<open>int(x)\<close>, with \<open>TypeError\<close> and \<open>ValueError\<close> as \<open>None\<close>; a float is cut towards zero.\<close>

fun py_int :: "(string \<Rightarrow> int option) \<Rightarrow> json \<Rightarrow> int option" where
  "py_int parse_int (JInt i) = Some i"
| "py_int parse_int (JBool b) = Some (if b then 1 else 0)"
| "py_int parse_int (JFloat x) = Some (if x \<ge> 0 then \<lfloor>x\<rfloor> else \<lceil>x\<rceil>)"
| "py_int parse_int (JStr s) = parse_int s"
| "py_int parse_int _ = None"

definition first_not_null :: "jobj \<Rightarrow> string list \<Rightarrow> json" where
  "first_not_null body keys =
     (case filter (\<lambda>v. v \<noteq> JNull) (map (jget body) keys) of [] \<Rightarrow> JNull | v # _ \<Rightarrow> v)"

definition requested_max_tokens :: "(string \<Rightarrow> int option) \<Rightarrow> jobj \<Rightarrow> int option" where
  "requested_max_tokens parse_int body =
     py_int parse_int (first_not_null body [''max_completion_tokens'', ''max_tokens'', ''max_output_tokens''])"

text \<open>The limits of the enabled backends of enabled providers.\<close>

definition backend_limits :: "gateway_config \<Rightarrow> (backend_config \<Rightarrow> int option) \<Rightarrow> model_config \<Rightarrow> int list" where
  "backend_limits cfg f model =
     List.map_filter
       (\<lambda>b. if bk_enabled b \<and> (case provider_by_id cfg (bk_provider b) of None \<Rightarrow> False | Some p \<Rightarrow> pv_enabled p)
            then f b else None)
       (md_backends model)"

definition max_of :: "int list \<Rightarrow> int" where
  "max_of xs = foldl max (hd xs) (tl xs)"

definition context_too_small_error ::
    "gateway_config \<Rightarrow> model_config option \<Rightarrow> int option \<Rightarrow> int option \<Rightarrow> jobj option" where
  "context_too_small_error cfg model input_tokens max_tokens =
     (case (input_tokens, model) of
        (Some inp, Some md) \<Rightarrow>
          (let contexts = backend_limits cfg bk_context_length md; needed = inp + opt0 max_tokens
           in if contexts \<noteq> [] \<and> needed > max_of contexts
              then Some (error_obj
                     (''Prompt + requested completion ('' @ int_str needed
                      @ '' tokens) exceeds the largest backend context for '' @ [CHR 0x27] @ md_id md @ [CHR 0x27]
                      @ '' ('' @ int_str (max_of contexts) @ '')'')
                     ''invalid_request_error'' ''context_length_exceeded'')
              else None)
      | _ \<Rightarrow> None)"

definition default_param_keys :: "string list" where
  "default_param_keys =
     [''temperature'', ''top_p'', ''top_k'', ''min_p'', ''max_tokens'', ''max_completion_tokens'',
      ''frequency_penalty'', ''presence_penalty'', ''repetition_penalty'', ''stop'', ''seed'', ''n'',
      ''response_format'', ''tools'', ''tool_choice'', ''parallel_tool_calls'', ''logit_bias'', ''logprobs'',
      ''top_logprobs'', ''reasoning_effort'', ''verbosity'']"

definition default_param_blocked :: "string list" where
  "default_param_blocked = [''model'', ''messages'', ''stream'', ''stream_options'', ''provider'', ''user'']"

definition apply_default :: "string \<times> json \<Rightarrow> jobj \<Rightarrow> jobj" where
  "apply_default kv out =
     (if fst kv \<in> set default_param_blocked then out
      else if fst kv \<notin> set default_param_keys then out
      else if jget out (fst kv) = JNull then dset (fst kv) (snd kv) out
      else out)"

definition apply_default_params :: "jobj \<Rightarrow> jobj \<Rightarrow> jobj" where
  "apply_default_params body defaults = (if defaults = [] then body else fold apply_default defaults body)"

section \<open>What a request needs\<close>

definition estimate_input_tokens :: "encoder \<Rightarrow> gateway_config \<Rightarrow> jobj \<Rightarrow> int option" where
  "estimate_input_tokens enc cfg body =
     count_messages enc
       (if sv_tokenizer (gw_server cfg) = [] then ''auto'' else sv_tokenizer (gw_server cfg))
       (jget body ''messages'')"

definition input_estimate_needed :: "model_config option \<Rightarrow> bool \<Rightarrow> bool" where
  "input_estimate_needed model use_cache =
     (use_cache \<or> (case model of None \<Rightarrow> False
                   | Some md \<Rightarrow> \<exists>b\<in>set (md_backends md). bk_enabled b \<and> bk_context_length b \<noteq> None))"

definition cache_enabled :: "gateway_config \<Rightarrow> model_config option \<Rightarrow> bool" where
  "cache_enabled cfg model =
     (case model of None \<Rightarrow> False
      | Some md \<Rightarrow> sv_response_cache_enabled (gw_server cfg) \<and> md_cache_responses md)"

definition not_found_error :: "string \<Rightarrow> jobj" where
  "not_found_error logical_model =
     error_obj (''Model '' @ [CHR 0x27] @ logical_model @ [CHR 0x27] @ '' not found or has no configured backends'')
       ''invalid_request_error'' ''model_not_found''"

definition output_limit_error :: "gateway_config \<Rightarrow> model_config \<Rightarrow> string \<Rightarrow> int \<Rightarrow> jobj" where
  "output_limit_error cfg md logical_model max_tokens =
     (let limits = backend_limits cfg bk_max_output_tokens md
      in error_obj
           (''Requested max_tokens='' @ int_str max_tokens
            @ '' exceeds the output limit of every backend for '' @ [CHR 0x27] @ logical_model @ [CHR 0x27]
            @ (if limits = [] then [] else '' (max available: '' @ int_str (max_of limits) @ '')''))
           ''invalid_request_error'' ''output_limit_exceeded'')"

definition resolve_backends ::
    "env \<Rightarrow> gateway_config \<Rightarrow> string \<Rightarrow> int option \<Rightarrow> int option \<Rightarrow> provider_prefs option \<Rightarrow> string option
     \<Rightarrow> world \<Rightarrow> (selected_backend list \<times> jobj option \<times> int) \<times> world"
where
  "resolve_backends e cfg logical_model max_tokens input_tokens prefs cache_key w =
     (case model_by_id cfg logical_model of
        None \<Rightarrow> (([], Some (not_found_error logical_model), 404), w)
      | Some model \<Rightarrow>
          if \<not> md_enabled model then (([], Some (not_found_error logical_model), 404), w)
          else
            let (backends, w1) = select_backends e cfg logical_model max_tokens input_tokens prefs cache_key w
            in if backends \<noteq> [] then ((backends, None, 0), w1)
               else case context_too_small_error cfg (Some model) input_tokens max_tokens of
                      Some err \<Rightarrow> (([], Some err, 400), w1)
                    | None \<Rightarrow>
                        (case max_tokens of
                           Some mt \<Rightarrow> (([], Some (output_limit_error cfg model logical_model mt), 400), w1)
                         | None \<Rightarrow> (([], Some (not_found_error logical_model), 404), w1)))"

section \<open>Lemmas\<close>

lemma py_add_int: "as_int v = Some i \<Longrightarrow> py_add v n = Inr (JInt (i + n))"
  by (cases v) auto

lemma as_int_truthy: "as_int v = Some i \<Longrightarrow> truthy v \<longleftrightarrow> i \<noteq> 0"
  by (cases v) (auto split: if_splits)

lemma add_or_zero_int: "as_int v = Some i \<Longrightarrow> add_or_zero v n = Inr (JInt (i + n))"
  by (cases "i = 0") (auto simp: add_or_zero_def py_or_def as_int_truthy py_add_int)

lemma add_or_zero_null: "add_or_zero JNull n = Inr (JInt n)"
  by (simp add: add_or_zero_def py_or_def)

lemma as_int_not_null: "as_int v = None \<or> v \<noteq> JNull"
  by (cases v) auto

text \<open>What the client reads in a shifted usage, field by field.\<close>

lemma shift_usage_fields:
  assumes "shift_usage usage pt = Inr u"
  shows "jget u ''prompt_tokens'' = JInt 0"
    and "add_or_zero (jget usage ''cache_read_input_tokens'') pt = Inr (jget u ''cache_read_input_tokens'')"
    and "\<And>k. k \<notin> {''prompt_tokens'', ''prompt_tokens_details'', ''cache_read_input_tokens''} \<Longrightarrow> jget u k = jget usage k"
  using assms by (auto simp: shift_usage_def Let_def split: sum.splits)

text \<open>What the gateway logs for the same response: \<open>log_input\<close> and \<open>log_cached\<close>.\<close>

definition shift_logged :: "pricing_entry \<Rightarrow> stream_usage \<Rightarrow> int option \<times> int option" where
  "shift_logged pricing u =
     (if pr_cache_read pricing = None \<and> opt0 (su_input u) \<noteq> 0
      then (Some 0, Some (opt0 (su_cached u) + opt0 (su_input u)))
      else (su_input u, su_cached u))"

section \<open>Properties\<close>

text \<open>
  Client parameters win: a default is applied only to a whitelisted key that the client omitted or
  sent as null; every other key of the body, and so the model, the messages and the stream flag, is
  what the client sent.
\<close>

theorem client_params_win:
  assumes "dict_ok defaults"
  shows "jget (apply_default_params body defaults) k =
           (if jget body k = JNull \<and> k \<in> set default_param_keys
            then (case dget defaults k of None \<Rightarrow> jget body k | Some v \<Rightarrow> v)
            else jget body k)"
proof -
  have disjoint: "k \<in> set default_param_keys \<Longrightarrow> k \<notin> set default_param_blocked" for k
    by (auto simp: default_param_keys_def default_param_blocked_def)
  have "jget (fold apply_default defaults b) k =
          (if jget b k = JNull \<and> k \<in> set default_param_keys
           then (case dget defaults k of None \<Rightarrow> jget b k | Some v \<Rightarrow> v) else jget b k)" for b
    using assms
  proof (induction defaults arbitrary: b)
    case (Cons kv ds)
    have "dget ds (fst kv) = None"
      using Cons.prems by (cases kv) (simp add: dict_ok_Cons dget_None_iff)
    moreover have "dict_ok ds" using Cons.prems by (cases kv) (simp add: dict_ok_Cons)
    ultimately show ?case
      using Cons.IH disjoint [of "fst kv"]
      by (cases kv) (auto simp: apply_default_def split: option.split)
  qed simp
  then show ?thesis by (simp add: apply_default_params_def)
qed

theorem client_params_win_witness:
  "jget (apply_default_params [(''temperature'', JInt 1), (''seed'', JNull)]
           [(''temperature'', JInt 0), (''seed'', JInt 7), (''model'', JStr ''x'')]) ''seed'' =
     (if jget [(''temperature'', JInt 1), (''seed'', JNull)] ''seed'' = JNull \<and> ''seed'' \<in> set default_param_keys
      then (case dget [(''temperature'', JInt 0), (''seed'', JInt 7), (''model'', JStr ''x'')] ''seed'' of
              None \<Rightarrow> jget [(''temperature'', JInt 1), (''seed'', JNull)] ''seed'' | Some v \<Rightarrow> v)
      else jget [(''temperature'', JInt 1), (''seed'', JNull)] ''seed'')"
  by (rule client_params_win) (simp add: dict_ok_def)

text \<open>
  C21. How the relayed usage relates to the log, for a model without a price for cache reads whose relayed usage
  was shifted, \<open>cache_read_input_tokens\<close> being an integer, null or absent.  The input, output and reasoning counts
  the client reads are those the gateway logs.  The cached count is the logged one exactly when the
  provider reported its cache reads in \<open>cache_read_input_tokens\<close>, or reported none;
  otherwise (reads reported in \<open>prompt_tokens_details\<close> only) the client reads a smaller number, the
  prompt tokens alone.
\<close>

theorem relayed_usage_vs_log:
  assumes "shift_usage_obj obj = Inr (Some obj')" and "as_obj (jget obj ''usage'') = Some usage"
    and "pr_cache_read pricing = None"
    and "as_int (jget usage ''cache_read_input_tokens'') \<noteq> None \<or> jget usage ''cache_read_input_tokens'' = JNull"
  shows "\<exists>u. jget obj' ''usage'' = JObj u
           \<and> su_input (usage_from_dict u) = fst (shift_logged pricing (usage_from_dict usage))
           \<and> su_output (usage_from_dict u) = su_output (usage_from_dict usage)
           \<and> su_reasoning (usage_from_dict u) = su_reasoning (usage_from_dict usage)
           \<and> (su_cached (usage_from_dict u) = snd (shift_logged pricing (usage_from_dict usage)) \<longleftrightarrow>
                as_int (jget usage ''cache_read_input_tokens'') \<noteq> None \<or> opt0 (su_cached (usage_from_dict usage)) = 0)
           \<and> (as_int (jget usage ''cache_read_input_tokens'') = None \<longrightarrow>
                su_cached (usage_from_dict u) = su_input (usage_from_dict usage))"
proof -
  from assms(1,2) obtain pt u where pt: "as_int (jget usage ''prompt_tokens'') = Some pt" "pt \<noteq> 0"
      and u: "shift_usage usage pt = Inr u" "obj' = dset ''usage'' (JObj u) obj"
    by (auto simp: shift_usage_obj_def split: option.splits if_splits sum.splits)
  note f = shift_usage_fields [OF u(1)]
  have logged: "shift_logged pricing (usage_from_dict usage) = (Some 0, Some (opt0 (su_cached (usage_from_dict usage)) + pt))"
    using assms(3) pt by (simp add: shift_logged_def usage_from_dict_def Let_def opt0_def)
  have "su_input (usage_from_dict u) = Some 0" "su_output (usage_from_dict u) = su_output (usage_from_dict usage)"
      "su_reasoning (usage_from_dict u) = su_reasoning (usage_from_dict usage)"
    using f(1,3) by (simp_all add: usage_from_dict_def Let_def)
  moreover have "su_input (usage_from_dict usage) = Some pt"
    using pt by (simp add: usage_from_dict_def Let_def)
  moreover have "su_cached (usage_from_dict u) =
      Some (case as_int (jget usage ''cache_read_input_tokens'') of None \<Rightarrow> pt | Some cr \<Rightarrow> cr + pt)"
    using assms(4) f(2) [symmetric]
    by (auto simp: usage_from_dict_def Let_def or_else_def add_or_zero_int add_or_zero_null split: option.splits)
  moreover have "su_cached (usage_from_dict usage) = Some cr"
    if "as_int (jget usage ''cache_read_input_tokens'') = Some cr" for cr
    using that by (simp add: usage_from_dict_def Let_def or_else_def)
  ultimately show ?thesis
    using u(2) logged by (cases "as_int (jget usage ''cache_read_input_tokens'')") (auto simp: opt0_def)
qed

definition demo_usage :: jobj where
  "demo_usage = [(''prompt_tokens'', JInt 10), (''completion_tokens'', JInt 3), (''cache_read_input_tokens'', JInt 2)]"

theorem relayed_usage_vs_log_witness:
  "\<exists>obj' u. shift_usage_obj [(''usage'', JObj demo_usage)] = Inr (Some obj') \<and> jget obj' ''usage'' = JObj u
     \<and> (su_input (usage_from_dict u), su_cached (usage_from_dict u))
         = shift_logged default_pricing (usage_from_dict demo_usage)"
proof -
  obtain obj' where s: "shift_usage_obj [(''usage'', JObj demo_usage)] = Inr (Some obj')"
    by (simp add: shift_usage_obj_def shift_usage_def demo_usage_def jget_def add_or_zero_def py_or_def Let_def)
  have "as_int (jget demo_usage ''cache_read_input_tokens'') = Some 2"
    by (simp add: demo_usage_def jget_def)
  with relayed_usage_vs_log [OF s, of demo_usage default_pricing] show ?thesis
    using s by (auto simp: jget_def default_pricing_def prod_eq_iff)
qed

text \<open>
  A provider that reports cached tokens in \<open>prompt_tokens_details\<close> only: the client reads 10 cached
  tokens in the relayed body, the gateway logs 14.
\<close>

theorem relayed_usage_differs:
  "let usage = [(''prompt_tokens'', JInt 10), (''prompt_tokens_details'', JObj [(''cached_tokens'', JInt 4)])]
   in \<exists>u. shift_usage_obj [(''usage'', JObj usage)] = Inr (Some [(''usage'', JObj u)])
        \<and> su_cached (usage_from_dict u) = Some 10
        \<and> shift_logged default_pricing (usage_from_dict usage) = (Some 0, Some 14)"
  by (simp add: shift_usage_obj_def shift_usage_def jget_def add_or_zero_def py_or_def Let_def usage_from_dict_def
      or_else_def shift_logged_def default_pricing_def opt0_def)

text \<open>
  A request that cannot be routed gets an error, never an empty success: either there are
  candidates and no error, or there are none and the status is 400 or 404, and 404 exactly when the
  model is unknown or disabled or no limit of the request explains the empty selection.
\<close>

theorem resolve_is_total:
  "let r = fst (resolve_backends e cfg m max_tokens input_tokens prefs cache_key w)
   in (fst r \<noteq> [] \<and> fst (snd r) = None \<and> snd (snd r) = 0)
      \<or> (fst r = [] \<and> fst (snd r) \<noteq> None \<and> snd (snd r) \<in> {400, 404}
         \<and> (snd (snd r) = 404 \<longleftrightarrow>
              (case model_by_id cfg m of
                 None \<Rightarrow> True
               | Some md \<Rightarrow> \<not> md_enabled md
                   \<or> max_tokens = None \<and> context_too_small_error cfg (Some md) input_tokens max_tokens = None)))"
  by (auto simp: resolve_backends_def Let_def split_beta split: option.splits)

theorem resolve_is_total_witness:
  "let r = fst (resolve_backends demo_env (demo_config ''failover'' False [demo_backend ''a'' 1 1]) ''y'' None None None None
                  demo_world)
   in (fst r \<noteq> [] \<and> fst (snd r) = None \<and> snd (snd r) = 0)
      \<or> (fst r = [] \<and> fst (snd r) \<noteq> None \<and> snd (snd r) \<in> {400, 404}
         \<and> (snd (snd r) = 404 \<longleftrightarrow>
              (case model_by_id (demo_config ''failover'' False [demo_backend ''a'' 1 1]) ''y'' of
                 None \<Rightarrow> True
               | Some md \<Rightarrow> \<not> md_enabled md
                   \<or> None = (None :: int option) \<and>
                     context_too_small_error (demo_config ''failover'' False [demo_backend ''a'' 1 1]) (Some md) None None = None)))"
  by (rule resolve_is_total)

end
