(* ===== verification/Fingerprint.thy ===== *)
theory Fingerprint
  imports Json
begin

text \<open>
  The cache key of a request (\<^verbatim>\<open>src/localgateway/cache.py\<close>): a hash of the conversation without
  its last user turn.  \<open>sha1\<close> is \<open>hashlib.sha1(...).hexdigest()\<close> and \<open>py_str\<close> is \<open>str\<close> of a
  value that is no string.
\<close>

definition prefix_truncate :: nat where
  "prefix_truncate = 2000"

definition ellipsis :: string where
  "ellipsis = [CHR 0xE2, CHR 0x80, CHR 0xA6]"

fun join_with :: "string \<Rightarrow> string list \<Rightarrow> string" where
  "join_with sep [] = []"
| "join_with sep [x] = x"
| "join_with sep (x # xs) = x @ sep @ join_with sep xs"

text \<open>\<open>d.get(k, "")\<close>: an explicit \<open>None\<close> is not replaced.\<close>

definition get_or_empty :: "jobj \<Rightarrow> string \<Rightarrow> json" where
  "get_or_empty d k = (case dget d k of None \<Rightarrow> JStr [] | Some v \<Rightarrow> v)"

definition part_text :: "(json \<Rightarrow> string) \<Rightarrow> json \<Rightarrow> string" where
  "part_text py_str part =
     (case part of
        JObj p \<Rightarrow> (case jget p ''text'' of JStr t \<Rightarrow> t | _ \<Rightarrow> py_str part)
      | JStr s \<Rightarrow> s
      | _ \<Rightarrow> py_str part)"

definition msg_text :: "(json \<Rightarrow> string) \<Rightarrow> json \<Rightarrow> string" where
  "msg_text py_str msg =
     (case msg of
        JObj m \<Rightarrow>
          (case get_or_empty m ''content'' of
             JStr s \<Rightarrow> s
           | JList parts \<Rightarrow> join_with [CHR 0x0A] (map (part_text py_str) parts)
           | c \<Rightarrow> py_str c)
      | _ \<Rightarrow> [])"

definition truncate_text :: "(bytes \<Rightarrow> string) \<Rightarrow> string \<Rightarrow> string" where
  "truncate_text sha1 text =
     (if py_len text > prefix_truncate
      then py_take prefix_truncate text @ ellipsis @ ''['' @ nat_str (py_len text) @ '':''
             @ take 10 (sha1 text) @ '']''
      else text)"

definition has_role :: "string \<Rightarrow> json \<Rightarrow> bool" where
  "has_role r m = (case m of JObj d \<Rightarrow> jget d ''role'' = JStr r | _ \<Rightarrow> False)"

definition role_text :: "(json \<Rightarrow> string) \<Rightarrow> json \<Rightarrow> string" where
  "role_text py_str m =
     (case m of
        JObj d \<Rightarrow> (case get_or_empty d ''role'' of JStr r \<Rightarrow> r | v \<Rightarrow> py_str v)
      | _ \<Rightarrow> [])"

definition system_parts :: "(json \<Rightarrow> string) \<Rightarrow> jobj \<Rightarrow> json list \<Rightarrow> string list" where
  "system_parts py_str body messages =
     (case jget body ''system'' of JStr s \<Rightarrow> [s] | _ \<Rightarrow> [])
     @ map (msg_text py_str) (filter (has_role ''system'') messages)"

definition prefix_msgs :: "json list \<Rightarrow> json list" where
  "prefix_msgs messages =
     (let convo = filter (\<lambda>m. \<not> has_role ''system'' m) messages;
          p = (if convo \<noteq> [] \<and> has_role ''user'' (last convo) then butlast convo else convo)
      in if p = [] then convo else p)"

definition separator :: string where
  "separator = [CHR 0x0A, CHR 0x00, CHR 0x0A]"

definition fingerprint :: "(bytes \<Rightarrow> string) \<Rightarrow> (json \<Rightarrow> string) \<Rightarrow> jobj \<Rightarrow> string option" where
  "fingerprint sha1 py_str request_body =
     (case jget request_body ''messages'' of
        JList messages \<Rightarrow>
          (if messages = [] then None
           else
             let sys = system_parts py_str request_body messages;
                 pm = prefix_msgs messages
             in if sys = [] \<and> pm = [] then None
                else if \<not> ((\<exists>s\<in>set sys. strip s \<noteq> []) \<or> (\<exists>m\<in>set pm. strip (msg_text py_str m) \<noteq> [])) then None
                else Some (take 16 (sha1 (join_with separator
                       (map (truncate_text sha1) sys
                        @ map (\<lambda>m. role_text py_str m @ '':'' @ truncate_text sha1 (msg_text py_str m)) pm)))))
      | _ \<Rightarrow> None)"

section \<open>Properties\<close>

lemma prefix_msgs_last_user:
  assumes "\<exists>m\<in>set hist. \<not> has_role ''system'' m" and "has_role ''user'' u" and "\<not> has_role ''system'' u"
  shows "prefix_msgs (hist @ [u]) = filter (\<lambda>m. \<not> has_role ''system'' m) hist"
  using assms by (auto simp: prefix_msgs_def Let_def filter_empty_conv)

lemma user_not_system: "has_role ''user'' m \<Longrightarrow> \<not> has_role ''system'' m"
  by (auto simp: has_role_def split: json.splits)

text \<open>
  The key names the prefix a provider has cached: two requests that differ only in the new user
  turn after some history get the same key.
\<close>

theorem fingerprint_ignores_new_turn:
  assumes "jget b1 ''messages'' = JList (hist @ [u1])" and "jget b2 ''messages'' = JList (hist @ [u2])"
    and "jget b1 ''system'' = jget b2 ''system''"
    and "has_role ''user'' u1" and "has_role ''user'' u2" and "\<exists>m\<in>set hist. \<not> has_role ''system'' m"
  shows "fingerprint sha1 py_str b1 = fingerprint sha1 py_str b2"
  using assms user_not_system [OF assms(4)] user_not_system [OF assms(5)]
  by (simp add: fingerprint_def prefix_msgs_last_user system_parts_def Let_def)

definition chat_msg :: "string \<Rightarrow> string \<Rightarrow> json" where
  "chat_msg role content = JObj [(''role'', JStr role), (''content'', JStr content)]"

theorem fingerprint_ignores_new_turn_witness:
  "fingerprint (\<lambda>s. s) (\<lambda>_. []) [(''messages'', JList ([chat_msg ''system'' ''s'', chat_msg ''user'' ''hi''] @ [chat_msg ''user'' ''a'']))]
   = fingerprint (\<lambda>s. s) (\<lambda>_. []) [(''messages'', JList ([chat_msg ''system'' ''s'', chat_msg ''user'' ''hi''] @ [chat_msg ''user'' ''b'']))]"
  by (rule fingerprint_ignores_new_turn [where hist = "[chat_msg ''system'' ''s'', chat_msg ''user'' ''hi'']"
        and ?u1.0 = "chat_msg ''user'' ''a''" and ?u2.0 = "chat_msg ''user'' ''b''"])
     (simp_all add: jget_def chat_msg_def has_role_def)

end
