(* ===== verification/RespCache.thy ===== *)
theory RespCache
  imports Json
begin

text \<open>
  The exact response cache (\<^verbatim>\<open>src/localgateway/respcache.py\<close>): a table in SQLite and a small
  memory of the least recently used kind in front of it.

  The table is the list of its rows in insertion order.  Statements go through the background
  writer when one runs: \<open>rc_queue\<close> holds those it has not executed yet, \<open>drain_some\<close> executes the
  first of them and \<open>drain_writer\<close> all; without a writer they are executed at once.  Database errors, which the code
  swallows, are not modelled.  \<open>sha256\<close> is the digest and \<open>dumps\<close> is
  \<open>json.dumps(v, sort_keys=True, ensure_ascii=False)\<close>.
\<close>

section \<open>State\<close>

record cache_entry =
  ce_body :: bytes
  ce_stream :: bool
  ce_hits :: nat
  ce_created :: time
  ce_ttl :: int
  ce_last :: time

datatype db_op =
    Delete_row string
  | Touch_row string time
  | Insert_row string cache_entry
  | Trim_rows int

record rc_state =
  rc_mem :: "(string, cache_entry) dict"
  rc_rows :: "(string, cache_entry) dict"
  rc_queue :: "db_op list"
  rc_writer :: bool

definition mem_capacity :: nat where
  "mem_capacity = 256"

section \<open>Keys\<close>

definition key_fields :: "string list" where
  "key_fields =
     [''model'', ''messages'', ''temperature'', ''top_p'', ''top_k'', ''max_tokens'', ''max_completion_tokens'',
      ''frequency_penalty'', ''presence_penalty'', ''repetition_penalty'', ''stop'', ''seed'', ''n'',
      ''response_format'', ''logit_bias'', ''logprobs'', ''top_logprobs'', ''reasoning_effort'', ''verbosity'',
      ''input'', ''instructions'', ''tools'']"

definition field_bytes :: "(json \<Rightarrow> string) \<Rightarrow> jobj \<Rightarrow> string \<Rightarrow> bytes" where
  "field_bytes dumps body f =
     (case dget body f of None \<Rightarrow> [] | Some v \<Rightarrow> f @ [CHR 0x00] @ dumps v @ [CHR 0x00])"

definition full_fingerprint :: "(bytes \<Rightarrow> string) \<Rightarrow> (json \<Rightarrow> string) \<Rightarrow> jobj \<Rightarrow> string" where
  "full_fingerprint sha256 dumps body = sha256 (concat (map (field_bytes dumps body) key_fields))"

fun as_number :: "json \<Rightarrow> real option" where
  "as_number (JInt i) = Some (of_int i)"
| "as_number (JBool b) = Some (if b then 1 else 0)"
| "as_number (JFloat x) = Some x"
| "as_number _ = None"

definition harmless_format :: "string \<Rightarrow> json \<Rightarrow> bool" where
  "harmless_format f v \<longleftrightarrow>
     f = ''response_format'' \<and> (case v of JObj d \<Rightarrow> jget d ''type'' = JStr ''text'' | _ \<Rightarrow> False)"

definition is_cacheable :: "jobj \<Rightarrow> bool" where
  "is_cacheable body =
     (if \<exists>f\<in>set [''tools'', ''tool_choice'', ''response_format''].
           truthy (jget body f) \<and> \<not> harmless_format f (jget body f) then False
      else case as_number (jget body ''temperature'') of None \<Rightarrow> True | Some t \<Rightarrow> \<not> t > 1 / 10)"

section \<open>The table\<close>

definition trim_rows :: "int \<Rightarrow> (string, cache_entry) dict \<Rightarrow> (string, cache_entry) dict" where
  "trim_rows max_entries rows =
     (let excess = nat (max 0 (int (length rows) - max_entries));
          oldest = map fst (take excess (sort_key (\<lambda>r. ce_last (snd r)) rows))
      in filter (\<lambda>r. fst r \<notin> set oldest) rows)"

fun apply_op :: "db_op \<Rightarrow> (string, cache_entry) dict \<Rightarrow> (string, cache_entry) dict" where
  "apply_op (Delete_row k) rows = ddel k rows"
| "apply_op (Touch_row k t) rows =
     map (\<lambda>r. if fst r = k then (fst r, (snd r)\<lparr>ce_hits := ce_hits (snd r) + 1, ce_last := t\<rparr>) else r) rows"
| "apply_op (Insert_row k e) rows = ddel k rows @ [(k, e)]"
| "apply_op (Trim_rows n) rows = trim_rows n rows"

definition enqueue :: "db_op \<Rightarrow> rc_state \<Rightarrow> rc_state" where
  "enqueue op s =
     (if rc_writer s then s\<lparr>rc_queue := rc_queue s @ [op]\<rparr>
      else s\<lparr>rc_rows := apply_op op (rc_rows s)\<rparr>)"

definition drain_writer :: "rc_state \<Rightarrow> rc_state" where
  "drain_writer s = s\<lparr>rc_rows := fold apply_op (rc_queue s) (rc_rows s), rc_queue := []\<rparr>"

text \<open>The thread works the queue off from the front, at its own pace.\<close>

definition drain_some :: "nat \<Rightarrow> rc_state \<Rightarrow> rc_state" where
  "drain_some n s = s\<lparr>rc_rows := fold apply_op (take n (rc_queue s)) (rc_rows s), rc_queue := drop n (rc_queue s)\<rparr>"

section \<open>Operations\<close>

text \<open>The memory, oldest use first.\<close>

definition move_to_end :: "string \<Rightarrow> (string, cache_entry) dict \<Rightarrow> (string, cache_entry) dict" where
  "move_to_end k d = (case dget d k of None \<Rightarrow> d | Some e \<Rightarrow> ddel k d @ [(k, e)])"

definition mem_put :: "string \<Rightarrow> cache_entry \<Rightarrow> (string, cache_entry) dict \<Rightarrow> (string, cache_entry) dict" where
  "mem_put k e d =
     (let d1 = move_to_end k (dset k e d) in drop (length d1 - mem_capacity) d1)"

definition effective_ttl :: "int \<Rightarrow> int \<Rightarrow> int" where
  "effective_ttl stored_ttl ttl_sec = (if stored_ttl \<noteq> 0 then min stored_ttl ttl_sec else ttl_sec)"

definition expired :: "time \<Rightarrow> int \<Rightarrow> cache_entry \<Rightarrow> bool" where
  "expired now ttl_sec e \<longleftrightarrow>
     (let ttl = effective_ttl (ce_ttl e) ttl_sec in ttl > 0 \<and> now - ce_created e > of_int ttl)"

definition lookup_row :: "rc_state \<Rightarrow> time \<Rightarrow> string \<Rightarrow> int \<Rightarrow> (bytes \<times> bool \<times> nat) option \<times> rc_state" where
  "lookup_row s now key ttl_sec =
     (case dget (rc_rows s) key of
        None \<Rightarrow> (None, s)
      | Some e \<Rightarrow>
          if expired now ttl_sec e then (None, enqueue (Delete_row key) s)
          else (Some (ce_body e, ce_stream e, ce_hits e + 1),
                enqueue (Touch_row key now) (s\<lparr>rc_mem := mem_put key (e\<lparr>ce_last := now\<rparr>) (rc_mem s)\<rparr>)))"

definition lookup_mem ::
    "rc_state \<Rightarrow> time \<Rightarrow> string \<Rightarrow> int \<Rightarrow> cache_entry \<Rightarrow> (bytes \<times> bool \<times> nat) option \<times> rc_state" where
  "lookup_mem s now key ttl_sec e =
     (if expired now ttl_sec e
      then (None, enqueue (Delete_row key) (s\<lparr>rc_mem := ddel key (rc_mem s)\<rparr>))
      else (Some (ce_body e, ce_stream e, ce_hits e + 1),
            enqueue (Touch_row key now) (s\<lparr>rc_mem := move_to_end key (rc_mem s)\<rparr>)))"

definition lookup_response :: "rc_state \<Rightarrow> time \<Rightarrow> string \<Rightarrow> int \<Rightarrow> (bytes \<times> bool \<times> nat) option \<times> rc_state" where
  "lookup_response s now key ttl_sec =
     (case dget (rc_mem s) key of
        Some e \<Rightarrow> lookup_mem s now key ttl_sec e
      | None \<Rightarrow> lookup_row s now key ttl_sec)"

definition store_response ::
    "rc_state \<Rightarrow> time \<Rightarrow> string \<Rightarrow> bytes \<Rightarrow> bool \<Rightarrow> int \<Rightarrow> int \<Rightarrow> rc_state" where
  "store_response s now key body stream ttl_sec max_entries =
     (let e = \<lparr>ce_body = body, ce_stream = stream, ce_hits = 0, ce_created = now, ce_ttl = ttl_sec, ce_last = now\<rparr>;
          s1 = enqueue (Insert_row key e) (s\<lparr>rc_mem := mem_put key e (rc_mem s)\<rparr>)
      in if max_entries > 0 then enqueue (Trim_rows max_entries) s1 else s1)"

definition clear_cache :: "rc_state \<Rightarrow> nat \<times> rc_state" where
  "clear_cache s = (length (rc_rows s), s\<lparr>rc_mem := [], rc_rows := []\<rparr>)"

definition cache_stats :: "rc_state \<Rightarrow> nat \<times> nat" where
  "cache_stats s = (length (rc_rows s), sum_list (map (\<lambda>r. ce_hits (snd r)) (rc_rows s)))"

section \<open>Lemmas\<close>

lemma dict_ok_move [dict_intros]: "dict_ok d \<Longrightarrow> dict_ok (move_to_end k d)"
  by (cases "dget d k") (simp_all add: move_to_end_def dict_ok_snoc dict_ok_ddel)

lemma dget_move [simp]: "dget (move_to_end k d) k' = dget d k'"
  by (cases "dget d k") (simp_all add: move_to_end_def dget_snoc del: map_of_append)

lemma move_last: "dget d k = Some e \<Longrightarrow> move_to_end k d = ddel k d @ [(k, e)]"
  by (simp add: move_to_end_def)

lemma mem_put_length: "length (mem_put k e d) \<le> mem_capacity"
  by (simp add: mem_put_def Let_def)

lemma mem_put_last: "mem_put k e d \<noteq> [] \<and> last (mem_put k e d) = (k, e)"
proof -
  have "move_to_end k (dset k e d) = ddel k (dset k e d) @ [(k, e)]"
    by (simp add: move_last)
  then show ?thesis
    by (simp add: mem_put_def Let_def mem_capacity_def)
qed

lemma dict_ok_drop: "dict_ok d \<Longrightarrow> dict_ok (drop n d)"
  by (simp add: dict_ok_def drop_map [symmetric] distinct_drop del: drop_map)

lemma dict_ok_mem_put [dict_intros]: "dict_ok d \<Longrightarrow> dict_ok (mem_put k e d)"
  by (simp add: mem_put_def Let_def dict_ok_drop dict_intros)

lemma dget_mem_put: "dict_ok d \<Longrightarrow> dget (mem_put k e d) k = Some e"
  using mem_put_last [of k e d] dict_ok_mem_put [of d k e]
  by (metis dget_in_set last_in_set)

lemma enqueue_mem [simp]: "rc_mem (enqueue op s) = rc_mem s"
  by (simp add: enqueue_def)

lemma length_move: "length (move_to_end k d) \<le> length d"
  by (cases "dget d k") (auto simp: move_to_end_def Suc_le_eq intro!: length_ddel dest: dget_key)

section \<open>Runs\<close>

datatype rc_event =
    Rc_store time string bytes bool int int
  | Rc_lookup time string int
  | Rc_drain nat
  | Rc_clear

fun rc_step :: "rc_state \<Rightarrow> rc_event \<Rightarrow> rc_state" where
  "rc_step s (Rc_store now k body stream ttl n) = store_response s now k body stream ttl n"
| "rc_step s (Rc_lookup now k ttl) = snd (lookup_response s now k ttl)"
| "rc_step s (Rc_drain n) = drain_some n s"
| "rc_step s Rc_clear = snd (clear_cache s)"

definition mem_ok :: "rc_state \<Rightarrow> bool" where
  "mem_ok s \<longleftrightarrow> dict_ok (rc_mem s) \<and> length (rc_mem s) \<le> mem_capacity"

lemma mem_ok_step: "mem_ok s \<Longrightarrow> mem_ok (rc_step s e)"
proof (cases e)
  case (Rc_lookup now k ttl)
  assume "mem_ok s"
  moreover have "length (ddel k (rc_mem s)) \<le> length (rc_mem s)" by (rule length_delete_le)
  ultimately show ?thesis
    using Rc_lookup length_move [of k "rc_mem s"]
    by (auto simp: mem_ok_def lookup_response_def lookup_mem_def lookup_row_def mem_put_length
        intro: dict_intros split: option.splits)
qed (auto simp: mem_ok_def store_response_def Let_def mem_put_length drain_some_def clear_cache_def
    intro: dict_intros)

lemma mem_ok_run: "mem_ok s \<Longrightarrow> mem_ok (foldl rc_step s es)"
  by (induction es arbitrary: s) (simp_all add: mem_ok_step)

text \<open>
  \<open>P\<close> holds of every copy of a key.  It speaks about the answer, not about the use of the
  entry: \<open>answer_only\<close>.
\<close>

definition same_answer :: "cache_entry \<Rightarrow> cache_entry \<Rightarrow> bool" where
  "same_answer e e' \<longleftrightarrow>
     ce_body e' = ce_body e \<and> ce_stream e' = ce_stream e \<and> ce_created e' = ce_created e \<and> ce_ttl e' = ce_ttl e"

definition answer_only :: "(cache_entry \<Rightarrow> bool) \<Rightarrow> bool" where
  "answer_only P \<longleftrightarrow> (\<forall>e e'. same_answer e e' \<longrightarrow> P e \<longrightarrow> P e')"

fun op_agrees :: "string \<Rightarrow> (cache_entry \<Rightarrow> bool) \<Rightarrow> db_op \<Rightarrow> bool" where
  "op_agrees k P (Insert_row k' e) = (k' = k \<longrightarrow> P e)"
| "op_agrees k P _ = True"

definition rows_agree :: "string \<Rightarrow> (cache_entry \<Rightarrow> bool) \<Rightarrow> (string, cache_entry) dict \<Rightarrow> bool" where
  "rows_agree k P rows \<longleftrightarrow> (\<forall>r\<in>set rows. fst r = k \<longrightarrow> P (snd r))"

text \<open>The entries of a key that the writer has still to insert.\<close>

definition pending :: "string \<Rightarrow> db_op list \<Rightarrow> cache_entry list" where
  "pending k ops =
     List.map_filter (\<lambda>op. case op of Insert_row k' e \<Rightarrow> if k' = k then Some e else None | _ \<Rightarrow> None) ops"

definition all_copies :: "string \<Rightarrow> (cache_entry \<Rightarrow> bool) \<Rightarrow> rc_state \<Rightarrow> bool" where
  "all_copies k P s \<longleftrightarrow>
     rows_agree k P (rc_mem s) \<and> rows_agree k P (rc_rows s) \<and> list_all (op_agrees k P) (rc_queue s)"

text \<open>The copy in memory satisfies \<open>P\<close>, and so does the newest of the table's row and the pending entries.\<close>

definition newest_copies :: "string \<Rightarrow> (cache_entry \<Rightarrow> bool) \<Rightarrow> rc_state \<Rightarrow> bool" where
  "newest_copies k P s \<longleftrightarrow>
     rows_agree k P (rc_mem s)
     \<and> (if pending k (rc_queue s) = [] then rows_agree k P (rc_rows s) else P (last (pending k (rc_queue s))))"

lemma pending_simps [simp]:
  "pending k [] = []"
  "pending k (ops @ ops') = pending k ops @ pending k ops'"
  by (simp_all add: pending_def List.map_filter_def)

lemma pending_one:
  "pending k [Delete_row k'] = []" "pending k [Touch_row k' t] = []" "pending k [Trim_rows n] = []"
  "pending k [Insert_row k' e] = (if k' = k then [e] else [])"
  by (simp_all add: pending_def List.map_filter_simps)

lemma rows_agree_subset: "rows_agree k P rows \<Longrightarrow> set rows' \<subseteq> set rows \<Longrightarrow> rows_agree k P rows'"
  by (auto simp: rows_agree_def)

lemma dget_agrees: "rows_agree k P rows \<Longrightarrow> dget rows k = Some e \<Longrightarrow> P e"
  by (auto simp: rows_agree_def dest!: map_of_SomeD)

lemma apply_op_agrees:
  "answer_only P \<Longrightarrow> rows_agree k P rows \<Longrightarrow> op_agrees k P op \<Longrightarrow> rows_agree k P (apply_op op rows)"
proof (cases op)
  case (Touch_row k' t)
  assume "answer_only P" and "rows_agree k P rows"
  then have "P (e\<lparr>ce_hits := ce_hits e + 1, ce_last := t\<rparr>)" if "(k, e) \<in> set rows" for e
    using that by (force simp: rows_agree_def answer_only_def same_answer_def)
  with \<open>rows_agree k P rows\<close> Touch_row show ?thesis
    by (auto simp: rows_agree_def)
qed (auto simp: rows_agree_def trim_rows_def Let_def dest: subsetD [OF set_ddel_subset])

lemma insert_agrees: "P e \<Longrightarrow> rows_agree k P (apply_op (Insert_row k e) rows)"
proof -
  assume "P e"
  have "k \<notin> fst ` set (ddel k rows)" by simp
  then have "fst r \<noteq> k" if "r \<in> set (ddel k rows)" for r
    using that by (metis image_eqI)
  with \<open>P e\<close> show ?thesis by (auto simp: rows_agree_def)
qed

lemma fold_ops_agree:
  "answer_only P \<Longrightarrow> list_all (op_agrees k P) ops \<Longrightarrow> rows_agree k P rows \<Longrightarrow> rows_agree k P (fold apply_op ops rows)"
  by (induction ops arbitrary: rows) (simp_all add: apply_op_agrees)

lemma fold_newest:
  assumes "answer_only P" and "if pending k ops = [] then rows_agree k P rows else P (last (pending k ops))"
  shows "rows_agree k P (fold apply_op ops rows)"
  using assms(2)
proof (induction ops rule: rev_induct)
  case (snoc op ops)
  show ?case
  proof (cases "pending k [op] = []")
    case True
    then have "op_agrees k P op" by (cases op) (auto simp: pending_one)
    moreover have "rows_agree k P (fold apply_op ops rows)"
      by (rule snoc.IH) (use snoc.prems True in \<open>auto split: if_splits\<close>)
    ultimately show ?thesis by (simp add: apply_op_agrees assms(1))
  next
    case False
    then obtain e where "op = Insert_row k e" by (cases op) (auto simp: pending_one split: if_splits)
    with snoc.prems show ?thesis by (simp add: insert_agrees pending_one del: apply_op.simps)
  qed
qed simp

lemma set_move: "set (move_to_end k d) \<subseteq> set d"
  using set_ddel_subset [of k d] by (auto simp: move_to_end_def split: option.splits dest: map_of_SomeD)

lemma set_mem_put: "set (mem_put k e d) \<subseteq> insert (k, e) (set d)"
proof -
  have "set (mem_put k e d) \<subseteq> set (dset k e d)"
    using set_move [of k "dset k e d"] by (auto simp: mem_put_def Let_def dest: in_set_dropD)
  then show ?thesis using set_dset_subset by fastforce
qed

lemma mem_put_agrees: "rows_agree k P d \<Longrightarrow> (k' = k \<longrightarrow> P e') \<Longrightarrow> rows_agree k P (mem_put k' e' d)"
  using set_mem_put [of k' e' d] by (fastforce simp: rows_agree_def)

lemma mem_put_own: "dict_ok d \<Longrightarrow> P e \<Longrightarrow> rows_agree k P (mem_put k e d)"
proof -
  assume ok: "dict_ok d" and "P e"
  have "x = e" if "(k, x) \<in> set (mem_put k e d)" for x
    using dict_ok_mem_put [OF ok, of k e] dget_mem_put [OF ok, of k e] that
    by (metis dict_ok_def map_of_eq_Some_iff option.inject)
  with \<open>P e\<close> show ?thesis unfolding rows_agree_def by (metis prod.collapse)
qed

lemma enqueue_copies: "answer_only P \<Longrightarrow> all_copies k P s \<Longrightarrow> op_agrees k P op \<Longrightarrow> all_copies k P (enqueue op s)"
  by (simp add: all_copies_def enqueue_def apply_op_agrees)

lemma enqueue_newest:
  "answer_only P \<Longrightarrow> newest_copies k P s \<Longrightarrow> rc_writer s \<or> rc_queue s = [] \<Longrightarrow> pending k [op] = [] \<Longrightarrow>
   newest_copies k P (enqueue op s)"
proof -
  assume "answer_only P" and "newest_copies k P s" and "rc_writer s \<or> rc_queue s = []" and none: "pending k [op] = []"
  moreover from none have "op_agrees k P op" by (cases op) (auto simp: pending_one)
  ultimately show ?thesis
    by (auto simp: newest_copies_def enqueue_def apply_op_agrees)
qed

definition queue_ok :: "rc_state \<Rightarrow> bool" where
  "queue_ok s \<longleftrightarrow> rc_writer s \<or> rc_queue s = []"

lemma queue_ok_mem [simp]: "queue_ok (s\<lparr>rc_mem := m\<rparr>) = queue_ok s"
  by (simp add: queue_ok_def)

lemma queue_ok_enqueue [simp]: "queue_ok s \<Longrightarrow> queue_ok (enqueue op s)"
  by (auto simp: queue_ok_def enqueue_def)

lemma queue_ok_step: "queue_ok s \<Longrightarrow> queue_ok (rc_step s ev)"
proof (cases ev)
  case (Rc_drain n)
  assume "queue_ok s"
  with Rc_drain show ?thesis by (auto simp: queue_ok_def drain_some_def)
next
  case (Rc_clear)
  assume "queue_ok s"
  with Rc_clear show ?thesis by (simp add: queue_ok_def clear_cache_def)
qed (auto simp: store_response_def lookup_response_def lookup_mem_def lookup_row_def Let_def split: option.split)

section \<open>Where an answer comes from\<close>

fun stores_key :: "string \<Rightarrow> rc_event \<Rightarrow> bool" where
  "stores_key k (Rc_store now k' body stream ttl n) = (k' = k)"
| "stores_key k _ = False"

fun stored_by :: "string \<Rightarrow> cache_entry \<Rightarrow> rc_event \<Rightarrow> bool" where
  "stored_by k e (Rc_store now k' body stream ttl n) =
     (k' = k \<and> ce_body e = body \<and> ce_stream e = stream \<and> ce_created e = now \<and> ce_ttl e = ttl)"
| "stored_by k e _ = False"

definition stored_once :: "string \<Rightarrow> rc_event list \<Rightarrow> cache_entry \<Rightarrow> bool" where
  "stored_once k es e \<longleftrightarrow> list_ex (stored_by k e) es"

definition stored_last :: "string \<Rightarrow> rc_event list \<Rightarrow> cache_entry \<Rightarrow> bool" where
  "stored_last k es e \<longleftrightarrow> filter (stores_key k) es \<noteq> [] \<and> stored_by k e (last (filter (stores_key k) es))"

text \<open>
  A lookup of \<open>k\<close> goes to the table only when the writer has no entry of \<open>k\<close> pending, throughout a run.
\<close>

fun caught_up :: "string \<Rightarrow> rc_state \<Rightarrow> rc_event \<Rightarrow> bool" where
  "caught_up k s (Rc_lookup now k' ttl) = (k' = k \<and> dget (rc_mem s) k = None \<longrightarrow> pending k (rc_queue s) = [])"
| "caught_up k s _ = True"

fun caught_up_run :: "string \<Rightarrow> rc_state \<Rightarrow> rc_event list \<Rightarrow> bool" where
  "caught_up_run k s [] = True"
| "caught_up_run k s (ev # es) = (caught_up k s ev \<and> caught_up_run k (rc_step s ev) es)"

lemma caught_up_snoc:
  "caught_up_run k s (es @ [ev]) \<longleftrightarrow> caught_up_run k s es \<and> caught_up k (foldl rc_step s es) ev"
  by (induction es arbitrary: s) simp_all

lemma stored_by_answer: "same_answer e e' \<Longrightarrow> stored_by k e ev \<Longrightarrow> stored_by k e' ev"
  by (cases ev) (auto simp: same_answer_def)

lemma answer_only_stored: "answer_only (stored_once k es)" "answer_only (stored_last k es)"
  by (auto simp: answer_only_def stored_once_def stored_last_def list_ex_iff dest: stored_by_answer)

lemma stored_once_snoc: "stored_once k es e \<Longrightarrow> stored_once k (es @ [ev]) e"
  by (simp add: stored_once_def)

lemma stored_last_snoc: "\<not> stores_key k ev \<Longrightarrow> stored_last k (es @ [ev]) = stored_last k es"
  by (simp add: stored_last_def fun_eq_iff)

lemma all_copies_mono: "all_copies k P s \<Longrightarrow> (\<And>e. P e \<Longrightarrow> Q e) \<Longrightarrow> all_copies k Q s"
proof -
  assume "all_copies k P s" and imp: "\<And>e. P e \<Longrightarrow> Q e"
  moreover have "op_agrees k Q op" if "op_agrees k P op" for op
    using that imp by (cases op) auto
  ultimately show ?thesis
    by (auto simp: all_copies_def rows_agree_def list_all_iff)
qed

lemma all_copies_mem: "all_copies k P s \<Longrightarrow> rows_agree k P m \<Longrightarrow> all_copies k P (s\<lparr>rc_mem := m\<rparr>)"
  by (simp add: all_copies_def)

lemma newest_mem: "newest_copies k P s \<Longrightarrow> rows_agree k P m \<Longrightarrow> newest_copies k P (s\<lparr>rc_mem := m\<rparr>)"
  by (simp add: newest_copies_def)

lemma touched: "answer_only P \<Longrightarrow> P e \<Longrightarrow> P (e\<lparr>ce_last := t\<rparr>)"
  by (auto simp: answer_only_def same_answer_def)

lemma lookup_copies:
  assumes "answer_only P" and "all_copies k P s"
  shows "all_copies k P (snd (lookup_response s now k' ttl))"
proof -
  have rows: "rows_agree k P (rc_mem s)" "rows_agree k P (rc_rows s)"
    using assms(2) by (simp_all add: all_copies_def)
  have "k' = k \<longrightarrow> P (x\<lparr>ce_last := now\<rparr>)" if "dget (rc_rows s) k' = Some x" for x
    using dget_agrees [OF rows(2)] that by (auto intro: touched assms(1))
  then show ?thesis
    using assms rows rows_agree_subset [OF rows(1) set_move] rows_agree_subset [OF rows(1) set_ddel_subset]
    by (auto simp: lookup_response_def lookup_mem_def lookup_row_def
        intro!: enqueue_copies all_copies_mem mem_put_agrees split: option.splits)
qed

lemma lookup_newest:
  assumes "answer_only P" and "newest_copies k P s" and "queue_ok s" and "caught_up k s (Rc_lookup now k' ttl)"
  shows "newest_copies k P (snd (lookup_response s now k' ttl))"
proof -
  have mem: "rows_agree k P (rc_mem s)"
    using assms(2) by (simp add: newest_copies_def)
  have "k' = k \<longrightarrow> P (x\<lparr>ce_last := now\<rparr>)" if "dget (rc_mem s) k' = None" "dget (rc_rows s) k' = Some x" for x
  proof
    assume "k' = k"
    with assms(2,4) that have "P x"
      by (auto simp: newest_copies_def dest: dget_agrees)
    then show "P (x\<lparr>ce_last := now\<rparr>)" by (rule touched [OF assms(1)])
  qed
  then show ?thesis
    using assms mem rows_agree_subset [OF mem set_move] rows_agree_subset [OF mem set_ddel_subset]
    by (auto simp: lookup_response_def lookup_mem_def lookup_row_def queue_ok_def
        intro!: enqueue_newest newest_mem mem_put_agrees pending_one split: option.splits)
qed

lemma store_copies:
  assumes "answer_only P" and "all_copies k P s"
    and "k' = k \<longrightarrow> P \<lparr>ce_body = body, ce_stream = stream, ce_hits = 0, ce_created = now, ce_ttl = ttl, ce_last = now\<rparr>"
  shows "all_copies k P (store_response s now k' body stream ttl n)"
proof -
  have "rows_agree k P (rc_mem s)"
    using assms(2) by (simp add: all_copies_def)
  with assms show ?thesis
    by (auto simp: store_response_def Let_def intro!: enqueue_copies all_copies_mem mem_put_agrees)
qed

lemma store_other_newest:
  assumes "answer_only P" and "newest_copies k P s" and "queue_ok s" and "k' \<noteq> k"
  shows "newest_copies k P (store_response s now k' body stream ttl n)"
proof -
  have "rows_agree k P (rc_mem s)"
    using assms(2) by (simp add: newest_copies_def)
  with assms queue_ok_enqueue show ?thesis
    by (auto simp: store_response_def Let_def queue_ok_def [symmetric] pending_one
        intro!: enqueue_newest [folded queue_ok_def] newest_mem mem_put_agrees)
qed

lemma store_own_newest:
  assumes "answer_only P" and "dict_ok (rc_mem s)" and "queue_ok s"
    and "P \<lparr>ce_body = body, ce_stream = stream, ce_hits = 0, ce_created = now, ce_ttl = ttl, ce_last = now\<rparr>"
  shows "newest_copies k P (store_response s now k body stream ttl n)"
proof -
  let ?e = "\<lparr>ce_body = body, ce_stream = stream, ce_hits = 0, ce_created = now, ce_ttl = ttl, ce_last = now\<rparr>"
  let ?s = "enqueue (Insert_row k ?e) (s\<lparr>rc_mem := mem_put k ?e (rc_mem s)\<rparr>)"
  have "rows_agree k P (mem_put k ?e (rc_mem s))"
    by (rule mem_put_own [where P = P, OF assms(2,4)])
  then have "newest_copies k P ?s" and ok: "queue_ok ?s"
    using assms(3,4) insert_agrees [of P ?e k "rc_rows s"]
    by (auto simp: newest_copies_def enqueue_def queue_ok_def pending_one simp del: apply_op.simps)
  then show ?thesis
    using enqueue_newest [OF assms(1) _ ok [unfolded queue_ok_def], of k "Trim_rows n"]
    by (simp add: store_response_def Let_def pending_one)
qed

lemma drain_copies: "answer_only P \<Longrightarrow> all_copies k P s \<Longrightarrow> all_copies k P (drain_some n s)"
proof -
  assume only: "answer_only P" and all: "all_copies k P s"
  then have "list_all (op_agrees k P) (take n (rc_queue s) @ drop n (rc_queue s))"
    by (simp only: append_take_drop_id all_copies_def)
  then have "list_all (op_agrees k P) (take n (rc_queue s))" "list_all (op_agrees k P) (drop n (rc_queue s))"
    by (simp_all only: list_all_append)
  with only all show ?thesis
    by (simp add: all_copies_def drain_some_def fold_ops_agree)
qed

lemma drain_newest:
  assumes "answer_only P" and "newest_copies k P s"
  shows "newest_copies k P (drain_some n s)"
proof -
  have split: "pending k (rc_queue s) = pending k (take n (rc_queue s)) @ pending k (drop n (rc_queue s))"
    by (simp flip: pending_simps(2))
  show ?thesis
    using assms fold_newest [OF assms(1), of k "take n (rc_queue s)" "rc_rows s"]
    by (auto simp: newest_copies_def drain_some_def split split: if_splits)
qed

lemma step_copies:
  assumes "all_copies k (stored_once k es) s"
  shows "all_copies k (stored_once k (es @ [ev])) (rc_step s ev)"
proof -
  have all: "all_copies k (stored_once k (es @ [ev])) s"
    using assms by (rule all_copies_mono) (rule stored_once_snoc)
  show ?thesis
  proof (cases ev)
    case (Rc_clear)
    with all show ?thesis by (simp add: all_copies_def clear_cache_def rows_agree_def)
  qed (use all in \<open>auto intro!: lookup_copies store_copies drain_copies answer_only_stored simp: stored_once_def\<close>)
qed

lemma step_newest:
  assumes "newest_copies k (stored_last k es) s" and "caught_up k s ev" and "queue_ok s" and "dict_ok (rc_mem s)"
  shows "newest_copies k (stored_last k (es @ [ev])) (rc_step s ev)"
proof (cases "stores_key k ev")
  case True
  then obtain now body stream ttl n where ev: "ev = Rc_store now k body stream ttl n"
    by (cases ev) auto
  show ?thesis
    unfolding ev rc_step.simps
    by (rule store_own_newest [OF answer_only_stored(2) assms(4,3)]) (simp add: stored_last_def)
next
  case False
  note only = answer_only_stored(2) [of k es]
  have "newest_copies k (stored_last k es) (rc_step s ev)"
  proof (cases ev)
    case (Rc_store now k' body stream ttl n)
    with False only assms show ?thesis by (auto intro: store_other_newest)
  next
    case (Rc_lookup now k' ttl)
    with only assms show ?thesis by (auto intro: lookup_newest simp del: caught_up.simps)
  next
    case (Rc_drain n)
    with only assms show ?thesis by (auto intro: drain_newest)
  next
    case Rc_clear
    with assms show ?thesis by (simp add: newest_copies_def clear_cache_def rows_agree_def)
  qed
  then show ?thesis by (simp only: stored_last_snoc [OF False])
qed

section \<open>Properties\<close>

definition rc_init :: "bool \<Rightarrow> rc_state" where
  "rc_init writer = \<lparr>rc_mem = [], rc_rows = [], rc_queue = [], rc_writer = writer\<rparr>"

text \<open>
  The memory in front of the table never holds more than 256 responses and holds a key at most
  once, for every sequence of stores, lookups, clears and writer progress.
\<close>

theorem response_memory_bounded:
  "dict_ok (rc_mem (foldl rc_step (rc_init writer) es)) \<and> length (rc_mem (foldl rc_step (rc_init writer) es)) \<le> 256"
  using mem_ok_run [of "rc_init writer" es] by (simp add: mem_ok_def rc_init_def mem_capacity_def)

lemma response_memory_ok: "dict_ok (rc_mem (foldl rc_step (rc_init writer) es))"
  using mem_ok_run [of "rc_init writer" es] by (simp add: mem_ok_def rc_init_def)

lemma run_copies:
  "all_copies k (stored_once k es) (foldl rc_step (rc_init writer) es)"
proof (induction es rule: rev_induct)
  case (snoc ev es)
  then show ?case by (simp add: step_copies)
qed (simp add: all_copies_def rows_agree_def rc_init_def)

lemma run_newest:
  "caught_up_run k (rc_init writer) es \<Longrightarrow>
   newest_copies k (stored_last k es) (foldl rc_step (rc_init writer) es) \<and> queue_ok (foldl rc_step (rc_init writer) es)"
proof (induction es rule: rev_induct)
  case (snoc ev es)
  then show ?case
    using response_memory_ok [of writer es] by (simp add: caught_up_snoc step_newest queue_ok_step)
qed (simp add: newest_copies_def rows_agree_def rc_init_def queue_ok_def)

text \<open>
  C19. A cached answer is a stored one and never outlives its time to live.  For every sequence of stores (also
  over the same key), lookups, clears and progress of the writer, a hit returns body and kind of a response
  that was stored under that key, and one not older than the smaller of the time to live it was
  stored with and the configured one.  It is the response stored last under the key, provided that no
  lookup of the key went to the table while an entry of it was waiting for the writer, which holds in particular
  as long as the memory has not evicted it.  (Without that it can be an older one:
  \<open>lagging_writer_serves_older\<close>.)
\<close>

theorem cached_answer_exact_and_fresh:
  assumes "fst (lookup_response (foldl rc_step (rc_init writer) es) now k ttl_sec) = Some (b, st, hits)"
  shows "\<exists>e. b = ce_body e \<and> st = ce_stream e \<and> list_ex (stored_by k e) es
           \<and> (0 < effective_ttl (ce_ttl e) ttl_sec \<longrightarrow> now - ce_created e \<le> of_int (effective_ttl (ce_ttl e) ttl_sec))
           \<and> (caught_up_run k (rc_init writer) (es @ [Rc_lookup now k ttl_sec])
                \<longrightarrow> stored_by k e (last (filter (stores_key k) es)))"
proof -
  define s where "s = foldl rc_step (rc_init writer) es"
  have "\<exists>e. (dget (rc_mem s) k = Some e \<or> dget (rc_mem s) k = None \<and> dget (rc_rows s) k = Some e)
      \<and> b = ce_body e \<and> st = ce_stream e \<and> \<not> expired now ttl_sec e"
    using assms unfolding s_def [symmetric]
    by (auto simp: lookup_response_def lookup_mem_def lookup_row_def split: option.splits if_splits)
  then obtain e where e: "dget (rc_mem s) k = Some e \<or> dget (rc_mem s) k = None \<and> dget (rc_rows s) k = Some e"
    and hit: "b = ce_body e" "st = ce_stream e" "\<not> expired now ttl_sec e"
    by blast
  have "stored_once k es e"
    using e run_copies [of k es writer] by (auto simp: s_def all_copies_def dest: dget_agrees)
  moreover have "stored_last k es e" if "caught_up_run k (rc_init writer) (es @ [Rc_lookup now k ttl_sec])"
  proof -
    have "caught_up_run k (rc_init writer) es" and up: "caught_up k s (Rc_lookup now k ttl_sec)"
      using that by (simp_all add: caught_up_snoc s_def)
    from run_newest [OF this(1)] have "newest_copies k (stored_last k es) s" by (simp add: s_def)
    with e up show ?thesis by (auto simp: newest_copies_def dest: dget_agrees)
  qed
  ultimately show ?thesis
    using hit by (auto simp: stored_once_def stored_last_def expired_def Let_def)
qed

text \<open>An answer overwritten while the writer lags behind by one statement.\<close>

definition demo_events :: "rc_event list" where
  "demo_events = [Rc_store 0 ''k'' ''old'' False 10 0, Rc_drain 1, Rc_store 4 ''k'' ''r'' True 10 5, Rc_lookup 5 ''k'' 60]"

theorem cached_answer_exact_and_fresh_witness:
  "\<exists>b st hits. fst (lookup_response (foldl rc_step (rc_init True) demo_events) 9 ''k'' 60) = Some (b, st, hits)
     \<and> b = ''r'' \<and> st"
proof -
  have hit: "fst (lookup_response (foldl rc_step (rc_init True) demo_events) 9 ''k'' 60) = Some (''r'', True, 1)"
    by (simp add: demo_events_def rc_init_def store_response_def Let_def enqueue_def mem_put_def move_to_end_def
        mem_capacity_def lookup_response_def lookup_mem_def expired_def effective_ttl_def drain_some_def)
  moreover have "caught_up_run ''k'' (rc_init True) (demo_events @ [Rc_lookup 9 ''k'' 60])"
    by (simp add: demo_events_def rc_init_def store_response_def Let_def enqueue_def mem_put_def move_to_end_def
        mem_capacity_def lookup_response_def lookup_mem_def expired_def effective_ttl_def drain_some_def)
  ultimately show ?thesis
    using cached_answer_exact_and_fresh [OF hit] by (auto simp: demo_events_def)
qed

text \<open>
  Behind a lagging writer a lookup can find an answer older than the last stored one (here the last one
  has expired, its deletion and its insertion still wait, and the table holds its predecessor) and even one that
  was cleared: \<open>clear\<close> empties table and memory but not the writer's queue.
\<close>

theorem lagging_writer_serves_older:
  "fst (lookup_response (foldl rc_step (rc_init True)
      [Rc_store 0 ''k'' ''old'' False 100 0, Rc_drain 1, Rc_store 5 ''k'' ''new'' False 1 0, Rc_lookup 10 ''k'' 100])
      11 ''k'' 100) = Some (''old'', False, 1)"
  by (simp add: rc_init_def store_response_def Let_def enqueue_def mem_put_def move_to_end_def mem_capacity_def
      lookup_response_def lookup_mem_def lookup_row_def expired_def effective_ttl_def drain_some_def)

theorem cleared_answer_returns:
  "fst (lookup_response (foldl rc_step (rc_init True) [Rc_store 0 ''k'' ''r'' False 100 0, Rc_clear, Rc_drain 1])
      1 ''k'' 100) = Some (''r'', False, 1)"
  by (simp add: rc_init_def store_response_def Let_def enqueue_def mem_put_def move_to_end_def mem_capacity_def
      lookup_response_def lookup_row_def expired_def effective_ttl_def drain_some_def clear_cache_def)

text \<open>
  The key of a request does not depend on \<open>stream\<close> (nor on any field outside the list), although
  a streamed and a plain answer are different bytes.
\<close>

theorem fingerprint_ignores_stream:
  "full_fingerprint sha256 dumps (dset ''stream'' v body) = full_fingerprint sha256 dumps body
   \<and> full_fingerprint sha256 dumps (dset ''min_p'' u body) = full_fingerprint sha256 dumps body"
  by (simp add: full_fingerprint_def key_fields_def field_bytes_def)

end
