(* ===== verification/Streaming.thy ===== *)
theory Streaming
  imports Accounting Fingerprint RespCache
begin

text \<open>
  Handling a chat request (\<open>handle_request\<close> and \<open>handle_request_stream\<close> in
  \<^verbatim>\<open>src/localgateway/streaming.py\<close>): preparing it, asking the response cache, selecting backends,
  and trying them one after the other.

  \<open>runtime\<close> collects what the handlers get from outside: the codecs and digests, the environment of
  the router, and per attempt (numbered from 0) the answer of the provider, the clock readings, and
  \<open>rt_during n\<close>, the change other requests make to the registries while attempt \<open>n\<close> waits for its
  provider.  \<open>gateway\<close> is the state that outlives a request.  Log lines are not modelled.

  A streaming handler is a generator; the model gives everything it yields to a client that reads to
  the end.
\<close>

section \<open>State\<close>

record runtime =
  rt_codec :: codec
  rt_sha1 :: "bytes \<Rightarrow> string"
  rt_sha256 :: "bytes \<Rightarrow> string"
  rt_dumps_sorted :: "json \<Rightarrow> string"
  rt_py_str :: "json \<Rightarrow> string"
  rt_encoder :: encoder
  rt_parse_float :: "string \<Rightarrow> real option"
  rt_parse_int :: "string \<Rightarrow> int option"
  rt_text_of :: "py_error \<Rightarrow> string"
  rt_fmt :: "real \<Rightarrow> string"
  rt_env :: env
  rt_wall :: time
  rt_clock :: "nat \<Rightarrow> time"
  rt_post :: "nat \<Rightarrow> http_request \<Rightarrow> http_outcome"
  rt_open :: "nat \<Rightarrow> http_request \<Rightarrow> stream_open"
  rt_elapsed :: "nat \<Rightarrow> int"
  rt_latency :: "nat \<Rightarrow> int"
  rt_first_ms :: "nat \<Rightarrow> int"
  rt_during :: "nat \<Rightarrow> world \<Rightarrow> world"

record gateway =
  gt_world :: world
  gt_cache :: rc_state
  gt_usage :: "usage_row list"

definition on_stats :: "(st_state \<Rightarrow> st_state) \<Rightarrow> gateway \<Rightarrow> gateway" where
  "on_stats f g = g\<lparr>gt_world := (gt_world g)\<lparr>wd_stats := f (wd_stats (gt_world g))\<rparr>\<rparr>"

definition set_circuits :: "cb_state \<Rightarrow> gateway \<Rightarrow> gateway" where
  "set_circuits c g = g\<lparr>gt_world := (gt_world g)\<lparr>wd_circuits := c\<rparr>\<rparr>"

definition set_limits :: "rl_state \<Rightarrow> gateway \<Rightarrow> gateway" where
  "set_limits l g = g\<lparr>gt_world := (gt_world g)\<lparr>wd_limits := l\<rparr>\<rparr>"

definition add_row :: "usage_row \<Rightarrow> gateway \<Rightarrow> gateway" where
  "add_row row g = g\<lparr>gt_usage := log_request row (gt_usage g)\<rparr>"

section \<open>Preparing a request\<close>

record prepared =
  pq_model :: "model_config option"
  pq_logical :: string
  pq_routable :: bool
  pq_end_user :: "string option"
  pq_prefs :: "provider_prefs option"
  pq_upstream :: jobj
  pq_max_tokens :: "int option"
  pq_use_cache :: bool
  pq_cache_key :: "string option"
  pq_input_tokens :: "int option"
  pq_cache_fp :: "string option"
  pq_api_key_id :: "string option"
  pq_request_id :: "string option"

text \<open>A model name that is no string matches no model.\<close>

definition prepare ::
    "runtime \<Rightarrow> gateway_config \<Rightarrow> jobj \<Rightarrow> string option \<Rightarrow> string option \<Rightarrow> string option \<Rightarrow> prepared"
where
  "prepare rt cfg request_body api_key_id request_id conversation_id =
     (let requested = get_or_empty request_body ''model'';
          model = Option.bind (as_str requested) (model_by_id cfg);
          logical = (case model of Some md \<Rightarrow> md_id md | None \<Rightarrow> str_of (rt_py_str rt) requested);
          body = apply_default_params request_body (case model of None \<Rightarrow> [] | Some md \<Rightarrow> md_default_params md);
          use_cache = (cache_enabled cfg model \<and> is_cacheable body);
          affinity = (sv_cache_affinity_enabled (gw_server cfg)
                      \<and> (nonempty conversation_id \<noteq> None \<or> model \<noteq> None))
      in \<lparr>pq_model = model, pq_logical = logical, pq_routable = (as_str requested \<noteq> None),
          pq_end_user = nonempty (as_str (jget request_body ''user'')),
          pq_prefs = prefs_from_request (rt_py_str rt) (Some request_body),
          pq_upstream = strip_gateway_fields body,
          pq_max_tokens = requested_max_tokens (rt_parse_int rt) body,
          pq_use_cache = use_cache,
          pq_cache_key = (case nonempty conversation_id of
                            Some c \<Rightarrow> Some (''conv:'' @ c)
                          | None \<Rightarrow> if affinity then fingerprint (rt_sha1 rt) (rt_py_str rt) body else None),
          pq_input_tokens = (if input_estimate_needed model use_cache
                             then estimate_input_tokens (rt_encoder rt) cfg body else None),
          pq_cache_fp = (if use_cache then Some (full_fingerprint (rt_sha256 rt) (rt_dumps_sorted rt) body) else None),
          pq_api_key_id = api_key_id, pq_request_id = request_id\<rparr>)"

definition id_header :: "prepared \<Rightarrow> (string, string) dict" where
  "id_header rq = (case nonempty (pq_request_id rq) of None \<Rightarrow> [] | Some r \<Rightarrow> [(''X-Request-Id'', r)])"

definition request_row :: "runtime \<Rightarrow> prepared \<Rightarrow> string \<Rightarrow> string \<Rightarrow> bool \<Rightarrow> bool \<Rightarrow> usage_row" where
  "request_row rt rq p m success stream =
     (default_row (rt_wall rt) (pq_logical rq) p m success)
       \<lparr>ur_stream := stream, ur_api_key_id := pq_api_key_id rq, ur_end_user := pq_end_user rq,
        ur_request_id := pq_request_id rq\<rparr>"

definition cache_row :: "runtime \<Rightarrow> prepared \<Rightarrow> bool \<Rightarrow> usage_row" where
  "cache_row rt rq stream =
     (request_row rt rq ''cache'' ''cache'' True stream)
       \<lparr>ur_input := pq_input_tokens rq, ur_cost := Some 0, ur_latency_ms := Some 0, ur_cache_hit := True\<rparr>"

definition ask_cache :: "runtime \<Rightarrow> gateway_config \<Rightarrow> prepared \<Rightarrow> gateway \<Rightarrow> bytes option \<times> gateway" where
  "ask_cache rt cfg rq g =
     (case nonempty (pq_cache_fp rq) of
        None \<Rightarrow> (None, g)
      | Some fp \<Rightarrow>
          (let (hit, c) = lookup_response (gt_cache g) (rt_wall rt) fp (sv_response_cache_ttl_sec (gw_server cfg))
           in (map_option fst hit, g\<lparr>gt_cache := c\<rparr>)))"

definition resolve ::
    "runtime \<Rightarrow> gateway_config \<Rightarrow> prepared \<Rightarrow> gateway \<Rightarrow> (selected_backend list \<times> jobj option \<times> int) \<times> gateway"
where
  "resolve rt cfg rq g =
     (if \<not> pq_routable rq then (([], Some (not_found_error (pq_logical rq)), 404), g)
      else let (r, w) = resolve_backends (rt_env rt) cfg (pq_logical rq) (pq_max_tokens rq) (pq_input_tokens rq)
                          (pq_prefs rq) (pq_cache_key rq) (gt_world g)
           in (r, g\<lparr>gt_world := w\<rparr>))"

section \<open>Outcomes of an attempt\<close>

definition sel_p :: "selected_backend \<Rightarrow> string" where
  "sel_p sel = pv_id (sl_provider sel)"

definition sel_m :: "selected_backend \<Rightarrow> string" where
  "sel_m sel = bk_model (sl_backend sel)"

definition attempt_error :: "selected_backend \<Rightarrow> string \<Rightarrow> string" where
  "attempt_error sel error = ''['' @ sel_p sel @ '':'' @ sel_m sel @ ''] '' @ error"

text \<open>\<open>stats.record_success\<close>, the closed circuit, and the cache warmth.\<close>

definition note_success ::
    "runtime \<Rightarrow> prepared \<Rightarrow> selected_backend \<Rightarrow> nat \<Rightarrow> int \<Rightarrow> int option \<Rightarrow> stream_usage \<Rightarrow> gateway \<Rightarrow> gateway"
where
  "note_success rt rq sel n latency ttft u g =
     (let g1 = on_stats (\<lambda>s. record_success s (rt_wall rt) (sel_p sel) (sel_m sel) (Some latency) ttft) g;
          g2 = set_circuits (snd (record_outcome (wd_circuits (gt_world g1)) (rt_clock rt n) (rt_wall rt)
                                    (sel_p sel) (sel_m sel) True None)) g1
      in on_stats (\<lambda>s. record_cache_activity s (rt_wall rt) (sel_p sel) (sel_m sel) (pq_cache_key rq)
                         (su_cached u) (su_cache_write u) (su_input u) (bk_cache_supported (sl_backend sel))) g2)"

definition success_row ::
    "runtime \<Rightarrow> gateway_config \<Rightarrow> prepared \<Rightarrow> selected_backend \<Rightarrow> int \<Rightarrow> int option \<Rightarrow> stream_usage \<Rightarrow> bool \<Rightarrow> usage_row"
where
  "success_row rt cfg rq sel latency ttft u stream =
     (let logged = shift_logged (pricing_for cfg (sel_p sel) (sel_m sel)) u
      in (request_row rt rq (sel_p sel) (sel_m sel) True stream)
           \<lparr>ur_input := fst logged, ur_output := su_output u, ur_reasoning := su_reasoning u,
            ur_cached := snd logged, ur_cache_write := su_cache_write u,
            ur_cost := compute_cost cfg (sel_p sel) (sel_m sel) (su_input u) (su_output u) (su_cached u)
                         (su_cache_write u),
            ur_latency_ms := Some latency, ur_ttft_ms := ttft,
            ur_tps := compute_tps (su_output u) (Some latency) ttft\<rparr>)"

text \<open>
  \<open>stats.record_failure\<close>, the circuit, and the row of a failed attempt.  When the circuit breaker
  raises, no row is written.
\<close>

definition failure_row ::
    "runtime \<Rightarrow> prepared \<Rightarrow> selected_backend \<Rightarrow> string option \<Rightarrow> int \<Rightarrow> int option \<Rightarrow> bool \<Rightarrow> usage_row" where
  "failure_row rt rq sel error latency ttft stream =
     (request_row rt rq (sel_p sel) (sel_m sel) False stream)
       \<lparr>ur_error := error, ur_latency_ms := Some latency, ur_ttft_ms := ttft\<rparr>"

definition note_failure ::
    "runtime \<Rightarrow> prepared \<Rightarrow> selected_backend \<Rightarrow> nat \<Rightarrow> int \<Rightarrow> string option \<Rightarrow> int \<Rightarrow> int option \<Rightarrow> bool
     \<Rightarrow> gateway \<Rightarrow> py_error option \<times> gateway"
where
  "note_failure rt rq sel n status error latency ttft stream g =
     (let g1 = on_stats (\<lambda>s. record_failure s (rt_wall rt) (sel_p sel) (sel_m sel) error) g
      in case record_circuit_failure (wd_circuits (gt_world g1)) (rt_clock rt n) (rt_wall rt)
                (sel_p sel) (sel_m sel) (Some status) error of
           (Inl e, c) \<Rightarrow> (Some e, set_circuits c g1)
         | (Inr _, c) \<Rightarrow> (None, add_row (failure_row rt rq sel error latency ttft stream) (set_circuits c g1)))"

definition begin_attempt :: "selected_backend \<Rightarrow> gateway \<Rightarrow> gateway" where
  "begin_attempt sel g = on_stats (\<lambda>s. start_request s (sel_p sel) (sel_m sel)) g"

definition end_attempt :: "selected_backend \<Rightarrow> gateway \<Rightarrow> gateway" where
  "end_attempt sel g = on_stats (\<lambda>s. end_request s (sel_p sel) (sel_m sel)) g"

definition wait_attempt :: "runtime \<Rightarrow> nat \<Rightarrow> gateway \<Rightarrow> gateway" where
  "wait_attempt rt n g = g\<lparr>gt_world := rt_during rt n (gt_world g)\<rparr>"

definition store_in_cache :: "runtime \<Rightarrow> gateway_config \<Rightarrow> prepared \<Rightarrow> bytes \<Rightarrow> bool \<Rightarrow> gateway \<Rightarrow> gateway" where
  "store_in_cache rt cfg rq body stream g =
     (case nonempty (pq_cache_fp rq) of
        None \<Rightarrow> g
      | Some fp \<Rightarrow>
          if pq_use_cache rq
          then g\<lparr>gt_cache := store_response (gt_cache g) (rt_wall rt) fp body stream
                                (sv_response_cache_ttl_sec (gw_server cfg))
                                (sv_response_cache_max_entries (gw_server cfg))\<rparr>
          else g)"

definition all_failed_message :: "prepared \<Rightarrow> string list \<Rightarrow> string" where
  "all_failed_message rq errors =
     ''All backends failed for model '' @ [CHR 0x27] @ pq_logical rq @ [CHR 0x27] @ ''. Errors: ''
     @ join_with ''; '' errors"

definition all_failed_error :: "prepared \<Rightarrow> string list \<Rightarrow> jobj" where
  "all_failed_error rq errors = error_obj (all_failed_message rq errors) ''api_error'' ''all_backends_failed''"

section \<open>A plain request\<close>

type_synonym response = "bytes \<times> int \<times> (string, string) dict"

definition json_header :: "prepared \<Rightarrow> (string, string) dict" where
  "json_header rq = (''Content-Type'', ''application/json'') # id_header rq"

definition error_response :: "runtime \<Rightarrow> prepared \<Rightarrow> jobj \<Rightarrow> int \<Rightarrow> response" where
  "error_response rt rq err status = (error_body (rt_codec rt) err, status, json_header rq)"

definition provider_call ::
    "runtime \<Rightarrow> prepared \<Rightarrow> selected_backend \<Rightarrow> nat \<Rightarrow> gateway \<Rightarrow> provider_result \<times> gateway" where
  "provider_call rt rq sel n g =
     (let g1 = wait_attempt rt n (begin_attempt sel g);
          (result, limits) = call_provider (rt_codec rt) (rt_parse_float rt) (rt_text_of rt) (rt_post rt n)
                               (rt_clock rt n) (rt_latency rt n) (sl_provider sel) (sel_m sel) (pq_upstream rq) False
                               ''/chat/completions'' (wd_limits (gt_world g1))
      in (result, end_attempt sel (set_limits limits g1)))"

definition relay_body :: "runtime \<Rightarrow> gateway_config \<Rightarrow> selected_backend \<Rightarrow> bytes \<Rightarrow> py_error + bytes" where
  "relay_body rt cfg sel content =
     (case normalize_response_body (rt_codec rt) content of
        Inl e \<Rightarrow> Inl e
      | Inr body \<Rightarrow>
          if pr_cache_read (pricing_for cfg (sel_p sel) (sel_m sel)) = None
          then shift_usage_to_cached (rt_codec rt) body else Inr body)"

definition accept ::
    "runtime \<Rightarrow> gateway_config \<Rightarrow> prepared \<Rightarrow> selected_backend \<Rightarrow> nat \<Rightarrow> provider_result \<Rightarrow> gateway
     \<Rightarrow> (py_error + response) \<times> gateway"
where
  "accept rt cfg rq sel n result g =
     (let g1 = note_success rt rq sel n (rs_latency_ms result) None (rs_usage result) g
      in case relay_body rt cfg sel (rs_body result) of
           Inl e \<Rightarrow> (Inl e, g1)
         | Inr body \<Rightarrow>
             (Inr (body, 200, route_headers (sel_p sel) (sel_m sel) (sl_reason sel) (pq_request_id rq)),
              store_in_cache rt cfg rq body False
                (add_row (success_row rt cfg rq sel (rs_latency_ms result) None (rs_usage result) False) g1)))"

definition failed_response :: "runtime \<Rightarrow> prepared \<Rightarrow> provider_result \<Rightarrow> response" where
  "failed_response rt rq result =
     error_response rt rq
       (error_obj (case nonempty (rs_error result) of None \<Rightarrow> ''Unknown error'' | Some e \<Rightarrow> e) ''api_error''
          (''http_'' @ int_str (rs_status_code result)))
       (if rs_status_code result = 0 then 502 else rs_status_code result)"

definition error_text :: "string option \<Rightarrow> string" where
  "error_text e = (case e of None \<Rightarrow> ''None'' | Some s \<Rightarrow> s)"

fun try_backends ::
    "runtime \<Rightarrow> gateway_config \<Rightarrow> prepared \<Rightarrow> nat \<Rightarrow> string list \<Rightarrow> selected_backend list \<Rightarrow> gateway
     \<Rightarrow> (py_error + response) \<times> gateway"
where
  "try_backends rt cfg rq n errors [] g =
     (Inr (error_response rt rq (all_failed_error rq errors) 502), g)"
| "try_backends rt cfg rq n errors (sel # sels) g =
     (let (result, g1) = provider_call rt rq sel n g
      in if rs_success result then accept rt cfg rq sel n result g1
         else case note_failure rt rq sel n (rs_status_code result) (rs_error result) (rs_latency_ms result) None False g1 of
                (Some e, g2) \<Rightarrow> (Inl e, g2)
              | (None, g2) \<Rightarrow>
                  if \<not> rs_retryable result then (Inr (failed_response rt rq result), g2)
                  else try_backends rt cfg rq (n + 1) (errors @ [attempt_error sel (error_text (rs_error result))]) sels g2)"

definition handle_request ::
    "runtime \<Rightarrow> gateway_config \<Rightarrow> jobj \<Rightarrow> string option \<Rightarrow> string option \<Rightarrow> string option \<Rightarrow> gateway
     \<Rightarrow> (py_error + response) \<times> gateway"
where
  "handle_request rt cfg request_body api_key_id request_id conversation_id g =
     (let rq = prepare rt cfg request_body api_key_id request_id conversation_id;
          (hit, g1) = ask_cache rt cfg rq g
      in case hit of
           Some body \<Rightarrow>
             (Inr (body, 200, [(''Content-Type'', ''application/json''), (''X-Cache-Hit'', ''true'')] @ id_header rq),
              add_row (cache_row rt rq False) g1)
         | None \<Rightarrow>
             (let ((backends, err, status), g2) = resolve rt cfg rq g1
              in case err of
                   Some e \<Rightarrow> (Inr (error_response rt rq e status), g2)
                 | None \<Rightarrow> try_backends rt cfg rq 0 [] backends g2))"

section \<open>A streamed request\<close>

datatype stream_item =
    Meta_headers "(string, string) dict"
  | Meta_error jobj int
  | Body bytes

datatype attempt_end = Next string | Finished | Raised py_error

record stream_loop =
  lp_committed :: bool
  lp_first :: bool
  lp_parser :: bytes
  lp_collected :: "bytes list"

definition done_sse :: bytes where
  "done_sse = ''data: [DONE]'' @ [LF, LF]"

definition commit :: "prepared \<Rightarrow> selected_backend \<Rightarrow> stream_loop \<Rightarrow> stream_item list" where
  "commit rq sel lp =
     (if lp_committed lp then []
      else [Meta_headers (route_headers (sel_p sel) (sel_m sel) (sl_reason sel) (pq_request_id rq))])"

definition collect :: "prepared \<Rightarrow> bytes \<Rightarrow> stream_loop \<Rightarrow> stream_loop" where
  "collect rq b lp =
     (if pq_use_cache rq \<and> nonempty (pq_cache_fp rq) \<noteq> None then lp\<lparr>lp_collected := lp_collected lp @ [b]\<rparr> else lp)"

definition maybe_shift :: "runtime \<Rightarrow> gateway_config \<Rightarrow> selected_backend \<Rightarrow> bytes \<Rightarrow> py_error + bytes" where
  "maybe_shift rt cfg sel out =
     (if pr_cache_read (pricing_for cfg (sel_p sel) (sel_m sel)) = None
      then shift_stream_usage_to_cached (rt_codec rt) out else Inr out)"

text \<open>\<open>StreamDone\<close>.\<close>

definition on_done ::
    "runtime \<Rightarrow> gateway_config \<Rightarrow> prepared \<Rightarrow> selected_backend \<Rightarrow> nat \<Rightarrow> stream_usage \<Rightarrow> int \<Rightarrow> int option \<Rightarrow> bool
     \<Rightarrow> stream_loop \<Rightarrow> gateway \<Rightarrow> stream_item list \<times> attempt_end \<times> stream_loop \<times> gateway"
where
  "on_done rt cfg rq sel n u latency ttft sent_done lp g =
     (let g1 = add_row (success_row rt cfg rq sel latency ttft u True) (note_success rt rq sel n latency ttft u g);
          meta = commit rq sel lp;
          lp1 = lp\<lparr>lp_committed := True\<rparr>
      in case fst (flush_stream_chunk (rt_codec rt) (lp_parser lp1)) of
           Inl e \<Rightarrow> (meta, Raised e, lp1, g1)
         | Inr tail \<Rightarrow>
             (let lp2 = (if tail = [] then lp1 else collect rq tail lp1);
                  lp3 = (if sent_done then lp2 else collect rq done_sse lp2)
              in (meta @ (if tail = [] then [] else [Body tail]) @ (if sent_done then [] else [Body done_sse]),
                  Finished, lp3,
                  if lp_collected lp3 = [] then g1
                  else store_in_cache rt cfg rq (concat (lp_collected lp3)) True g1)))"

text \<open>\<open>StreamFailed\<close>.\<close>

definition on_failed ::
    "runtime \<Rightarrow> prepared \<Rightarrow> selected_backend \<Rightarrow> nat \<Rightarrow> string \<Rightarrow> int \<Rightarrow> bool \<Rightarrow> bool \<Rightarrow> stream_loop \<Rightarrow> gateway
     \<Rightarrow> stream_item list \<times> attempt_end \<times> stream_loop \<times> gateway"
where
  "on_failed rt rq sel n error status retryable mid_stream lp g =
     (let ttft = (if mid_stream \<and> lp_first lp then Some (rt_first_ms rt n) else None)
      in case note_failure rt rq sel n status (Some error) (rt_latency rt n) ttft True g of
           (Some e, g1) \<Rightarrow> ([], Raised e, lp, g1)
         | (None, g1) \<Rightarrow>
             if mid_stream
             then ([Body (error_sse (rt_codec rt) error ''stream_interrupted''), Body done_sse], Finished, lp, g1)
             else if retryable then ([], Next (attempt_error sel error), lp, g1)
             else if \<not> lp_committed lp
             then ([Meta_error
                      (error_obj (if error = [] then ''Unknown error'' else error) ''api_error''
                         (''http_'' @ int_str status))
                      (if status = 0 then 502 else status)], Finished, lp, g1)
             else ([Body (error_sse (rt_codec rt) error (''http_'' @ int_str status)), Body done_sse], Finished, lp, g1))"

text \<open>The loop over the events of one attempt.\<close>

fun consume ::
    "runtime \<Rightarrow> gateway_config \<Rightarrow> prepared \<Rightarrow> selected_backend \<Rightarrow> nat \<Rightarrow> stream_event list \<Rightarrow> stream_loop \<Rightarrow> gateway
     \<Rightarrow> stream_item list \<times> attempt_end \<times> stream_loop \<times> gateway"
where
  "consume rt cfg rq sel n [] lp g = ([], Next [], lp, g)"
| "consume rt cfg rq sel n (Stream_done u latency ttft sent_done # evs) lp g =
     on_done rt cfg rq sel n u latency ttft sent_done lp g"
| "consume rt cfg rq sel n (Stream_failed error status retryable mid_stream # evs) lp g =
     on_failed rt rq sel n error status retryable mid_stream lp g"
| "consume rt cfg rq sel n (Stream_chunk data # evs) lp g =
     (let (out, buf) = transform_stream_chunk (rt_codec rt) (lp_parser lp) data;
          meta = commit rq sel lp;
          lp1 = lp\<lparr>lp_first := True, lp_committed := True, lp_parser := buf\<rparr>
      in case out of
           Inl e \<Rightarrow> (meta, Raised e, lp1, g)
         | Inr b \<Rightarrow>
             if b = []
             then (let (items, r) = consume rt cfg rq sel n evs lp1 g in (meta @ items, r))
             else case maybe_shift rt cfg sel b of
                    Inl e \<Rightarrow> (meta, Raised e, lp1, g)
                  | Inr b' \<Rightarrow>
                      (let (items, r) = consume rt cfg rq sel n evs (collect rq b' lp1) g
                       in (meta @ Body b' # items, r)))"

definition stream_attempt ::
    "runtime \<Rightarrow> gateway_config \<Rightarrow> prepared \<Rightarrow> selected_backend \<Rightarrow> nat \<Rightarrow> bool \<Rightarrow> bytes list \<Rightarrow> gateway
     \<Rightarrow> stream_item list \<times> attempt_end \<times> stream_loop \<times> gateway"
where
  "stream_attempt rt cfg rq sel n committed collected g =
     (let g1 = wait_attempt rt n (begin_attempt sel g);
          (events, limits) = call_provider_stream (rt_codec rt) (rt_parse_float rt) (rt_text_of rt) (rt_fmt rt)
                               (rt_open rt n) (rt_clock rt n) (rt_elapsed rt n) (rt_latency rt n) (sl_provider sel)
                               (sel_m sel) (pq_upstream rq) ''/chat/completions'' (wd_limits (gt_world g1));
          (items, r, lp, g2) = consume rt cfg rq sel n events
                               \<lparr>lp_committed = committed, lp_first = False, lp_parser = [], lp_collected = collected\<rparr>
                               (set_limits limits g1)
      in (items, r, lp, end_attempt sel g2))"

fun stream_backends ::
    "runtime \<Rightarrow> gateway_config \<Rightarrow> prepared \<Rightarrow> nat \<Rightarrow> string list \<Rightarrow> bool \<Rightarrow> bytes list \<Rightarrow> selected_backend list
     \<Rightarrow> gateway \<Rightarrow> stream_item list \<times> py_error option \<times> gateway"
where
  "stream_backends rt cfg rq n errors committed collected [] g =
     (if committed
      then ([Body (error_sse (rt_codec rt) (all_failed_message rq errors) ''all_backends_failed''), Body done_sse], None, g)
      else ([Meta_error (all_failed_error rq errors) 502], None, g))"
| "stream_backends rt cfg rq n errors committed collected (sel # sels) g =
     (let (items, r, lp, g1) = stream_attempt rt cfg rq sel n committed collected g
      in case r of
           Finished \<Rightarrow> (items, None, g1)
         | Raised e \<Rightarrow> (items, Some e, g1)
         | Next err \<Rightarrow>
             (let (items2, r2) = stream_backends rt cfg rq (n + 1) (errors @ [err]) (lp_committed lp)
                                   (lp_collected lp) sels g1
              in (items @ items2, r2)))"

definition handle_request_stream ::
    "runtime \<Rightarrow> gateway_config \<Rightarrow> jobj \<Rightarrow> string option \<Rightarrow> string option \<Rightarrow> string option \<Rightarrow> gateway
     \<Rightarrow> stream_item list \<times> py_error option \<times> gateway"
where
  "handle_request_stream rt cfg request_body api_key_id request_id conversation_id g =
     (let rq = prepare rt cfg request_body api_key_id request_id conversation_id;
          (hit, g1) = ask_cache rt cfg rq g
      in case hit of
           Some body \<Rightarrow>
             ([Meta_headers ([(''Content-Type'', ''text/event-stream''), (''X-Cache-Hit'', ''true'')] @ id_header rq),
               Body body], None, add_row (cache_row rt rq True) g1)
         | None \<Rightarrow>
             (let ((backends, err, status), g2) = resolve rt cfg rq g1
              in case err of
                   Some e \<Rightarrow> ([Meta_error e status], None, g2)
                 | None \<Rightarrow> stream_backends rt cfg rq 0 [] False [] backends g2))"

section \<open>Lemmas\<close>

subsection \<open>Usage rows\<close>

lemma usage_simps [simp]:
  "gt_usage (on_stats f g) = gt_usage g" "gt_usage (set_circuits c g) = gt_usage g"
  "gt_usage (set_limits l g) = gt_usage g" "gt_usage (add_row r g) = gt_usage g @ [r]"
  "gt_usage (begin_attempt sel g) = gt_usage g" "gt_usage (end_attempt sel g) = gt_usage g"
  "gt_usage (wait_attempt rt n g) = gt_usage g" "gt_usage (note_success rt rq sel n lat t u g) = gt_usage g"
  "gt_usage (store_in_cache rt cfg rq b s g) = gt_usage g"
  by (simp_all add: on_stats_def set_circuits_def set_limits_def add_row_def log_request_def begin_attempt_def
      end_attempt_def wait_attempt_def note_success_def store_in_cache_def Let_def split: option.splits)

lemma usage_provider_call [simp]: "gt_usage (snd (provider_call rt rq sel n g)) = gt_usage g"
  by (simp add: provider_call_def Let_def split_beta)

lemma note_failure_row:
  "note_failure rt rq sel n st e l t b g = (None, g') \<Longrightarrow> gt_usage g' = gt_usage g @ [failure_row rt rq sel e l t b]"
  by (auto simp: note_failure_def Let_def split: prod.splits sum.splits)

lemma usage_ask_cache: "gt_usage (snd (ask_cache rt cfg rq g)) = gt_usage g"
  by (simp add: ask_cache_def split_beta split: option.split)

lemma usage_resolve: "gt_usage (snd (resolve rt cfg rq g)) = gt_usage g"
  by (simp add: resolve_def split_beta)

text \<open>
  \<open>attempts_ok rq sels rows won\<close>: one row per attempt, in the order of the candidates; all but the
  last are failures, which cost nothing; the last is a success exactly when \<open>won\<close>.
\<close>

definition row_backend :: "usage_row \<Rightarrow> string \<times> string" where
  "row_backend r = (ur_provider r, ur_backend_model r)"

definition attempts_ok :: "selected_backend list \<Rightarrow> usage_row list \<Rightarrow> bool \<Rightarrow> bool" where
  "attempts_ok sels rows won \<longleftrightarrow>
     map row_backend rows = take (length rows) (map sel_key sels)
     \<and> (\<forall>r\<in>set (butlast rows). \<not> ur_success r)
     \<and> (won \<longleftrightarrow> rows \<noteq> [] \<and> ur_success (last rows))
     \<and> (\<forall>r\<in>set rows. \<not> ur_success r \<longrightarrow> ur_cost r = None \<and> ur_output r = None)"

lemma row_fields [simp]:
  "row_backend (failure_row rt rq sel e l t b) = sel_key sel" "\<not> ur_success (failure_row rt rq sel e l t b)"
  "ur_cost (failure_row rt rq sel e l t b) = None" "ur_output (failure_row rt rq sel e l t b) = None"
  "row_backend (success_row rt cfg rq sel l t u b) = sel_key sel" "ur_success (success_row rt cfg rq sel l t u b)"
  by (simp_all add: failure_row_def success_row_def request_row_def default_row_def row_backend_def sel_key_def
      sel_p_def sel_m_def Let_def)

lemma attempts_ok_last:
  "attempts_ok (sel # sels) [failure_row rt rq sel e l t b] False"
  "attempts_ok (sel # sels) [success_row rt cfg rq sel l t u b] True"
  by (simp_all add: attempts_ok_def)

lemma attempts_ok_Nil: "attempts_ok sels [] False"
  by (simp add: attempts_ok_def)

lemma attempts_ok_Cons:
  "attempts_ok sels rows won \<Longrightarrow> attempts_ok (sel # sels) (failure_row rt rq sel e l t b # rows) won"
  by (auto simp: attempts_ok_def)

subsection \<open>The plain request\<close>

lemma call_provider_failure:
  "\<not> rs_success (fst (call_provider cd pf text_of post now latency p m body stream path rl)) \<Longrightarrow>
   rs_status_code (fst (call_provider cd pf text_of post now latency p m body stream path rl)) \<noteq> 200"
  by (auto simp: call_provider_def failed_result_def Let_def split: sum.splits http_outcome.splits if_splits)

lemma failed_call_status:
  "provider_call rt rq sel n g = (result, g1) \<Longrightarrow> \<not> rs_success result \<Longrightarrow> rs_status_code result \<noteq> 200"
  by (auto simp: provider_call_def Let_def split_beta call_provider_failure)

lemma route_headers_provider: "dget (route_headers p m reason rid) ''X-Provider'' = Some p"
  by (simp add: route_headers_def)

lemma try_backends_rows:
  "try_backends rt cfg rq n errors sels g = (Inr (b, status, hs), g') \<Longrightarrow>
   \<exists>rows. gt_usage g' = gt_usage g @ rows \<and> attempts_ok sels rows (status = 200)
     \<and> (status = 200 \<longrightarrow> dget hs ''X-Provider'' = Some (ur_provider (last rows)))"
proof (induction sels arbitrary: n errors g)
  case Nil
  then show ?case by (auto simp: error_response_def attempts_ok_Nil)
next
  case (Cons sel sels)
  obtain result g1 where call: "provider_call rt rq sel n g = (result, g1)"
    by (cases "provider_call rt rq sel n g")
  have g1: "gt_usage g1 = gt_usage g" using usage_provider_call [of rt rq sel n g] by (simp add: call)
  show ?case
  proof (cases "rs_success result")
    case True
    have "ur_provider (success_row rt cfg rq sel l t u s) = sel_p sel" for l t u s
      by (simp add: success_row_def request_row_def default_row_def Let_def)
    with Cons.prems True call show ?thesis
      by (auto simp: accept_def Let_def g1 attempts_ok_last route_headers_provider split: sum.splits)
  next
    case False
    obtain e g2 where fail: "note_failure rt rq sel n (rs_status_code result) (rs_error result)
        (rs_latency_ms result) None False g1 = (e, g2)" by fastforce
    have e: "e = None" using Cons.prems False call fail by (auto split: option.splits)
    note rows = note_failure_row [OF fail [unfolded e]]
    show ?thesis
    proof (cases "rs_retryable result")
      case True
      with Cons.prems False call fail e
      have "try_backends rt cfg rq (n + 1) (errors @ [attempt_error sel (error_text (rs_error result))]) sels g2
            = (Inr (b, status, hs), g')" by simp
      from Cons.IH [OF this] obtain rows' where r: "gt_usage g' = gt_usage g2 @ rows'" "attempts_ok sels rows' (status = 200)"
          "status = 200 \<longrightarrow> dget hs ''X-Provider'' = Some (ur_provider (last rows'))" by blast
      moreover have "rows' \<noteq> []" if "status = 200" using r(2) that by (simp add: attempts_ok_def)
      ultimately show ?thesis
        by (auto simp: rows g1 intro!: exI [of _ "failure_row rt rq sel (rs_error result) (rs_latency_ms result) None False # rows'"]
            attempts_ok_Cons)
    next
      case nr: False
      with Cons.prems False call fail e have r: "g' = g2" "status \<noteq> 200"
        using failed_call_status [OF call False]
        by (auto simp: failed_response_def error_response_def split: if_splits)
      then show ?thesis
        by (auto simp: rows g1 attempts_ok_last
            intro!: exI [of _ "[failure_row rt rq sel (rs_error result) (rs_latency_ms result) None False]"])
    qed
  qed
qed

subsection \<open>The streamed request\<close>

text \<open>Once the headers are out, an attempt yields body bytes only, and never asks for another backend.\<close>

definition is_body :: "stream_item \<Rightarrow> bool" where
  "is_body i \<longleftrightarrow> (case i of Body _ \<Rightarrow> True | _ \<Rightarrow> False)"

definition is_next :: "attempt_end \<Rightarrow> bool" where
  "is_next r \<longleftrightarrow> (case r of Next _ \<Rightarrow> True | _ \<Rightarrow> False)"

lemma is_body_simps [simp]:
  "is_body (Body b)" "\<not> is_body (Meta_headers h)" "\<not> is_body (Meta_error e s)"
  "is_next (Next x)" "\<not> is_next Finished" "\<not> is_next (Raised er)"
  by (simp_all add: is_body_def is_next_def)

lemma collect_fields [simp]:
  "lp_committed (collect rq b lp) = lp_committed lp" "lp_first (collect rq b lp) = lp_first lp"
  "lp_parser (collect rq b lp) = lp_parser lp"
  by (simp_all add: collect_def)

text \<open>The whole of an attempt once the headers are out.\<close>

lemma consume_committed:
  assumes "consume rt cfg rq sel n (map Stream_chunk cs @ [fin]) lp g = (items, r, lp', g')"
    and "lp_committed lp" and "\<not> is_chunk fin"
  shows "list_all is_body items"
    and "(\<forall>e s t. fin \<noteq> Stream_failed e s t False) \<Longrightarrow> \<not> is_next r"
  using assms
proof (induction cs arbitrary: lp items)
  case Nil
  {
    case 1
    then show ?case
      by (cases fin)
         (auto simp: is_chunk_def on_done_def on_failed_def commit_def Let_def split: sum.splits option.splits if_splits
            prod.splits)
  next
    case 2
    then show ?case
      by (cases fin)
         (auto simp: is_chunk_def on_done_def on_failed_def commit_def Let_def split: sum.splits option.splits if_splits
            prod.splits)
  }
next
  case (Cons c cs)
  {
    case 1
    then show ?case
      by (auto simp: Let_def commit_def split: prod.splits sum.splits if_splits dest!: Cons.IH(1))
  next
    case 2
    then show ?case
      by (auto simp: Let_def commit_def split: prod.splits sum.splits if_splits dest!: Cons.IH(2))
  }
qed

fun stream_contract :: "stream_item list \<Rightarrow> bool" where
  "stream_contract [] = False"
| "stream_contract (Meta_headers h # items) = list_all is_body items"
| "stream_contract (Meta_error e s # items) = (items = [])"
| "stream_contract (Body b # items) = False"

definition interrupted :: "codec \<Rightarrow> stream_item list \<Rightarrow> bool" where
  "interrupted cd items \<longleftrightarrow> (\<exists>e. items = [Body (error_sse cd e ''stream_interrupted''), Body done_sse])"

definition served_by :: "string \<Rightarrow> stream_item list \<Rightarrow> bool" where
  "served_by p items \<longleftrightarrow>
     (case items of Meta_headers h # _ \<Rightarrow> dget h ''X-Provider'' = Some p | _ \<Rightarrow> True)"

lemma served_by_commit: "\<not> lp_committed lp \<Longrightarrow> served_by (sel_p sel) (commit rq sel lp @ items)"
  by (simp add: served_by_def commit_def route_headers_provider)

text \<open>An attempt that starts before the headers are out, event by event.\<close>

lemma consume_fresh:
  assumes "consume rt cfg rq sel n (map Stream_chunk cs @ [fin]) lp g = (items, r, lp', g')"
    and "\<not> lp_committed lp" and "\<not> is_chunk fin" and "\<forall>e st t. fin = Stream_failed e st t False \<longrightarrow> cs = []"
  shows "served_by (sel_p sel) items"
    and "is_next r \<Longrightarrow> items = [] \<and> lp' = lp"
    and "r = Finished \<Longrightarrow> stream_contract items \<or> interrupted (rt_codec rt) items"
proof -
  have "served_by (sel_p sel) items \<and> (is_next r \<longrightarrow> items = [] \<and> lp' = lp)
        \<and> (r = Finished \<longrightarrow> stream_contract items \<or> interrupted (rt_codec rt) items)"
  proof (cases cs)
    case Nil
    with assms(1-3) show ?thesis
      by (cases fin)
         (auto simp: is_chunk_def on_done_def on_failed_def commit_def Let_def served_by_def interrupted_def
            route_headers_provider split: sum.splits option.splits if_splits prod.splits)
  next
    case (Cons c cs')
    with assms(4) have fin: "\<forall>e s t. fin \<noteq> Stream_failed e s t False" by blast
    have rest: "list_all is_body its \<and> \<not> is_next r'"
      if "consume rt cfg rq sel n (map Stream_chunk cs' @ [fin]) lp1 g = (its, r', q)" "lp_committed lp1" for its r' q lp1
      using consume_committed [of rt cfg rq sel n cs' fin lp1 g its r' "fst q" "snd q"] that assms(3) fin by auto
    from assms(1,2) show ?thesis
      by (auto simp: Cons Let_def commit_def served_by_def route_headers_provider
          split: prod.splits sum.splits if_splits dest!: rest)
  qed
  then show "served_by (sel_p sel) items" "is_next r \<Longrightarrow> items = [] \<and> lp' = lp"
    "r = Finished \<Longrightarrow> stream_contract items \<or> interrupted (rt_codec rt) items" by auto
qed

text \<open>The row of an attempt.\<close>

definition attempt_row :: "selected_backend \<Rightarrow> usage_row \<Rightarrow> bool" where
  "attempt_row sel row \<longleftrightarrow>
     row_backend row = sel_key sel \<and> (\<not> ur_success row \<longrightarrow> ur_cost row = None \<and> ur_output row = None)"

lemma consume_row:
  "consume rt cfg rq sel n (map Stream_chunk cs @ [fin]) lp g = (items, r, lp', g') \<Longrightarrow> \<not> is_chunk fin \<Longrightarrow>
   \<forall>e. r \<noteq> Raised e \<Longrightarrow>
   \<exists>row. gt_usage g' = gt_usage g @ [row] \<and> attempt_row sel row \<and> (is_next r \<longrightarrow> \<not> ur_success row)"
proof (induction cs arbitrary: lp items)
  case Nil
  then show ?case
    by (cases fin)
       (auto simp: is_chunk_def on_done_def on_failed_def Let_def attempt_row_def
          dest!: note_failure_row split: sum.splits option.splits if_splits prod.splits)
next
  case (Cons c cs)
  then show ?case
    by (fastforce simp: Let_def split: prod.splits sum.splits if_splits)
qed

lemma stream_attempt_steps:
  assumes "stream_attempt rt cfg rq sel n False collected g = (items, r, lp, g')"
  shows "served_by (sel_p sel) items"
    and "is_next r \<Longrightarrow> items = [] \<and> \<not> lp_committed lp"
    and "r = Finished \<Longrightarrow> stream_contract items \<or> interrupted (rt_codec rt) items"
    and "\<forall>e. r \<noteq> Raised e \<Longrightarrow>
      \<exists>row. gt_usage g' = gt_usage g @ [row] \<and> attempt_row sel row \<and> (is_next r \<longrightarrow> \<not> ur_success row)"
proof -
  let ?lp = "\<lparr>lp_committed = False, lp_first = False, lp_parser = [], lp_collected = collected\<rparr>"
  define g1 where "g1 = wait_attempt rt n (begin_attempt sel g)"
  obtain events limits where ev: "call_provider_stream (rt_codec rt) (rt_parse_float rt) (rt_text_of rt) (rt_fmt rt)
      (rt_open rt n) (rt_clock rt n) (rt_elapsed rt n) (rt_latency rt n) (sl_provider sel) (sel_m sel)
      (pq_upstream rq) ''/chat/completions'' (wd_limits (gt_world g1)) = (events, limits)" by fastforce
  obtain cs fin where shape: "events = map Stream_chunk cs @ [fin]" "\<not> is_chunk fin"
      "\<forall>e st t. fin = Stream_failed e st t False \<longrightarrow> cs = []"
    using upstream.shape [where q = "(rt_open rt n, sl_provider sel, sel_m sel, pq_upstream rq)", of "rt_codec rt"
        "rt_parse_float rt" "rt_text_of rt" "rt_fmt rt" "rt_clock rt n" "rt_elapsed rt n" "rt_latency rt n"
        "''/chat/completions''" "wd_limits (gt_world g1)"] by (auto simp: ev)
  obtain g2 where c: "consume rt cfg rq sel n (map Stream_chunk cs @ [fin]) ?lp (set_limits limits g1) = (items, r, lp, g2)"
      and g': "g' = end_attempt sel g2"
    using assms by (auto simp: stream_attempt_def Let_def ev g1_def [symmetric] shape(1) split: prod.splits)
  have fresh: "\<not> lp_committed ?lp" by simp
  show "served_by (sel_p sel) items" "is_next r \<Longrightarrow> items = [] \<and> \<not> lp_committed lp"
    "r = Finished \<Longrightarrow> stream_contract items \<or> interrupted (rt_codec rt) items"
    using consume_fresh [OF c fresh shape(2,3)] by auto
  show "\<forall>e. r \<noteq> Raised e \<Longrightarrow>
      \<exists>row. gt_usage g' = gt_usage g @ [row] \<and> attempt_row sel row \<and> (is_next r \<longrightarrow> \<not> ur_success row)"
    using consume_row [OF c shape(2)] by (simp add: g' g1_def)
qed

lemma attempts_ok_row:
  "attempt_row sel row \<Longrightarrow> attempts_ok (sel # sels) [row] (ur_success row)"
  "attempt_row sel row \<Longrightarrow> \<not> ur_success row \<Longrightarrow> attempts_ok sels rows won \<Longrightarrow> attempts_ok (sel # sels) (row # rows) won"
  by (auto simp: attempts_ok_def attempt_row_def)

lemma stream_backends_steps:
  "stream_backends rt cfg rq n errors False collected sels g = (items, None, g') \<Longrightarrow>
   \<exists>rows won. gt_usage g' = gt_usage g @ rows \<and> attempts_ok sels rows won
     \<and> (stream_contract items \<or> interrupted (rt_codec rt) items)
     \<and> (\<forall>h its. items = Meta_headers h # its \<longrightarrow>
          rows \<noteq> [] \<and> dget h ''X-Provider'' = Some (ur_provider (last rows)))"
proof (induction sels arbitrary: n errors collected items g)
  case Nil
  then show ?case using attempts_ok_Nil [of "[]"] by auto
next
  case (Cons sel sels)
  obtain its r lp g1 where a: "stream_attempt rt cfg rq sel n False collected g = (its, r, lp, g1)"
    by (metis prod_cases4)
  note steps = stream_attempt_steps [OF a]
  have nr: "\<forall>e. r \<noteq> Raised e" using Cons.prems a by auto
  obtain row where row: "gt_usage g1 = gt_usage g @ [row]" "attempt_row sel row" "is_next r \<longrightarrow> \<not> ur_success row"
    using steps(4) [OF nr] by blast
  have p: "ur_provider row = sel_p sel"
    using row(2) by (simp add: attempt_row_def row_backend_def sel_key_def sel_p_def)
  show ?case
  proof (cases r)
    case (Next e)
    with steps(2) have its: "its = []" "\<not> lp_committed lp" by auto
    with Cons.prems a Next
    have "stream_backends rt cfg rq (n + 1) (errors @ [e]) False (lp_collected lp) sels g1 = (items, None, g')"
      by (auto split: prod.splits)
    from Cons.IH [OF this] obtain rows won where "gt_usage g' = gt_usage g1 @ rows" "attempts_ok sels rows won"
        "stream_contract items \<or> interrupted (rt_codec rt) items"
        "\<forall>h its. items = Meta_headers h # its \<longrightarrow> rows \<noteq> [] \<and> dget h ''X-Provider'' = Some (ur_provider (last rows))"
      by blast
    with row Next show ?thesis
      by (intro exI [of _ "row # rows"] exI [of _ won]) (auto intro: attempts_ok_row)
  next
    case Finished
    with Cons.prems a have "items = its" "g' = g1" by auto
    with Finished steps(1,3) row p show ?thesis
      by (intro exI [of _ "[row]"] exI [of _ "ur_success row"]) (auto intro: attempts_ok_row simp: served_by_def)
  next
    case (Raised e)
    with nr show ?thesis by blast
  qed
qed

subsection \<open>Requests in flight\<close>

definition open_on :: "string \<Rightarrow> gateway \<Rightarrow> nat" where
  "open_on k g = bs_in_flight (get_stats (wd_stats (gt_world g)) k)"

definition sel_stats_key :: "selected_backend \<Rightarrow> string" where
  "sel_stats_key sel = backend_key (sel_p sel) (sel_m sel)"

lemma open_on_simps [simp]:
  "open_on k (set_circuits c g) = open_on k g" "open_on k (set_limits l g) = open_on k g"
  "open_on k (add_row r g) = open_on k g" "open_on k (store_in_cache rt cfg rq b s g) = open_on k g"
  by (simp_all add: open_on_def set_circuits_def set_limits_def add_row_def store_in_cache_def split: option.split)

lemma open_on_stats:
  "open_on k (on_stats (\<lambda>s. record_success s now p m lat t) g) = open_on k g"
  "open_on k (on_stats (\<lambda>s. record_failure s now p m e) g) = open_on k g"
  "open_on k (on_stats (\<lambda>s. record_cache_activity s now p m ck c cw i sup') g) = open_on k g"
  by (simp_all add: open_on_def on_stats_def record_success_def record_failure_def record_cache_activity_def
      get_stats_def put_stats_def Let_def split: option.split)

lemma open_on_note_success [simp]: "open_on k (note_success rt rq sel n lat t u g) = open_on k g"
  by (simp add: note_success_def Let_def open_on_stats)

lemma open_on_note_failure: "note_failure rt rq sel n st e lat t b g = (r, g') \<Longrightarrow> open_on k g' = open_on k g"
  by (auto simp: note_failure_def Let_def open_on_stats split: prod.splits sum.splits)

lemma open_on_begin: "open_on k (begin_attempt sel g) = open_on k g + (if k = sel_stats_key sel then 1 else 0)"
  by (simp add: open_on_def begin_attempt_def on_stats_def start_request_def get_stats_def put_stats_def Let_def
      sel_stats_key_def)

lemma open_on_end: "open_on k (end_attempt sel g) = open_on k g - (if k = sel_stats_key sel then 1 else 0)"
  by (simp add: open_on_def end_attempt_def on_stats_def end_request_def get_stats_def put_stats_def Let_def
      sel_stats_key_def)

definition others_balanced :: "runtime \<Rightarrow> bool" where
  "others_balanced rt \<longleftrightarrow>
     (\<forall>n w k. bs_in_flight (get_stats (wd_stats (rt_during rt n w)) k) = bs_in_flight (get_stats (wd_stats w) k))"

lemma open_on_wait: "others_balanced rt \<Longrightarrow> open_on k (wait_attempt rt n g) = open_on k g"
  by (simp add: open_on_def wait_attempt_def others_balanced_def)

lemma open_on_call:
  "others_balanced rt \<Longrightarrow> provider_call rt rq sel n g = (result, g1) \<Longrightarrow> open_on k g1 = open_on k g"
  by (auto simp: provider_call_def Let_def split_beta open_on_end open_on_wait open_on_begin)

lemma open_on_try:
  "others_balanced rt \<Longrightarrow> open_on k (snd (try_backends rt cfg rq n errors sels g)) = open_on k g"
proof (induction sels arbitrary: n errors g)
  case (Cons sel sels)
  then show ?case
    by (auto simp: accept_def Let_def split: prod.splits sum.splits option.splits
        dest!: open_on_note_failure [of _ _ _ _ _ _ _ _ _ _ _ _ k] open_on_call [of rt _ _ _ _ _ _ k])
qed simp

lemma open_on_consume: "consume rt cfg rq sel n evs lp g = (items, r, lp', g') \<Longrightarrow> open_on k g' = open_on k g"
proof (induction evs arbitrary: lp items)
  case (Cons ev evs)
  then show ?case
    by (cases ev)
       (auto simp: on_done_def on_failed_def Let_def split: prod.splits sum.splits option.splits if_splits
          dest!: open_on_note_failure [of _ _ _ _ _ _ _ _ _ _ _ _ k])
qed simp

lemma open_on_attempt:
  "others_balanced rt \<Longrightarrow> stream_attempt rt cfg rq sel n com col g = (items, r, lp, g') \<Longrightarrow> open_on k g' = open_on k g"
  by (auto simp: stream_attempt_def Let_def open_on_end open_on_wait open_on_begin split: prod.splits
      dest!: open_on_consume [of _ _ _ _ _ _ _ _ _ _ _ _ k])

lemma open_on_stream:
  "others_balanced rt \<Longrightarrow> open_on k (snd (snd (stream_backends rt cfg rq n errors com col sels g))) = open_on k g"
proof (induction sels arbitrary: n errors com col g)
  case (Cons sel sels)
  obtain items r lp g1 where a: "stream_attempt rt cfg rq sel n com col g = (items, r, lp, g1)"
    by (metis prod_cases4)
  have "open_on k g1 = open_on k g" by (rule open_on_attempt [OF Cons.prems a])
  with Cons.IH [OF Cons.prems, of "n + 1" _ "lp_committed lp" "lp_collected lp" g1] a show ?case
    by (auto simp: split_beta split: attempt_end.split)
qed simp

section \<open>A concrete run\<close>

text \<open>Provider \<open>a\<close> times out, every other one answers.\<close>

definition demo_answer :: http_response where
  "demo_answer = \<lparr>hp_status = 200, hp_retry_after = None, hp_headers = [], hp_text = ''ok'', hp_content = ''ok''\<rparr>"

definition demo_runtime :: runtime where
  "demo_runtime =
     \<lparr>rt_codec = demo_codec, rt_sha1 = (\<lambda>s. s), rt_sha256 = (\<lambda>s. s), rt_dumps_sorted = (\<lambda>_. ''v''),
      rt_py_str = (\<lambda>_. ''?''), rt_encoder = None, rt_parse_float = (\<lambda>_. None), rt_parse_int = (\<lambda>_. None),
      rt_text_of = (\<lambda>_. ''error''), rt_fmt = (\<lambda>_. ''60''), rt_env = demo_env, rt_wall = 0, rt_clock = (\<lambda>_. 0),
      rt_post = (\<lambda>n _. if n = 0 then Http_timeout else Http_response demo_answer),
      rt_open = (\<lambda>n _. if n = 0 then Open_timeout
                        else Opened \<lparr>hs_status = 200, hs_retry_after = None, hs_steps = []\<rparr>),
      rt_elapsed = (\<lambda>_. 5), rt_latency = (\<lambda>_. 7), rt_first_ms = (\<lambda>_. 3), rt_during = (\<lambda>_ w. w)\<rparr>"

definition demo_gateway :: gateway where
  "demo_gateway = \<lparr>gt_world = demo_world, gt_cache = rc_init False, gt_usage = []\<rparr>"

definition demo_pair :: gateway_config where
  "demo_pair = demo_config ''failover'' False [demo_backend ''a'' 1 1, demo_backend ''b'' 2 1]"

definition demo_body :: jobj where
  "demo_body = [(''model'', JStr ''x'')]"

definition demo_request :: prepared where
  "demo_request = prepare demo_runtime demo_pair demo_body None None None"

lemma demo_prepared:
  "demo_request =
     \<lparr>pq_model = Some (default_model ''x'' [demo_backend ''a'' 1 1, demo_backend ''b'' 2 1]), pq_logical = ''x'',
      pq_routable = True, pq_end_user = None, pq_prefs = None, pq_upstream = demo_body, pq_max_tokens = None,
      pq_use_cache = False, pq_cache_key = None, pq_input_tokens = None, pq_cache_fp = None,
      pq_api_key_id = None, pq_request_id = None\<rparr>"
  by (simp add: demo_request_def prepare_def demo_body_def demo_pair_def demo_defs get_or_empty_def
      apply_default_params_def cache_enabled_def jget_def nonempty_def prefs_from_request_def
      strip_gateway_fields_def requested_max_tokens_def first_not_null_def input_estimate_needed_def Let_def)

lemma demo_ask: "ask_cache demo_runtime demo_pair demo_request demo_gateway = (None, demo_gateway)"
  by (simp add: ask_cache_def demo_prepared nonempty_def)

definition demo_candidates :: "selected_backend list" where
  "demo_candidates = fst (select_backends demo_env demo_pair ''x'' None None None None demo_world)"

lemma demo_candidates_eq:
  "demo_candidates =
     [(new_selected (default_provider ''a'' [], demo_backend ''a'' 1 1))\<lparr>sl_reason := tier_label 1\<rparr>,
      (new_selected (default_provider ''b'' [], demo_backend ''b'' 2 1))\<lparr>sl_reason := tier_label 2\<rparr>]"
  by (simp add: demo_candidates_def demo_pair_def emission_defs sort_suffix_def Let_def)

lemma demo_circuits: "\<not> cb_enabled (wd_circuits (snd (select_backends demo_env demo_pair ''x'' None None None None demo_world)))"
  by (simp add: demo_candidates_def demo_pair_def emission_defs Let_def)

lemma demo_resolve:
  obtains w where "resolve demo_runtime demo_pair demo_request demo_gateway
      = ((demo_candidates, None, 0), demo_gateway\<lparr>gt_world := w\<rparr>)" and "\<not> cb_enabled (wd_circuits w)"
proof -
  obtain bs w where s: "select_backends demo_env demo_pair ''x'' None None None None demo_world = (bs, w)" by fastforce
  then have "bs = demo_candidates" by (simp add: demo_candidates_def)
  moreover have "model_by_id demo_pair ''x'' = Some (default_model ''x'' [demo_backend ''a'' 1 1, demo_backend ''b'' 2 1])"
      "md_enabled (default_model ''x'' [demo_backend ''a'' 1 1, demo_backend ''b'' 2 1])"
    by (simp_all add: demo_pair_def demo_defs)
  ultimately have "resolve demo_runtime demo_pair demo_request demo_gateway
      = ((demo_candidates, None, 0), demo_gateway\<lparr>gt_world := w\<rparr>)"
    by (simp add: resolve_def resolve_backends_def demo_prepared demo_runtime_def demo_gateway_def s demo_candidates_eq)
  moreover have "\<not> cb_enabled (wd_circuits w)" using demo_circuits by (simp add: s)
  ultimately show ?thesis by (rule that)
qed

lemma note_failure_disabled:
  "\<not> cb_enabled (wd_circuits (gt_world g)) \<Longrightarrow> fst (note_failure rt rq sel n st e lat t b g) = None"
  by (simp add: note_failure_def on_stats_def record_circuit_failure_def record_outcome_def Let_def)

lemma circuits_call [simp]:
  "wd_circuits (gt_world (snd (provider_call demo_runtime rq sel n g))) = wd_circuits (gt_world g)"
  by (simp add: provider_call_def split_beta Let_def demo_runtime_def end_attempt_def begin_attempt_def on_stats_def
      set_limits_def wait_attempt_def)

lemma demo_timeout:
  "is_ascii (pv_api_key (sl_provider sel)) \<Longrightarrow>
   fst (provider_call demo_runtime rq sel 0 g) = failed_result (sl_provider sel) (sel_m sel) 0 [] ''timeout'' 7 True"
  by (simp add: provider_call_def split_beta Let_def demo_runtime_def call_provider_def provider_headers_def
      validated_api_key_def)

lemma demo_success:
  "is_ascii (pv_api_key (sl_provider sel)) \<Longrightarrow>
   rs_success (fst (provider_call demo_runtime rq sel 1 g)) \<and> rs_body (fst (provider_call demo_runtime rq sel 1 g)) = ''ok''"
  by (simp add: provider_call_def split_beta Let_def demo_runtime_def call_provider_def provider_headers_def
      validated_api_key_def demo_answer_def)

lemma demo_relay: "relay_body demo_runtime cfg sel ''ok'' = Inr ''ok''"
  by (simp add: relay_body_def normalize_response_body_def mentions_reasoning_def shift_usage_to_cached_def
      demo_runtime_def demo_codec_def)

lemma demo_handled:
  obtains b hs g' where "handle_request demo_runtime demo_pair demo_body None None None demo_gateway = (Inr (b, 200, hs), g')"
proof -
  obtain w where r: "resolve demo_runtime demo_pair demo_request demo_gateway
      = ((demo_candidates, None, 0), demo_gateway\<lparr>gt_world := w\<rparr>)" "\<not> cb_enabled (wd_circuits w)"
    by (rule demo_resolve)
  let ?g = "demo_gateway\<lparr>gt_world := w\<rparr>" and ?a = "hd demo_candidates" and ?b = "demo_candidates ! 1"
  have ascii: "is_ascii (pv_api_key (sl_provider ?a))" "is_ascii (pv_api_key (sl_provider ?b))"
    by (simp_all add: demo_candidates_eq new_selected_def default_provider_def is_ascii_def)
  have c: "demo_candidates = [?a, ?b]" by (simp add: demo_candidates_eq)
  obtain res1 g1 where p1: "provider_call demo_runtime demo_request ?a 0 ?g = (res1, g1)" by fastforce
  have "wd_circuits (gt_world g1) = wd_circuits w"
    using circuits_call [of demo_request ?a 0 ?g] by (simp add: p1)
  with r(2) have "fst (note_failure demo_runtime demo_request ?a 0 (rs_status_code res1) (rs_error res1)
      (rs_latency_ms res1) None False g1) = None" by (simp add: note_failure_disabled)
  then obtain g2 where f: "note_failure demo_runtime demo_request ?a 0 (rs_status_code res1) (rs_error res1)
      (rs_latency_ms res1) None False g1 = (None, g2)" by (metis prod.collapse)
  obtain res2 g3 where p2: "provider_call demo_runtime demo_request ?b 1 g2 = (res2, g3)" by fastforce
  have "\<not> rs_success res1" "rs_retryable res1" "rs_success res2" "rs_body res2 = ''ok''"
    using demo_timeout [OF ascii(1), of demo_request ?g] demo_success [OF ascii(2), of demo_request g2] p1 p2
    by (simp_all add: failed_result_def)
  then have "\<exists>b hs g'. try_backends demo_runtime demo_pair demo_request 0 [] [?a, ?b] ?g = (Inr (b, 200, hs), g')"
    by (simp add: p1 f p2 [unfolded One_nat_def] accept_def Let_def demo_relay)
  with r(1) c demo_ask that show ?thesis
    by (auto simp: handle_request_def Let_def demo_request_def [symmetric])
qed

lemma demo_stream_timeout:
  "is_ascii (pv_api_key (sl_provider sel)) \<Longrightarrow> \<not> cb_enabled (wd_circuits (gt_world g)) \<Longrightarrow>
   \<exists>g'. stream_attempt demo_runtime cfg rq sel 0 False [] g =
     ([], Next (attempt_error sel ''timeout''),
      \<lparr>lp_committed = False, lp_first = False, lp_parser = [], lp_collected = []\<rparr>, g')"
  by (simp add: stream_attempt_def Let_def demo_runtime_def call_provider_stream_def provider_headers_def
      validated_api_key_def begin_attempt_def wait_attempt_def set_limits_def on_stats_def on_failed_def
      note_failure_def record_circuit_failure_def record_outcome_def)

lemma demo_stream_success:
  "is_ascii (pv_api_key (sl_provider sel)) \<Longrightarrow>
   \<exists>items lp g'. stream_attempt demo_runtime cfg rq sel 1 False [] g = (items, Finished, lp, g')"
  by (simp add: stream_attempt_def Let_def demo_runtime_def call_provider_stream_def provider_headers_def
      validated_api_key_def finish_stream_def acc_finish_def flush_def new_accumulator_def blank_bytes_def
      on_done_def flush_stream_chunk_def)

lemma demo_streamed:
  obtains items g' where
    "handle_request_stream demo_runtime demo_pair demo_body None None None demo_gateway = (items, None, g')"
proof -
  obtain w where r: "resolve demo_runtime demo_pair demo_request demo_gateway
      = ((demo_candidates, None, 0), demo_gateway\<lparr>gt_world := w\<rparr>)" "\<not> cb_enabled (wd_circuits w)"
    by (rule demo_resolve)
  let ?g = "demo_gateway\<lparr>gt_world := w\<rparr>" and ?a = "hd demo_candidates" and ?b = "demo_candidates ! 1"
  have ascii: "is_ascii (pv_api_key (sl_provider ?a))" "is_ascii (pv_api_key (sl_provider ?b))"
    by (simp_all add: demo_candidates_eq new_selected_def default_provider_def is_ascii_def)
  have c: "demo_candidates = [?a, ?b]" by (simp add: demo_candidates_eq)
  obtain g1 where a1: "stream_attempt demo_runtime demo_pair demo_request ?a 0 False [] ?g =
     ([], Next (attempt_error ?a ''timeout''),
      \<lparr>lp_committed = False, lp_first = False, lp_parser = [], lp_collected = []\<rparr>, g1)"
    using demo_stream_timeout [OF ascii(1)] r(2) by force
  obtain items lp g2 where a2: "stream_attempt demo_runtime demo_pair demo_request ?b 1 False [] g1 = (items, Finished, lp, g2)"
    using demo_stream_success [OF ascii(2)] by blast
  have "stream_backends demo_runtime demo_pair demo_request 0 [] False [] [?a, ?b] ?g = (items, None, g2)"
    using a1 a2 by simp
  with r(1) c demo_ask that show ?thesis
    by (auto simp: handle_request_stream_def Let_def demo_request_def [symmetric])
qed

section \<open>Properties\<close>

text \<open>
  C1. A plain request tries the candidates in the order of the selection, one usage row per attempt:
  all attempts but the last failed and cost nothing, the answer has status 200 exactly when the last
  attempt succeeded, and then \<open>X-Provider\<close> names the backend of that row.  So no request is charged
  twice and no candidate is skipped.
\<close>

theorem fallback_in_order:
  assumes "ask_cache rt cfg (prepare rt cfg body key rid cid) g = (None, g1)"
    and "resolve rt cfg (prepare rt cfg body key rid cid) g1 = ((backends, None, st), g2)"
    and "handle_request rt cfg body key rid cid g = (Inr (b, status, hs), g')"
  shows "\<exists>rows. gt_usage g' = gt_usage g @ rows \<and> attempts_ok backends rows (status = 200)
           \<and> (status = 200 \<longrightarrow> dget hs ''X-Provider'' = Some (ur_provider (last rows)))"
proof -
  let ?rq = "prepare rt cfg body key rid cid"
  have "gt_usage g2 = gt_usage g"
    using usage_ask_cache [of rt cfg ?rq g] usage_resolve [of rt cfg ?rq g1] assms(1,2) by simp
  moreover have "try_backends rt cfg ?rq 0 [] backends g2 = (Inr (b, status, hs), g')"
    using assms by (simp add: handle_request_def Let_def)
  ultimately show ?thesis using try_backends_rows by metis
qed

theorem fallback_in_order_witness:
  "\<exists>backends st b hs g' rows.
     fst (resolve demo_runtime demo_pair demo_request demo_gateway) = (backends, None, st)
     \<and> handle_request demo_runtime demo_pair demo_body None None None demo_gateway = (Inr (b, 200, hs), g')
     \<and> gt_usage g' = gt_usage demo_gateway @ rows \<and> attempts_ok backends rows ((200 :: int) = 200)"
proof -
  obtain w where r: "resolve demo_runtime demo_pair demo_request demo_gateway
      = ((demo_candidates, None, 0), demo_gateway\<lparr>gt_world := w\<rparr>)" by (rule demo_resolve)
  obtain b hs g' where h: "handle_request demo_runtime demo_pair demo_body None None None demo_gateway = (Inr (b, 200, hs), g')"
    by (rule demo_handled)
  from fallback_in_order [OF demo_ask [unfolded demo_request_def] r [unfolded demo_request_def] h] r h show ?thesis
    by auto
qed

text \<open>
  C2. A streamed request keeps the contract of its first item: it yields the headers first and then
  body bytes only, or a single error with its status, or (when an attempt breaks off before anything
  was sent) just the error event.  The candidates are tried in order with one row each, failures
  before the last cost nothing, and the headers name the backend of the last row, the one whose bytes follow.
\<close>

theorem stream_keeps_contract:
  assumes "ask_cache rt cfg (prepare rt cfg body key rid cid) g = (None, g1)"
    and "resolve rt cfg (prepare rt cfg body key rid cid) g1 = ((backends, None, st), g2)"
    and "handle_request_stream rt cfg body key rid cid g = (items, None, g')"
  shows "(stream_contract items \<or> interrupted (rt_codec rt) items)
         \<and> (\<exists>rows won. gt_usage g' = gt_usage g @ rows \<and> attempts_ok backends rows won
              \<and> (\<forall>h its. items = Meta_headers h # its \<longrightarrow>
                   rows \<noteq> [] \<and> dget h ''X-Provider'' = Some (ur_provider (last rows))))"
proof -
  let ?rq = "prepare rt cfg body key rid cid"
  have "gt_usage g2 = gt_usage g"
    using usage_ask_cache [of rt cfg ?rq g] usage_resolve [of rt cfg ?rq g1] assms(1,2) by simp
  moreover have "stream_backends rt cfg ?rq 0 [] False [] backends g2 = (items, None, g')"
    using assms by (simp add: handle_request_stream_def Let_def)
  ultimately show ?thesis using stream_backends_steps by metis
qed

theorem stream_keeps_contract_witness:
  "\<exists>items g'. handle_request_stream demo_runtime demo_pair demo_body None None None demo_gateway = (items, None, g')
     \<and> (stream_contract items \<or> interrupted (rt_codec demo_runtime) items)"
proof -
  obtain w where r: "resolve demo_runtime demo_pair demo_request demo_gateway
      = ((demo_candidates, None, 0), demo_gateway\<lparr>gt_world := w\<rparr>)" by (rule demo_resolve)
  obtain items g' where h: "handle_request_stream demo_runtime demo_pair demo_body None None None demo_gateway = (items, None, g')"
    by (rule demo_streamed)
  from stream_keeps_contract [OF demo_ask [unfolded demo_request_def] r [unfolded demo_request_def] h] h show ?thesis
    by blast
qed

text \<open>
  C3. Every attempt that is counted as in flight is counted out again, whether the request succeeds,
  fails over, fails or raises, plain or streamed: trying any list of backends leaves the number of
  requests in flight of every backend as it was, provided concurrent requests balance theirs.
\<close>

theorem in_flight_balanced:
  assumes "others_balanced rt"
  shows "open_on k (snd (try_backends rt cfg rq n errors sels g)) = open_on k g
         \<and> open_on k (snd (snd (stream_backends rt cfg rq n errors com col sels g))) = open_on k g"
  using assms by (simp add: open_on_try open_on_stream)

theorem in_flight_balanced_witness:
  "open_on ''a:m'' (snd (try_backends demo_runtime demo_pair demo_request 0 [] demo_candidates demo_gateway)) = open_on ''a:m'' demo_gateway
   \<and> open_on ''a:m'' (snd (snd (stream_backends demo_runtime demo_pair demo_request 0 [] False [] demo_candidates demo_gateway)))
       = open_on ''a:m'' demo_gateway"
  by (rule in_flight_balanced) (simp add: others_balanced_def demo_runtime_def)

text \<open>
  A provider that ends its stream without a blank line after \<open>data: [DONE]\<close>: the client receives
  one event \<open>[DONE]data: [DONE]\<close> and no end marker at all, because the rest of the stream is rendered
  once more into the same parser and the gateway believes the marker was sent.
\<close>

definition provider_stream :: "body_step list \<Rightarrow> nat \<Rightarrow> http_request \<Rightarrow> stream_open" where
  "provider_stream steps n = (\<lambda>_. Opened \<lparr>hs_status = 200, hs_retry_after = None, hs_steps = steps\<rparr>)"

definition demo_single :: selected_backend where
  "demo_single = new_selected (default_provider ''a'' [], demo_backend ''a'' 1 1)"

theorem done_marker_lost:
  "fst (stream_backends (demo_runtime\<lparr>rt_open := \<lambda>n. provider_stream [Chunk 7 ''data: [DONE]''] n\<rparr>) demo_pair
          demo_request 0 [] False [] [demo_single] demo_gateway)
   = [Meta_headers (route_headers ''a'' ''m'' [] None), Body (''data: [DONE]data: [DONE]'' @ [LF, LF])]"
proof -
  have price: "pr_cache_read (pricing_for demo_pair ''a'' ''m'') = None"
    by (simp add: pricing_for_def demo_pair_def demo_defs default_pricing_def)
  have first: "transform_stream_chunk demo_codec [] ''data: [DONE]'' = (Inr [], ''data: [DONE]'')"
    by (simp add: transform_stream_chunk_def feed_def Let_def drain.simps)
  have second: "transform_stream_chunk demo_codec ''data: [DONE]'' (''data: [DONE]'' @ [LF, LF])
      = (Inr (''data: [DONE]data: [DONE]'' @ [LF, LF]), [])"
    by (simp add: transform_stream_chunk_def feed_def Let_def drain.simps parse_block_def List.map_filter_simps
        data_line_def demo_codec_def transform_event_def strip_def is_space_def byte_def done_marker_def
        mentions_reasoning_def render_event_def)
  have same: "shift_stream_usage_to_cached demo_codec (''data: [DONE]data: [DONE]'' @ [LF, LF])
      = Inr (''data: [DONE]data: [DONE]'' @ [LF, LF])"
    by (simp add: shift_stream_usage_to_cached_def)
  have codec: "rt_codec demo_runtime = demo_codec" "cd_decode demo_codec = (\<lambda>s. s)"
    by (simp_all add: demo_runtime_def demo_codec_def)
  have sel: "sl_provider demo_single = default_provider ''a'' []" "sel_p demo_single = ''a''" "sel_m demo_single = ''m''"
      "sl_reason demo_single = []"
    by (simp_all add: demo_single_def new_selected_def sel_p_def sel_m_def demo_backend_def default_backend_def
        default_provider_def)
  have tail: "flush_stream_chunk demo_codec [] = (Inr [], [])"
    by (simp add: flush_stream_chunk_def flush_def blank_bytes_def)
  show ?thesis
    using second same
    by (simp add: stream_attempt_def Let_def provider_stream_def trailing_event_repeated codec sel first price
        commit_def maybe_shift_def collect_def demo_prepared on_done_def tail)
qed

text \<open>
  A provider whose first chunk holds a content that is no text (here the number 5) breaks the
  contract: the accumulator raises, the failure counts as mid-stream, and the client gets the error
  event without any headers before it.
\<close>

theorem error_without_headers:
  "fst (stream_backends
          (demo_runtime\<lparr>rt_codec := demo_codec\<lparr>cd_loads := \<lambda>_. Some (JObj [(''choices'',
              JList [JObj [(''delta'', JObj [(''content'', JInt 5)])]])])\<rparr>,
             rt_open := \<lambda>n. provider_stream [Chunk 7 (''data: 5'' @ [LF, LF])] n\<rparr>)
          demo_pair demo_request 0 [] False [] [demo_single] demo_gateway)
   = [Body (error_sse demo_codec ''error'' ''stream_interrupted''), Body done_sse]"
proof -
  show ?thesis
    by (simp add: stream_attempt_def Let_def provider_stream_def demo_single_def new_selected_def sel_p_def sel_m_def
        call_provider_stream_def provider_headers_def validated_api_key_def is_ascii_def default_provider_def
        demo_backend_def default_backend_def acc_feed_def feed_def drain.simps new_accumulator_def blank_bytes_def
        byte_def parse_block_def List.map_filter_simps data_line_def strip_def is_space_def done_marker_def
        demo_runtime_def demo_codec_def observe_def jget_def first_delta_def delta_content_def py_or_def
        on_failed_def note_failure_def record_circuit_failure_def record_outcome_def on_stats_def set_limits_def
        wait_attempt_def begin_attempt_def demo_gateway_def demo_world_def cb_init_def error_sse_def error_body_def)
qed

subsection \<open>The stream flag and the response cache\<close>

definition same_but_stream :: "jobj \<Rightarrow> jobj \<Rightarrow> bool" where
  "same_but_stream a b \<longleftrightarrow> (\<forall>k. k \<noteq> ''stream'' \<longrightarrow> dget a k = dget b k)"

lemma same_jget: "same_but_stream a b \<Longrightarrow> k \<noteq> ''stream'' \<Longrightarrow> jget a k = jget b k"
  by (simp add: same_but_stream_def jget_def)

lemma same_defaults: "same_but_stream a b \<Longrightarrow> same_but_stream (fold apply_default ds a) (fold apply_default ds b)"
proof (induction ds arbitrary: a b)
  case (Cons kv ds)
  have "''stream'' \<notin> set default_param_keys" by (simp add: default_param_keys_def)
  then have "same_but_stream (apply_default kv a) (apply_default kv b)"
    using Cons.prems same_jget [OF Cons.prems, of "fst kv"]
    by (auto simp: apply_default_def same_but_stream_def)
  then show ?case by (simp add: Cons.IH)
qed simp

lemma same_fingerprint: "same_but_stream a b \<Longrightarrow> full_fingerprint sha dumps a = full_fingerprint sha dumps b"
  by (simp add: full_fingerprint_def key_fields_def field_bytes_def same_but_stream_def)

lemma same_cacheable: "same_but_stream a b \<Longrightarrow> is_cacheable a = is_cacheable b"
  by (simp add: is_cacheable_def same_jget)

lemma prepare_cache_fields:
  "same_but_stream a b \<Longrightarrow>
   pq_use_cache (prepare rt cfg a key rid cid) = pq_use_cache (prepare rt cfg b key rid cid)
   \<and> pq_cache_fp (prepare rt cfg a key rid cid) = pq_cache_fp (prepare rt cfg b key rid cid)"
proof -
  assume s: "same_but_stream a b"
  have "get_or_empty a ''model'' = get_or_empty b ''model''" using s by (simp add: get_or_empty_def same_but_stream_def)
  moreover have d: "same_but_stream (apply_default_params a ds) (apply_default_params b ds)" for ds
    using s by (simp add: apply_default_params_def same_defaults)
  ultimately show ?thesis
    by (simp add: prepare_def Let_def same_fingerprint [OF d] same_cacheable [OF d])
qed

lemma lookup_after_store:
  assumes "dict_ok (rc_mem c)"
  shows "fst (lookup_response (store_response c now k body stream ttl n) now k ttl) = Some (body, stream, 1)"
proof -
  let ?e = "\<lparr>ce_body = body, ce_stream = stream, ce_hits = 0, ce_created = now, ce_ttl = ttl, ce_last = now\<rparr>"
  have "rc_mem (store_response c now k body stream ttl n) = mem_put k ?e (rc_mem c)"
    by (simp add: store_response_def Let_def)
  then have "dget (rc_mem (store_response c now k body stream ttl n)) k = Some ?e"
    using assms by (simp add: dget_mem_put)
  moreover have "\<not> expired now ttl ?e" by (simp add: expired_def Let_def)
  ultimately show ?thesis by (simp add: lookup_response_def lookup_mem_def)
qed

text \<open>
  The body of a plain answer is streamed: once \<open>handle_request\<close> has stored its JSON body, the same
  request with \<open>stream\<close> set gets that body, unchanged and without any \<open>data:\<close> line, under the content
  type \<open>text/event-stream\<close>.
\<close>

theorem plain_body_streamed:
  assumes "pq_use_cache (prepare rt cfg (dset ''stream'' (JBool False) req) key rid cid)"
    and "nonempty (pq_cache_fp (prepare rt cfg (dset ''stream'' (JBool False) req) key rid cid)) \<noteq> None"
    and "dict_ok (rc_mem (gt_cache g))"
  shows "\<exists>hs. dget hs ''Content-Type'' = Some ''text/event-stream''
           \<and> fst (handle_request_stream rt cfg (dset ''stream'' (JBool True) req) key rid cid
                    (store_in_cache rt cfg (prepare rt cfg (dset ''stream'' (JBool False) req) key rid cid) body False g))
             = [Meta_headers hs, Body body]"
proof -
  let ?p = "prepare rt cfg (dset ''stream'' (JBool False) req) key rid cid"
  let ?s = "prepare rt cfg (dset ''stream'' (JBool True) req) key rid cid"
  obtain fp where fp: "nonempty (pq_cache_fp ?p) = Some fp" using assms(2) by auto
  have "same_but_stream (dset ''stream'' (JBool True) req) (dset ''stream'' (JBool False) req)"
    by (simp add: same_but_stream_def)
  from prepare_cache_fields [OF this, of rt cfg key rid cid] have "pq_cache_fp ?s = pq_cache_fp ?p" by blast
  then have "nonempty (pq_cache_fp ?s) = Some fp" using fp by (simp only:)
  then have "fst (ask_cache rt cfg ?s (store_in_cache rt cfg ?p body False g)) = Some body"
    using assms(1,3) fp by (simp add: ask_cache_def store_in_cache_def split_beta lookup_after_store)
  then obtain g1 where "ask_cache rt cfg ?s (store_in_cache rt cfg ?p body False g) = (Some body, g1)"
    by (metis prod.collapse)
  then show ?thesis
    by (auto simp: handle_request_stream_def Let_def
        intro!: exI [of _ "[(''Content-Type'', ''text/event-stream''), (''X-Cache-Hit'', ''true'')] @ id_header ?s"])
qed

definition caching_config :: gateway_config where
  "caching_config =
     demo_pair\<lparr>gw_server := (gw_server demo_pair)\<lparr>sv_response_cache_enabled := True\<rparr>,
               gw_models := map (\<lambda>m. m\<lparr>md_cache_responses := True\<rparr>) (gw_models demo_pair)\<rparr>"

theorem plain_body_streamed_witness:
  "\<exists>hs. dget hs ''Content-Type'' = Some ''text/event-stream''
      \<and> fst (handle_request_stream demo_runtime caching_config (dset ''stream'' (JBool True) demo_body) None None None
               (store_in_cache demo_runtime caching_config
                  (prepare demo_runtime caching_config (dset ''stream'' (JBool False) demo_body) None None None)
                  ''{}'' False demo_gateway))
        = [Meta_headers hs, Body ''{}'']"
  by (rule plain_body_streamed)
     (simp_all add: prepare_def demo_body_def caching_config_def demo_pair_def demo_defs get_or_empty_def
       apply_default_params_def cache_enabled_def jget_def nonempty_def is_cacheable_def full_fingerprint_def
       key_fields_def field_bytes_def demo_runtime_def demo_gateway_def rc_init_def Let_def)

end
