(* ===== verification/Chat.thy ===== *)
theory Chat
  imports Worker Streaming
begin

text \<open>
  The chat endpoint (\<^verbatim>\<open>src/localgateway/endpoints/chat.py\<close>, and \<open>resolve_request_id\<close> of
  \<^verbatim>\<open>streaming.py\<close>): the allowlist of a key, the budget headers, and the reply that is made of what
  the request handlers give.

  \<open>fresh\<close> is the id \<open>new_request_id\<close> mints, and \<open>wide_alnum\<close> is \<open>isalnum()\<close> of a code point outside
  ASCII.
\<close>

section \<open>Request ids\<close>

definition id_char :: "(string \<Rightarrow> bool) \<Rightarrow> string \<Rightarrow> bool" where
  "id_char wide_alnum cp =
     (if is_ascii cp then is_letter (hd cp) \<or> is_digit (hd cp) \<or> hd cp \<in> {CHR ''-'', CHR ''_'', CHR ''.''}
      else wide_alnum cp)"

definition resolve_request_id :: "string \<Rightarrow> (string \<Rightarrow> bool) \<Rightarrow> string option \<Rightarrow> string" where
  "resolve_request_id fresh wide_alnum inbound =
     (case nonempty inbound of
        None \<Rightarrow> fresh
      | Some s \<Rightarrow>
          (let clean = py_take 64 (strip s)
           in if clean \<noteq> [] \<and> list_all (id_char wide_alnum) (code_points clean) then clean else fresh))"

section \<open>The allowlist\<close>

definition key_id :: "api_key_config option \<Rightarrow> string option" where
  "key_id key = (case key of None \<Rightarrow> None | Some k \<Rightarrow> if ak_id k = [] then None else Some (ak_id k))"

definition unhashable :: "json \<Rightarrow> bool" where
  "unhashable v \<longleftrightarrow> (case v of JList _ \<Rightarrow> True | JObj _ \<Rightarrow> True | _ \<Rightarrow> False)"

definition not_allowed_reply :: "(json \<Rightarrow> string) \<Rightarrow> json \<Rightarrow> api_key_config \<Rightarrow> reply" where
  "not_allowed_reply py_str requested key =
     error_reply 403
       [(''message'', ''Model '' @ [CHR 0x27] @ str_of py_str requested @ [CHR 0x27] @ '' is not allowed for API key ''
                      @ [CHR 0x27] @ ak_id key @ [CHR 0x27]),
        (''type'', ''forbidden''), (''code'', ''model_not_allowed'')]"

definition in_allowlist :: "api_key_config \<Rightarrow> json \<Rightarrow> bool" where
  "in_allowlist key v \<longleftrightarrow> (case as_str v of None \<Rightarrow> False | Some s \<Rightarrow> s \<in> set (ak_model_allowlist key))"

definition check_model_allowlist ::
    "(json \<Rightarrow> string) \<Rightarrow> gateway_config \<Rightarrow> api_key_config option \<Rightarrow> jobj \<Rightarrow> py_error + reply option" where
  "check_model_allowlist py_str cfg key body =
     (case key of
        None \<Rightarrow> Inr None
      | Some k \<Rightarrow>
          if ak_model_allowlist k = [] then Inr None
          else let requested = get_or_empty body ''model'';
                   model = Option.bind (as_str requested) (model_by_id cfg);
                   logical = (case model of None \<Rightarrow> requested | Some md \<Rightarrow> JStr (md_id md))
               in if unhashable requested then Inl TypeError
                  else if \<not> in_allowlist k logical \<and> \<not> in_allowlist k requested
                  then Inr (Some (not_allowed_reply py_str requested k)) else Inr None)"

section \<open>Budget headers\<close>

definition eta_alert :: "gate_env \<Rightarrow> gateway_config \<Rightarrow> api_key_config \<Rightarrow> eta \<Rightarrow> alert_state \<Rightarrow> alert_state" where
  "eta_alert e cfg key eta a =
     snd (send (sv_alert_webhook_url (gw_server cfg)) (ge_wall e) ''budget_eta_warning''
            (et_period eta @ '' budget for key '' @ [CHR 0x27] @ ak_id key @ [CHR 0x27] @ '' exhausted in ''
             @ fixed 1 (et_days eta) @ ''d'')
            [(''key'', JStr (ak_id key)), (''period'', JStr (et_period eta)), (''eta_days'', JFloat (et_days eta)),
             (''eta_date'', JStr (et_date eta)), (''burn_rate'', JFloat (et_burn_rate eta)),
             (''remaining'', JFloat (et_remaining eta))]
            (Some (''eta:'' @ ak_id key)) a)"

definition warning_header :: "(string \<times> real \<times> real) list \<Rightarrow> (string, string) dict" where
  "warning_header warns =
     (case warns of
        [] \<Rightarrow> []
      | (period, spent, limit) # _ \<Rightarrow>
          [(''X-Budget-Warning'', period @ '' budget at '' @ fixed 0 (spent / limit * 100) @ ''% ($'' @ fixed 4 spent
              @ '' of $'' @ fixed 2 limit @ '')'')])"

definition eta_header :: "eta \<Rightarrow> (string, string) dict" where
  "eta_header eta =
     [(''X-Budget-ETA'', et_period eta @ '' budget exhausted in '' @ fixed 1 (et_days eta) @ ''d ('' @ et_date eta @ '')'')]"

definition budget_warn_headers ::
    "gate_env \<Rightarrow> gateway_config \<Rightarrow> api_key_config option \<Rightarrow> gate_state \<Rightarrow> (py_error + (string, string) dict) \<times> gate_state"
where
  "budget_warn_headers e cfg key s =
     (case key of
        None \<Rightarrow> (Inr [], s)
      | Some k \<Rightarrow>
          if ak_id k = [] then (Inr [], s)
          else let (warns, q1) = budget_warnings (ge_key_spend e) (gs_quota s) (ge_now e) k;
                   (r, q2) = budget_eta (ge_key_spend e) (ge_key_burn e) (ge_eta_date e) (ge_wall e) q1 (ge_now e) k;
                   s2 = s\<lparr>gs_quota := q2\<rparr>
               in case r of
                    Inl err \<Rightarrow> (Inl err, s2)
                  | Inr None \<Rightarrow> (Inr (warning_header warns), s2)
                  | Inr (Some eta) \<Rightarrow>
                      (Inr (warning_header warns @ eta_header eta),
                       if et_days eta < 3 then s2\<lparr>gs_alerts := eta_alert e cfg k eta (gs_alerts s2)\<rparr> else s2))"

section \<open>The endpoint\<close>

text \<open>
  A request ends in an exception before the reply (the server answers 500), a reply, or a streamed
  reply that breaks off.  (A handler that yields nothing would end \<open>__anext__\<close> with an exception too;
  \<open>stream_backends_steps\<close> shows that it always yields something.)
\<close>

datatype served = Crashed py_error | Replied reply | Broken reply py_error

fun bodies :: "stream_item list \<Rightarrow> bytes list" where
  "bodies [] = []"
| "bodies (Body b # items) = b # bodies items"
| "bodies (_ # items) = bodies items"

definition conversation_of :: "web_request \<Rightarrow> jobj \<Rightarrow> string option" where
  "conversation_of req body =
     (let v = (case nonempty (dget (wq_headers req) ''x-conversation-id'') of
                 Some c \<Rightarrow> JStr c | None \<Rightarrow> jget body ''conversation_id'')
      in case as_str v of None \<Rightarrow> None | Some c \<Rightarrow> if strip c = [] then None else Some c)"

definition stream_reply :: "string \<Rightarrow> (string, string) dict \<Rightarrow> (string, string) dict \<Rightarrow> bytes list \<Rightarrow> reply" where
  "stream_reply request_id warn extra chunks =
     \<lparr>rp_status = 200,
      rp_headers = update_all (filter (\<lambda>kv. lower (fst kv) \<noteq> ''content-type'') extra)
                     (update_all warn
                       [(''Cache-Control'', ''no-cache''), (''Connection'', ''keep-alive''), (''X-Accel-Buffering'', ''no''),
                        (''X-Request-Id'', request_id)]),
      rp_body = Chunks chunks\<rparr>"

definition reply_to_stream ::
    "string \<Rightarrow> (string, string) dict \<Rightarrow> stream_item list \<times> py_error option \<Rightarrow> served" where
  "reply_to_stream request_id warn outcome =
     (case outcome of
        ([], Some e) \<Rightarrow> Crashed e
      | ([], None) \<Rightarrow> Crashed ValueError
      | (Meta_error err status # _, _) \<Rightarrow>
          Replied \<lparr>rp_status = status, rp_headers = update_all warn [(''X-Request-Id'', request_id)],
                   rp_body = Json_body (JObj [(''error'', JObj err)])\<rparr>
      | (first # items, ending) \<Rightarrow>
          (let extra = (case first of Meta_headers h \<Rightarrow> h | _ \<Rightarrow> []);
               reply = stream_reply request_id warn extra (bodies items)
           in case ending of None \<Rightarrow> Replied reply | Some e \<Rightarrow> Broken reply e))"

definition reply_to_plain :: "string \<Rightarrow> (string, string) dict \<Rightarrow> py_error + response \<Rightarrow> served" where
  "reply_to_plain request_id warn outcome =
     (case outcome of
        Inl e \<Rightarrow> Crashed e
      | Inr (body, status, headers) \<Rightarrow>
          Replied \<lparr>rp_status = status, rp_headers = update_all headers (update_all warn [(''X-Request-Id'', request_id)]),
                   rp_body = Raw_body body\<rparr>)"

record chat_env =
  ce_runtime :: runtime
  ce_gate :: gate_env
  ce_fresh :: string
  ce_wide_alnum :: "string \<Rightarrow> bool"

definition chat_completions ::
    "chat_env \<Rightarrow> gateway_config \<Rightarrow> api_key_config option \<Rightarrow> web_request \<Rightarrow> jobj \<Rightarrow> gate_state \<times> gateway
     \<Rightarrow> served \<times> gate_state \<times> gateway"
where
  "chat_completions e cfg key req body sg =
     (let (s, g) = sg; rt = ce_runtime e
      in case check_model_allowlist (rt_py_str rt) cfg key body of
           Inl err \<Rightarrow> (Crashed err, s, g)
         | Inr (Some rejected) \<Rightarrow> (Replied rejected, s, g)
         | Inr None \<Rightarrow>
             (case budget_warn_headers (ce_gate e) cfg key s of
                (Inl err, s1) \<Rightarrow> (Crashed err, s1, g)
              | (Inr warn, s1) \<Rightarrow>
                  (let request_id = resolve_request_id (ce_fresh e) (ce_wide_alnum e)
                                      (dget (wq_headers req) ''x-request-id'');
                       conversation_id = conversation_of req body
                   in if truthy (jget body ''stream'')
                      then (case handle_request_stream rt cfg body (key_id key) (Some request_id) conversation_id g of
                              (items, ending, g1) \<Rightarrow> (reply_to_stream request_id warn (items, ending), s1, g1))
                      else (case handle_request rt cfg body (key_id key) (Some request_id) conversation_id g of
                              (outcome, g1) \<Rightarrow> (reply_to_plain request_id warn outcome, s1, g1)))))"

section \<open>Lemmas\<close>

lemma bodies_all: "list_all is_body items \<Longrightarrow> items = map Body (bodies items)"
proof (induction items)
  case (Cons i items)
  then show ?case by (cases i) auto
qed simp

text \<open>What the client of a stream gets of a run that keeps the contract, and of one that does not.\<close>

lemma reply_of_contract:
  assumes "stream_contract items"
  shows "(\<exists>h bs. items = Meta_headers h # map Body bs
            \<and> reply_to_stream rid warn (items, None) = Replied (stream_reply rid warn h bs))
       \<or> (\<exists>err status r. items = [Meta_error err status] \<and> reply_to_stream rid warn (items, None) = Replied r
            \<and> rp_status r = status \<and> rp_body r = Json_body (JObj [(''error'', JObj err)]))"
proof (cases items rule: stream_contract.cases)
  case (2 h its)
  then show ?thesis using assms bodies_all [of its] by (auto simp: reply_to_stream_def)
next
  case (3 err status its)
  then show ?thesis using assms by (simp add: reply_to_stream_def)
qed (use assms in auto)

lemma reply_of_interrupted:
  "interrupted cd items \<Longrightarrow> reply_to_stream rid warn (items, None) = Replied (stream_reply rid warn [] [done_sse])"
  by (auto simp: interrupted_def reply_to_stream_def)

lemma chat_passes:
  assumes "check_model_allowlist (rt_py_str (ce_runtime e)) cfg key body = Inr None"
    and "budget_warn_headers (ce_gate e) cfg key s = (Inr warn, s1)" and "truthy (jget body ''stream'')"
    and "handle_request_stream (ce_runtime e) cfg body (key_id key)
           (Some (resolve_request_id (ce_fresh e) (ce_wide_alnum e) (dget (wq_headers req) ''x-request-id'')))
           (conversation_of req body) g = (items, ending, g1)"
  shows "chat_completions e cfg key req body (s, g)
     = (reply_to_stream (resolve_request_id (ce_fresh e) (ce_wide_alnum e) (dget (wq_headers req) ''x-request-id''))
          warn (items, ending), s1, g1)"
  using assms by (simp add: chat_completions_def Let_def)

section \<open>Properties\<close>

text \<open>
  C35. A key with an allowlist gets nothing else: a chat request is refused, before any backend is
  contacted and with no state changed, unless the model it names, or the model that name stands for, is
  in the list of the key.
\<close>

theorem allowlist_enforced:
  assumes "ak_model_allowlist k \<noteq> []"
  shows "(\<exists>r. get_or_empty body ''model'' = JStr r
            \<and> (r \<in> set (ak_model_allowlist k)
               \<or> (\<exists>md. model_by_id cfg r = Some md \<and> md_id md \<in> set (ak_model_allowlist k))))
     \<or> chat_completions e cfg (Some k) req body (s, g) = (Crashed TypeError, s, g)
     \<or> chat_completions e cfg (Some k) req body (s, g)
         = (Replied (not_allowed_reply (rt_py_str (ce_runtime e)) (get_or_empty body ''model'') k), s, g)"
proof (cases "get_or_empty body ''model''")
  case (JStr r)
  with assms show ?thesis
    by (cases "model_by_id cfg r")
       (auto simp: chat_completions_def check_model_allowlist_def Let_def unhashable_def in_allowlist_def)
qed (use assms in \<open>auto simp: chat_completions_def check_model_allowlist_def Let_def unhashable_def in_allowlist_def\<close>)

definition chat_demo_env :: "gate_env \<Rightarrow> chat_env" where
  "chat_demo_env ge = \<lparr>ce_runtime = demo_runtime, ce_gate = ge, ce_fresh = ''0123456789ab'', ce_wide_alnum = (\<lambda>_. False)\<rparr>"

theorem allowlist_enforced_witness:
  "(\<exists>r. get_or_empty demo_body ''model'' = JStr r
        \<and> (r \<in> set [''y''] \<or> (\<exists>md. model_by_id demo_pair r = Some md \<and> md_id md \<in> set [''y''])))
   \<or> chat_completions (chat_demo_env demo_gate_env) demo_pair (Some ((limited_key 5)\<lparr>ak_model_allowlist := [''y'']\<rparr>))
       api_request demo_body (demo_gate, demo_gateway) = (Crashed TypeError, demo_gate, demo_gateway)
   \<or> chat_completions (chat_demo_env demo_gate_env) demo_pair (Some ((limited_key 5)\<lparr>ak_model_allowlist := [''y'']\<rparr>))
       api_request demo_body (demo_gate, demo_gateway)
     = (Replied (not_allowed_reply (rt_py_str (ce_runtime (chat_demo_env demo_gate_env))) (get_or_empty demo_body ''model'')
          ((limited_key 5)\<lparr>ak_model_allowlist := [''y'']\<rparr>)), demo_gate, demo_gateway)"
  using allowlist_enforced [of "(limited_key 5)\<lparr>ak_model_allowlist := [''y'']\<rparr>" demo_body demo_pair
      "chat_demo_env demo_gate_env" api_request demo_gate demo_gateway] by simp

text \<open>
  A key whose budget lasts beyond the calendar is locked out: when the remaining monthly budget divided
  by the burn rate reaches past the year 9999, computing the date raises, and every chat request of that
  key crashes before any backend is contacted.
\<close>

theorem distant_exhaustion_crashes:
  assumes "ak_id k \<noteq> []" and "ak_model_allowlist k = []" and "ak_daily_budget_usd k = None"
    and "ak_monthly_budget_usd k = Some m" and "m \<noteq> 0"
    and "cq_spend (gs_quota s) = []" and "cq_burn (gs_quota s) = []"
    and "0 < ge_key_burn (ce_gate e) (ak_id k)"
    and "end_of_calendar \<le> ge_wall (ce_gate e)
           + max (m - sp_month_cost (ge_key_spend (ce_gate e) (ak_id k))) 0 / ge_key_burn (ce_gate e) (ak_id k) * 86400"
  shows "fst (chat_completions e cfg (Some k) req body (s, g)) = Crashed OverflowError
    \<and> snd (snd (chat_completions e cfg (Some k) req body (s, g))) = g"
  using assms
  by (auto simp: chat_completions_def check_model_allowlist_def budget_warn_headers_def budget_eta_def budget_warnings_def
      get_spend_def burn_rate_def has_budget_def budget_def eta_candidate_def Let_def split: prod.splits)

theorem distant_exhaustion_crashes_witness:
  "fst (chat_completions (chat_demo_env (demo_gate_env\<lparr>ge_key_burn := (\<lambda>_. 1 / 1000000)\<rparr>)) demo_pair (Some (limited_key 5))
          api_request demo_body (demo_gate, demo_gateway)) = Crashed OverflowError
   \<and> snd (snd (chat_completions (chat_demo_env (demo_gate_env\<lparr>ge_key_burn := (\<lambda>_. 1 / 1000000)\<rparr>)) demo_pair
          (Some (limited_key 5)) api_request demo_body (demo_gate, demo_gateway))) = demo_gateway"
  by (rule distant_exhaustion_crashes [of _ 10])
     (simp_all add: limited_key_def demo_gate_def cq_init_def chat_demo_env_def demo_gate_env_def end_of_calendar_def
        no_spend_def)

end
