(* ===== verification/Endpoints.thy ===== *)
theory Endpoints
  imports Chat
begin

text \<open>
  What the embeddings and the responses endpoint (\<^verbatim>\<open>endpoints/embeddings.py\<close>,
  \<^verbatim>\<open>endpoints/responses.py\<close>) share: the checks before any backend is chosen, the replies of a
  failed request, and the loop over the backends of a request that is not streamed.  Each keeps its own
  acceptance of a provider's answer, the parameter \<open>deliver\<close>.

  The request is a \<open>prepared\<close> one, as for chat; \<open>path\<close> is the provider's endpoint.
\<close>

section \<open>Replies\<close>

definition apostrophe :: string where
  "apostrophe = [CHR 0x27]"

definition api_not_found :: "string \<Rightarrow> reply" where
  "api_not_found model =
     error_reply 404
       [(''message'', ''Model '' @ apostrophe @ model @ apostrophe @ '' not found or has no configured backends''),
        (''type'', ''invalid_request_error''), (''code'', ''model_not_found'')]"

definition tagged :: "string \<Rightarrow> reply \<Rightarrow> reply" where
  "tagged request_id r = r\<lparr>rp_headers := [(''X-Request-Id'', request_id)]\<rparr>"

definition api_failed :: "string \<Rightarrow> provider_result \<Rightarrow> reply" where
  "api_failed request_id result =
     tagged request_id
       (error_reply (if rs_status_code result = 0 then 502 else rs_status_code result)
          [(''message'', case nonempty (rs_error result) of None \<Rightarrow> ''Unknown error'' | Some e \<Rightarrow> e),
           (''type'', ''api_error''), (''code'', ''http_'' @ int_str (rs_status_code result))])"

definition api_all_failed :: "string \<Rightarrow> string \<Rightarrow> string list \<Rightarrow> reply" where
  "api_all_failed request_id logical_model errors =
     tagged request_id
       (error_reply 502
          [(''message'', ''All backends failed for model '' @ apostrophe @ logical_model @ apostrophe @ ''. Errors: ''
                         @ join_with ''; '' errors),
           (''type'', ''api_error''), (''code'', ''all_backends_failed'')])"

section \<open>Before the backends\<close>

text \<open>
  The allowlist, the model and its endpoint: an exception, a refusal, or the model to serve.
  \<open>shown\<close> is how the refusal of a model of another endpoint describes it.
\<close>

definition wrong_endpoint :: "string \<Rightarrow> string \<Rightarrow> string \<Rightarrow> model_config \<Rightarrow> reply" where
  "wrong_endpoint article endpoint shown md =
     error_reply 400
       [(''message'', ''Model '' @ apostrophe @ md_id md @ apostrophe @ '' is not '' @ article @ '' '' @ endpoint
                      @ '' model (endpoint='' @ shown @ ''). Configure endpoint='' @ apostrophe @ endpoint @ apostrophe
                      @ '' on a dedicated logical model.''),
        (''type'', ''invalid_request_error''), (''code'', ''wrong_endpoint'')]"

definition endpoint_model ::
    "(json \<Rightarrow> string) \<Rightarrow> gateway_config \<Rightarrow> api_key_config option \<Rightarrow> jobj \<Rightarrow> string \<Rightarrow> string \<Rightarrow> (model_config \<Rightarrow> string)
     \<Rightarrow> py_error + (reply + model_config)"
where
  "endpoint_model py_str cfg key body article endpoint shown =
     (case check_model_allowlist py_str cfg key body of
        Inl e \<Rightarrow> Inl e
      | Inr (Some rejected) \<Rightarrow> Inr (Inl rejected)
      | Inr None \<Rightarrow>
          (let requested = get_or_empty body ''model''
           in case Option.bind (as_str requested) (model_by_id cfg) of
                None \<Rightarrow> Inr (Inl (api_not_found (str_of py_str requested)))
              | Some md \<Rightarrow>
                  if \<not> md_enabled md then Inr (Inl (api_not_found (str_of py_str requested)))
                  else if md_endpoint md \<noteq> endpoint then Inr (Inl (wrong_endpoint article endpoint (shown md) md))
                  else Inr (Inr md)))"

text \<open>The request as the shared operations see it; there is no response cache on these endpoints.\<close>

definition api_request_of ::
    "runtime \<Rightarrow> model_config \<Rightarrow> api_key_config option \<Rightarrow> string \<Rightarrow> jobj \<Rightarrow> int option \<Rightarrow> int option \<Rightarrow> string option \<Rightarrow> prepared"
where
  "api_request_of rt md key request_id request_body max_tokens input_tokens cache_key =
     \<lparr>pq_model = Some md, pq_logical = md_id md, pq_routable = True,
      pq_end_user = nonempty (as_str (jget request_body ''user'')),
      pq_prefs = prefs_from_request (rt_py_str rt) (Some request_body),
      pq_upstream = strip_gateway_fields (apply_default_params request_body (md_default_params md)),
      pq_max_tokens = max_tokens, pq_use_cache = False, pq_cache_key = cache_key, pq_input_tokens = input_tokens,
      pq_cache_fp = None, pq_api_key_id = key_id key, pq_request_id = Some request_id\<rparr>"

definition api_candidates :: "runtime \<Rightarrow> gateway_config \<Rightarrow> prepared \<Rightarrow> gateway \<Rightarrow> selected_backend list \<times> gateway" where
  "api_candidates rt cfg rq g =
     (let (backends, w) = select_backends (rt_env rt) cfg (pq_logical rq) (pq_max_tokens rq) (pq_input_tokens rq)
                            (pq_prefs rq) (pq_cache_key rq) (gt_world g)
      in (backends, g\<lparr>gt_world := w\<rparr>))"

definition request_id_of :: "prepared \<Rightarrow> string" where
  "request_id_of rq = (case pq_request_id rq of None \<Rightarrow> [] | Some r \<Rightarrow> r)"

section \<open>The loop over the backends\<close>

definition api_call ::
    "runtime \<Rightarrow> prepared \<Rightarrow> string \<Rightarrow> selected_backend \<Rightarrow> nat \<Rightarrow> gateway \<Rightarrow> provider_result \<times> gateway" where
  "api_call rt rq path sel n g =
     (let g1 = wait_attempt rt n (begin_attempt sel g);
          (result, limits) = call_provider (rt_codec rt) (rt_parse_float rt) (rt_text_of rt) (rt_post rt n)
                               (rt_clock rt n) (rt_latency rt n) (sl_provider sel) (sel_m sel) (pq_upstream rq) False
                               path (wd_limits (gt_world g1))
      in (result, end_attempt sel (set_limits limits g1)))"

text \<open>\<open>stats.record_success\<close> and the circuit of an answered call.\<close>

definition api_success :: "runtime \<Rightarrow> selected_backend \<Rightarrow> nat \<Rightarrow> int \<Rightarrow> int option \<Rightarrow> gateway \<Rightarrow> gateway" where
  "api_success rt sel n latency ttft g =
     (let g1 = on_stats (\<lambda>s. record_success s (rt_wall rt) (sel_p sel) (sel_m sel) (Some latency) ttft) g
      in set_circuits (snd (record_outcome (wd_circuits (gt_world g1)) (rt_clock rt n) (rt_wall rt)
                              (sel_p sel) (sel_m sel) True None)) g1)"

fun try_api ::
    "runtime \<Rightarrow> prepared \<Rightarrow> string \<Rightarrow> (selected_backend \<Rightarrow> nat \<Rightarrow> provider_result \<Rightarrow> gateway \<Rightarrow> reply \<times> gateway)
     \<Rightarrow> nat \<Rightarrow> string list \<Rightarrow> selected_backend list \<Rightarrow> gateway \<Rightarrow> (py_error + reply) \<times> gateway"
where
  "try_api rt rq path deliver n errors [] g =
     (Inr (api_all_failed (request_id_of rq) (pq_logical rq) errors), g)"
| "try_api rt rq path deliver n errors (sel # sels) g =
     (let (result, g1) = api_call rt rq path sel n g
      in if rs_success result then (let (reply, g2) = deliver sel n result g1 in (Inr reply, g2))
         else case note_failure rt rq sel n (rs_status_code result) (rs_error result) (rs_latency_ms result) None False g1 of
                (Some e, g2) \<Rightarrow> (Inl e, g2)
              | (None, g2) \<Rightarrow>
                  if \<not> rs_retryable result then (Inr (api_failed (request_id_of rq) result), g2)
                  else try_api rt rq path deliver (n + 1)
                         (errors @ [attempt_error sel (error_text (rs_error result))]) sels g2)"

section \<open>Lemmas\<close>

lemma reply_status [simp]:
  "rp_status (error_reply st fs) = st" "rp_status (tagged rid r) = rp_status r"
  by (simp_all add: error_reply_def json_reply_def tagged_def)

lemma api_call_keeps [simp]: "gt_usage (snd (api_call rt rq path sel n g)) = gt_usage g"
  by (simp add: api_call_def Let_def split_beta)

lemma api_success_keeps [simp]:
  "gt_usage (api_success rt sel n lat t g) = gt_usage g" "open_on k (api_success rt sel n lat t g) = open_on k g"
  by (simp_all add: api_success_def Let_def open_on_stats)

lemma api_call_status:
  "api_call rt rq path sel n g = (result, g1) \<Longrightarrow> \<not> rs_success result \<Longrightarrow> rs_status_code result \<noteq> 200"
  by (auto simp: api_call_def Let_def split_beta call_provider_failure)

lemma open_on_api_call:
  "others_balanced rt \<Longrightarrow> api_call rt rq path sel n g = (result, g1) \<Longrightarrow> open_on k g1 = open_on k g"
  by (auto simp: api_call_def Let_def split_beta open_on_end open_on_wait open_on_begin)

text \<open>\<open>billed rq row\<close>: the row names the key, the model and the id of the request.\<close>

definition billed :: "prepared \<Rightarrow> usage_row \<Rightarrow> bool" where
  "billed rq row \<longleftrightarrow>
     ur_api_key_id row = pq_api_key_id rq \<and> ur_logical_model row = pq_logical rq \<and> ur_request_id row = pq_request_id rq
     \<and> ur_end_user row = pq_end_user rq \<and> \<not> ur_is_probe row"

lemma billed_failure [simp]: "billed rq (failure_row rt rq sel e l t b)"
  by (simp add: billed_def failure_row_def request_row_def default_row_def)

text \<open>
  The contract of an acceptance: it answers 200 in the name of the backend, and writes one row of success for
  that backend and this request, and nothing else.
\<close>

locale acceptance =
  fixes rq :: prepared and deliver :: "selected_backend \<Rightarrow> nat \<Rightarrow> provider_result \<Rightarrow> gateway \<Rightarrow> reply \<times> gateway"
  assumes accept_row: "\<exists>row. gt_usage (snd (deliver sel n result g)) = gt_usage g @ [row] \<and> row_backend row = sel_key sel
              \<and> ur_success row \<and> billed rq row"
    and accept_status: "rp_status (fst (deliver sel n result g)) = 200"
    and accept_header: "dget (rp_headers (fst (deliver sel n result g))) ''X-Provider'' = Some (sel_p sel)"
    and accept_open: "open_on k (snd (deliver sel n result g)) = open_on k g"
begin

lemma attempts_ok_accept: "row_backend row = sel_key sel \<Longrightarrow> ur_success row \<Longrightarrow> attempts_ok (sel # sels) [row] True"
  by (simp add: attempts_ok_def)

lemma row_provider: "row_backend row = sel_key sel \<Longrightarrow> ur_provider row = sel_p sel"
  by (simp add: row_backend_def sel_key_def sel_p_def)

lemma try_rows:
  "try_api rt rq path deliver n errors sels g = (Inr r, g') \<Longrightarrow>
   \<exists>rows. gt_usage g' = gt_usage g @ rows \<and> attempts_ok sels rows (rp_status r = 200)
     \<and> (rp_status r = 200 \<longrightarrow> dget (rp_headers r) ''X-Provider'' = Some (ur_provider (last rows)))
     \<and> (\<forall>row\<in>set rows. billed rq row) \<and> (sels \<noteq> [] \<longrightarrow> rows \<noteq> [])"
proof (induction sels arbitrary: n errors g)
  case Nil
  then show ?case by (auto simp: api_all_failed_def attempts_ok_Nil)
next
  case (Cons sel sels)
  obtain result g1 where call: "api_call rt rq path sel n g = (result, g1)"
    by (cases "api_call rt rq path sel n g")
  have g1: "gt_usage g1 = gt_usage g" using api_call_keeps [of rt rq path sel n g] by (simp add: call)
  show ?case
  proof (cases "rs_success result")
    case True
    then have "r = fst (deliver sel n result g1)" "g' = snd (deliver sel n result g1)"
      using Cons.prems by (auto simp: call split_beta)
    with accept_row [of sel n result g1] accept_status [of sel n result g1] accept_header [of sel n result g1]
    show ?thesis by (auto simp: g1 row_provider intro: attempts_ok_accept)
  next
    case False
    obtain e g2 where fail: "note_failure rt rq sel n (rs_status_code result) (rs_error result)
        (rs_latency_ms result) None False g1 = (e, g2)" by fastforce
    have e: "e = None" using Cons.prems False call fail by (auto split: option.splits)
    note rows = note_failure_row [OF fail [unfolded e]]
    let ?row = "failure_row rt rq sel (rs_error result) (rs_latency_ms result) None False"
    show ?thesis
    proof (cases "rs_retryable result")
      case True
      with Cons.prems False call fail e
      have "try_api rt rq path deliver (n + 1) (errors @ [attempt_error sel (error_text (rs_error result))]) sels g2 = (Inr r, g')"
        by simp
      from Cons.IH [OF this] obtain rows' where r: "gt_usage g' = gt_usage g2 @ rows'" "attempts_ok sels rows' (rp_status r = 200)"
          "rp_status r = 200 \<longrightarrow> dget (rp_headers r) ''X-Provider'' = Some (ur_provider (last rows'))"
          "\<forall>row\<in>set rows'. billed rq row" by blast
      moreover have "rows' \<noteq> []" if "rp_status r = 200" using r(2) that by (simp add: attempts_ok_def)
      ultimately show ?thesis
        by (auto simp: rows g1 intro!: exI [of _ "?row # rows'"] attempts_ok_Cons)
    next
      case nr: False
      with Cons.prems False call fail e have r: "g' = g2" "rp_status r \<noteq> 200"
        using api_call_status [OF call False] by (auto simp: api_failed_def split: if_splits)
      then show ?thesis by (auto simp: rows g1 attempts_ok_last intro!: exI [of _ "[?row]"])
    qed
  qed
qed

lemma try_balanced:
  "others_balanced rt \<Longrightarrow> open_on k (snd (try_api rt rq path deliver n errors sels g)) = open_on k g"
proof (induction sels arbitrary: n errors g)
  case (Cons sel sels)
  obtain result g1 where call: "api_call rt rq path sel n g = (result, g1)"
    by (cases "api_call rt rq path sel n g")
  have g1: "open_on k g1 = open_on k g" by (rule open_on_api_call [OF Cons.prems call])
  show ?case
    using Cons.IH [OF Cons.prems] accept_open [of k sel n result g1]
    by (auto simp: call g1 split_beta open_on_note_failure [OF surjective_pairing] split: option.splits)
qed simp

end

end
