(* ===== verification/Embeddings.thy ===== *)
theory Embeddings
  imports Endpoints
begin

text \<open>
  The embeddings endpoint (\<^verbatim>\<open>src/localgateway/endpoints/embeddings.py\<close>): cost is the total number of
  tokens times the input price, and nothing is streamed.
\<close>

text \<open>\<open>a or b\<close> of two optional integers.\<close>

definition token_or :: "int option \<Rightarrow> int option \<Rightarrow> int option" where
  "token_or a b = (case a of Some i \<Rightarrow> if i = 0 then b else a | None \<Rightarrow> b)"

definition extract_embedding_tokens :: "codec \<Rightarrow> bytes \<Rightarrow> int option" where
  "extract_embedding_tokens cd body =
     (case Option.bind (cd_loads_bytes cd body) as_obj of
        None \<Rightarrow> None
      | Some data \<Rightarrow>
          (case as_obj (jget data ''usage'') of
             None \<Rightarrow> None
           | Some usage \<Rightarrow> as_int (py_or (jget usage ''total_tokens'') (jget usage ''prompt_tokens''))))"

definition embedding_tokens :: "runtime \<Rightarrow> prepared \<Rightarrow> provider_result \<Rightarrow> int option" where
  "embedding_tokens rt rq result =
     token_or (extract_embedding_tokens (rt_codec rt) (rs_body result))
       (token_or (su_input (rs_usage result)) (pq_input_tokens rq))"

definition embedding_row :: "runtime \<Rightarrow> gateway_config \<Rightarrow> prepared \<Rightarrow> selected_backend \<Rightarrow> provider_result \<Rightarrow> usage_row" where
  "embedding_row rt cfg rq sel result =
     (let tokens = embedding_tokens rt rq result
      in (request_row rt rq (sel_p sel) (sel_m sel) True False)
           \<lparr>ur_input := tokens, ur_output := Some 0,
            ur_cost := map_option (\<lambda>t. of_int t * pr_input (pricing_for cfg (sel_p sel) (sel_m sel))) tokens,
            ur_latency_ms := Some (rs_latency_ms result)\<rparr>)"

definition accept_embeddings ::
    "runtime \<Rightarrow> gateway_config \<Rightarrow> prepared \<Rightarrow> selected_backend \<Rightarrow> nat \<Rightarrow> provider_result \<Rightarrow> gateway \<Rightarrow> reply \<times> gateway"
where
  "accept_embeddings rt cfg rq sel n result g =
     (\<lparr>rp_status = 200, rp_headers = route_headers (sel_p sel) (sel_m sel) (sl_reason sel) (pq_request_id rq),
       rp_body = Raw_body (rs_body result)\<rparr>,
      add_row (embedding_row rt cfg rq sel result) (api_success rt sel n (rs_latency_ms result) None g))"

definition embedding_input_tokens :: "runtime \<Rightarrow> gateway_config \<Rightarrow> jobj \<Rightarrow> int option" where
  "embedding_input_tokens rt cfg body =
     count_embedding_input (rt_encoder rt)
       (if sv_tokenizer (gw_server cfg) = [] then ''auto'' else sv_tokenizer (gw_server cfg)) (jget body ''input'')"

definition create_embeddings ::
    "chat_env \<Rightarrow> gateway_config \<Rightarrow> api_key_config option \<Rightarrow> web_request \<Rightarrow> jobj \<Rightarrow> gateway \<Rightarrow> (py_error + reply) \<times> gateway"
where
  "create_embeddings e cfg key req body g =
     (let rt = ce_runtime e
      in case endpoint_model (rt_py_str rt) cfg key body ''an'' ''embeddings'' (\<lambda>_. ''chat'') of
           Inl err \<Rightarrow> (Inl err, g)
         | Inr (Inl refusal) \<Rightarrow> (Inr refusal, g)
         | Inr (Inr md) \<Rightarrow>
             (let request_id = resolve_request_id (ce_fresh e) (ce_wide_alnum e) (dget (wq_headers req) ''x-request-id'');
                  rq = api_request_of rt md key request_id body None (embedding_input_tokens rt cfg body) None;
                  (backends, g1) = api_candidates rt cfg rq g
              in if backends = [] then (Inr (tagged request_id (api_not_found (md_id md))), g1)
                 else try_api rt rq ''/embeddings'' (accept_embeddings rt cfg rq) 0 [] backends g1))"

section \<open>Lemmas\<close>

lemma embedding_row_fields [simp]:
  "billed rq (embedding_row rt cfg rq sel result)"
  "row_backend (embedding_row rt cfg rq sel result) = sel_key sel" "ur_success (embedding_row rt cfg rq sel result)"
  by (simp_all add: embedding_row_def request_row_def default_row_def row_backend_def sel_key_def sel_p_def sel_m_def Let_def
      billed_def)

interpretation embeddings: acceptance rq "accept_embeddings rt cfg rq" for rt cfg rq
  by unfold_locales (simp_all add: accept_embeddings_def route_headers_provider)

lemma usage_candidates [simp]: "gt_usage (snd (api_candidates rt cfg rq g)) = gt_usage g"
  by (simp add: api_candidates_def split_beta)

section \<open>Properties\<close>

text \<open>
  C38. An embeddings request that reaches the selection is accounted for in full: the candidates are those the
  selection gives for its model, input and preferences; they are tried in that order, one row per attempt, only the
  last of which can be a success; there is a row if there is a candidate; status 200 means exactly that the last row is a
  success, and then the answer names its backend; and every row bears the key and the model of the request and its id.
\<close>

theorem embeddings_accounted:
  assumes "endpoint_model (rt_py_str (ce_runtime e)) cfg key body ''an'' ''embeddings'' (\<lambda>_. ''chat'') = Inr (Inr md)"
    and "rid = resolve_request_id (ce_fresh e) (ce_wide_alnum e) (dget (wq_headers req) ''x-request-id'')"
    and "select_backends (rt_env (ce_runtime e)) cfg (md_id md) None (embedding_input_tokens (ce_runtime e) cfg body)
           (prefs_from_request (rt_py_str (ce_runtime e)) (Some body)) None (gt_world g) = (sels, w)"
    and "create_embeddings e cfg key req body g = (Inr r, g')"
  shows "\<exists>rows. gt_usage g' = gt_usage g @ rows \<and> attempts_ok sels rows (rp_status r = 200) \<and> (sels \<noteq> [] \<longrightarrow> rows \<noteq> [])
     \<and> (rp_status r = 200 \<longrightarrow> dget (rp_headers r) ''X-Provider'' = Some (ur_provider (last rows)))
     \<and> (\<forall>row\<in>set rows. ur_api_key_id row = key_id key \<and> ur_logical_model row = md_id md \<and> ur_request_id row = Some rid)"
proof -
  define rq where "rq = api_request_of (ce_runtime e) md key rid body None
      (embedding_input_tokens (ce_runtime e) cfg body) None"
  have rq: "pq_api_key_id rq = key_id key" "pq_request_id rq = Some rid" "pq_logical rq = md_id md"
    by (simp_all add: rq_def api_request_of_def)
  have sel: "api_candidates (ce_runtime e) cfg rq g = (sels, g\<lparr>gt_world := w\<rparr>)"
    using assms(3) by (simp add: api_candidates_def rq_def api_request_of_def)
  have run: "(if sels = [] then (Inr (tagged rid (api_not_found (md_id md))), g\<lparr>gt_world := w\<rparr>)
               else try_api (ce_runtime e) rq ''/embeddings'' (accept_embeddings (ce_runtime e) cfg rq) 0 [] sels (g\<lparr>gt_world := w\<rparr>))
              = (Inr r, g')"
    using assms(1,4) sel
    by (cases "sels = []") (simp_all add: create_embeddings_def Let_def rq_def [symmetric] assms(2) [symmetric])
  show ?thesis
  proof (cases "sels = []")
    case True
    with run show ?thesis by (intro exI [of _ "[]"]) (auto simp: attempts_ok_Nil api_not_found_def)
  next
    case False
    with run have "try_api (ce_runtime e) rq ''/embeddings'' (accept_embeddings (ce_runtime e) cfg rq) 0 [] sels
        (g\<lparr>gt_world := w\<rparr>) = (Inr r, g')" by simp
    from embeddings.try_rows [OF this] show ?thesis
      by (auto simp: rq billed_def)
  qed
qed

text \<open>A gateway with one embeddings model and two backends, the first of which times out.\<close>

definition embedding_model :: model_config where
  "embedding_model = (default_model ''e'' [demo_backend ''a'' 1 1, demo_backend ''b'' 2 1])\<lparr>md_endpoint := ''embeddings''\<rparr>"

definition embedding_gateway :: gateway_config where
  "embedding_gateway = (demo_config ''failover'' False [])\<lparr>gw_models := [embedding_model]\<rparr>"

definition embedding_body :: jobj where
  "embedding_body = [(''model'', JStr ''e'')]"

definition embedding_candidates :: "selected_backend list" where
  "embedding_candidates =
     [(new_selected (default_provider ''a'' [], demo_backend ''a'' 1 1))\<lparr>sl_reason := tier_label 1\<rparr>,
      (new_selected (default_provider ''b'' [], demo_backend ''b'' 2 1))\<lparr>sl_reason := tier_label 2\<rparr>]"

lemma embedding_selection:
  obtains w where "select_backends demo_env embedding_gateway ''e'' None it None None demo_world = (embedding_candidates, w)"
    and "\<not> cb_enabled (wd_circuits w)"
proof -
  obtain out w where run: "select_backends demo_env embedding_gateway ''e'' None it None None demo_world = (out, w)" by fastforce
  have "fst (select_backends demo_env embedding_gateway ''e'' None it None None demo_world) = embedding_candidates
      \<and> \<not> cb_enabled (wd_circuits (snd (select_backends demo_env embedding_gateway ''e'' None it None None demo_world)))"
    by (simp add: embedding_gateway_def embedding_model_def embedding_candidates_def emission_defs sort_suffix_def Let_def
        split: option.split)
  with run that show thesis by simp
qed

lemma embedding_timeout:
  "is_ascii (pv_api_key (sl_provider sel)) \<Longrightarrow>
   \<exists>g1. api_call demo_runtime rq path sel 0 g = (failed_result (sl_provider sel) (sel_m sel) 0 [] ''timeout'' 7 True, g1)
      \<and> wd_circuits (gt_world g1) = wd_circuits (gt_world g)"
  by (simp add: api_call_def split_beta Let_def demo_runtime_def call_provider_def provider_headers_def
      validated_api_key_def end_attempt_def begin_attempt_def on_stats_def set_limits_def wait_attempt_def)

lemma embedding_success:
  "is_ascii (pv_api_key (sl_provider sel)) \<Longrightarrow>
   \<exists>res g1. api_call demo_runtime rq path sel 1 g = (res, g1) \<and> rs_success res"
  by (simp add: api_call_def split_beta Let_def demo_runtime_def call_provider_def provider_headers_def
      validated_api_key_def demo_answer_def)

theorem embeddings_accounted_witness:
  "\<exists>r g' rows. create_embeddings (chat_demo_env demo_gate_env) embedding_gateway None api_request embedding_body demo_gateway
            = (Inr r, g')
     \<and> rp_status r = 200 \<and> gt_usage g' = gt_usage demo_gateway @ rows \<and> length rows = 2 \<and> ur_provider (last rows) = ''b''"
proof -
  let ?e = "chat_demo_env demo_gate_env" and ?a = "hd embedding_candidates" and ?b = "embedding_candidates ! 1"
  have rt: "ce_runtime ?e = demo_runtime" by (simp add: chat_demo_env_def)
  have model: "endpoint_model (rt_py_str (ce_runtime ?e)) embedding_gateway None embedding_body ''an'' ''embeddings'' (\<lambda>_. ''chat'')
      = Inr (Inr embedding_model)"
    by (simp add: endpoint_model_def check_model_allowlist_def get_or_empty_def embedding_gateway_def embedding_body_def
        model_by_id_def embedding_model_def default_model_def demo_config_def default_gateway_def Let_def jget_def)
  obtain w where sel: "select_backends demo_env embedding_gateway ''e'' None
        (embedding_input_tokens demo_runtime embedding_gateway embedding_body) None None demo_world = (embedding_candidates, w)"
      and off: "\<not> cb_enabled (wd_circuits w)"
    by (rule embedding_selection)
  have prefs: "prefs_from_request py_str (Some embedding_body) = None" for py_str
    by (simp add: prefs_from_request_def embedding_body_def jget_def)
  define rid where "rid = resolve_request_id (ce_fresh ?e) (ce_wide_alnum ?e) (dget (wq_headers api_request) ''x-request-id'')"
  define rq where "rq = api_request_of demo_runtime embedding_model None rid embedding_body None
      (embedding_input_tokens demo_runtime embedding_gateway embedding_body) None"
  let ?g = "demo_gateway\<lparr>gt_world := w\<rparr>"
  have cands: "api_candidates demo_runtime embedding_gateway rq demo_gateway = (embedding_candidates, ?g)"
    using sel by (simp add: api_candidates_def rq_def api_request_of_def prefs embedding_model_def default_model_def
        demo_runtime_def demo_gateway_def)
  have ascii: "is_ascii (pv_api_key (sl_provider ?a))" "is_ascii (pv_api_key (sl_provider ?b))"
    by (simp_all add: embedding_candidates_def new_selected_def default_provider_def is_ascii_def)
  have c: "embedding_candidates = [?a, ?b]" by (simp add: embedding_candidates_def)
  obtain g1 where a1: "api_call demo_runtime rq ''/embeddings'' ?a 0 ?g
        = (failed_result (sl_provider ?a) (sel_m ?a) 0 [] ''timeout'' 7 True, g1)"
      and "wd_circuits (gt_world g1) = wd_circuits w"
    using embedding_timeout [OF ascii(1), of rq "''/embeddings''" ?g] by auto
  with off obtain g2 where f: "note_failure demo_runtime rq ?a 0 0 (Some ''timeout'') 7 None False g1 = (None, g2)"
    using note_failure_disabled [of g1] by (metis prod.collapse)
  obtain res g3 where a2: "api_call demo_runtime rq ''/embeddings'' ?b 1 g2 = (res, g3)" "rs_success res"
    using embedding_success [OF ascii(2)] by blast
  define r where "r = fst (accept_embeddings demo_runtime embedding_gateway rq ?b 1 res g3)"
  define g' where "g' = snd (accept_embeddings demo_runtime embedding_gateway rq ?b 1 res g3)"
  have "try_api demo_runtime rq ''/embeddings'' (accept_embeddings demo_runtime embedding_gateway rq) 0 [] embedding_candidates ?g
      = (Inr r, g')"
    using a2 by (subst c) (simp add: a1 f failed_result_def r_def g'_def split_beta)
  moreover have "embedding_candidates \<noteq> []" by (simp add: embedding_candidates_def)
  ultimately have run: "create_embeddings ?e embedding_gateway None api_request embedding_body demo_gateway = (Inr r, g')"
    using model cands by (simp add: create_embeddings_def Let_def rt rid_def [symmetric] rq_def [symmetric])
  have r: "rp_status r = 200" "dget (rp_headers r) ''X-Provider'' = Some ''b''"
    by (simp_all add: r_def accept_embeddings_def route_headers_provider)
       (simp add: embedding_candidates_def sel_p_def new_selected_def default_provider_def)
  from embeddings_accounted [OF model rid_def _ run, of embedding_candidates w] sel r
  obtain rows where rows: "gt_usage g' = gt_usage demo_gateway @ rows" "attempts_ok embedding_candidates rows True"
      "rows \<noteq> []" "ur_provider (last rows) = ''b''"
    by (auto simp: rt prefs embedding_model_def default_model_def demo_runtime_def demo_gateway_def embedding_candidates_def)
  have "length rows = 2"
  proof -
    have "map row_backend rows = take (length rows) [sel_key ?a, sel_key ?b]"
      using rows(2) c by (metis attempts_ok_def list.simps(8,9))
    moreover have "sel_key ?a = (''a'', ''m'')"
      by (simp add: sel_key_def embedding_candidates_def new_selected_def default_provider_def demo_backend_def
          default_backend_def)
    ultimately show ?thesis
      using rows(3,4) by (cases rows; cases "tl rows"; cases "tl (tl rows)") (auto simp: row_backend_def)
  qed
  with run r rows show ?thesis by blast
qed

end
