(* ===== verification/Responses.thy ===== *)
theory Responses
  imports Embeddings
begin

text \<open>
  The responses endpoint (\<^verbatim>\<open>src/localgateway/endpoints/responses.py\<close>), plain and streamed.  A stream
  is passed on chunk by chunk; a tracker reads the usage from its terminal event.  The tracker's clock
  reading at the first delta is \<open>rt_first_ms\<close>.
\<close>

section \<open>Usage\<close>

text \<open>\<open>input_tokens\<close> and \<open>output_tokens\<close> of a usage object, where they are integers.\<close>

definition read_usage :: "jobj \<Rightarrow> stream_usage \<Rightarrow> stream_usage" where
  "read_usage u out =
     out\<lparr>su_input := (case as_int (jget u ''input_tokens'') of None \<Rightarrow> su_input out | Some i \<Rightarrow> Some i),
         su_output := (case as_int (jget u ''output_tokens'') of None \<Rightarrow> su_output out | Some i \<Rightarrow> Some i)\<rparr>"

definition extract_responses_usage :: "codec \<Rightarrow> bytes \<Rightarrow> stream_usage" where
  "extract_responses_usage cd body =
     (case Option.bind (Option.bind (cd_loads_bytes cd body) as_obj) (\<lambda>data. as_obj (jget data ''usage'')) of
        None \<Rightarrow> no_usage
      | Some u \<Rightarrow> read_usage u no_usage)"

record tracker =
  tk_parser :: bytes
  tk_usage :: stream_usage
  tk_ttft :: "int option"

definition new_tracker :: tracker where
  "new_tracker = \<lparr>tk_parser = [], tk_usage = no_usage, tk_ttft = None\<rparr>"

definition terminal_types :: "json list" where
  "terminal_types = [JStr ''response.completed'', JStr ''response.incomplete'']"

definition track_event :: "codec \<Rightarrow> int \<Rightarrow> sse_event \<Rightarrow> tracker \<Rightarrow> tracker" where
  "track_event cd elapsed ev tk =
     (if ev_done ev then tk
      else case Option.bind (cd_loads cd (ev_data ev)) as_obj of
             None \<Rightarrow> tk
           | Some obj \<Rightarrow>
               if jget obj ''type'' = JStr ''response.output_text.delta'' \<and> tk_ttft tk = None
               then tk\<lparr>tk_ttft := Some elapsed\<rparr>
               else if jget obj ''type'' \<in> set terminal_types
               then (case Option.bind (as_obj (jget obj ''response'')) (\<lambda>resp. as_obj (jget resp ''usage'')) of
                       None \<Rightarrow> tk
                     | Some u \<Rightarrow> tk\<lparr>tk_usage := read_usage u (tk_usage tk)\<rparr>)
               else tk)"

definition track_chunk :: "codec \<Rightarrow> int \<Rightarrow> bytes \<Rightarrow> tracker \<Rightarrow> tracker" where
  "track_chunk cd elapsed chunk tk =
     (let (evs, buf) = feed cd (tk_parser tk) chunk
      in fold (track_event cd elapsed) evs (tk\<lparr>tk_parser := buf\<rparr>))"

definition track_flush :: "codec \<Rightarrow> int \<Rightarrow> tracker \<Rightarrow> tracker" where
  "track_flush cd elapsed tk =
     (let (ev, buf) = flush cd (tk_parser tk); tk1 = tk\<lparr>tk_parser := buf\<rparr>
      in case ev of None \<Rightarrow> tk1 | Some e \<Rightarrow> track_event cd elapsed e tk1)"

section \<open>A plain request\<close>

definition responses_row :: "runtime \<Rightarrow> gateway_config \<Rightarrow> prepared \<Rightarrow> selected_backend \<Rightarrow> provider_result \<Rightarrow> usage_row" where
  "responses_row rt cfg rq sel result =
     (let u = extract_responses_usage (rt_codec rt) (rs_body result); inp = token_or (su_input u) (pq_input_tokens rq)
      in (request_row rt rq (sel_p sel) (sel_m sel) True False)
           \<lparr>ur_input := inp, ur_output := su_output u,
            ur_cost := compute_cost cfg (sel_p sel) (sel_m sel) inp (su_output u) None None,
            ur_latency_ms := Some (rs_latency_ms result)\<rparr>)"

definition accept_responses ::
    "runtime \<Rightarrow> gateway_config \<Rightarrow> prepared \<Rightarrow> selected_backend \<Rightarrow> nat \<Rightarrow> provider_result \<Rightarrow> gateway \<Rightarrow> reply \<times> gateway"
where
  "accept_responses rt cfg rq sel n result g =
     (\<lparr>rp_status = 200, rp_headers = route_headers (sel_p sel) (sel_m sel) (sl_reason sel) (pq_request_id rq),
       rp_body = Raw_body (rs_body result)\<rparr>,
      add_row (responses_row rt cfg rq sel result) (api_success rt sel n (rs_latency_ms result) None g))"

section \<open>A streamed request\<close>

definition responses_stream_row ::
    "runtime \<Rightarrow> gateway_config \<Rightarrow> prepared \<Rightarrow> selected_backend \<Rightarrow> int \<Rightarrow> tracker \<Rightarrow> usage_row" where
  "responses_stream_row rt cfg rq sel latency tk =
     (let u = tk_usage tk
      in (request_row rt rq (sel_p sel) (sel_m sel) True True)
           \<lparr>ur_input := su_input u, ur_output := su_output u,
            ur_cost := compute_cost cfg (sel_p sel) (sel_m sel) (su_input u) (su_output u) None None,
            ur_latency_ms := Some latency, ur_ttft_ms := tk_ttft tk\<rparr>)"

definition first_headers :: "prepared \<Rightarrow> selected_backend \<Rightarrow> bool \<Rightarrow> stream_item list" where
  "first_headers rq sel committed =
     (if committed then []
      else [Meta_headers (route_headers (sel_p sel) (sel_m sel) (sl_reason sel) (pq_request_id rq))])"

text \<open>
  The loop over the events of one attempt; \<open>Next\<close> goes on with the next backend.  The result says too
  whether the headers are out.
\<close>

fun responses_consume ::
    "runtime \<Rightarrow> gateway_config \<Rightarrow> prepared \<Rightarrow> selected_backend \<Rightarrow> nat \<Rightarrow> stream_event list \<Rightarrow> tracker \<Rightarrow> bool \<Rightarrow> gateway
     \<Rightarrow> stream_item list \<times> attempt_end \<times> bool \<times> gateway"
where
  "responses_consume rt cfg rq sel n [] tk committed g = ([], Next [], committed, g)"
| "responses_consume rt cfg rq sel n (Stream_chunk data # evs) tk committed g =
     (let (items, r) = responses_consume rt cfg rq sel n evs (track_chunk (rt_codec rt) (rt_first_ms rt n) data tk) True g
      in (first_headers rq sel committed @ Body data # items, r))"
| "responses_consume rt cfg rq sel n (Stream_done u latency ttft sent_done # evs) tk committed g =
     (let tk1 = track_flush (rt_codec rt) (rt_first_ms rt n) tk;
          g1 = api_success rt sel n latency (tk_ttft tk1) g;
          g2 = on_stats (\<lambda>s. record_cache_activity s (rt_wall rt) (sel_p sel) (sel_m sel) (pq_cache_key rq)
                               (su_cached (tk_usage tk1)) (su_cache_write (tk_usage tk1)) (su_input (tk_usage tk1))
                               (bk_cache_supported (sl_backend sel))) g1
      in (first_headers rq sel committed, Finished, True,
          add_row (responses_stream_row rt cfg rq sel latency tk1) g2))"
| "responses_consume rt cfg rq sel n (Stream_failed error status retryable mid_stream # evs) tk committed g =
     (if mid_stream
      then ([Body (error_sse (rt_codec rt) error ''stream_error'')], Finished, committed, g)
      else case note_failure rt rq sel n status (Some error) (rt_latency rt n) None True g of
             (Some e, g1) \<Rightarrow> ([], Raised e, committed, g1)
           | (None, g1) \<Rightarrow>
               if retryable then ([], Next (attempt_error sel error), committed, g1)
               else if \<not> committed
               then ([Meta_error (error_obj (if error = [] then ''Unknown error'' else error) ''api_error''
                                    (''http_'' @ int_str status)) (if status = 0 then 502 else status)],
                     Finished, committed, g1)
               else ([Body (error_sse (rt_codec rt) error (''http_'' @ int_str status))], Finished, committed, g1))"

definition responses_attempt ::
    "runtime \<Rightarrow> gateway_config \<Rightarrow> prepared \<Rightarrow> selected_backend \<Rightarrow> nat \<Rightarrow> bool \<Rightarrow> gateway
     \<Rightarrow> stream_item list \<times> attempt_end \<times> bool \<times> gateway"
where
  "responses_attempt rt cfg rq sel n committed g =
     (let g1 = wait_attempt rt n (begin_attempt sel g);
          (events, limits) = call_provider_stream (rt_codec rt) (rt_parse_float rt) (rt_text_of rt) (rt_fmt rt)
                               (rt_open rt n) (rt_clock rt n) (rt_elapsed rt n) (rt_latency rt n) (sl_provider sel)
                               (sel_m sel) (pq_upstream rq) ''/responses'' (wd_limits (gt_world g1));
          (items, r, com, g2) = responses_consume rt cfg rq sel n events new_tracker committed (set_limits limits g1)
      in (items, r, com, end_attempt sel g2))"

definition last_error_or :: "string list \<Rightarrow> string" where
  "last_error_or errors = (if errors = [] then ''All backends failed'' else last errors)"

fun responses_backends ::
    "runtime \<Rightarrow> gateway_config \<Rightarrow> prepared \<Rightarrow> nat \<Rightarrow> string list \<Rightarrow> bool \<Rightarrow> selected_backend list \<Rightarrow> gateway
     \<Rightarrow> stream_item list \<times> py_error option \<times> gateway"
where
  "responses_backends rt cfg rq n errors committed [] g =
     (if \<not> committed
      then ([Meta_error (error_obj (last_error_or errors) ''api_error'' ''all_backends_failed'') 502], None, g)
      else ([Body (error_sse (rt_codec rt) (last_error_or errors) ''all_backends_failed'')], None, g))"
| "responses_backends rt cfg rq n errors committed (sel # sels) g =
     (let (items, r, com, g1) = responses_attempt rt cfg rq sel n committed g
      in case r of
           Finished \<Rightarrow> (items, None, g1)
         | Raised e \<Rightarrow> (items, Some e, g1)
         | Next err \<Rightarrow>
             (let (items2, r2) = responses_backends rt cfg rq (n + 1) (errors @ [err]) com sels g1
              in (items @ items2, r2)))"

section \<open>The endpoint\<close>

definition no_responses_backend :: "gateway_config \<Rightarrow> model_config \<Rightarrow> prepared \<Rightarrow> reply" where
  "no_responses_backend cfg md rq =
     (case context_too_small_error cfg (Some md) (pq_input_tokens rq) (pq_max_tokens rq) of
        Some err \<Rightarrow> tagged (request_id_of rq) (json_reply 400 (JObj [(''error'', JObj err)]))
      | None \<Rightarrow> tagged (request_id_of rq) (api_not_found (md_id md)))"

definition create_response ::
    "chat_env \<Rightarrow> gateway_config \<Rightarrow> api_key_config option \<Rightarrow> web_request \<Rightarrow> jobj \<Rightarrow> gateway \<Rightarrow> served \<times> gateway"
where
  "create_response e cfg key req body g =
     (let rt = ce_runtime e
      in case endpoint_model (rt_py_str rt) cfg key body ''a'' ''responses'' md_endpoint of
           Inl err \<Rightarrow> (Crashed err, g)
         | Inr (Inl refusal) \<Rightarrow> (Replied refusal, g)
         | Inr (Inr md) \<Rightarrow>
             (let request_id = resolve_request_id (ce_fresh e) (ce_wide_alnum e) (dget (wq_headers req) ''x-request-id'');
                  full = apply_default_params body (md_default_params md);
                  rq = api_request_of rt md key request_id body (requested_max_tokens (rt_parse_int rt) full)
                         (estimate_input_tokens (rt_encoder rt) cfg full)
                         (fingerprint (rt_sha1 rt) (rt_py_str rt) full);
                  (backends, g1) = api_candidates rt cfg rq g
              in if backends = [] then (Replied (no_responses_backend cfg md rq), g1)
                 else if truthy (jget body ''stream'')
                 then (let (items, ending, g2) = responses_backends rt cfg rq 0 [] False backends g1
                       in (reply_to_stream request_id [] (items, ending), g2))
                 else (let (r, g2) = try_api rt rq ''/responses'' (accept_responses rt cfg rq) 0 [] backends g1
                       in (case r of Inl err \<Rightarrow> Crashed err | Inr reply \<Rightarrow> Replied reply, g2))))"

section \<open>Lemmas\<close>

lemma responses_row_fields [simp]:
  "billed rq (responses_row rt cfg rq sel result)" "billed rq (responses_stream_row rt cfg rq sel latency tk)"
  "row_backend (responses_row rt cfg rq sel result) = sel_key sel" "ur_success (responses_row rt cfg rq sel result)"
  "row_backend (responses_stream_row rt cfg rq sel latency tk) = sel_key sel"
  "ur_success (responses_stream_row rt cfg rq sel latency tk)"
  by (simp_all add: responses_row_def responses_stream_row_def request_row_def default_row_def row_backend_def sel_key_def
      sel_p_def sel_m_def Let_def billed_def)

interpretation responses: acceptance rq "accept_responses rt cfg rq" for rt cfg rq
  by unfold_locales (simp_all add: accept_responses_def route_headers_provider)

text \<open>An attempt by the way it ends: what it yields, and the row it writes.\<close>

lemma consume_done:
  "responses_consume rt cfg rq sel n (map Stream_chunk cs @ [Stream_done u lat tt sd]) tk com g = (items, r, com', g') \<Longrightarrow>
   items = first_headers rq sel com @ map Body cs \<and> r = Finished
   \<and> (\<exists>row. gt_usage g' = gt_usage g @ [row] \<and> attempt_row sel row \<and> ur_success row)"
proof (induction cs arbitrary: tk com items)
  case Nil
  then show ?case by (auto simp: Let_def attempt_row_def)
next
  case (Cons c cs)
  obtain its r1 com1 g1 where rest: "responses_consume rt cfg rq sel n (map Stream_chunk cs @ [Stream_done u lat tt sd])
      (track_chunk (rt_codec rt) (rt_first_ms rt n) c tk) True g = (its, r1, com1, g1)" by (metis prod_cases4)
  with Cons.prems have eqs: "items = first_headers rq sel com @ Body c # its" "r1 = r" "com1 = com'" "g1 = g'" by auto
  from Cons.IH [OF rest [unfolded eqs(2-4)]] show ?case by (simp add: eqs(1) first_headers_def)
qed

lemma consume_broken:
  "responses_consume rt cfg rq sel n (map Stream_chunk cs @ [Stream_failed e st t True]) tk com g = (items, r, com', g') \<Longrightarrow>
   items = (if cs = [] then [] else first_headers rq sel com) @ map Body cs @ [Body (error_sse (rt_codec rt) e ''stream_error'')]
   \<and> r = Finished \<and> g' = g"
proof (induction cs arbitrary: tk com items)
  case (Cons c cs)
  obtain its r1 com1 g1 where rest: "responses_consume rt cfg rq sel n (map Stream_chunk cs @ [Stream_failed e st t True])
      (track_chunk (rt_codec rt) (rt_first_ms rt n) c tk) True g = (its, r1, com1, g1)" by (metis prod_cases4)
  with Cons.prems have eqs: "items = first_headers rq sel com @ Body c # its" "r1 = r" "com1 = com'" "g1 = g'" by auto
  from Cons.IH [OF rest [unfolded eqs(2-4)]] show ?case by (simp add: eqs(1) first_headers_def)
qed auto

lemma consume_refused:
  assumes "responses_consume rt cfg rq sel n [Stream_failed e st t False] tk False g = (items, r, com', g')" and "\<forall>x. r \<noteq> Raised x"
  shows "(\<exists>row. gt_usage g' = gt_usage g @ [row] \<and> attempt_row sel row \<and> \<not> ur_success row)
       \<and> (if t then is_next r \<and> items = [] \<and> \<not> com' else r = Finished \<and> (\<exists>obj st'. items = [Meta_error obj st']))"
  using assms by (auto simp: attempt_row_def split: if_splits option.splits prod.splits dest!: note_failure_row)

text \<open>
  The ends of a request: \<open>refused_outcome\<close> is one error with a status, \<open>complete_outcome\<close> the stream of the backend that wrote the
  last row, \<open>broken_outcome\<close> a stream that ends with the error event, of a backend that wrote no row.
\<close>

definition refused_outcome :: "stream_item list \<Rightarrow> selected_backend list \<Rightarrow> usage_row list \<Rightarrow> bool" where
  "refused_outcome items sels rows \<longleftrightarrow>
     (\<exists>obj st. items = [Meta_error obj st]) \<and> attempts_ok sels rows False \<and> (sels \<noteq> [] \<longrightarrow> rows \<noteq> [])"

definition complete_outcome :: "stream_item list \<Rightarrow> selected_backend list \<Rightarrow> usage_row list \<Rightarrow> bool" where
  "complete_outcome items sels rows \<longleftrightarrow>
     (\<exists>h cs. items = Meta_headers h # map Body cs \<and> attempts_ok sels rows True
        \<and> dget h ''X-Provider'' = Some (ur_provider (last rows)))"

definition broken_outcome :: "codec \<Rightarrow> stream_item list \<Rightarrow> selected_backend list \<Rightarrow> usage_row list \<Rightarrow> bool" where
  "broken_outcome cd items sels rows \<longleftrightarrow>
     (\<exists>e cs start. items = start @ map Body cs @ [Body (error_sse cd e ''stream_error'')]
        \<and> attempts_ok sels rows False \<and> length rows < length sels
        \<and> (if cs = [] then start = []
           else \<exists>h. start = [Meta_headers h] \<and> dget h ''X-Provider'' = Some (sel_p (sels ! length rows))))"

lemma responses_attempt_ends:
  assumes "responses_attempt rt cfg rq sel n False g = (items, r, com, g')" and "\<forall>e. r \<noteq> Raised e"
  obtains (again) row where "is_next r" "items = []" "\<not> com" "gt_usage g' = gt_usage g @ [row]" "attempt_row sel row" "\<not> ur_success row"
  | (refused) rows where "r = Finished" "gt_usage g' = gt_usage g @ rows" "refused_outcome items (sel # sels) rows"
  | (complete) rows where "r = Finished" "gt_usage g' = gt_usage g @ rows" "complete_outcome items (sel # sels) rows"
  | (broken) "r = Finished" "gt_usage g' = gt_usage g" "broken_outcome (rt_codec rt) items (sel # sels) []"
proof -
  define g1 where "g1 = wait_attempt rt n (begin_attempt sel g)"
  obtain events limits where ev: "call_provider_stream (rt_codec rt) (rt_parse_float rt) (rt_text_of rt) (rt_fmt rt)
      (rt_open rt n) (rt_clock rt n) (rt_elapsed rt n) (rt_latency rt n) (sl_provider sel) (sel_m sel)
      (pq_upstream rq) ''/responses'' (wd_limits (gt_world g1)) = (events, limits)" by fastforce
  obtain cs fin where shape: "events = map Stream_chunk cs @ [fin]" "\<not> is_chunk fin"
      "\<forall>e st t. fin = Stream_failed e st t False \<longrightarrow> cs = []"
    using upstream.shape [where q = "(rt_open rt n, sl_provider sel, sel_m sel, pq_upstream rq)", of "rt_codec rt"
        "rt_parse_float rt" "rt_text_of rt" "rt_fmt rt" "rt_clock rt n" "rt_elapsed rt n" "rt_latency rt n"
        "''/responses''" "wd_limits (gt_world g1)"] by (auto simp: ev)
  obtain g2 where c: "responses_consume rt cfg rq sel n (map Stream_chunk cs @ [fin]) new_tracker False (set_limits limits g1)
        = (items, r, com, g2)"
      and g': "g' = end_attempt sel g2"
    using assms(1) by (auto simp: responses_attempt_def Let_def ev g1_def [symmetric] shape(1) split: prod.splits)
  have usage: "gt_usage (set_limits limits g1) = gt_usage g" "gt_usage g' = gt_usage g2"
    by (simp_all add: g1_def g')
  note head = route_headers_provider first_headers_def
  show thesis
  proof (cases fin)
    case (Stream_chunk b)
    with shape(2) show thesis by (simp add: is_chunk_def)
  next
    case (Stream_done u lat tt sd)
    from consume_done [OF c [unfolded Stream_done]] obtain row where row: "items = first_headers rq sel False @ map Body cs" "r = Finished"
        "gt_usage g' = gt_usage g @ [row]" "attempt_row sel row" "ur_success row"
      using usage by auto
    from attempts_ok_row(1) [OF row(4), of sels] row(5) have "attempts_ok (sel # sels) [row] True" by simp
    moreover from row(4) have "ur_provider row = sel_p sel"
      by (simp add: attempt_row_def row_backend_def sel_key_def sel_p_def)
    ultimately have "complete_outcome items (sel # sels) [row]"
      unfolding complete_outcome_def row(1)
      by (intro exI [of _ "route_headers (sel_p sel) (sel_m sel) (sl_reason sel) (pq_request_id rq)"] exI [of _ cs])
         (simp add: head)
    with complete row(2,3) show thesis by blast
  next
    case (Stream_failed e st t mid)
    show thesis
    proof (cases mid)
      case True
      with c Stream_failed have "responses_consume rt cfg rq sel n (map Stream_chunk cs @ [Stream_failed e st t True])
          new_tracker False (set_limits limits g1) = (items, r, com, g2)" by simp
      from consume_broken [OF this]
      have "items = (if cs = [] then [] else first_headers rq sel False) @ map Body cs
              @ [Body (error_sse (rt_codec rt) e ''stream_error'')]" "r = Finished" "gt_usage g' = gt_usage g"
        using usage by simp_all
      moreover from this(1) have "broken_outcome (rt_codec rt) items (sel # sels) []"
        unfolding broken_outcome_def
        by (intro exI [of _ e] exI [of _ cs] exI [of _ "if cs = [] then [] else first_headers rq sel False"])
           (simp add: head attempts_ok_Nil)
      ultimately show thesis using broken by blast
    next
      case False
      with shape(3) Stream_failed have "cs = []" by simp
      with c Stream_failed False have "responses_consume rt cfg rq sel n [Stream_failed e st t False] new_tracker False
          (set_limits limits g1) = (items, r, com, g2)" by simp
      from consume_refused [OF this assms(2)] obtain row where row: "gt_usage g' = gt_usage g @ [row]" "attempt_row sel row"
          "\<not> ur_success row"
        and ends: "if t then is_next r \<and> items = [] \<and> \<not> com else r = Finished \<and> (\<exists>obj st'. items = [Meta_error obj st'])"
        using usage by auto
      from attempts_ok_row(1) [OF row(2), of sels] row(3) have "attempts_ok (sel # sels) [row] False" by simp
      with ends have "\<not> t \<Longrightarrow> refused_outcome items (sel # sels) [row]"
        by (auto simp: refused_outcome_def)
      then show thesis
        using again [OF _ _ _ row] refused [of "[row]"] row(1) ends by (cases t) simp_all
    qed
  qed
qed

lemma outcomes_Cons:
  assumes row: "attempt_row sel row" "\<not> ur_success row"
  shows "refused_outcome items sels rows \<Longrightarrow> refused_outcome items (sel # sels) (row # rows)"
    and "complete_outcome items sels rows \<Longrightarrow> complete_outcome items (sel # sels) (row # rows)"
    and "broken_outcome cd items sels rows \<Longrightarrow> broken_outcome cd items (sel # sels) (row # rows)"
proof -
  note more = attempts_ok_row(2) [OF row, of sels rows]
  show "refused_outcome items (sel # sels) (row # rows)" if "refused_outcome items sels rows"
    using that more by (auto simp: refused_outcome_def)
  show "complete_outcome items (sel # sels) (row # rows)" if "complete_outcome items sels rows"
  proof -
    from that obtain h cs where "items = Meta_headers h # map Body cs" "attempts_ok sels rows True"
        "dget h ''X-Provider'' = Some (ur_provider (last rows))"
      by (auto simp: complete_outcome_def)
    moreover from this(2) have "rows \<noteq> []" by (simp add: attempts_ok_def)
    ultimately show ?thesis
      using more unfolding complete_outcome_def by (intro exI [of _ h] exI [of _ cs]) simp
  qed
  show "broken_outcome cd items (sel # sels) (row # rows)" if "broken_outcome cd items sels rows"
  proof -
    from that obtain e cs start where "items = start @ map Body cs @ [Body (error_sse cd e ''stream_error'')]"
        "attempts_ok sels rows False" "length rows < length sels"
        "if cs = [] then start = []
         else \<exists>h. start = [Meta_headers h] \<and> dget h ''X-Provider'' = Some (sel_p (sels ! length rows))"
      by (auto simp: broken_outcome_def)
    with more show ?thesis
      unfolding broken_outcome_def by (intro exI [of _ e] exI [of _ cs] exI [of _ start]) simp
  qed
qed

lemma responses_backends_outcome:
  "responses_backends rt cfg rq n errors False sels g = (items, None, g') \<Longrightarrow>
   \<exists>rows. gt_usage g' = gt_usage g @ rows
     \<and> (refused_outcome items sels rows \<or> complete_outcome items sels rows \<or> broken_outcome (rt_codec rt) items sels rows)"
proof (induction sels arbitrary: n errors items g)
  case Nil
  then show ?case by (auto simp: refused_outcome_def attempts_ok_Nil)
next
  case (Cons sel sels)
  obtain its r com g1 where a: "responses_attempt rt cfg rq sel n False g = (its, r, com, g1)" by (metis prod_cases4)
  have nr: "\<forall>e. r \<noteq> Raised e" using Cons.prems a by auto
  have finished: "r = Finished \<Longrightarrow> items = its \<and> g' = g1" using Cons.prems a by auto
  show ?case
  proof (rule responses_attempt_ends [OF a nr, where sels = sels])
    fix row
    assume row: "is_next r" "its = []" "\<not> com" "gt_usage g1 = gt_usage g @ [row]" "attempt_row sel row" "\<not> ur_success row"
    then obtain e where "r = Next e" by (cases r) auto
    with Cons.prems a row
    have "responses_backends rt cfg rq (n + 1) (errors @ [e]) False sels g1 = (items, None, g')" by (auto split: prod.splits)
    from Cons.IH [OF this] obtain rows where "gt_usage g' = gt_usage g1 @ rows"
      "refused_outcome items sels rows \<or> complete_outcome items sels rows \<or> broken_outcome (rt_codec rt) items sels rows" by blast
    with row(4) outcomes_Cons [OF row(5,6)] show ?thesis by (intro exI [of _ "row # rows"]) auto
  qed (use finished in auto)
qed

section \<open>Properties\<close>

text \<open>
  A streamed response that breaks off leaves no trace: when the provider fails after it has sent something,
  the client gets the error event, and the gateway records nothing at all: no usage row, no failure in the
  statistics, no failure for the circuit breaker.
\<close>

theorem responses_interruption_unrecorded:
  assumes "responses_consume rt cfg rq sel n (map Stream_chunk cs @ [Stream_failed error status retryable True]) tk com g
           = (items, r, com', g')"
  shows "g' = g \<and> r = Finished \<and> last items = Body (error_sse (rt_codec rt) error ''stream_error'')"
  using assms
proof (induction cs arbitrary: tk com items)
  case (Cons c cs)
  obtain its r1 com1 g1 where rest: "responses_consume rt cfg rq sel n
      (map Stream_chunk cs @ [Stream_failed error status retryable True])
      (track_chunk (rt_codec rt) (rt_first_ms rt n) c tk) True g = (its, r1, com1, g1)" by (metis prod_cases4)
  with Cons.prems have eqs: "items = first_headers rq sel com @ Body c # its" "r1 = r" "com1 = com'" "g1 = g'" by auto
  have "its \<noteq> []" using rest by (cases cs) (auto simp: Let_def split: prod.splits)
  with Cons.IH [OF rest [unfolded eqs(2-4)]] show ?case by (simp add: eqs(1))
qed auto

theorem responses_interruption_unrecorded_witness:
  "\<exists>items r com' g'. responses_consume demo_runtime demo_pair demo_request demo_single 0
      (map Stream_chunk [''data: 1''] @ [Stream_failed ''reset'' 0 True True]) new_tracker False demo_gateway = (items, r, com', g')
     \<and> g' = demo_gateway \<and> r = Finished \<and> last items = Body (error_sse (rt_codec demo_runtime) ''reset'' ''stream_error'')"
proof -
  obtain items r com' g' where run: "responses_consume demo_runtime demo_pair demo_request demo_single 0
      (map Stream_chunk [''data: 1''] @ [Stream_failed ''reset'' 0 True True]) new_tracker False demo_gateway = (items, r, com', g')"
    by (metis prod_cases4)
  from responses_interruption_unrecorded [OF this] run show ?thesis by blast
qed

text \<open>
  C39. A streamed response is well formed and accounted for, but for interruptions.  Its candidates are tried in
  order, each failed attempt writing one row, and it ends in one of three ways: one error with a status, all rows
  being failures; or the headers and then the bytes of the backend of the last row, which is a success; or a stream
  that breaks off: the bytes of the candidate after the failed ones, under its headers (neither, when its first
  chunk could not be read), and then the error event, in which case that candidate has no row.
\<close>

theorem responses_stream_contract:
  assumes "responses_backends rt cfg rq 0 [] False sels g = (items, None, g')"
  shows "\<exists>rows. gt_usage g' = gt_usage g @ rows
     \<and> ((\<exists>obj st. items = [Meta_error obj st]) \<and> attempts_ok sels rows False \<and> (sels \<noteq> [] \<longrightarrow> rows \<noteq> [])
        \<or> (\<exists>h cs. items = Meta_headers h # map Body cs \<and> attempts_ok sels rows True
             \<and> dget h ''X-Provider'' = Some (ur_provider (last rows)))
        \<or> broken_outcome (rt_codec rt) items sels rows)"
  using responses_backends_outcome [OF assms] by (simp only: refused_outcome_def complete_outcome_def)

text \<open>Provider \<open>a\<close> times out and \<open>b\<close> answers: two rows, the second a success.\<close>

lemma responses_demo_timeout:
  "is_ascii (pv_api_key (sl_provider sel)) \<Longrightarrow> \<not> cb_enabled (wd_circuits (gt_world g)) \<Longrightarrow>
   \<exists>g'. responses_attempt demo_runtime cfg rq sel 0 False g = ([], Next (attempt_error sel ''timeout''), False, g')"
  by (simp add: responses_attempt_def Let_def demo_runtime_def call_provider_stream_def provider_headers_def
      validated_api_key_def begin_attempt_def wait_attempt_def set_limits_def on_stats_def
      note_failure_def record_circuit_failure_def record_outcome_def)

lemma responses_demo_success:
  "is_ascii (pv_api_key (sl_provider sel)) \<Longrightarrow>
   \<exists>h g'. responses_attempt demo_runtime cfg rq sel 1 False g = ([Meta_headers h], Finished, True, g')"
  by (simp add: responses_attempt_def Let_def demo_runtime_def call_provider_stream_def provider_headers_def
      validated_api_key_def finish_stream_def acc_finish_def flush_def new_accumulator_def blank_bytes_def first_headers_def)

theorem responses_stream_contract_witness:
  "\<exists>h g' rows. responses_backends demo_runtime demo_pair demo_request 0 [] False demo_candidates demo_gateway
       = ([Meta_headers h], None, g')
     \<and> gt_usage g' = gt_usage demo_gateway @ rows \<and> attempts_ok demo_candidates rows True
     \<and> dget h ''X-Provider'' = Some (ur_provider (last rows))"
proof -
  let ?a = "hd demo_candidates" and ?b = "demo_candidates ! 1"
  have ascii: "is_ascii (pv_api_key (sl_provider ?a))" "is_ascii (pv_api_key (sl_provider ?b))"
    by (simp_all add: demo_candidates_eq new_selected_def default_provider_def is_ascii_def)
  have c: "demo_candidates = [?a, ?b]" by (simp add: demo_candidates_eq)
  have "\<not> cb_enabled (wd_circuits (gt_world demo_gateway))"
    by (simp add: demo_gateway_def demo_world_def cb_init_def)
  from responses_demo_timeout [OF ascii(1) this] obtain g1 where
    a1: "responses_attempt demo_runtime demo_pair demo_request ?a 0 False demo_gateway
      = ([], Next (attempt_error ?a ''timeout''), False, g1)" by blast
  from responses_demo_success [OF ascii(2)] obtain h g2 where
    a2: "responses_attempt demo_runtime demo_pair demo_request ?b 1 False g1 = ([Meta_headers h], Finished, True, g2)" by blast
  have run: "responses_backends demo_runtime demo_pair demo_request 0 [] False demo_candidates demo_gateway
      = ([Meta_headers h], None, g2)"
    by (subst c) (simp add: a1 a2 [unfolded One_nat_def])
  from responses_stream_contract [OF this] obtain rows where "gt_usage g2 = gt_usage demo_gateway @ rows"
      "attempts_ok demo_candidates rows True" "dget h ''X-Provider'' = Some (ur_provider (last rows))"
    by (auto simp: broken_outcome_def Cons_eq_append_conv split: if_splits)
  with run show ?thesis by blast
qed

end
