(* ===== verification/Prober.thy ===== *)
theory Prober
  imports Streaming
begin

text \<open>
  The background prober (\<^verbatim>\<open>src/localgateway/prober.py\<close>): a probe of a backend, its repetition when the
  speed is implausible, and one round of the loop.

  Exchanges with providers are numbered: attempt \<open>a\<close> of the \<open>n\<close>-th probe of a round is exchange \<open>3 * n + a\<close>
  of the runtime.  \<open>pe_timeout_text\<close> is \<open>str(e)\<close> of the client's time-out, \<open>pe_shuffle\<close> is
  \<open>random.shuffle\<close>, and the pauses between rounds and probes are not modelled (what happens meanwhile is
  \<open>rt_during\<close>).
\<close>

section \<open>One probe\<close>

record probe_result =
  pb_ok :: bool
  pb_status :: "int option"
  pb_error :: "string option"
  pb_latency :: int
  pb_ttft :: "int option"
  pb_tps :: "real option"
  pb_output :: "int option"
  pb_input :: "int option"
  pb_stream :: bool
  pb_tps_source :: "string option"

record prober_env =
  pe_runtime :: runtime
  pe_timeout_text :: string
  pe_shuffle :: "(provider_config \<times> string \<times> string) list \<Rightarrow> (provider_config \<times> string \<times> string) list"

definition implausible_tps :: real where
  "implausible_tps = 2000"

definition max_reprobe :: nat where
  "max_reprobe = 3"

definition failed_probe :: "int option \<Rightarrow> string \<Rightarrow> int \<Rightarrow> probe_result" where
  "failed_probe status error latency =
     \<lparr>pb_ok = False, pb_status = status, pb_error = Some (py_take 500 error), pb_latency = latency, pb_ttft = None,
      pb_tps = None, pb_output = None, pb_input = None, pb_stream = False, pb_tps_source = None\<rparr>"

definition probe_prompt :: string where
  "probe_prompt = ''Write a detailed paragraph explaining how a rainbow forms. Be thorough and specific.''"

definition probe_body :: "string \<Rightarrow> int \<Rightarrow> bool \<Rightarrow> jobj" where
  "probe_body backend_model max_tokens stream =
     [(''model'', JStr backend_model),
      (''messages'', JList [JObj [(''role'', JStr ''user''), (''content'', JStr probe_prompt)]]),
      (''max_tokens'', JInt max_tokens), (''stream'', JBool stream)]
     @ (if stream then [(''stream_options'', JObj [(''include_usage'', JBool True)])] else [])"

text \<open>The error that ends reading a body, if any; a pause of the provider is none.\<close>

fun reading_error :: "string \<Rightarrow> body_step list \<Rightarrow> string option" where
  "reading_error timeout_text [] = None"
| "reading_error timeout_text (Client_timeout # steps) = Some timeout_text"
| "reading_error timeout_text (Client_error e # steps) = Some e"
| "reading_error timeout_text (_ # steps) = reading_error timeout_text steps"

fun probe_stream ::
    "codec \<Rightarrow> (py_error \<Rightarrow> string) \<Rightarrow> string \<Rightarrow> accumulator \<Rightarrow> body_step list \<Rightarrow> string + accumulator" where
  "probe_stream cd text_of timeout_text acc [] = Inr acc"
| "probe_stream cd text_of timeout_text acc (Idle # steps) = probe_stream cd text_of timeout_text acc steps"
| "probe_stream cd text_of timeout_text acc (Client_timeout # steps) = Inl timeout_text"
| "probe_stream cd text_of timeout_text acc (Client_error e # steps) = Inl e"
| "probe_stream cd text_of timeout_text acc (Chunk elapsed b # steps) =
     (if b = [] then probe_stream cd text_of timeout_text acc steps
      else case fst (acc_feed cd elapsed acc b) of
             Inl e \<Rightarrow> Inl (text_of e)
           | Inr acc1 \<Rightarrow> probe_stream cd text_of timeout_text acc1 steps)"

definition measured :: "accumulator \<Rightarrow> int \<Rightarrow> probe_result" where
  "measured acc latency =
     (let output = or_else (su_output (ac_usage acc)) (estimated_output_tokens acc);
          ttft = or_else (ac_ttft_ms acc) (ac_first_byte_ms acc)
      in \<lparr>pb_ok = True, pb_status = None, pb_error = None, pb_latency = latency, pb_ttft = ttft,
          pb_tps = compute_tps output (Some latency) ttft, pb_output = output, pb_input = su_input (ac_usage acc),
          pb_stream = True, pb_tps_source = None\<rparr>)"

definition probe_streamed :: "prober_env \<Rightarrow> nat \<Rightarrow> stream_open \<Rightarrow> probe_result" where
  "probe_streamed e k answer =
     (let rt = pe_runtime e; latency = rt_latency rt k
      in case answer of
           Open_timeout \<Rightarrow> failed_probe None (pe_timeout_text e) latency
         | Open_error err \<Rightarrow> failed_probe None err latency
         | Opened resp \<Rightarrow>
             if hs_status resp \<noteq> 200
             then (case reading_error (pe_timeout_text e) (hs_steps resp) of
                     Some err \<Rightarrow> failed_probe None err latency
                   | None \<Rightarrow> failed_probe (Some (hs_status resp)) (cd_decode (rt_codec rt) (chunk_bytes (hs_steps resp))) latency)
             else (case probe_stream (rt_codec rt) (rt_text_of rt) (pe_timeout_text e) new_accumulator (hs_steps resp) of
                     Inl err \<Rightarrow> failed_probe None err latency
                   | Inr acc \<Rightarrow>
                       (case fst (acc_finish (rt_codec rt) latency acc) of
                          Inl err \<Rightarrow> failed_probe None (rt_text_of rt err) latency
                        | Inr acc1 \<Rightarrow> measured acc1 latency)))"

definition probe_plain :: "prober_env \<Rightarrow> nat \<Rightarrow> http_outcome \<Rightarrow> probe_result" where
  "probe_plain e k answer =
     (let rt = pe_runtime e; latency = rt_latency rt k
      in case answer of
           Http_timeout \<Rightarrow> failed_probe None (pe_timeout_text e) latency
         | Http_error err \<Rightarrow> failed_probe None err latency
         | Http_response resp \<Rightarrow>
             if hp_status resp \<noteq> 200 then failed_probe (Some (hp_status resp)) (hp_text resp) latency
             else let u = extract_usage (rt_codec rt) (hp_content resp)
                  in \<lparr>pb_ok = True, pb_status = None, pb_error = None, pb_latency = latency, pb_ttft = None,
                      pb_tps = compute_tps (su_output u) (Some latency) None, pb_output = su_output u,
                      pb_input = su_input u, pb_stream = False, pb_tps_source = None\<rparr>)"

definition probe_backend :: "prober_env \<Rightarrow> nat \<Rightarrow> provider_config \<Rightarrow> string \<Rightarrow> int \<Rightarrow> bool \<Rightarrow> probe_result" where
  "probe_backend e k p backend_model max_tokens stream =
     (let rt = pe_runtime e
      in case provider_headers p of
           Inl err \<Rightarrow> failed_probe None (rt_text_of rt err) (rt_latency rt k)
         | Inr headers \<Rightarrow>
             (let req = \<lparr>hq_url = provider_url p ''/chat/completions'', hq_headers = headers,
                         hq_body = probe_body backend_model max_tokens stream, hq_timeout = 60\<rparr>
              in if stream then probe_streamed e k (rt_open rt k req) else probe_plain e k (rt_post rt k req)))"

section \<open>Repeating an implausible probe\<close>

definition plausible :: "probe_result \<Rightarrow> bool" where
  "plausible r \<longleftrightarrow> \<not> pb_ok r \<or> pb_tps r = None \<or> the (pb_tps r) < implausible_tps"

text \<open>The first result worth keeping of up to \<open>max_reprobe\<close> attempts, or the last one.\<close>

fun first_plausible :: "probe_result list \<Rightarrow> probe_result option" where
  "first_plausible [] = None"
| "first_plausible (r # rs) = (if plausible r \<or> rs = [] then Some r else first_plausible rs)"

definition historical_tps :: "usage_row list \<Rightarrow> time \<Rightarrow> string option \<Rightarrow> string \<Rightarrow> real option" where
  "historical_tps rows now model_id key =
     (case nonempty model_id of
        None \<Rightarrow> None
      | Some m \<Rightarrow> Option.bind (dget (get_backend_percentiles rows now m 168 (1 / 2)) key) bp_tps_p50)"

definition probe_with_reprobe ::
    "prober_env \<Rightarrow> nat \<Rightarrow> provider_config \<Rightarrow> string \<Rightarrow> string option \<Rightarrow> int \<Rightarrow> bool \<Rightarrow> usage_row list \<Rightarrow> probe_result" where
  "probe_with_reprobe e n p backend_model model_id max_tokens stream rows =
     (let attempts = map (\<lambda>a. probe_backend e (3 * n + a) p backend_model max_tokens stream) [0 ..< max_reprobe];
          result = the (first_plausible attempts)
      in if plausible result then result
         else case historical_tps rows (rt_wall (pe_runtime e)) model_id (backend_key (pv_id p) backend_model) of
                None \<Rightarrow> result
              | Some p50 \<Rightarrow> result\<lparr>pb_tps := Some p50, pb_tps_source := Some ''p50_historical''\<rparr>)"

section \<open>A round of the prober\<close>



definition probe_usage_row :: "runtime \<Rightarrow> string \<Rightarrow> provider_config \<Rightarrow> string \<Rightarrow> bool \<Rightarrow> usage_row" where
  "probe_usage_row rt model_id p backend_model success =
     (default_row (rt_wall rt) model_id (pv_id p) backend_model success)\<lparr>ur_stream := True, ur_is_probe := True\<rparr>"

definition count_failure :: "runtime \<Rightarrow> nat \<Rightarrow> string \<Rightarrow> string \<Rightarrow> string option \<Rightarrow> gateway \<Rightarrow> gateway" where
  "count_failure rt n p m error g =
     (let g1 = on_stats (\<lambda>s. record_failure s (rt_wall rt) p m error) g
      in set_circuits (snd (record_outcome (wd_circuits (gt_world g1)) (rt_clock rt n) (rt_wall rt) p m False error)) g1)"

definition record_probe ::
    "runtime \<Rightarrow> gateway_config \<Rightarrow> nat \<Rightarrow> provider_config \<Rightarrow> string \<Rightarrow> string \<Rightarrow> probe_result \<Rightarrow> gateway \<Rightarrow> gateway" where
  "record_probe rt cfg n p backend_model model_id r g =
     (if \<not> pb_ok r
      then count_failure rt n (pv_id p) backend_model (pb_error r)
             (add_row ((probe_usage_row rt model_id p backend_model False)
                         \<lparr>ur_error := pb_error r, ur_latency_ms := Some (pb_latency r)\<rparr>) g)
      else let inp = opt0 (pb_input r); out = opt0 (pb_output r); pricing = pricing_for cfg (pv_id p) backend_model;
               row = (probe_usage_row rt model_id p backend_model True)
                       \<lparr>ur_input := (if inp = 0 then None else Some inp), ur_output := (if out = 0 then None else Some out),
                        ur_cost := (if out = 0 then None
                                    else Some (of_int inp * pr_input pricing + of_int out * pr_output pricing)),
                        ur_latency_ms := Some (pb_latency r), ur_ttft_ms := pb_ttft r, ur_tps := pb_tps r\<rparr>;
               g1 = on_stats (\<lambda>s. record_success s (rt_wall rt) (pv_id p) backend_model (Some (pb_latency r)) (pb_ttft r))
                      (add_row row g)
           in set_circuits (snd (record_outcome (wd_circuits (gt_world g1)) (rt_clock rt n) (rt_wall rt) (pv_id p)
                                   backend_model True None)) g1)"



definition real_or :: "real \<Rightarrow> real \<Rightarrow> real" where
  "real_or a b = (if a = 0 then b else a)"


text \<open>The interval between rounds, and the settings the prober is started with.\<close>

definition tick_seconds :: "real \<Rightarrow> real" where
  "tick_seconds interval = real_or (min interval 60) 60"

definition prober_settings :: "gateway_config \<Rightarrow> real option \<Rightarrow> int option \<Rightarrow> real \<times> int" where
  "prober_settings cfg interval max_tokens =
     (real_or (case interval of None \<Rightarrow> 0 | Some i \<Rightarrow> i) (real_or (sv_probe_interval_s (gw_server cfg)) 3600),
      let own = opt0 max_tokens; server = sv_probe_max_tokens (gw_server cfg)
      in if own \<noteq> 0 then own else if server \<noteq> 0 then server else 64)"

section \<open>Lemmas\<close>








section \<open>Properties\<close>




text \<open>
  An implausible speed is never reported while a better figure is known: the result of a repeated probe is a
  failure, or has no speed or one below 2000 tokens per second, or the median of the backend's
  real traffic stands in for it, or there is no such median.
\<close>

theorem reprobe_replaces_implausible:
  "let r = probe_with_reprobe e n p backend_model model_id max_tokens stream rows;
       p50 = historical_tps rows (rt_wall (pe_runtime e)) model_id (backend_key (pv_id p) backend_model)
   in plausible r \<or> pb_tps r = p50 \<and> pb_tps_source r = Some ''p50_historical'' \<or> p50 = None"
  by (auto simp: probe_with_reprobe_def Let_def split: option.split)

text \<open>
  A probe that fails counts against the circuit breaker whatever its status, a client error or a rate limit of
  the provider included; requests count only status 0 and 500 or more.
\<close>

theorem probe_failure_counts:
  "consecutive_failures (get_circuit (wd_circuits (gt_world (record_probe rt cfg n p m mid (failed_probe st err lat) g)))
      (backend_key (pv_id p) m))
   = consecutive_failures (get_circuit (wd_circuits (gt_world g)) (backend_key (pv_id p) m)) + 1"
  by (simp add: record_probe_def count_failure_def failed_probe_def Let_def record_outcome_def set_circuits_def on_stats_def
      add_row_def get_circuit_def put_circuit_def split: sum.split)

end
