(* ===== verification/DbWriter.thy ===== *)
theory DbWriter
  imports RespCache Usage
begin

text \<open>
  The background writer (\<^verbatim>\<open>src/localgateway/dbwriter.py\<close>): a queue of statements that a thread
  drains into SQLite in batches.

  A statement is a value of any type \<open>'o\<close> and \<open>exec\<close> executes one on a database \<open>'d\<close> (\<open>None\<close> when
  SQLite raises).  Clients and the thread interleave: a run is a list of events, each the atomic
  action of one of them.  \<open>Got\<close> is one turn of the loop that finds an item, \<open>Timed_out\<close> one that finds
  the queue empty; in a state where the event cannot happen it does nothing.  The thread is assumed
  to have opened its connection.
\<close>

section \<open>State\<close>

datatype 'o item = Statement 'o | Flush_item | Stop_item

record ('o, 'd) writer =
  wr_queue :: "'o item list"
  wr_batch :: "'o list"
  wr_db :: 'd
  wr_running :: bool
  wr_alive :: bool

definition batch_size :: nat where
  "batch_size = 50"

definition start_writer :: "'d \<Rightarrow> ('o, 'd) writer" where
  "start_writer db = \<lparr>wr_queue = [], wr_batch = [], wr_db = db, wr_running = True, wr_alive = True\<rparr>"

section \<open>Executing statements\<close>

fun exec_all :: "('o \<Rightarrow> 'd \<Rightarrow> 'd option) \<Rightarrow> 'o list \<Rightarrow> 'd \<Rightarrow> 'd option" where
  "exec_all exec [] db = Some db"
| "exec_all exec (x # xs) db = (case exec x db of None \<Rightarrow> None | Some db1 \<Rightarrow> exec_all exec xs db1)"

definition exec_or_skip :: "('o \<Rightarrow> 'd \<Rightarrow> 'd option) \<Rightarrow> 'o \<Rightarrow> 'd \<Rightarrow> 'd" where
  "exec_or_skip exec x db = (case exec x db of None \<Rightarrow> db | Some db1 \<Rightarrow> db1)"

text \<open>\<open>_flush\<close>: the batch in one transaction; when it fails, roll back and retry one by one.\<close>

definition flush_batch :: "('o \<Rightarrow> 'd \<Rightarrow> 'd option) \<Rightarrow> 'o list \<Rightarrow> 'd \<Rightarrow> 'd" where
  "flush_batch exec batch db =
     (case exec_all exec batch db of Some db1 \<Rightarrow> db1 | None \<Rightarrow> fold (exec_or_skip exec) batch db)"

section \<open>Clients\<close>

definition enqueue_statement :: "('o \<Rightarrow> 'd \<Rightarrow> 'd option) \<Rightarrow> 'o \<Rightarrow> ('o, 'd) writer \<Rightarrow> ('o, 'd) writer" where
  "enqueue_statement exec x w =
     (if wr_running w then w\<lparr>wr_queue := wr_queue w @ [Statement x]\<rparr>
      else w\<lparr>wr_db := exec_or_skip exec x (wr_db w)\<rparr>)"

definition request_flush :: "('o, 'd) writer \<Rightarrow> ('o, 'd) writer" where
  "request_flush w = w\<lparr>wr_queue := wr_queue w @ [Flush_item]\<rparr>"

definition stop_writer :: "('o, 'd) writer \<Rightarrow> ('o, 'd) writer" where
  "stop_writer w =
     (if wr_running w then w\<lparr>wr_running := False, wr_queue := wr_queue w @ [Stop_item]\<rparr> else w)"

section \<open>The thread\<close>

definition flush_pending :: "('o \<Rightarrow> 'd \<Rightarrow> 'd option) \<Rightarrow> ('o, 'd) writer \<Rightarrow> ('o, 'd) writer" where
  "flush_pending exec w = w\<lparr>wr_db := flush_batch exec (wr_batch w) (wr_db w), wr_batch := []\<rparr>"

definition got_item :: "('o \<Rightarrow> 'd \<Rightarrow> 'd option) \<Rightarrow> ('o, 'd) writer \<Rightarrow> ('o, 'd) writer" where
  "got_item exec w =
     (if \<not> wr_alive w then w
      else case wr_queue w of
             [] \<Rightarrow> w
           | Stop_item # q \<Rightarrow> (flush_pending exec (w\<lparr>wr_queue := q\<rparr>))\<lparr>wr_alive := False\<rparr>
           | Flush_item # q \<Rightarrow> flush_pending exec (w\<lparr>wr_queue := q\<rparr>)
           | Statement x # q \<Rightarrow>
               (let w1 = w\<lparr>wr_queue := q, wr_batch := wr_batch w @ [x]\<rparr>
                in if length (wr_batch w1) \<ge> batch_size then flush_pending exec w1 else w1))"

definition timed_out :: "('o \<Rightarrow> 'd \<Rightarrow> 'd option) \<Rightarrow> ('o, 'd) writer \<Rightarrow> ('o, 'd) writer" where
  "timed_out exec w =
     (if \<not> wr_alive w \<or> wr_queue w \<noteq> [] then w
      else let w1 = flush_pending exec w in if wr_running w1 then w1 else w1\<lparr>wr_alive := False\<rparr>)"

datatype 'o writer_event = Enqueue 'o | Ask_flush | Stop | Got | Timed_out

fun writer_step :: "('o \<Rightarrow> 'd \<Rightarrow> 'd option) \<Rightarrow> ('o, 'd) writer \<Rightarrow> 'o writer_event \<Rightarrow> ('o, 'd) writer" where
  "writer_step exec w (Enqueue x) = enqueue_statement exec x w"
| "writer_step exec w Ask_flush = request_flush w"
| "writer_step exec w Stop = stop_writer w"
| "writer_step exec w Got = got_item exec w"
| "writer_step exec w Timed_out = timed_out exec w"

section \<open>The synchronous writer it implements\<close>

text \<open>
  The abstract writer executes a statement when it is enqueued; \<open>abs_db\<close> is the database a client of
  the background writer may think of: what is there, then the batch, then the queue up to the
  sentinel.
\<close>

fun statements :: "'o item list \<Rightarrow> 'o list" where
  "statements [] = []"
| "statements (Statement x # q) = x # statements q"
| "statements (Flush_item # q) = statements q"
| "statements (Stop_item # q) = []"

definition abs_db :: "('o \<Rightarrow> 'd \<Rightarrow> 'd option) \<Rightarrow> ('o, 'd) writer \<Rightarrow> 'd" where
  "abs_db exec w = fold (exec_or_skip exec) (wr_batch w @ (if wr_alive w then statements (wr_queue w) else [])) (wr_db w)"

fun sync_step :: "('o \<Rightarrow> 'd \<Rightarrow> 'd option) \<Rightarrow> 'd \<Rightarrow> 'o writer_event \<Rightarrow> 'd" where
  "sync_step exec db (Enqueue x) = exec_or_skip exec x db"
| "sync_step exec db _ = db"

text \<open>
  The sentinel is in the queue only after \<open>stop\<close>, the batch stays below the limit, and a thread that
  has ended has left nothing behind.
\<close>

definition writer_ok :: "('o, 'd) writer \<Rightarrow> bool" where
  "writer_ok w \<longleftrightarrow>
     (wr_running w \<longrightarrow> Stop_item \<notin> set (wr_queue w) \<and> wr_alive w)
     \<and> length (wr_batch w) < batch_size \<and> (\<not> wr_alive w \<longrightarrow> wr_batch w = [])"

lemma exec_all_fold: "exec_all exec xs db = Some db1 \<Longrightarrow> fold (exec_or_skip exec) xs db = db1"
  by (induction xs arbitrary: db) (auto simp: exec_or_skip_def split: option.splits)

lemma flush_batch_fold: "flush_batch exec xs db = fold (exec_or_skip exec) xs db"
  by (auto simp: flush_batch_def exec_all_fold split: option.split)

lemma statements_append: "Stop_item \<notin> set q \<Longrightarrow> statements (q @ r) = statements q @ statements r"
  by (induction q rule: statements.induct) auto

lemma flush_pending_fields [simp]:
  "wr_queue (flush_pending exec w) = wr_queue w" "wr_batch (flush_pending exec w) = []"
  "wr_running (flush_pending exec w) = wr_running w" "wr_alive (flush_pending exec w) = wr_alive w"
  "wr_db (flush_pending exec w) = fold (exec_or_skip exec) (wr_batch w) (wr_db w)"
  by (simp_all add: flush_pending_def flush_batch_fold)

lemma writer_ok_step: "writer_ok w \<Longrightarrow> writer_ok (writer_step exec w ev)"
proof (cases ev)
  case Got
  assume "writer_ok w"
  with Got show ?thesis
    by (cases "wr_queue w"; cases "hd (wr_queue w)")
       (auto simp: writer_ok_def got_item_def Let_def batch_size_def)
qed (auto simp: writer_ok_def enqueue_statement_def request_flush_def stop_writer_def timed_out_def Let_def batch_size_def)

text \<open>
  One step of the background writer is one step of the synchronous one on \<open>abs_db\<close>, as long as
  nobody enqueues between \<open>stop\<close> and the end of the thread.
\<close>

lemma statements_snoc_stop: "statements (q @ [Stop_item]) = statements q"
  by (induction q rule: statements.induct) auto

lemma statements_snoc_flush: "statements (q @ [Flush_item]) = statements q"
  by (induction q rule: statements.induct) auto

lemma writer_refines_step:
  assumes "writer_ok w" and "\<And>x. ev = Enqueue x \<Longrightarrow> wr_running w \<or> \<not> wr_alive w"
  shows "abs_db exec (writer_step exec w ev) = sync_step exec (abs_db exec w) ev"
proof (cases ev)
  case (Enqueue x)
  with assms show ?thesis
    by (auto simp: enqueue_statement_def abs_db_def writer_ok_def statements_append)
next
  case Got
  with assms(1) show ?thesis
    by (cases "wr_queue w"; cases "hd (wr_queue w)") (auto simp: got_item_def Let_def abs_db_def)
next
  case Timed_out
  with assms(1) show ?thesis
    by (auto simp: timed_out_def Let_def abs_db_def)
qed (simp_all add: request_flush_def stop_writer_def abs_db_def statements_snoc_stop statements_snoc_flush)

section \<open>Runs\<close>

text \<open>
  \<open>orderly\<close>: nobody enqueues between \<open>stop\<close> and the end of the thread.  (\<open>stop\<close> is called at
  shutdown and when the path of the database changes.)
\<close>

definition may_happen :: "'o writer_event \<Rightarrow> ('o, 'd) writer \<Rightarrow> bool" where
  "may_happen ev w \<longleftrightarrow> (case ev of Enqueue _ \<Rightarrow> wr_running w \<or> \<not> wr_alive w | _ \<Rightarrow> True)"

fun orderly :: "('o \<Rightarrow> 'd \<Rightarrow> 'd option) \<Rightarrow> ('o, 'd) writer \<Rightarrow> 'o writer_event list \<Rightarrow> bool" where
  "orderly exec w [] = True"
| "orderly exec w (ev # evs) = (may_happen ev w \<and> orderly exec (writer_step exec w ev) evs)"

lemma writer_ok_start: "writer_ok (start_writer db)"
  by (simp add: writer_ok_def start_writer_def batch_size_def)

lemma writer_ok_run: "writer_ok w \<Longrightarrow> writer_ok (foldl (writer_step exec) w evs)"
  by (induction evs arbitrary: w) (simp_all add: writer_ok_step)

lemma writer_refines_run:
  "writer_ok w \<Longrightarrow> orderly exec w evs \<Longrightarrow>
   abs_db exec (foldl (writer_step exec) w evs) = foldl (sync_step exec) (abs_db exec w) evs"
proof (induction evs arbitrary: w)
  case (Cons ev evs)
  then have "abs_db exec (writer_step exec w ev) = sync_step exec (abs_db exec w) ev"
    by (intro writer_refines_step) (auto simp: may_happen_def)
  with Cons show ?case by (simp add: writer_ok_step)
qed simp

lemma abs_db_dead: "writer_ok w \<Longrightarrow> \<not> wr_alive w \<Longrightarrow> abs_db exec w = wr_db w"
  by (simp add: abs_db_def writer_ok_def)

lemma drain_to_stop:
  "wr_queue w = q @ [Stop_item] \<Longrightarrow> Stop_item \<notin> set q \<Longrightarrow> wr_alive w \<Longrightarrow>
   \<not> wr_alive (foldl (writer_step exec) w (replicate (Suc (length q)) Got))"
proof (induction q arbitrary: w)
  case (Cons i q)
  then have "wr_queue (got_item exec w) = q @ [Stop_item]" "wr_alive (got_item exec w)"
    by (cases i; auto simp: got_item_def Let_def)+
  with Cons show ?case by simp
qed (simp add: got_item_def)

lemma sync_gots: "foldl (sync_step exec) db (replicate n Got) = db"
  by (induction n) simp_all

lemma orderly_gots: "orderly exec w (replicate n Got)"
  by (induction n arbitrary: w) (simp_all add: may_happen_def)

lemma stop_drains:
  assumes "writer_ok w" and "wr_running w"
  shows "\<not> wr_alive (foldl (writer_step exec) w (Stop # replicate (Suc (length (wr_queue w))) Got))"
    and "wr_db (foldl (writer_step exec) w (Stop # replicate (Suc (length (wr_queue w))) Got)) = abs_db exec w"
proof -
  let ?w1 = "stop_writer w"
  have q: "wr_queue ?w1 = wr_queue w @ [Stop_item]" "Stop_item \<notin> set (wr_queue w)" "wr_alive ?w1"
    using assms by (auto simp: stop_writer_def writer_ok_def)
  have ok1: "writer_ok ?w1" using writer_ok_step [OF assms(1), of _ Stop] by simp
  show dead: "\<not> wr_alive (foldl (writer_step exec) w (Stop # replicate (Suc (length (wr_queue w))) Got))"
    using drain_to_stop [OF q] by simp
  have "abs_db exec ?w1 = abs_db exec w"
    using writer_refines_step [OF assms(1), of Stop exec] by simp
  moreover have "abs_db exec (foldl (writer_step exec) ?w1 (replicate (Suc (length (wr_queue w))) Got)) = abs_db exec ?w1"
    using writer_refines_run [OF ok1 orderly_gots] by (simp only: sync_gots)
  ultimately show "wr_db (foldl (writer_step exec) w (Stop # replicate (Suc (length (wr_queue w))) Got)) = abs_db exec w"
    using abs_db_dead [OF writer_ok_run [OF ok1, of exec "replicate (Suc (length (wr_queue w))) Got"], of exec] dead
    by simp
qed

section \<open>How far the database lags behind\<close>

fun enqueued :: "'o writer_event list \<Rightarrow> 'o list" where
  "enqueued [] = []"
| "enqueued (Enqueue x # evs) = x # enqueued evs"
| "enqueued (_ # evs) = enqueued evs"

text \<open>The statements in the queue that the thread will take out.\<close>

definition waiting :: "('o, 'd) writer \<Rightarrow> 'o list" where
  "waiting w = (if wr_alive w then statements (wr_queue w) else [])"

lemma enqueued_append [simp]: "enqueued (evs @ evs') = enqueued evs @ enqueued evs'"
  by (induction evs rule: enqueued.induct) simp_all

lemma orderly_append: "orderly exec w (evs @ evs') \<longleftrightarrow> orderly exec w evs \<and> orderly exec (foldl (writer_step exec) w evs) evs'"
  by (induction evs arbitrary: w) simp_all

text \<open>
  \<open>executed exec db w xs\<close>: of the statements \<open>xs\<close>, in order, a prefix has been executed on \<open>db\<close>, then come
  those of the batch, then those in the queue.
\<close>

definition executed :: "('o \<Rightarrow> 'd \<Rightarrow> 'd option) \<Rightarrow> 'd \<Rightarrow> ('o, 'd) writer \<Rightarrow> 'o list \<Rightarrow> bool" where
  "executed exec db w xs \<longleftrightarrow>
     (\<exists>ys. xs = ys @ wr_batch w @ waiting w \<and> wr_db w = fold (exec_or_skip exec) ys db)"

lemma executed_flush: "executed exec db w xs \<Longrightarrow> executed exec db (flush_pending exec w) xs"
  by (auto simp: executed_def waiting_def)

lemma executed_step:
  assumes "writer_ok w" and "executed exec db w xs" and "may_happen ev w"
  shows "executed exec db (writer_step exec w ev) (xs @ enqueued [ev])"
proof (cases ev)
  case (Enqueue x)
  with assms show ?thesis
    by (auto simp: enqueue_statement_def executed_def waiting_def may_happen_def writer_ok_def statements_append)
next
  case Got
  note flush = executed_flush [of exec db]
  show ?thesis
  proof (cases "wr_alive w \<and> wr_queue w \<noteq> []")
    case True
    then obtain i q where q: "wr_queue w = i # q" and alive: "wr_alive w" by (cases "wr_queue w") auto
    show ?thesis
    proof (cases i)
      case (Statement x)
      with q alive assms(2) have "executed exec db (w\<lparr>wr_queue := q, wr_batch := wr_batch w @ [x]\<rparr>) xs"
        by (auto simp: executed_def waiting_def)
      with Got Statement q alive flush show ?thesis by (simp add: got_item_def Let_def)
    next
      case Flush_item
      with q alive assms(2) have "executed exec db (w\<lparr>wr_queue := q\<rparr>) xs"
        by (auto simp: executed_def waiting_def)
      with Got Flush_item q alive flush show ?thesis by (simp add: got_item_def)
    next
      case Stop_item
      with q alive assms(2) show ?thesis
        using Got by (auto simp: executed_def waiting_def got_item_def)
    qed
  next
    case False
    with Got assms(2) show ?thesis by (auto simp: got_item_def split: list.split)
  qed
next
  case Timed_out
  with assms(2) show ?thesis
    by (auto simp: executed_def waiting_def timed_out_def Let_def)
qed (use assms in \<open>auto simp: executed_def waiting_def request_flush_def stop_writer_def statements_snoc_stop
       statements_snoc_flush\<close>)

lemma executed_run:
  "orderly exec (start_writer db) evs \<Longrightarrow> executed exec db (foldl (writer_step exec) (start_writer db) evs) (enqueued evs)"
proof (induction evs rule: rev_induct)
  case (snoc ev evs)
  then have "executed exec db (foldl (writer_step exec) (start_writer db) evs) (enqueued evs)"
    and "may_happen ev (foldl (writer_step exec) (start_writer db) evs)"
    by (simp_all add: orderly_append)
  from executed_step [OF writer_ok_run [OF writer_ok_start] this] show ?case by simp
qed (simp add: executed_def waiting_def start_writer_def)

lemma sync_run: "foldl (sync_step exec) db evs = fold (exec_or_skip exec) (enqueued evs) db"
  by (induction evs arbitrary: db rule: enqueued.induct) simp_all

section \<open>Statements that cannot fail\<close>

text \<open>
  The statements the gateway enqueues touch one table and cannot violate its constraints.  For such a
  log of statements the writer gives the table the statements would have given one by one.
\<close>

locale statement_log =
  fixes exec :: "'o \<Rightarrow> 'd \<Rightarrow> 'd option"
    and effect :: "'o \<Rightarrow> 'd \<Rightarrow> 'd"
  assumes exec_effect: "exec x db = Some (effect x db)"
begin

lemma exec_or_skip_effect: "exec_or_skip exec x db = effect x db"
  by (simp add: exec_or_skip_def exec_effect)

lemma nothing_lost:
  assumes "orderly exec (start_writer db) evs" and "wr_running w" and "w = foldl (writer_step exec) (start_writer db) evs"
  shows "\<not> wr_alive (foldl (writer_step exec) w (Stop # replicate (Suc (length (wr_queue w))) Got))"
    and "wr_db (foldl (writer_step exec) w (Stop # replicate (Suc (length (wr_queue w))) Got)) = fold effect (enqueued evs) db"
proof -
  have ok: "writer_ok w" by (simp add: assms(3) writer_ok_run writer_ok_start)
  from stop_drains [OF ok assms(2)]
  show "\<not> wr_alive (foldl (writer_step exec) w (Stop # replicate (Suc (length (wr_queue w))) Got))" by blast
  have "abs_db exec w = foldl (sync_step exec) db evs"
    using writer_refines_run [OF writer_ok_start assms(1)] by (simp add: assms(3) abs_db_def start_writer_def)
  also have "\<dots> = fold effect (enqueued evs) db"
    by (simp add: sync_run exec_or_skip_effect [abs_def])
  finally show "wr_db (foldl (writer_step exec) w (Stop # replicate (Suc (length (wr_queue w))) Got)) = fold effect (enqueued evs) db"
    using stop_drains(2) [OF ok assms(2), of exec] by simp
qed

end

definition exec_cache :: "db_op \<Rightarrow> (string, cache_entry) dict \<Rightarrow> (string, cache_entry) dict option" where
  "exec_cache op rows = Some (apply_op op rows)"

definition exec_usage :: "usage_row \<Rightarrow> usage_row list \<Rightarrow> usage_row list option" where
  "exec_usage row rows = Some (log_request row rows)"

interpretation cache_log: statement_log exec_cache apply_op
  by unfold_locales (simp add: exec_cache_def)

interpretation usage_log: statement_log exec_usage log_request
  by unfold_locales (simp add: exec_usage_def)

lemma fold_log: "fold log_request rows db = db @ rows"
  by (induction rows arbitrary: db) (simp_all add: log_request_def)

lemma exec_or_skip_cache: "exec_or_skip exec_cache = apply_op"
  by (intro ext) (rule cache_log.exec_or_skip_effect)

text \<open>The response cache's view of its writer: what \<open>drain_writer\<close> gives is what the thread will give.\<close>

lemma drain_is_abs:
  "rc_rows (drain_writer s) =
     abs_db exec_cache \<lparr>wr_queue = map Statement (rc_queue s), wr_batch = [], wr_db = rc_rows s,
                        wr_running = True, wr_alive = True\<rparr>"
proof -
  have "statements (map Statement ops) = ops" for ops :: "db_op list" by (induction ops) simp_all
  then show ?thesis by (simp add: drain_writer_def abs_db_def exec_or_skip_cache)
qed

section \<open>Properties\<close>

text \<open>
  C32. The background writer does what executing every statement at once would do, late but in order
  and boundedly so.  Whatever the interleaving of clients, flush requests, time-outs and the thread, and also when
  statements fail and a batch is rolled back, as long as nobody enqueues between \<open>stop\<close> and the end of the
  thread: the database is the one after executing all statements enqueued so far, one by one in their order, but for those still in
  the queue and fewer than fifty others.  A turn that times out on an empty queue leaves none out, and the turn that
  takes a flush request out of the queue leaves out only what was enqueued behind it.
\<close>

theorem writer_refines_synchronous:
  assumes "orderly exec (start_writer db) evs" and "w = foldl (writer_step exec) (start_writer db) evs"
  shows "(\<exists>n. length (enqueued evs) < n + length (waiting w) + 50 \<and> n + length (waiting w) \<le> length (enqueued evs)
            \<and> wr_db w = foldl (sync_step exec) db (map Enqueue (take n (enqueued evs))))
       \<and> (wr_alive w \<and> wr_queue w = [] \<longrightarrow>
            wr_db (writer_step exec w Timed_out) = foldl (sync_step exec) db evs)
       \<and> (wr_alive w \<and> wr_queue w = Flush_item # q \<longrightarrow>
            wr_db (writer_step exec w Got)
              = foldl (sync_step exec) db (map Enqueue (take (length (enqueued evs) - length (statements q)) (enqueued evs))))"
proof -
  have only: "enqueued (map Enqueue xs) = xs" for xs :: "'a list" by (induction xs) simp_all
  have "writer_ok w" by (simp add: assms(2) writer_ok_run writer_ok_start)
  then have small: "length (wr_batch w) < 50" by (simp add: writer_ok_def batch_size_def)
  obtain ys where ys: "enqueued evs = ys @ wr_batch w @ waiting w" "wr_db w = fold (exec_or_skip exec) ys db"
    using executed_run [OF assms(1)] by (auto simp: executed_def assms(2))
  have "wr_db w = foldl (sync_step exec) db (map Enqueue (take (length ys) (enqueued evs)))"
    by (simp add: ys sync_run only)
  moreover have "wr_db (writer_step exec w Timed_out) = foldl (sync_step exec) db evs" if "wr_alive w" "wr_queue w = []"
    using that ys by (simp add: timed_out_def Let_def sync_run waiting_def)
  moreover have "wr_db (writer_step exec w Got)
        = foldl (sync_step exec) db (map Enqueue (take (length (enqueued evs) - length (statements q)) (enqueued evs)))"
    if "wr_alive w" "wr_queue w = Flush_item # q"
    using that ys by (simp add: got_item_def sync_run only waiting_def)
  ultimately show ?thesis
    using small by (intro conjI impI exI [of _ "length ys"]) (auto simp: ys(1))
qed

definition positive_only :: "int \<Rightarrow> int list \<Rightarrow> int list option" where
  "positive_only x xs = (if x > 0 then Some (xs @ [x]) else None)"

definition demo_run :: "int writer_event list" where
  "demo_run = [Enqueue 3, Enqueue (-1), Got, Enqueue 4, Got, Got, Ask_flush, Enqueue 5]"

text \<open>Three statements are in the batch, a flush request and one more statement in the queue: the flush writes 3 and 4.\<close>

theorem writer_refines_synchronous_witness:
  "wr_db (foldl (writer_step positive_only) (start_writer []) demo_run) = []
   \<and> wr_db (writer_step positive_only (foldl (writer_step positive_only) (start_writer []) demo_run) Got)
       = foldl (sync_step positive_only) [] (map Enqueue [3, -1, 4])
   \<and> foldl (sync_step positive_only) [] (map Enqueue [3, -1, 4]) = [3, 4]"
proof -
  let ?w = "foldl (writer_step positive_only) (start_writer []) demo_run"
  have "orderly positive_only (start_writer []) demo_run"
    by (simp add: demo_run_def may_happen_def start_writer_def enqueue_statement_def got_item_def batch_size_def request_flush_def)
  moreover have "wr_queue ?w = [Flush_item, Statement 5]" "wr_alive ?w" "wr_db ?w = []"
    by (simp_all add: demo_run_def start_writer_def enqueue_statement_def got_item_def batch_size_def request_flush_def)
  ultimately show ?thesis
    using writer_refines_synchronous [of positive_only "[]" demo_run ?w "[Statement 5]"]
    by (simp add: demo_run_def exec_or_skip_def positive_only_def numeral_eq_Suc)
qed

text \<open>
  C33. Stopping the writer ends its thread and loses no usage row: after any orderly run in which the writer is
  running, \<open>stop\<close> and one turn of the loop more than there are items in the queue leave the thread ended and a
  table that holds the old rows and then every row logged, once, in the order they were logged.
\<close>

theorem shutdown_writes_every_row:
  assumes "orderly exec_usage (start_writer rows) evs" and "w = foldl (writer_step exec_usage) (start_writer rows) evs"
    and "wr_running w"
  shows "\<not> wr_alive (foldl (writer_step exec_usage) w (Stop # replicate (Suc (length (wr_queue w))) Got))
       \<and> wr_db (foldl (writer_step exec_usage) w (Stop # replicate (Suc (length (wr_queue w))) Got)) = rows @ enqueued evs"
  using usage_log.nothing_lost [OF assms(1,3,2)] by (simp add: fold_log)

theorem shutdown_writes_every_row_witness:
  "let w = foldl (writer_step exec_usage) (start_writer [demo_row ''a''])
             [Enqueue (demo_row ''b''), Got, Enqueue (demo_row ''c'')];
       w' = foldl (writer_step exec_usage) w (Stop # replicate (Suc (length (wr_queue w))) Got)
   in \<not> wr_alive w' \<and> wr_db w' = [demo_row ''a''] @ enqueued [Enqueue (demo_row ''b''), Got, Enqueue (demo_row ''c'')]"
  unfolding Let_def
  by (rule shutdown_writes_every_row [OF _ refl])
     (simp_all add: may_happen_def start_writer_def enqueue_statement_def got_item_def batch_size_def)

end
