(* ===== verification/Logs.thy ===== *)
theory Logs
  imports DbWriter Text
begin

text \<open>
  The log table (\<^verbatim>\<open>src/localgateway/logs.py\<close>): inserting a line through the background writer, and
  \<open>get_logs\<close>.  \<open>dumps\<close> is the compact \<open>json.dumps\<close> and \<open>loads\<close> is \<open>json.loads\<close>; \<open>LIKE\<close> is
  SQLite's, on code points, with its two wildcards and without regard to ASCII case.
\<close>

section \<open>The table\<close>

record log_entry =
  lg_id :: int
  lg_ts :: time
  lg_level :: string
  lg_message :: string
  lg_model :: "string option"
  lg_provider :: "string option"
  lg_status :: "int option"
  lg_latency :: "int option"
  lg_meta :: "string option"

record log_table =
  lt_rows :: "log_entry list"
  lt_next :: int

definition empty_log :: log_table where
  "empty_log = \<lparr>lt_rows = [], lt_next = 1\<rparr>"

definition upper :: "string \<Rightarrow> string" where
  "upper s = map upper_char s"

text \<open>The row a call of \<open>log\<close> inserts, but for its id, and the insertion.\<close>

definition log_line ::
    "(json \<Rightarrow> string) \<Rightarrow> time \<Rightarrow> string \<Rightarrow> string \<Rightarrow> string option \<Rightarrow> string option \<Rightarrow> int option \<Rightarrow> int option \<Rightarrow> jobj \<Rightarrow> log_entry"
where
  "log_line dumps now level message model provider status latency meta =
     \<lparr>lg_id = 0, lg_ts = now, lg_level = upper level, lg_message = message, lg_model = model, lg_provider = provider,
      lg_status = status, lg_latency = latency, lg_meta = (if meta = [] then None else Some (dumps (JObj meta)))\<rparr>"

definition insert_log :: "log_entry \<Rightarrow> log_table \<Rightarrow> log_table" where
  "insert_log row t = t\<lparr>lt_rows := lt_rows t @ [row\<lparr>lg_id := lt_next t\<rparr>], lt_next := lt_next t + 1\<rparr>"

text \<open>Ids are not reused after \<open>clear_logs\<close> (\<open>AUTOINCREMENT\<close>).\<close>

definition clear_logs :: "log_table \<Rightarrow> log_table" where
  "clear_logs t = t\<lparr>lt_rows := []\<rparr>"

definition exec_log :: "log_entry \<Rightarrow> log_table \<Rightarrow> log_table option" where
  "exec_log row t = Some (insert_log row t)"

interpretation log_writes: statement_log exec_log insert_log
  by unfold_locales (simp add: exec_log_def)

section \<open>Searching\<close>

fun like :: "string list \<Rightarrow> string list \<Rightarrow> bool" where
  "like [] s = (s = [])"
| "like (p # ps) [] = (p = ''%'' \<and> like ps [])"
| "like (p # ps) (c # s) =
     (if p = ''%'' then like ps (c # s) \<or> like (p # ps) s
      else (p = ''_'' \<or> lower p = lower c) \<and> like ps s)"

definition matches_like :: "string \<Rightarrow> string option \<Rightarrow> bool" where
  "matches_like pat v = (case v of None \<Rightarrow> False | Some s \<Rightarrow> like (code_points pat) (code_points s))"

record log_query =
  qy_limit :: int
  qy_level :: "string option"
  qy_search :: "string option"
  qy_since :: "int option"
  qy_request :: "string option"

definition truthy_str :: "string option \<Rightarrow> bool" where
  "truthy_str s \<longleftrightarrow> (case s of None \<Rightarrow> False | Some x \<Rightarrow> x \<noteq> [])"

definition request_key :: string where
  "request_key = [CHR 0x22] @ ''request_id'' @ [CHR 0x22] @ '':'' @ [CHR 0x22]"

definition request_pattern :: "string \<Rightarrow> string" where
  "request_pattern rid = ''%'' @ request_key @ rid @ [CHR 0x22] @ ''%''"

definition selected :: "log_query \<Rightarrow> log_entry \<Rightarrow> bool" where
  "selected q r \<longleftrightarrow>
     (truthy_str (qy_level q) \<longrightarrow> lg_level r = upper (the (qy_level q)))
     \<and> (truthy_str (qy_search q) \<longrightarrow>
          (let pat = ''%'' @ the (qy_search q) @ ''%''
           in matches_like pat (Some (lg_message r)) \<or> matches_like pat (lg_model r) \<or> matches_like pat (lg_provider r)))
     \<and> (truthy_str (qy_request q) \<longrightarrow> matches_like (request_pattern (the (qy_request q))) (lg_meta r))
     \<and> (qy_since q \<noteq> None \<longrightarrow> lg_id r > the (qy_since q))"

text \<open>The metadata of a row as the caller gets it: parsed, or the text when it is no JSON.\<close>

definition meta_view :: "(string \<Rightarrow> json option) \<Rightarrow> log_entry \<Rightarrow> json" where
  "meta_view loads r =
     (case lg_meta r of
        None \<Rightarrow> JNull
      | Some m \<Rightarrow> if m = [] then JStr [] else (case loads m of None \<Rightarrow> JStr m | Some v \<Rightarrow> v))"

definition get_logs :: "(string \<Rightarrow> json option) \<Rightarrow> log_query \<Rightarrow> log_table \<Rightarrow> (log_entry \<times> json) list" where
  "get_logs loads q t =
     (let found = rev (sort_key lg_id (filter (selected q) (lt_rows t)))
      in map (\<lambda>r. (r, meta_view loads r)) (if qy_limit q < 0 then found else take (nat (qy_limit q)) found))"

section \<open>Lemmas\<close>

definition log_ok :: "log_table \<Rightarrow> bool" where
  "log_ok t \<longleftrightarrow> sorted_wrt (<) (map lg_id (lt_rows t)) \<and> (\<forall>r\<in>set (lt_rows t). lg_id r < lt_next t)"

lemma log_ok_insert: "log_ok t \<Longrightarrow> log_ok (insert_log row t)"
  by (auto simp: log_ok_def insert_log_def sorted_wrt_append)

lemma log_ok_fold: "log_ok t \<Longrightarrow> log_ok (fold insert_log rows t)"
  by (induction rows arbitrary: t) (simp_all add: log_ok_insert)

lemma log_ok_empty: "log_ok empty_log"
  by (simp add: log_ok_def empty_log_def)

lemma like_percent: "like [''%''] s"
  by (induction s) simp_all

definition plain_text :: "string list \<Rightarrow> bool" where
  "plain_text ps \<longleftrightarrow> ''%'' \<notin> set ps \<and> ''_'' \<notin> set ps"

lemma like_prefix:
  "plain_text ps \<Longrightarrow> like (ps @ [''%'']) s \<longleftrightarrow> (\<exists>b c. s = b @ c \<and> map lower b = map lower ps)"
proof (induction ps arbitrary: s)
  case Nil
  then show ?case by (simp add: like_percent)
next
  case (Cons p ps)
  show ?case
  proof (cases s)
    case (Cons a t)
    have "(\<exists>b c. a # t = b @ c \<and> map lower b = map lower (p # ps))
        \<longleftrightarrow> lower p = lower a \<and> (\<exists>b c. t = b @ c \<and> map lower b = map lower ps)"
      by (auto simp: Cons_eq_append_conv map_eq_Cons_conv) (metis append_Cons list.simps(9))
    with Cons.IH [of t] Cons.prems Cons show ?thesis by (auto simp: plain_text_def)
  qed (use Cons.prems in \<open>auto simp: plain_text_def\<close>)
qed

text \<open>Without wildcards, a search finds what contains the text, in whatever case.\<close>

lemma like_contains:
  "plain_text ps \<Longrightarrow> like (''%'' # ps @ [''%'']) s \<longleftrightarrow> (\<exists>a b c. s = a @ b @ c \<and> map lower b = map lower ps)"
proof (induction s)
  case Nil
  have "like (ps @ [''%'']) [] \<longleftrightarrow> ps = []"
    using like_prefix [OF Nil, of "[]"] by auto
  then show ?case by simp
next
  case (Cons c s)
  then show ?case
    using like_prefix [OF Cons.prems, of "c # s"]
    by (auto simp: append_eq_Cons_conv Cons_eq_append_conv) (metis append_Cons)+
qed

lemma code_points_cons: "\<not> is_cont (hd (s @ [CHR 0x20])) \<Longrightarrow> code_points (c # s) = [c] # code_points s"
  by (cases s) (auto split: list.splits)

lemma code_points_ascii: "is_ascii s \<Longrightarrow> code_points s = map (\<lambda>c. [c]) s"
proof (induction s)
  case (Cons c s)
  then have "code_points s = map (\<lambda>c. [c]) s" by (simp add: is_ascii_def)
  moreover have "\<not> is_cont (hd s)" if "s \<noteq> []"
    using Cons.prems that by (cases s) (auto simp: is_ascii_def is_cont_def)
  ultimately show ?case by (cases s) simp_all
qed simp

section \<open>Properties\<close>

text \<open>
  Reading the log gives the newest lines first, each at most once, at most as many as asked for, and whatever
  is left out, although the filters select it, is older than everything returned.
\<close>

theorem logs_newest_first:
  assumes "log_ok t" and "0 \<le> qy_limit q"
  shows "let out = map fst (get_logs loads q t); rest = filter (\<lambda>r. selected q r \<and> r \<notin> set out) (lt_rows t)
         in sorted_wrt (>) (map lg_id out) \<and> length out \<le> nat (qy_limit q) \<and> set out \<subseteq> {r \<in> set (lt_rows t). selected q r}
            \<and> (\<forall>r\<in>set rest. \<forall>x\<in>set out. lg_id r < lg_id x)"
proof -
  define found where "found = filter (selected q) (lt_rows t)"
  have s: "sorted_wrt (<) (map lg_id found)"
    using assms(1) by (simp add: log_ok_def found_def sorted_wrt_map sorted_wrt_filter)
  then have "sort_key lg_id found = found"
    by (intro sort_key_id_if_sorted) (auto simp: sorted_map sorted_wrt_map elim: sorted_wrt_mono_rel [rotated])
  then have out: "map fst (get_logs loads q t) = take (nat (qy_limit q)) (rev found)"
    using assms(2) by (simp add: get_logs_def found_def Let_def comp_def)
  have desc: "sorted_wrt (\<lambda>a b. lg_id b < lg_id a) (rev found)"
    using s by (simp add: sorted_wrt_rev sorted_wrt_map)
  let ?n = "nat (qy_limit q)"
  have "\<forall>x\<in>set (take ?n (rev found)). \<forall>r\<in>set (drop ?n (rev found)). lg_id r < lg_id x"
    using desc unfolding sorted_wrt_append [of _ "take ?n (rev found)" "drop ?n (rev found)", simplified append_take_drop_id] by blast
  moreover have "r \<in> set (drop ?n (rev found))" if "r \<in> set found" "r \<notin> set (take ?n (rev found))" for r
    using that by (metis Un_iff append_take_drop_id set_append set_rev)
  ultimately show ?thesis
    using sorted_wrt_take [OF desc, of ?n] set_take_subset [of ?n "rev found"]
    by (auto simp: Let_def out sorted_wrt_map found_def [symmetric]) (auto simp: found_def)
qed

definition demo_log :: log_table where
  "demo_log = fold insert_log [log_line (\<lambda>_. []) 1 ''info'' ''a'' None None None None [],
                               log_line (\<lambda>_. []) 2 ''warn'' ''b'' None None None None []] empty_log"

definition demo_query :: log_query where
  "demo_query = \<lparr>qy_limit = 1, qy_level = None, qy_search = None, qy_since = None, qy_request = None\<rparr>"

theorem logs_newest_first_witness:
  "let out = map fst (get_logs (\<lambda>_. None) demo_query demo_log);
       rest = filter (\<lambda>r. selected demo_query r \<and> r \<notin> set out) (lt_rows demo_log)
   in sorted_wrt (>) (map lg_id out) \<and> length out \<le> nat (qy_limit demo_query)
      \<and> set out \<subseteq> {r \<in> set (lt_rows demo_log). selected demo_query r}
      \<and> list_all (\<lambda>r. list_all (\<lambda>x. lg_id r < lg_id x) out) rest"
  unfolding list_all_iff Let_def
  by (rule logs_newest_first [unfolded Let_def])
     (simp_all add: demo_log_def log_ok_insert log_ok_empty demo_query_def)

text \<open>
  A request id may contain an underscore, which \<open>LIKE\<close> reads as any character, so the filter for one request
  also finds the lines of every request whose id differs from it in that place only.
\<close>

lemma like_pointwise:
  "list_all2 (\<lambda>p c. p = c \<or> p = ''_'') ps b \<Longrightarrow> ''%'' \<notin> set ps \<Longrightarrow> like (ps @ [''%'']) (b @ c)"
  by (induction ps b rule: list_all2_induct) (auto simp: like_percent)

lemma like_later: "like (''%'' # ps) s \<Longrightarrow> like (''%'' # ps) (a @ s)"
  by (induction a) simp_all

lemma like_here: "like ps (c # s) \<Longrightarrow> like (''%'' # ps) (c # s)"
  by simp

theorem request_filter_conflates:
  assumes "is_ascii (pre @ request_key @ a @ [x] @ b @ [CHR 0x22] @ post)" and "CHR ''%'' \<notin> set (a @ b)"
  shows "matches_like (request_pattern (a @ ''_'' @ b)) (Some (pre @ request_key @ a @ [x] @ b @ [CHR 0x22] @ post))"
proof -
  let ?one = "map (\<lambda>c. [c])"
  let ?p = "?one (request_key @ a @ ''_'' @ b @ [CHR 0x22])" and ?s = "?one (request_key @ a @ [x] @ b @ [CHR 0x22])"
  have "is_ascii (request_pattern (a @ ''_'' @ b))"
    using assms(1) by (auto simp: is_ascii_def request_pattern_def byte_def)
  then have pat: "code_points (request_pattern (a @ ''_'' @ b)) = ''%'' # ?p @ [''%'']"
    by (simp only: code_points_ascii) (simp add: request_pattern_def)
  have "list_all2 (\<lambda>p c. p = c \<or> p = ''_'') ?p ?s"
    by (auto intro!: list_all2_appendI list_all2_refl simp: list_all2_map1 list_all2_map2)
  moreover have "''%'' \<notin> set ?p" using assms(2) by (auto simp: request_key_def)
  ultimately have "like (?p @ [''%'']) (?s @ ?one post)" by (rule like_pointwise)
  then have "like (''%'' # ?p @ [''%'']) (?s @ ?one post)"
    using like_here [of "?p @ [''%'']" "[CHR 0x22]"] by (simp add: request_key_def del: like.simps)
  then have "like (''%'' # ?p @ [''%'']) (?one pre @ ?s @ ?one post)" by (rule like_later)
  then show ?thesis
    by (simp only: matches_like_def option.case pat code_points_ascii [OF assms(1)] map_append append_assoc)
qed

theorem request_filter_conflates_witness:
  "matches_like (request_pattern (''a'' @ ''_'' @ ''b'')) (Some (''{'' @ request_key @ ''a'' @ ''-'' @ ''b'' @ [CHR 0x22] @ ''}''))"
  by (rule request_filter_conflates) (simp_all add: is_ascii_def request_key_def byte_def)

end
