(* ===== verification/Models.thy ===== *)
theory Models
  imports Auth
begin

text \<open>
  The model list (\<^verbatim>\<open>src/localgateway/endpoints/models.py\<close>).  \<open>float_str\<close> is \<open>str\<close> of a float and
  \<open>mtime\<close> is \<open>int(config_mtime())\<close>.
\<close>

definition active_backends :: "gateway_config \<Rightarrow> model_config \<Rightarrow> backend_config list" where
  "active_backends cfg m =
     filter (\<lambda>b. bk_enabled b \<and> (case provider_by_id cfg (bk_provider b) of None \<Rightarrow> False | Some p \<Rightarrow> pv_enabled p))
       (md_backends m)"

definition least :: "real list \<Rightarrow> real" where
  "least xs = foldl min (hd xs) (tl xs)"

definition pricing_view :: "(real \<Rightarrow> string) \<Rightarrow> gateway_config \<Rightarrow> backend_config list \<Rightarrow> json" where
  "pricing_view float_str cfg active =
     (let priced = filter (\<lambda>p. pr_input p \<noteq> 0 \<or> pr_output p \<noteq> 0)
                     (map (\<lambda>b. pricing_for cfg (bk_provider b) (bk_model b)) active);
          reads = List.map_filter pr_cache_read priced
      in if priced = [] then JNull
         else JObj ([(''prompt'', JStr (float_str (least (map pr_input priced)))),
                     (''completion'', JStr (float_str (least (map pr_output priced))))]
                    @ (if reads = [] then [] else [(''input_cache_read'', JStr (float_str (least reads)))])))"

definition has_capability :: "model_config \<Rightarrow> string \<Rightarrow> bool" where
  "has_capability m c \<longleftrightarrow> dget (md_capabilities m) c = Some True"

definition architecture_view :: "model_config \<Rightarrow> json" where
  "architecture_view m =
     (if md_modality m = [] \<and> md_capabilities m = [] then JNull
      else JObj
        [(''modality'', JStr (if md_modality m = [] then ''text'' else md_modality m)),
         (''input_modalities'', JList (map JStr ([''text'']
            @ (if has_capability m ''vision'' \<or> md_modality m \<in> {''text+vision'', ''multimodal''} then [''image''] else [])
            @ (if has_capability m ''audio'' then [''audio''] else [])))),
         (''output_modalities'', JList [JStr ''text''])])"

definition str_or_null :: "string \<Rightarrow> json" where
  "str_or_null s = (if s = [] then JNull else JStr s)"

definition int_or_null :: "int option \<Rightarrow> json" where
  "int_or_null i = (case i of None \<Rightarrow> JNull | Some n \<Rightarrow> JInt n)"

definition list_or_null :: "string list \<Rightarrow> json" where
  "list_or_null xs = (if xs = [] then JNull else JList (map JStr xs))"

definition model_list_entry :: "(real \<Rightarrow> string) \<Rightarrow> int \<Rightarrow> gateway_config \<Rightarrow> model_config \<Rightarrow> json" where
  "model_list_entry float_str mtime cfg m =
     (let active = active_backends cfg m
      in JObj
        [(''id'', JStr (md_id m)), (''object'', JStr ''model''), (''created'', JInt mtime),
         (''owned_by'', JStr ''localgateway''),
         (''name'', JStr (if md_display_name m = [] then md_id m else md_display_name m)),
         (''description'', case md_description m of None \<Rightarrow> JNull | Some d \<Rightarrow> str_or_null d),
         (''context_length'', int_or_null (md_context_length m)),
         (''max_output_tokens'', int_or_null (md_max_output_tokens m)), (''endpoint'', JStr (md_endpoint m)),
         (''modality'', str_or_null (md_modality m)), (''architecture'', architecture_view m),
         (''capabilities'', if md_capabilities m = [] then JNull
                            else JObj (map (\<lambda>(k, v). (k, JBool v)) (md_capabilities m))),
         (''tags'', list_or_null (md_tags m)), (''aliases'', list_or_null (md_aliases m)),
         (''pricing'', pricing_view float_str cfg active), (''backend_count'', JInt (int (length active)))])"

definition listed_models :: "(real \<Rightarrow> string) \<Rightarrow> int \<Rightarrow> gateway_config \<Rightarrow> json list" where
  "listed_models float_str mtime cfg = map (model_list_entry float_str mtime cfg) (filter md_enabled (gw_models cfg))"

definition list_models :: "(real \<Rightarrow> string) \<Rightarrow> int \<Rightarrow> gateway_config \<Rightarrow> reply" where
  "list_models float_str mtime cfg =
     json_reply 200 (JObj [(''object'', JStr ''list''), (''data'', JList (listed_models float_str mtime cfg))])"

definition retrieve_model :: "(real \<Rightarrow> string) \<Rightarrow> int \<Rightarrow> gateway_config \<Rightarrow> string \<Rightarrow> reply" where
  "retrieve_model float_str mtime cfg model_id =
     (case model_by_id cfg model_id of
        Some m \<Rightarrow>
          if md_enabled m then json_reply 200 (model_list_entry float_str mtime cfg m)
          else error_reply 404
                 [(''message'', ''The model '' @ [CHR 0x27] @ model_id @ [CHR 0x27] @ '' does not exist''),
                  (''type'', ''invalid_request_error''), (''code'', ''model_not_found'')]
      | None \<Rightarrow>
          error_reply 404
            [(''message'', ''The model '' @ [CHR 0x27] @ model_id @ [CHR 0x27] @ '' does not exist''),
             (''type'', ''invalid_request_error''), (''code'', ''model_not_found'')])"

section \<open>Properties\<close>

lemma find_distinct: "distinct (map f xs) \<Longrightarrow> x \<in> set xs \<Longrightarrow> find (\<lambda>y. f y = f x) xs = Some x"
  by (induction xs) auto

text \<open>
  Listing and retrieving agree: with distinct model ids, asking for the id of any listed model gives exactly
  the entry of the list, and asking for a model that is configured but disabled gives 404.
\<close>

theorem listed_model_retrieved:
  assumes "distinct (map md_id (gw_models cfg))" and "m \<in> set (gw_models cfg)"
  shows "(md_enabled m \<longrightarrow>
        retrieve_model float_str mtime cfg (md_id m) = json_reply 200 (model_list_entry float_str mtime cfg m)
        \<and> model_list_entry float_str mtime cfg m \<in> set (listed_models float_str mtime cfg))
     \<and> (\<not> md_enabled m \<longrightarrow> rp_status (retrieve_model float_str mtime cfg (md_id m)) = 404)"
proof -
  have "model_by_id cfg (md_id m) = Some m"
    using find_distinct [OF assms] by (simp add: model_by_id_def)
  with assms(2) show ?thesis
    by (simp add: retrieve_model_def listed_models_def json_reply_def error_reply_def)
qed

theorem listed_model_retrieved_witness:
  "let cfg = default_gateway\<lparr>gw_models := [default_model ''x'' [], (default_model ''y'' [])\<lparr>md_enabled := False\<rparr>]\<rparr>
   in retrieve_model (\<lambda>_. ''0'') 7 cfg ''x'' = json_reply 200 (model_list_entry (\<lambda>_. ''0'') 7 cfg (default_model ''x'' []))
      \<and> rp_status (retrieve_model (\<lambda>_. ''0'') 7 cfg ''y'') = 404"
proof -
  let ?cfg = "default_gateway\<lparr>gw_models := [default_model ''x'' [], (default_model ''y'' [])\<lparr>md_enabled := False\<rparr>]\<rparr>"
  have "distinct (map md_id (gw_models ?cfg))" by (simp add: default_model_def)
  from listed_model_retrieved [OF this, of "default_model ''x'' []" "\<lambda>_. ''0''" 7]
    listed_model_retrieved [OF this, of "(default_model ''y'' [])\<lparr>md_enabled := False\<rparr>" "\<lambda>_. ''0''" 7]
  show ?thesis by (simp add: default_model_def Let_def)
qed

end
