(* ===== verification/Supervisor.thy ===== *)
theory Supervisor
  imports Worker Sse
begin

text \<open>
  The supervisor (\<^verbatim>\<open>src/localgateway/supervisor.py\<close>): the worker process it manages, the middlewares
  in front of every request, and the proxies that pass a request on to the worker.

  \<open>sp_live\<close> are the worker processes that are running; \<open>sp_next\<close> is the number the next one gets.  The
  answer of the worker to a proxied request is a parameter (in the theories that compose the two it is the
  model of the worker).  Routes of the administration API and of the web pages are told by \<open>local_route\<close>.
\<close>

section \<open>The worker process\<close>

record supervisor =
  sp_port :: int
  sp_worker_port :: int
  sp_proc :: "nat option"
  sp_started_at :: "time option"
  sp_live :: "nat list"
  sp_next :: nat

definition new_supervisor :: "int \<Rightarrow> int \<Rightarrow> supervisor" where
  "new_supervisor port worker_port =
     \<lparr>sp_port = port, sp_worker_port = worker_port, sp_proc = None, sp_started_at = None, sp_live = [], sp_next = 1\<rparr>"

text \<open>\<open>run_supervisor\<close> gives the worker the port a thousand above its own.\<close>

definition supervisor_for :: "int \<Rightarrow> supervisor" where
  "supervisor_for port = new_supervisor port (port + 1000)"

definition is_running :: "supervisor \<Rightarrow> bool" where
  "is_running s \<longleftrightarrow> (case sp_proc s of None \<Rightarrow> False | Some pid \<Rightarrow> pid \<in> set (sp_live s))"

datatype start_status = Already_running nat | Started nat

definition start :: "time \<Rightarrow> supervisor \<Rightarrow> start_status \<times> supervisor" where
  "start now s =
     (case sp_proc s of
        Some pid \<Rightarrow>
          if pid \<in> set (sp_live s) then (Already_running pid, s)
          else (Started (sp_next s),
                s\<lparr>sp_proc := Some (sp_next s), sp_started_at := Some now, sp_live := sp_live s @ [sp_next s],
                  sp_next := sp_next s + 1\<rparr>)
      | None \<Rightarrow>
          (Started (sp_next s),
           s\<lparr>sp_proc := Some (sp_next s), sp_started_at := Some now, sp_live := sp_live s @ [sp_next s],
             sp_next := sp_next s + 1\<rparr>))"

datatype stop_status = Already_stopped | Stopped nat

text \<open>
  \<open>terminate\<close>, then \<open>kill\<close> when ten seconds were not enough.  Either way the function returns from a
  \<open>wait\<close> of the process, that is after it ended; that \<open>kill\<close> ends it is the operating system's part.
\<close>

definition stop :: "supervisor \<Rightarrow> stop_status \<times> supervisor" where
  "stop s =
     (case sp_proc s of
        None \<Rightarrow> (Already_stopped, s\<lparr>sp_started_at := None\<rparr>)
      | Some pid \<Rightarrow>
          if pid \<notin> set (sp_live s) then (Already_stopped, s\<lparr>sp_proc := None, sp_started_at := None\<rparr>)
          else (Stopped pid, s\<lparr>sp_proc := None, sp_started_at := None, sp_live := removeAll pid (sp_live s)\<rparr>))"

definition restart :: "time \<Rightarrow> supervisor \<Rightarrow> start_status \<times> supervisor" where
  "restart now s = start now (snd (stop s))"

record server_status =
  ss_running :: bool
  ss_pid :: "nat option"
  ss_port :: int
  ss_worker_port :: int
  ss_uptime :: "int option"

definition status :: "time \<Rightarrow> supervisor \<Rightarrow> server_status" where
  "status now s =
     \<lparr>ss_running = is_running s, ss_pid = (if is_running s then sp_proc s else None), ss_port = sp_port s,
      ss_worker_port = sp_worker_port s,
      ss_uptime = (if is_running s
                   then (case sp_started_at s of
                           None \<Rightarrow> None
                         | Some t \<Rightarrow> if t = 0 then None else Some (round_half_even (now - t)))
                   else None)\<rparr>"

text \<open>The last event is a worker that ends by itself.\<close>

datatype sup_event = Start time | Stop_worker | Restart time | Worker_exits nat

fun sup_step :: "supervisor \<Rightarrow> sup_event \<Rightarrow> supervisor" where
  "sup_step s (Start now) = snd (start now s)"
| "sup_step s Stop_worker = snd (stop s)"
| "sup_step s (Restart now) = snd (restart now s)"
| "sup_step s (Worker_exits pid) = s\<lparr>sp_live := removeAll pid (sp_live s)\<rparr>"

section \<open>The middlewares\<close>

text \<open>The middleware added last is the outermost: \<open>api_auth\<close>, \<open>origin_guard\<close>, \<open>admin_auth\<close>, then the route.\<close>

definition api_auth :: "gateway_config \<Rightarrow> web_request \<Rightarrow> reply option" where
  "api_auth cfg req =
     (if is_admin_path (wq_path req) then None
      else if is_api_path (wq_path req) \<and> keys_configured cfg \<and> resolve_api_key req cfg = None
      then Some invalid_key_reply else None)"

definition first_nonempty :: "string list \<Rightarrow> string" where
  "first_nonempty xs = (case filter (\<lambda>x. x \<noteq> []) xs of [] \<Rightarrow> [] | x # _ \<Rightarrow> x)"

definition origin_guard :: "web_request \<Rightarrow> reply option" where
  "origin_guard req =
     (if wq_method req \<in> {''GET'', ''HEAD'', ''OPTIONS''} then None
      else if \<not> prefix ''/admin'' (wq_path req) then None
      else if header_or_empty req ''authorization'' \<noteq> [] then None
      else let origin = first_nonempty [header_or_empty req ''origin'', header_or_empty req ''referer''];
               host = header_or_empty req ''host''
           in if origin = [] then None
              else case netloc origin of
                     None \<Rightarrow> None
                   | Some loc \<Rightarrow>
                       if loc \<noteq> [] \<and> loc \<noteq> host
                       then Some (error_reply 403 [(''message'', ''Invalid origin''), (''type'', ''forbidden'')])
                       else None)"

definition admin_auth :: "gateway_config \<Rightarrow> web_request \<Rightarrow> reply option" where
  "admin_auth cfg req =
     (if is_admin_path (wq_path req) \<and> \<not> check_api_key req cfg then Some invalid_key_reply else None)"

definition sup_gate :: "gateway_config \<Rightarrow> web_request \<Rightarrow> reply option" where
  "sup_gate cfg req =
     (case api_auth cfg req of
        Some r \<Rightarrow> Some r
      | None \<Rightarrow> (case origin_guard req of Some r \<Rightarrow> Some r | None \<Rightarrow> admin_auth cfg req))"

definition set_default :: "string \<Rightarrow> string \<Rightarrow> (string, string) dict \<Rightarrow> (string, string) dict" where
  "set_default name v hs = (if \<exists>kv\<in>set hs. lower (fst kv) = lower name then hs else hs @ [(name, v)])"

definition quoted :: "string \<Rightarrow> string" where
  "quoted s = CHR 0x27 # s @ [CHR 0x27]"

definition content_security_policy :: string where
  "content_security_policy =
     ''default-src '' @ quoted ''self'' @ ''; script-src '' @ quoted ''self'' @ ''; style-src '' @ quoted ''self'' @ '' ''
     @ quoted ''unsafe-inline'' @ ''; img-src '' @ quoted ''self'' @ '' data:; font-src '' @ quoted ''self''
     @ ''; connect-src '' @ quoted ''self'' @ ''; frame-ancestors '' @ quoted ''none'' @ ''; base-uri '' @ quoted ''self''
     @ ''; form-action '' @ quoted ''self''"

definition security_headers :: "reply \<Rightarrow> reply" where
  "security_headers r =
     r\<lparr>rp_headers :=
        set_default ''X-Frame-Options'' ''DENY''
          (set_default ''Referrer-Policy'' ''no-referrer''
            (set_default ''X-Content-Type-Options'' ''nosniff''
              (set_default ''Content-Security-Policy'' content_security_policy (rp_headers r))))\<rparr>"

section \<open>Proxying to the worker\<close>

datatype worker_answer = Answer reply | Connect_error | Other_error

datatype proxied = Sent reply | Cut_off reply | Server_error

definition hop_by_hop :: "string list" where
  "hop_by_hop = [''host'', ''content-length'', ''connection'', ''keep-alive'', ''transfer-encoding'', ''upgrade'']"

definition resp_strip :: "string list" where
  "resp_strip = [''content-length'', ''content-encoding'', ''transfer-encoding'', ''connection'']"

definition drop_headers :: "string list \<Rightarrow> (string, string) dict \<Rightarrow> (string, string) dict" where
  "drop_headers names hs = filter (\<lambda>kv. lower (fst kv) \<notin> set names) hs"

text \<open>
  What the worker sees: the connection comes from this machine, whoever the client is.  (The HTTP client
  adds headers of its own, none of which is read.)
\<close>

definition to_worker :: "web_request \<Rightarrow> web_request" where
  "to_worker req =
     req\<lparr>wq_client := Some ''127.0.0.1'', wq_headers := drop_headers hop_by_hop (wq_headers req)\<rparr>"

definition relayed :: "reply \<Rightarrow> reply" where
  "relayed r = r\<lparr>rp_headers := drop_headers resp_strip (rp_headers r)\<rparr>"

definition stopped_reply :: reply where
  "stopped_reply =
     error_reply 503
       [(''message'', ''Gateway is stopped. Start it from the Logs page.''), (''type'', ''server_stopped''),
        (''code'', ''server_stopped'')]"

definition unreachable_reply :: reply where
  "unreachable_reply =
     error_reply 503
       [(''message'', ''Gateway worker is not reachable. Try restarting it.''), (''type'', ''worker_unreachable''),
        (''code'', ''worker_unreachable'')]"

definition asks_stream :: "codec \<Rightarrow> bytes \<Rightarrow> bool" where
  "asks_stream cd body =
     (case Option.bind (cd_loads_bytes cd body) as_obj of None \<Rightarrow> False | Some d \<Rightarrow> truthy (jget d ''stream''))"

definition wants_stream :: "codec \<Rightarrow> web_request \<Rightarrow> bool" where
  "wants_stream cd req =
     (let path = tl (wq_path req)
      in if path = ''admin/events'' then True
         else wq_body req \<noteq> [] \<and> \<not> prefix ''admin/'' path
              \<and> (suffix ''chat/completions'' path \<or> suffix ''/responses'' path) \<and> asks_stream cd (wq_body req))"

text \<open>
  The streaming branch: the reply starts, with status 200 and headers of its own, before the worker is
  asked, so what the worker says in its status and headers comes too late.
\<close>

definition stream_start :: "reply_body \<Rightarrow> reply" where
  "stream_start b =
     \<lparr>rp_status = 200, 
      rp_headers = [(''Cache-Control'', ''no-cache''), (''X-Accel-Buffering'', ''no''),
                    (''content-type'', ''text/event-stream; charset=utf-8'')],
      rp_body = b\<rparr>"

definition proxy :: "codec \<Rightarrow> (web_request \<Rightarrow> worker_answer) \<Rightarrow> supervisor \<Rightarrow> web_request \<Rightarrow> proxied" where
  "proxy cd worker s req =
     (if \<not> is_running s then Sent stopped_reply
      else if wants_stream cd req
      then (case worker (to_worker req) of
              Answer r \<Rightarrow> Sent (stream_start (rp_body r))
            | _ \<Rightarrow> Cut_off (stream_start (Chunks [])))
      else (case worker (to_worker req) of
              Answer r \<Rightarrow> Sent (relayed r)
            | Connect_error \<Rightarrow> Sent unreachable_reply
            | Other_error \<Rightarrow> Server_error))"

definition live_routes :: "(string \<times> string) list" where
  "live_routes =
     [(''GET'', ''/admin/health''), (''GET'', ''/admin/rate-limits''), (''GET'', ''/admin/inflight''),
      (''GET'', ''/admin/warmth''), (''DELETE'', ''/admin/warmth''), (''GET'', ''/admin/circuit''),
      (''POST'', ''/admin/circuit/reset'')]"

text \<open>A live endpoint: the worker's when it runs and answers, the supervisor's own otherwise.\<close>

definition live_proxy ::
    "(web_request \<Rightarrow> worker_answer) \<Rightarrow> (web_request \<Rightarrow> reply) \<Rightarrow> supervisor \<Rightarrow> web_request \<Rightarrow> reply" where
  "live_proxy worker own s req =
     (if is_running s
      then (case worker (if wq_method req = ''GET'' then (to_worker req)\<lparr>wq_headers := [], wq_body := []\<rparr> else to_worker req) of
              Answer r \<Rightarrow> relayed r
            | _ \<Rightarrow> own req)
      else own req)"

text \<open>
  A whole request: the middlewares, then the first route that matches.  \<open>own\<close> answers the routes that the
  supervisor serves itself (pages, static files, the administration API and the server's own
  start, stop and status).
\<close>

definition serve ::
    "codec \<Rightarrow> gateway_config \<Rightarrow> (web_request \<Rightarrow> bool) \<Rightarrow> (web_request \<Rightarrow> reply) \<Rightarrow> (web_request \<Rightarrow> worker_answer)
     \<Rightarrow> supervisor \<Rightarrow> web_request \<Rightarrow> proxied"
where
  "serve cd cfg local_route own worker s req =
     (case sup_gate cfg req of
        Some r \<Rightarrow> Sent r
      | None \<Rightarrow>
          if (wq_method req, wq_path req) \<in> set live_routes
          then Sent (security_headers (live_proxy worker own s req))
          else if local_route req then Sent (security_headers (own req))
          else case proxy cd worker s req of
                 Sent r \<Rightarrow> Sent (security_headers r)
               | Cut_off r \<Rightarrow> Cut_off (security_headers r)
               | Server_error \<Rightarrow> Server_error)"

section \<open>Lemmas\<close>

text \<open>The running processes are the one the supervisor knows, if any.\<close>

definition sup_inv :: "supervisor \<Rightarrow> bool" where
  "sup_inv s \<longleftrightarrow> sp_live s = [] \<or> (\<exists>pid. sp_proc s = Some pid \<and> sp_live s = [pid])"

lemma sup_inv_start: "sup_inv s \<Longrightarrow> sup_inv (snd (start now s))"
  by (auto simp: sup_inv_def start_def split: option.splits)

lemma sup_inv_stop: "sup_inv s \<Longrightarrow> sup_inv (snd (stop s))"
  by (auto simp: sup_inv_def stop_def split: option.splits)

lemma sup_inv_step: "sup_inv s \<Longrightarrow> sup_inv (sup_step s ev)"
proof (cases ev)
  case (Worker_exits pid)
  assume "sup_inv s"
  with Worker_exits show ?thesis by (auto simp: sup_inv_def split: if_splits)
qed (simp_all add: sup_inv_start sup_inv_stop restart_def)

lemma sup_inv_run: "sup_inv s \<Longrightarrow> sup_inv (foldl sup_step s evs)"
  by (induction evs arbitrary: s) (simp_all add: sup_inv_step)

lemma running_after_start: "is_running (snd (start now s))"
  by (simp add: is_running_def start_def split: option.split)

lemma no_live_after_stop: "sup_inv s \<Longrightarrow> sp_live (snd (stop s)) = []"
  by (auto simp: sup_inv_def stop_def split: option.splits)

lemma sup_inv_running: "sup_inv s \<Longrightarrow> length (sp_live s) \<le> 1 \<and> (sp_live s \<noteq> []) = is_running s"
  by (auto simp: sup_inv_def is_running_def split: option.splits)

lemma to_worker_simps [simp]:
  "wq_path (to_worker req) = wq_path req" "wq_client (to_worker req) = Some ''127.0.0.1''"
  "wq_method (to_worker req) = wq_method req" "wq_body (to_worker req) = wq_body req"
  by (simp_all add: to_worker_def)

lemma worker_trusts_proxy: "check_api_key (to_worker req) cfg"
  by (simp add: check_api_key_def)

lemma invalid_key_status [simp]: "rp_status invalid_key_reply = 401"
  by (simp add: invalid_key_reply_def error_reply_def json_reply_def)

lemma origin_guard_status: "origin_guard req = Some r \<Longrightarrow> rp_status r = 403"
  by (auto simp: origin_guard_def Let_def error_reply_def json_reply_def split: option.splits if_splits)

section \<open>Properties\<close>

text \<open>
  C37. There is never more than one worker: after any sequence of starts, stops, restarts and workers that end
  by themselves, at most one process runs, it is the one the supervisor knows, and \<open>stop\<close> leaves none.
\<close>

theorem single_worker:
  "let s = foldl sup_step (new_supervisor port worker_port) evs
   in length (sp_live s) \<le> 1 \<and> (sp_live s \<noteq> []) = is_running s \<and> sp_live (snd (stop s)) = []"
proof -
  have "sup_inv (foldl sup_step (new_supervisor port worker_port) evs)"
    by (rule sup_inv_run) (simp add: sup_inv_def new_supervisor_def)
  with no_live_after_stop sup_inv_running show ?thesis by (simp add: Let_def)
qed

text \<open>
  C34. With keys configured, the administration, the guarded pages and the API are closed to strangers: a request
  under \<open>/admin\<close>, for a page of the guarded list, or under \<open>/v1\<close> or \<open>/api/v1\<close> that comes from another
  machine without a token of an enabled key is answered 401 by the supervisor (or 403), whatever the worker
  and the endpoints would say.  Other paths (\<open>/metrics\<close>, \<open>/connections\<close>, static files) are not covered, nor
  is a gateway without keys.
\<close>

theorem strangers_kept_out:
  assumes "keys_configured cfg" and "\<not> is_loopback_host (wq_client req)"
    and "\<not> (\<exists>k. key_of_token cfg (bearer_token req) k)"
    and "is_admin_path (wq_path req) \<or> is_api_path (wq_path req)"
  shows "\<exists>r. (\<forall>worker own local_route s. serve cd cfg local_route own worker s req = Sent r) \<and> rp_status r \<in> {401, 403}"
proof -
  have none: "resolve_api_key req cfg = None"
    using assms(1,3) resolve_sound [of cfg req] by (cases "resolve_api_key req cfg") auto
  then have "\<not> check_api_key req cfg" using assms(1,2) by (simp add: check_api_key_def)
  with none assms(1,4) have "(\<exists>r. sup_gate cfg req = Some r \<and> rp_status r \<in> {401, 403})"
    by (cases "origin_guard req") (auto simp: sup_gate_def api_auth_def admin_auth_def dest: origin_guard_status)
  then show ?thesis by (auto simp: serve_def)
qed

definition stranger :: web_request where
  "stranger = (demo_web_request ''GET'' ''/admin/config'' ''10.0.0.7'')\<lparr>wq_headers := []\<rparr>"

theorem strangers_kept_out_witness:
  "\<exists>r. (\<forall>worker own local_route s. serve demo_codec keyed_gateway local_route own worker s stranger = Sent r)
       \<and> rp_status r \<in> {401, 403}"
  by (rule strangers_kept_out)
     (simp_all add: stranger_def demo_web_request_def keyed_gateway_def keys_configured_def server_key_def
        remote_not_loopback key_of_token_def bearer_token_def header_or_empty_def is_admin_path_def default_gateway_def
        default_server_def)

text \<open>
  The guard against foreign pages: a request that changes something under \<open>/admin\<close>, carries no
  token and names the page it comes from is refused exactly when the host of that page is not the host
  it is addressed to.
\<close>

theorem foreign_page_refused:
  assumes "plain_host h" and "h \<noteq> []" and "dget (wq_headers req) ''authorization'' = None"
    and "dget (wq_headers req) ''origin'' = Some (''http://'' @ h)"
    and "wq_method req \<notin> {''GET'', ''HEAD'', ''OPTIONS''}" and "prefix ''/admin'' (wq_path req)"
  shows "origin_guard req \<noteq> None \<longleftrightarrow> h \<noteq> header_or_empty req ''host''"
proof -
  have "header_or_empty req ''origin'' = ''http://'' @ h" "header_or_empty req ''authorization'' = []"
    using assms by (simp_all add: header_or_empty_def)
  then show ?thesis
    using assms(2,5,6) netloc_http [OF assms(1)] by (auto simp: origin_guard_def first_nonempty_def Let_def)
qed

definition page_request :: "string \<Rightarrow> string \<Rightarrow> web_request" where
  "page_request origin host =
     \<lparr>wq_method = ''POST'', wq_path = ''/admin/providers'', wq_query = [], wq_client = Some ''127.0.0.1'',
      wq_headers = [(''origin'', origin), (''host'', host)], wq_body = []\<rparr>"

theorem foreign_page_refused_witness:
  "origin_guard (page_request (''http://'' @ ''evil.com'') ''localhost:3456'') \<noteq> None
   \<longleftrightarrow> ''evil.com'' \<noteq> header_or_empty (page_request (''http://'' @ ''evil.com'') ''localhost:3456'') ''host''"
  by (rule foreign_page_refused) (simp_all add: plain_host_def is_letter_def byte_def page_request_def)

text \<open>
  A page whose name has been bound to this machine (DNS rebinding) is addressed by that name, so its
  origin and the host agree, and the guard lets it pass; and so does the origin \<open>null\<close> of a
  sandboxed frame, which has no host at all.
\<close>

theorem rebound_page_passes:
  "plain_host h \<Longrightarrow> origin_guard (page_request (''http://'' @ h) h) = None"
  using netloc_http [of h] by (simp add: origin_guard_def page_request_def header_or_empty_def first_nonempty_def Let_def)

theorem null_origin_passes: "origin_guard (page_request ''null'' h) = None"
  by (simp add: origin_guard_def page_request_def header_or_empty_def first_nonempty_def netloc_examples Let_def)

text \<open>
  A streamed request loses its status: whatever the worker answers to a request that asks for a stream,
  a refusal included, the client of the supervisor reads status 200, and none of the worker's headers.
\<close>

theorem streamed_status_lost:
  assumes "sup_gate cfg req = None" and "(wq_method req, wq_path req) \<notin> set live_routes" and "\<not> local_route req"
    and "is_running s" and "wants_stream cd req" and "worker (to_worker req) = Answer r"
  shows "serve cd cfg local_route own worker s req = Sent (security_headers (stream_start (rp_body r)))
    \<and> rp_status (security_headers (stream_start (rp_body r))) = 200"
  using assms by (simp add: serve_def proxy_def security_headers_def stream_start_def)

definition streaming_codec :: codec where
  "streaming_codec = demo_codec\<lparr>cd_loads_bytes := \<lambda>_. Some (JObj [(''stream'', JBool True)])\<rparr>"

definition stream_request :: web_request where
  "stream_request = (demo_web_request ''POST'' ''/v1/chat/completions'' ''127.0.0.1'')\<lparr>wq_body := ''{}''\<rparr>"

theorem streamed_status_lost_witness:
  "serve streaming_codec default_gateway (\<lambda>_. False) (\<lambda>_. stopped_reply) (\<lambda>_. Answer invalid_key_reply)
     (snd (start 0 (supervisor_for 3456))) stream_request
   = Sent (security_headers (stream_start (rp_body invalid_key_reply)))
   \<and> rp_status (security_headers (stream_start (rp_body invalid_key_reply))) = 200"
  by (rule streamed_status_lost)
     (simp_all add: sup_gate_def api_auth_def origin_guard_def admin_auth_def stream_request_def demo_web_request_def
        is_admin_path_def is_page_path_def page_paths_def page_prefixes_def keys_configured_def server_key_def
        default_gateway_def default_server_def live_routes_def running_after_start wants_stream_def asks_stream_def
        streaming_codec_def jget_def suffix_def)

end
