(* ===== verification/Metrics.thy ===== *)
theory Metrics
  imports Supervisor Streaming "HOL-Library.Char_ord"
begin

text \<open>
  The metrics endpoint (\<^verbatim>\<open>src/localgateway/endpoints/metrics.py\<close>): the text exposition, its five-second
  cache, and who may read it.  \<open>float_str\<close> is \<open>str\<close> of a float.
\<close>

section \<open>The text\<close>

definition esc_char :: "char \<Rightarrow> string" where
  "esc_char c =
     (if c = CHR 0x5C then [CHR 0x5C, CHR 0x5C] else if c = CHR 0x0A then [CHR 0x5C, CHR ''n'']
      else if c = CHR 0x22 then [CHR 0x5C, CHR 0x22] else [c])"

definition esc_label :: "string \<Rightarrow> string" where
  "esc_label v = concat (map esc_char v)"

definition label_pair :: "string \<Rightarrow> string \<Rightarrow> string" where
  "label_pair name v = name @ ''='' @ [CHR 0x22] @ esc_label v @ [CHR 0x22]"

definition backend_to_model :: "gateway_config \<Rightarrow> (string, string) dict" where
  "backend_to_model cfg =
     fold (\<lambda>m d. fold (\<lambda>b d. dset (backend_key (bk_provider b) (bk_model b)) (md_id m) d) (md_backends m) d)
       (gw_models cfg) []"

definition backend_labels :: "gateway_config \<Rightarrow> string \<Rightarrow> string" where
  "backend_labels cfg key =
     label_pair ''model'' (case dget (backend_to_model cfg) key of None \<Rightarrow> [] | Some m \<Rightarrow> m) @ '',''
     @ label_pair ''provider'' (before (CHR '':'') key) @ '','' @ label_pair ''backend'' (after (CHR '':'') key)"

definition sample :: "string \<Rightarrow> string \<Rightarrow> string \<Rightarrow> string" where
  "sample name labels v = name @ ''{'' @ labels @ ''} '' @ v"

definition family :: "string \<Rightarrow> string \<Rightarrow> string \<Rightarrow> string list" where
  "family name help kind = [''# HELP '' @ name @ '' '' @ help, ''# TYPE '' @ name @ '' '' @ kind]"

definition by_key :: "(string, 'a) dict \<Rightarrow> (string \<times> 'a) list" where
  "by_key d = sort_key fst d"

definition stats_lines :: "gateway_config \<Rightarrow> st_state \<Rightarrow> string list" where
  "stats_lines cfg st =
     family ''lga_requests_total'' ''Total completed requests per backend'' ''counter''
     @ family ''lga_request_errors_total'' ''Total failed requests per backend'' ''counter''
     @ family ''lga_inflight'' ''Currently in-flight requests per backend'' ''gauge''
     @ concat (map (\<lambda>(key, v). let labels = backend_labels cfg key in
          [sample ''lga_requests_total'' labels (nat_str (sn_requests v)),
           sample ''lga_request_errors_total'' labels (nat_str (sn_failures v)),
           sample ''lga_inflight'' labels (nat_str (sn_in_flight v))]) (by_key (Stats.snapshot st)))"

definition cost_lines :: "(real \<Rightarrow> string) \<Rightarrow> usage_summary \<Rightarrow> string list" where
  "cost_lines float_str summary =
     family ''lga_cost_usd_total'' ''Spend per provider (trailing 24h window)'' ''gauge''
     @ family ''lga_tokens_total'' ''Tokens per provider by kind (trailing 24h window)'' ''gauge''
     @ concat (map (\<lambda>(provider, a). let pl = label_pair ''provider'' provider in
          [sample ''lga_cost_usd_total'' pl (float_str (ag_cost a)),
           sample ''lga_tokens_total'' (pl @ '','' @ label_pair ''kind'' ''input'') (int_str (ag_input a)),
           sample ''lga_tokens_total'' (pl @ '','' @ label_pair ''kind'' ''output'') (int_str (ag_output a))])
          (by_key (us_by_provider summary)))"

definition circuit_lines :: "gateway_config \<Rightarrow> (string, circuit_view) dict \<Rightarrow> string list" where
  "circuit_lines cfg circuits =
     family ''lga_circuit_open'' ''Circuit breaker state (1=open, 0=closed)'' ''gauge''
     @ map (\<lambda>(key, c). sample ''lga_circuit_open'' (backend_labels cfg key) (if cv_open c then ''1'' else ''0'')) (by_key circuits)"

definition warm_counts :: "(string, bucket) dict \<Rightarrow> (string, nat) dict" where
  "warm_counts warmth =
     fold (\<lambda>bk d. dset bk ((case dget d bk of None \<Rightarrow> 0 | Some n \<Rightarrow> n) + 1) d) (concat (map (\<lambda>(_, b). map fst b) warmth)) []"

definition warmth_lines :: "gateway_config \<Rightarrow> st_state \<Rightarrow> string list" where
  "warmth_lines cfg st =
     family ''lga_warm_keys'' ''Cache-warm conversation keys per backend'' ''gauge''
     @ map (\<lambda>(key, n). sample ''lga_warm_keys'' (backend_labels cfg key) (nat_str n)) (by_key (warm_counts (warmth_snapshot st)))"

text \<open>\<open>_render\<close>; it applies the circuit breaker's settings on the way.\<close>

definition render_metrics ::
    "(real \<Rightarrow> string) \<Rightarrow> gateway_config \<Rightarrow> time \<Rightarrow> time \<Rightarrow> gateway \<Rightarrow> string \<times> gateway" where
  "render_metrics float_str cfg wall now g =
     (let circuits = Router.configure_from_config cfg (wd_circuits (gt_world g)); st = wd_stats (gt_world g);
          lns = stats_lines cfg st @ cost_lines float_str (get_usage_summary (gt_usage g) wall 24)
                  @ circuit_lines cfg (CircuitBreaker.snapshot circuits now) @ warmth_lines cfg st
      in (join_with [LF] lns @ [LF], set_circuits circuits g))"

section \<open>The endpoint\<close>

definition text_reply :: "string \<Rightarrow> reply" where
  "text_reply s =
     \<lparr>rp_status = 200, rp_headers = [(''content-type'', ''text/plain; version=0.0.4'')], rp_body = Raw_body s\<rparr>"

definition metrics ::
    "(real \<Rightarrow> string) \<Rightarrow> gateway_config \<Rightarrow> time \<Rightarrow> time \<Rightarrow> web_request \<Rightarrow> (time \<times> string) option \<times> gateway
     \<Rightarrow> reply \<times> (time \<times> string) option \<times> gateway"
where
  "metrics float_str cfg wall now req state =
     (let (cache, g) = state
      in if keys_configured cfg \<and> \<not> check_api_key req cfg then (invalid_key_reply, cache, g)
         else case cache of
                Some (t, body) \<Rightarrow>
                  if wall - t < 5 then (text_reply body, cache, g)
                  else (let (body, g1) = render_metrics float_str cfg wall now g in (text_reply body, Some (wall, body), g1))
              | None \<Rightarrow>
                  (let (body, g1) = render_metrics float_str cfg wall now g in (text_reply body, Some (wall, body), g1)))"

text \<open>The worker's answer to a request for the metrics: the middleware, then the endpoint.\<close>

definition metrics_worker ::
    "(real \<Rightarrow> string) \<Rightarrow> gateway_config \<Rightarrow> gate_env \<Rightarrow> gate_state \<Rightarrow> (time \<times> string) option \<times> gateway
     \<Rightarrow> web_request \<Rightarrow> worker_answer"
where
  "metrics_worker float_str cfg e s state req =
     Answer (case fst (auth_middleware e cfg req s) of
               Rejected r \<Rightarrow> r
             | Admitted _ \<Rightarrow> fst (metrics float_str cfg (ge_wall e) (ge_now e) req state))"

lemma metrics_text:
  assumes "check_api_key req cfg"
  shows "\<exists>body. fst (metrics float_str cfg wall now req state) = text_reply body"
proof -
  obtain cache g where state: "state = (cache, g)" by fastforce
  show ?thesis
  proof (cases cache)
    case (Some tb)
    with assms show ?thesis by (cases tb) (auto simp: metrics_def state split_beta)
  qed (use assms in \<open>auto simp: metrics_def state split_beta\<close>)
qed

section \<open>Properties\<close>

text \<open>Reading a label value back, up to the closing quote.\<close>

fun unesc_label :: "string \<Rightarrow> (string \<times> string) option" where
  "unesc_label [] = None"
| "unesc_label (c # s) =
     (if c = CHR 0x22 then Some ([], s)
      else if c = CHR 0x0A then None
      else if c = CHR 0x5C
      then (case s of
              [] \<Rightarrow> None
            | d # s' \<Rightarrow> map_option (\<lambda>(v, rest). ((if d = CHR ''n'' then CHR 0x0A else d) # v, rest)) (unesc_label s'))
      else map_option (\<lambda>(v, rest). (c # v, rest)) (unesc_label s))"

text \<open>
  A label cannot break the exposition: whatever a model or provider is called, quotes, backslashes and line
  breaks included, a reader of the text gets the value back and goes on right after its closing quote.
\<close>

theorem label_roundtrip: "unesc_label (esc_label v @ CHR 0x22 # rest) = Some (v, rest)"
proof (induction v)
  case Nil
  then show ?case by (simp add: esc_label_def)
next
  case (Cons c v)
  then show ?case by (simp add: esc_label_def esc_char_def)
qed

text \<open>
  The metrics are open to the network: whatever keys are configured, a client on another machine that
  asks the supervisor for \<open>/metrics\<close> without any key gets them with status 200, because the worker
  takes the supervisor's own address for the client's.
\<close>

theorem metrics_open_to_network:
  assumes "is_running s" and "wq_path req = ''/metrics''" and "wq_method req = ''GET''" and "\<not> local_route req"
  shows "\<exists>body. serve cd cfg local_route own (metrics_worker float_str cfg e gs state) s req
            = Sent (security_headers (relayed (text_reply body)))"
proof -
  have gate: "sup_gate cfg req = None"
    using assms(2,3) by (simp add: sup_gate_def api_auth_def origin_guard_def admin_auth_def is_admin_path_def is_api_path_def
        is_page_path_def page_paths_def page_prefixes_def)
  have admitted: "fst (auth_middleware e cfg (to_worker req) gs) = Admitted None"
    using assms(2) by (simp add: auth_middleware_def is_admin_path_def is_api_path_def
        is_page_path_def page_paths_def page_prefixes_def)
  obtain body where "fst (metrics float_str cfg (ge_wall e) (ge_now e) (to_worker req) state) = text_reply body"
    using metrics_text [OF worker_trusts_proxy] by blast
  with gate admitted assms show ?thesis
    by (intro exI [of _ body]) (simp add: serve_def proxy_def live_routes_def wants_stream_def metrics_worker_def suffix_def)
qed

theorem metrics_open_to_network_witness:
  "\<exists>body. serve demo_codec keyed_gateway (\<lambda>_. False) (\<lambda>_. stopped_reply)
        (metrics_worker (\<lambda>_. ''0.0'') keyed_gateway demo_gate_env demo_gate (None, demo_gateway))
        (snd (start 0 (supervisor_for 3456))) (stranger\<lparr>wq_path := ''/metrics''\<rparr>)
      = Sent (security_headers (relayed (text_reply body)))"
  by (rule metrics_open_to_network) (simp_all add: running_after_start stranger_def demo_web_request_def)

end
