(* ===== verification/AdminConfig.thy ===== *)
theory AdminConfig
  imports Models ConfigStore Accounting
begin

text \<open>
  The administration of the configuration (\<^verbatim>\<open>src/localgateway/endpoints/admin.py\<close>, \<open>/admin/config\<close>,
  \<open>/admin/usage\<close>, \<open>/admin/backups\<close>): reading it with its secrets hidden, replacing it under a version
  check, revealing and setting keys, and restoring a backup.

  \<open>admin_state\<close> is what these handlers share: the configuration file with its in-memory copy, the cache of
  the overview page and the cache of measured speeds.  The record \<open>admin_env\<close> holds what is not part of
  the repository: reading and writing the file, and pydantic's validation (\<open>model_validate\<close>, \<open>Inl\<close> the text
  of its exception) and rendering (\<open>model_dump\<close>).  A dump has one entry per field of the record, so hiding
  a field in the dump is written as hiding it in the record.

  \<open>load_config\<close> returns the cached object itself, so an assignment to one of its fields is seen by every
  later reader whether or not it is saved: \<open>touch\<close>.  A handler that awaits the body after loading works on
  the object it loaded; \<open>cfg\<close> is that object in the definitions that take one.
\<close>

section \<open>State\<close>

type_synonym overview_cache = "(int, time \<times> (string, model_agg) dict) dict"

record admin_state =
  ad_store :: config_store
  ad_overview :: overview_cache
  ad_tps :: tps_cache

record admin_env =
  ae_parse :: "bytes \<Rightarrow> gateway_config option"
  ae_dump :: "gateway_config \<Rightarrow> bytes"
  ae_faults :: disk_faults
  ae_mtime :: time
  ae_gateway :: "json \<Rightarrow> string + gateway_config"
  ae_model :: "json \<Rightarrow> string + model_config"
  ae_backend :: "json \<Rightarrow> string + backend_config"
  ae_routing :: "json \<Rightarrow> string + time_routing_config"
  ae_slot :: "json \<Rightarrow> string + time_slot"
  ae_view :: "gateway_config \<Rightarrow> json"
  ae_view_model :: "model_config \<Rightarrow> json"
  ae_view_routing :: "time_routing_config \<Rightarrow> json"
  ae_view_slot :: "time_slot \<Rightarrow> json"

type_synonym answer = "py_error + reply"

definition fetch_config :: "admin_env \<Rightarrow> admin_state \<Rightarrow> gateway_config \<times> admin_state" where
  "fetch_config env s =
     (let (cfg, st) = load_config (ae_parse env) (ad_store s) in (cfg, s\<lparr>ad_store := st\<rparr>))"

definition store_config :: "admin_env \<Rightarrow> gateway_config \<Rightarrow> admin_state \<Rightarrow> admin_state" where
  "store_config env cfg s =
     s\<lparr>ad_store := save_config (ae_dump env) (ae_faults env) (ae_mtime env) cfg (ad_store s),
       ad_tps := invalidate_tps_map (ad_tps s)\<rparr>"

text \<open>An assignment to the object \<open>cfg\<close>, which is now \<open>cfg'\<close>: the cache holds it unless it was replaced meanwhile.\<close>

definition touch :: "gateway_config \<Rightarrow> gateway_config \<Rightarrow> admin_state \<Rightarrow> admin_state" where
  "touch cfg cfg' s =
     (if cs_config (ad_store s) = Some cfg then s\<lparr>ad_store := (ad_store s)\<lparr>cs_config := Some cfg'\<rparr>\<rparr> else s)"

definition on_config :: "admin_env \<Rightarrow> (gateway_config \<Rightarrow> admin_state \<Rightarrow> 'a) \<Rightarrow> admin_state \<Rightarrow> 'a" where
  "on_config env h s = (let (cfg, s') = fetch_config env s in h cfg s')"

section \<open>Replies and bodies\<close>

definition fail_reply :: "int \<Rightarrow> string \<Rightarrow> reply" where
  "fail_reply status msg = json_reply status (JObj [(''error'', JStr msg)])"

definition ok_reply :: reply where
  "ok_reply = json_reply 200 (JObj [(''status'', JStr ''ok'')])"

definition in_quotes :: "string \<Rightarrow> string" where
  "in_quotes s = CHR 0x27 # s @ [CHR 0x27]"

definition not_found :: "string \<Rightarrow> string \<Rightarrow> reply" where
  "not_found kind name = fail_reply 404 (kind @ '' '' @ in_quotes name @ '' not found'')"

definition em_dash :: string where
  "em_dash = [CHR 0xE2, CHR 0x80, CHR 0x94]"

text \<open>\<open>(v or "").strip()\<close>, and \<open>body.get\<close>, which only a dictionary has.\<close>

definition text_field :: "json \<Rightarrow> py_error + string" where
  "text_field v =
     (if \<not> truthy v then Inr [] else case v of JStr t \<Rightarrow> Inr (strip t) | _ \<Rightarrow> Inl AttributeError)"

definition with_dict :: "json \<Rightarrow> (jobj \<Rightarrow> 's \<Rightarrow> answer \<times> 's) \<Rightarrow> 's \<Rightarrow> answer \<times> 's" where
  "with_dict body h s = (case body of JObj d \<Rightarrow> h d s | _ \<Rightarrow> (Inl AttributeError, s))"

text \<open>An assignment to a field of the first element that \<open>next(...)\<close> finds.\<close>

fun update_first :: "('a \<Rightarrow> bool) \<Rightarrow> ('a \<Rightarrow> 'a) \<Rightarrow> 'a list \<Rightarrow> 'a list" where
  "update_first p f [] = []"
| "update_first p f (x # xs) = (if p x then f x # xs else x # update_first p f xs)"

section \<open>Secrets\<close>

definition hide :: "string \<Rightarrow> string" where
  "hide s = (if s = [] then [] else redacted_key)"

definition redact_provider :: "provider_config \<Rightarrow> provider_config" where
  "redact_provider p = p\<lparr>pv_api_key := hide (pv_api_key p)\<rparr>"

definition redact_key :: "api_key_config \<Rightarrow> api_key_config" where
  "redact_key k = k\<lparr>ak_key := hide (ak_key k)\<rparr>"

definition redact_server :: "server_config \<Rightarrow> server_config" where
  "redact_server sv = sv\<lparr>sv_api_keys := map redact_key (sv_api_keys sv), sv_api_key := map_option hide (sv_api_key sv)\<rparr>"

definition redact :: "gateway_config \<Rightarrow> gateway_config" where
  "redact cfg = cfg\<lparr>gw_providers := map redact_provider (gw_providers cfg), gw_server := redact_server (gw_server cfg)\<rparr>"

definition get_config :: "admin_env \<Rightarrow> admin_state \<Rightarrow> reply \<times> admin_state" where
  "get_config env = on_config env (\<lambda>cfg s. (json_reply 200 (ae_view env (redact cfg)), s))"

definition reload_config_endpoint :: "admin_env \<Rightarrow> admin_state \<Rightarrow> reply \<times> admin_state" where
  "reload_config_endpoint env s =
     (let (cfg, st) = reload_config (ae_parse env) (ad_store s)
      in (json_reply 200 (JObj [(''status'', JStr ''ok''), (''config'', ae_view env cfg)]), s\<lparr>ad_store := st\<rparr>))"

text \<open>
  Setting a key.  The value is assigned without validation; one that is neither a string nor null leaves the
  schema's types, and the result is \<open>None\<close> here.
\<close>

definition with_provider_key :: "string \<Rightarrow> string \<Rightarrow> gateway_config \<Rightarrow> gateway_config" where
  "with_provider_key pid key cfg =
     cfg\<lparr>gw_providers := update_first (\<lambda>p. pv_id p = pid) (\<lambda>p. p\<lparr>pv_api_key := key\<rparr>) (gw_providers cfg)\<rparr>"

definition placeholder_refusal :: "string \<Rightarrow> string" where
  "placeholder_refusal what =
     ''refusing to save the redacted placeholder as '' @ what @ '' '' @ em_dash @ '' enter the real key''"

definition assign_provider_key ::
    "admin_env \<Rightarrow> string \<Rightarrow> json \<Rightarrow> gateway_config \<Rightarrow> admin_state \<Rightarrow> (answer \<times> admin_state) option" where
  "assign_provider_key env pid v cfg s =
     (case provider_by_id cfg pid of
        None \<Rightarrow> Some (Inr (not_found ''Provider'' pid), s)
      | Some p \<Rightarrow>
          if v = JStr redacted_key then Some (Inr (fail_reply 422 (placeholder_refusal ''an API key'')), s)
          else (case v of
                  JStr key \<Rightarrow> Some (Inr ok_reply, store_config env (with_provider_key pid key cfg) s)
                | JNull \<Rightarrow> Some (Inr ok_reply, store_config env (with_provider_key pid [] cfg) s)
                | _ \<Rightarrow> None))"

definition set_provider_api_key :: "admin_env \<Rightarrow> json \<Rightarrow> admin_state \<Rightarrow> (answer \<times> admin_state) option" where
  "set_provider_api_key env body s =
     (case body of
        JObj d \<Rightarrow>
          (case text_field (jget d ''provider'') of
             Inl e \<Rightarrow> Some (Inl e, s)
           | Inr pid \<Rightarrow>
               if pid = [] then Some (Inr (fail_reply 422 ''provider is required''), s)
               else on_config env (assign_provider_key env pid (jget d ''api_key'')) s)
      | _ \<Rightarrow> Some (Inl AttributeError, s))"

definition reveal_provider_api_key :: "admin_env \<Rightarrow> string \<Rightarrow> admin_state \<Rightarrow> reply \<times> admin_state" where
  "reveal_provider_api_key env pid = on_config env (\<lambda>cfg s.
     (case provider_by_id cfg pid of
        None \<Rightarrow> not_found ''Provider'' pid
      | Some p \<Rightarrow> json_reply 200 (JObj [(''provider'', JStr pid), (''api_key'', JStr (pv_api_key p))]), s))"

definition reveal_server_api_key :: "admin_env \<Rightarrow> string \<Rightarrow> admin_state \<Rightarrow> reply \<times> admin_state" where
  "reveal_server_api_key env kid = on_config env (\<lambda>cfg s.
     (if kid = ''legacy'' then
        (case sv_api_key (gw_server cfg) of
           None \<Rightarrow> fail_reply 404 ''No legacy api_key set''
         | Some key \<Rightarrow>
             if key = [] then fail_reply 404 ''No legacy api_key set''
             else json_reply 200 (JObj [(''id'', JStr ''legacy''), (''key'', JStr key)]))
      else
        (case api_key_by_id cfg kid of
           None \<Rightarrow> not_found ''Key'' kid
         | Some k \<Rightarrow> json_reply 200 (JObj [(''id'', JStr kid), (''key'', JStr (ak_key k))])), s))"

section \<open>Replacing the configuration\<close>

text \<open>
  \<open>current.version != incoming_version\<close>: numbers compare by value, and nothing else equals a number.
  A placeholder is replaced by the key the current configuration has under the same id.
\<close>

fun equals_int :: "json \<Rightarrow> int \<Rightarrow> bool" where
  "equals_int (JInt i) n = (i = n)"
| "equals_int (JBool b) n = ((if b then 1 else 0) = n)"
| "equals_int (JFloat x) n = (x = of_int n)"
| "equals_int _ n = False"

definition incoming_version :: "json \<Rightarrow> json" where
  "incoming_version body = (case body of JObj d \<Rightarrow> jget d ''version'' | _ \<Rightarrow> JNull)"

fun keep_provider_keys :: "gateway_config \<Rightarrow> provider_config list \<Rightarrow> string + provider_config list" where
  "keep_provider_keys current [] = Inr []"
| "keep_provider_keys current (p # ps) =
     (if pv_api_key p = redacted_key then
        (case provider_by_id current (pv_id p) of
           None \<Rightarrow> Inl (pv_id p)
         | Some old \<Rightarrow> map_sum id (Cons (p\<lparr>pv_api_key := pv_api_key old\<rparr>)) (keep_provider_keys current ps))
      else map_sum id (Cons p) (keep_provider_keys current ps))"

fun keep_client_keys :: "gateway_config \<Rightarrow> api_key_config list \<Rightarrow> string + api_key_config list" where
  "keep_client_keys current [] = Inr []"
| "keep_client_keys current (k # ks) =
     (if ak_key k = redacted_key then
        (case api_key_by_id current (ak_id k) of
           None \<Rightarrow> Inl (ak_id k)
         | Some old \<Rightarrow> map_sum id (Cons (k\<lparr>ak_key := ak_key old\<rparr>)) (keep_client_keys current ks))
      else map_sum id (Cons k) (keep_client_keys current ks))"

definition keep_legacy_key :: "gateway_config \<Rightarrow> string option \<Rightarrow> string option" where
  "keep_legacy_key current key = (if key = Some redacted_key then sv_api_key (gw_server current) else key)"

definition keep_keys :: "gateway_config \<Rightarrow> gateway_config \<Rightarrow> string + gateway_config" where
  "keep_keys current cfg =
     (case keep_provider_keys current (gw_providers cfg) of
        Inl pid \<Rightarrow> Inl (''API key for provider '' @ in_quotes pid)
      | Inr ps \<Rightarrow>
          (case keep_client_keys current (sv_api_keys (gw_server cfg)) of
             Inl kid \<Rightarrow> Inl (''key for API key entry '' @ in_quotes kid)
           | Inr ks \<Rightarrow>
               Inr (cfg\<lparr>gw_providers := ps,
                        gw_server := (gw_server cfg)\<lparr>sv_api_key := keep_legacy_key current (sv_api_key (gw_server cfg)),
                                                      sv_api_keys := ks\<rparr>\<rparr>)))"

definition conflict_reply :: "int \<Rightarrow> reply" where
  "conflict_reply version =
     json_reply 409 (JObj [(''error'', JStr ''config changed since load (conflict)''),
                           (''type'', JStr ''version_conflict''), (''current_version'', JInt version)])"

definition put_config :: "admin_env \<Rightarrow> json \<Rightarrow> admin_state \<Rightarrow> reply \<times> admin_state" where
  "put_config env body = on_config env (\<lambda>current s.
     (if incoming_version body \<noteq> JNull \<and> \<not> equals_int (incoming_version body) (gw_version current)
      then (conflict_reply (gw_version current), s)
      else
        (case ae_gateway env body of
           Inl msg \<Rightarrow> (fail_reply 422 msg, s)
         | Inr cfg \<Rightarrow>
             (case keep_keys current cfg of
                Inl what \<Rightarrow> (fail_reply 422 (placeholder_refusal what), s)
              | Inr kept \<Rightarrow>
                  (json_reply 200 (JObj [(''status'', JStr ''ok''), (''version'', JInt (gw_version current + 1))]),
                   (store_config env (kept\<lparr>gw_version := gw_version current\<rparr>) s)\<lparr>ad_overview := []\<rparr>)))))"

text \<open>An issue as the linter reports it.\<close>

definition at_model :: "string \<Rightarrow> string" where
  "at_model mid = ''models['' @ mid @ '']''"

definition at_backend :: "string \<Rightarrow> nat \<Rightarrow> string" where
  "at_backend mid i = at_model mid @ ''.backends['' @ nat_str i @ '']''"

definition at_provider :: "string \<Rightarrow> string" where
  "at_provider pid = ''providers['' @ pid @ '']''"

fun issue_text :: "issue \<Rightarrow> string \<times> string \<times> string" where
  "issue_text (Duplicate_provider_id pid) =
     (''duplicate_provider_id'', at_provider pid, ''Duplicate provider id '' @ in_quotes pid)"
| "issue_text (Duplicate_model_id mid) = (''duplicate_model_id'', at_model mid, ''Duplicate model id '' @ in_quotes mid)"
| "issue_text (Alias_collision mid alias) =
     (''alias_collision'', at_model mid @ ''.aliases'',
      ''Alias '' @ in_quotes alias @ '' collides with another model id or alias'')"
| "issue_text (Orphan_backend mid i pid) =
     (''orphan_backend'', at_backend mid i, ''Backend references unknown provider '' @ in_quotes pid)"
| "issue_text (Placeholder_key pid) =
     (''placeholder_key'', at_provider pid @ ''.api_key'',
      ''Provider '' @ in_quotes pid @ '' has the redacted placeholder key '' @ em_dash @ '' re-enter the real key'')"
| "issue_text (Non_ascii_key pid) =
     (''non_ascii_key'', at_provider pid @ ''.api_key'',
      ''Provider '' @ in_quotes pid @ '' key contains non-ASCII characters (likely corrupted)'')"
| "issue_text (Model_no_backends mid) =
     (''model_no_backends'', at_model mid, ''Model '' @ in_quotes mid @ '' has no backends'')"
| "issue_text (Disabled_provider_referenced mid i pid) =
     (''disabled_provider_referenced'', at_backend mid i, ''Backend references disabled provider '' @ in_quotes pid)"
| "issue_text (Pricing_gap mid i key) =
     (''pricing_gap'', at_backend mid i,
      ''No pricing for '' @ in_quotes key @ '' '' @ em_dash @ '' cost tracking will show $0'')"
| "issue_text (Mot_exceeds_context mid i mot ctx) =
     (''mot_exceeds_context'', at_backend mid i,
      ''max_output_tokens ('' @ int_str mot @ '') exceeds context_length ('' @ int_str ctx @ '')'')"

definition issue_view :: "issue \<Rightarrow> json" where
  "issue_view i =
     (let (code, path, message) = issue_text i
      in JObj [(''severity'', JStr (case severity_of i of Error \<Rightarrow> ''error'' | Warning \<Rightarrow> ''warning'')),
               (''code'', JStr code), (''path'', JStr path), (''message'', JStr message)])"

definition validate_config_endpoint :: "admin_env \<Rightarrow> json \<Rightarrow> reply" where
  "validate_config_endpoint env body =
     (case ae_gateway env body of
        Inl msg \<Rightarrow> fail_reply 422 msg
      | Inr cfg \<Rightarrow> json_reply 200 (JObj [(''issues'', JList (map issue_view (validate_config cfg)))]))"

section \<open>Backups\<close>

text \<open>
  \<open>file\<close> is the path of \<open>config.json\<close>, \<open>basename\<close> its last component.  \<open>taken_at\<close> is the time stamp of the
  backup, which \<open>copy2\<close> gives to the restored file.  Of slots the rotation never writes (past its end or
  negative) the model has no file.  With no current file, \<open>copy2\<close> raises after the rotation: the answer is
  \<open>None\<close>.
\<close>

definition backup_name :: "string \<Rightarrow> int \<Rightarrow> string" where
  "backup_name file i = file @ ''.bak'' @ (if i = 0 then [] else ''.'' @ int_str i)"

definition backup_entry :: "string \<Rightarrow> string \<Rightarrow> int \<Rightarrow> bytes \<Rightarrow> time \<Rightarrow> bool \<Rightarrow> json" where
  "backup_entry path name slot content mtime current =
     JObj [(''slot'', JInt slot), (''path'', JStr path), (''name'', JStr name),
           (''size'', JInt (int (length content))), (''mtime'', JFloat mtime), (''current'', JBool current)]"

definition list_backups :: "string \<Rightarrow> string \<Rightarrow> (nat \<Rightarrow> time) \<Rightarrow> config_store \<Rightarrow> reply" where
  "list_backups file basename mtimes st =
     json_reply 200 (JObj [(''backups'', JList
       ((case cs_main st of None \<Rightarrow> [] | Some c \<Rightarrow> [backup_entry file basename (-1) c (cs_mtime st) True])
        @ concat (map (\<lambda>i. case cs_slots st i of
             None \<Rightarrow> []
           | Some c \<Rightarrow> [backup_entry (backup_name file (int i)) (backup_name basename (int i)) (int i) c (mtimes i) False])
             [0..<backup_keep])))])"

definition slot_content :: "config_store \<Rightarrow> int \<Rightarrow> bytes option" where
  "slot_content st i = (if 0 \<le> i then cs_slots st (nat i) else None)"

definition swap_in :: "admin_env \<Rightarrow> time \<Rightarrow> bytes \<Rightarrow> config_store \<Rightarrow> config_store option" where
  "swap_in env taken_at content st =
     (case cs_main st of
        None \<Rightarrow> None
      | Some cur \<Rightarrow>
          Some (st\<lparr>cs_slots := (rotate_backups (ae_faults env) (cs_slots st))(0 := Some cur),
                   cs_main := Some content, cs_mtime := taken_at\<rparr>))"

definition restore_slot ::
    "admin_env \<Rightarrow> string \<Rightarrow> (bytes \<Rightarrow> string) \<Rightarrow> (int \<Rightarrow> time) \<Rightarrow> int \<Rightarrow> admin_state \<Rightarrow> reply option \<times> admin_state"
where
  "restore_slot env file invalid taken_at slot s =
     (case slot_content (ad_store s) slot of
        None \<Rightarrow> (Some (fail_reply 404 (''Backup slot '' @ int_str slot @ '' does not exist'')), s)
      | Some content \<Rightarrow>
          if ae_parse env content = None
          then (Some (fail_reply 422 (''Backup is not a valid config: '' @ invalid content)), s)
          else
            (case swap_in env (taken_at slot) content (ad_store s) of
               None \<Rightarrow>
                 (None, s\<lparr>ad_store := (ad_store s)\<lparr>cs_slots := rotate_backups (ae_faults env) (cs_slots (ad_store s))\<rparr>\<rparr>)
             | Some st \<Rightarrow>
                 (let (cfg, st') = reload_config (ae_parse env) st
                  in (Some (json_reply 200 (JObj [(''status'', JStr ''ok''), (''restored_from'', JStr (backup_name file slot)),
                                                  (''version'', JInt (gw_version cfg))])),
                      s\<lparr>ad_store := st'\<rparr>))))"

definition restore_backup ::
    "admin_env \<Rightarrow> (string \<Rightarrow> int option) \<Rightarrow> string \<Rightarrow> (bytes \<Rightarrow> string) \<Rightarrow> (int \<Rightarrow> time) \<Rightarrow> jobj \<Rightarrow> admin_state
     \<Rightarrow> reply option \<times> admin_state" where
  "restore_backup env parse_int file invalid taken_at body s =
     (case py_int parse_int (jget body ''slot'') of
        None \<Rightarrow> (Some (fail_reply 422 ''slot (int) is required''), s)
      | Some slot \<Rightarrow> restore_slot env file invalid taken_at slot s)"

section \<open>Reading the replies\<close>

text \<open>The providers' keys that a client finds in a dump.\<close>

definition dumped_keys :: "json \<Rightarrow> json list" where
  "dumped_keys v =
     (case v of
        JObj d \<Rightarrow> (case jget d ''providers'' of
                     JList ps \<Rightarrow> map (\<lambda>p. case p of JObj e \<Rightarrow> jget e ''api_key'' | _ \<Rightarrow> JNull) ps
                   | _ \<Rightarrow> [])
      | _ \<Rightarrow> [])"

text \<open>A gateway with a provider key and a client key, its file and a later one, for the witnesses.\<close>

definition secret_gateway :: gateway_config where
  "secret_gateway = default_gateway\<lparr>
     gw_providers := [(default_provider ''p'' ''u'')\<lparr>pv_api_key := ''sk''\<rparr>],
     gw_server := default_server\<lparr>sv_api_keys := [key_with ''app'' ''k'' []]\<rparr>\<rparr>"

definition plain_view :: "gateway_config \<Rightarrow> json" where
  "plain_view cfg = JObj
     [(''providers'', JList (map (\<lambda>p. JObj [(''api_key'', JStr (pv_api_key p))]) (gw_providers cfg))),
      (''version'', JInt (gw_version cfg))]"

definition demo_admin :: admin_env where
  "demo_admin =
     \<lparr>ae_parse = (\<lambda>b. if b = ''0'' then Some secret_gateway
                     else if b = ''1'' then Some (secret_gateway\<lparr>gw_version := 1\<rparr>) else None),
      ae_dump = (\<lambda>c. if gw_version c = 0 then ''0'' else ''1''), ae_faults = no_faults, ae_mtime = 2,
      ae_gateway = (\<lambda>_. Inr (redact secret_gateway)), ae_model = (\<lambda>_. Inl ''no''), ae_backend = (\<lambda>_. Inl ''no''),
      ae_routing = (\<lambda>_. Inl ''no''), ae_slot = (\<lambda>_. Inl ''no''), ae_view = plain_view,
      ae_view_model = (\<lambda>m. JStr (md_id m)), ae_view_routing = (\<lambda>r. JBool (tr_enabled r)),
      ae_view_slot = (\<lambda>t. JStr (ts_id t))\<rparr>"

definition demo_admin_state :: admin_state where
  "demo_admin_state =
     \<lparr>ad_store = \<lparr>cs_main = Some ''1'', cs_slots = (\<lambda>i. if i = 0 then Some ''0'' else None), cs_mtime = 1,
                  cs_config = Some (secret_gateway\<lparr>gw_version := 1\<rparr>), cs_config_mtime = 1, cs_recovered = None\<rparr>,
      ad_overview = [], ad_tps = []\<rparr>"

lemma demo_fetch: "fetch_config demo_admin demo_admin_state = (secret_gateway\<lparr>gw_version := 1\<rparr>, demo_admin_state)"
  by (simp add: fetch_config_def load_config_def demo_admin_state_def file_mtime_def)

section \<open>Lemmas\<close>

lemma redacted_key_nonempty [simp]: "redacted_key \<noteq> []" "[] \<noteq> redacted_key"
  by (simp_all add: redacted_key_def numeral_eq_Suc)

lemma hide_simps [simp]: "hide [] = []" "s \<noteq> [] \<Longrightarrow> hide s = redacted_key"
  by (simp_all add: hide_def)

lemma keep_provider_keys_redacted:
  "(\<And>p. p \<in> set ps \<Longrightarrow> provider_by_id cfg (pv_id p) = Some p)
     \<Longrightarrow> keep_provider_keys cfg (map redact_provider ps) = Inr ps"
  by (induction ps) (auto simp: redact_provider_def hide_def)

lemma keep_client_keys_redacted:
  "(\<And>k. k \<in> set ks \<Longrightarrow> api_key_by_id cfg (ak_id k) = Some k)
     \<Longrightarrow> keep_client_keys cfg (map redact_key ks) = Inr ks"
  by (induction ks) (auto simp: redact_key_def hide_def)

text \<open>Only the providers and the server section of the current configuration are looked at.\<close>

lemma keep_provider_keys_cong:
  "gw_providers c = gw_providers d \<Longrightarrow> keep_provider_keys c ps = keep_provider_keys d ps"
  by (induction ps) (simp_all add: provider_by_id_def split: option.split)

lemma keep_client_keys_cong: "gw_server c = gw_server d \<Longrightarrow> keep_client_keys c ks = keep_client_keys d ks"
  by (induction ks) (simp_all add: api_key_by_id_def split: option.split)

lemma keep_keys_cong:
  "gw_providers c = gw_providers d \<Longrightarrow> gw_server c = gw_server d \<Longrightarrow> keep_keys c new = keep_keys d new"
  by (simp add: keep_keys_def keep_legacy_key_def keep_provider_keys_cong [of c d] keep_client_keys_cong [of c d]
      split: sum.split)

lemma keep_keys_others [simp]:
  "keep_keys (cfg\<lparr>gw_version := v\<rparr>) new = keep_keys cfg new"
  "keep_keys (cfg\<lparr>gw_models := ms\<rparr>) new = keep_keys cfg new"
  by (rule keep_keys_cong; simp)+

lemma keep_legacy_key_redacted:
  "keep_legacy_key cfg (map_option hide (sv_api_key (gw_server cfg))) = sv_api_key (gw_server cfg)"
  by (cases "sv_api_key (gw_server cfg)") (auto simp: keep_legacy_key_def hide_def)

lemma keep_keys_redacted:
  assumes "distinct (map pv_id (gw_providers cfg))" and "distinct (map ak_id (sv_api_keys (gw_server cfg)))"
  shows "keep_keys cfg (redact cfg) = Inr cfg"
proof -
  have "keep_provider_keys cfg (map redact_provider (gw_providers cfg)) = Inr (gw_providers cfg)"
    by (rule keep_provider_keys_redacted) (simp add: provider_by_id_def find_distinct [OF assms(1)])
  moreover have "keep_client_keys cfg (map redact_key (sv_api_keys (gw_server cfg))) = Inr (sv_api_keys (gw_server cfg))"
    by (rule keep_client_keys_redacted) (simp add: api_key_by_id_def find_distinct [OF assms(2)])
  ultimately show ?thesis
    by (simp add: keep_keys_def redact_def redact_server_def keep_legacy_key_redacted)
qed

text \<open>A loaded configuration is the cached one, and a stored one is cached with its version raised.\<close>

lemma fetch_cached:
  "fetch_config env s = (cfg, s') \<Longrightarrow> cs_config (ad_store s') = Some cfg \<and> cs_config_mtime (ad_store s') = file_mtime (ad_store s')"
  by (auto simp: fetch_config_def load_config_def Let_def file_mtime_def split: option.splits if_splits prod.splits)

lemma fetch_again:
  "fetch_config env s = (cfg, s') \<Longrightarrow> fetch_config env s' = (cfg, s')"
  using fetch_cached [of env s cfg s'] by (simp add: fetch_config_def load_config_def)

lemma fetch_stored [simp]:
  "fetch_config env (store_config env cfg s) = (cfg\<lparr>gw_version := gw_version cfg + 1\<rparr>, store_config env cfg s)"
  by (simp add: fetch_config_def load_config_def store_config_def save_config_def Let_def file_mtime_def)

lemma fetch_overview [simp]:
  "fetch_config env (s\<lparr>ad_overview := v\<rparr>) = (case fetch_config env s of (c, s') \<Rightarrow> (c, s'\<lparr>ad_overview := v\<rparr>))"
  by (simp add: fetch_config_def split: prod.splits)

lemma put_config_unfold:
  "fetch_config env s = (cfg, s1) \<Longrightarrow>
   put_config env body s =
     (if incoming_version body \<noteq> JNull \<and> \<not> equals_int (incoming_version body) (gw_version cfg)
      then (conflict_reply (gw_version cfg), s1)
      else
        (case ae_gateway env body of
           Inl msg \<Rightarrow> (fail_reply 422 msg, s1)
         | Inr new \<Rightarrow>
             (case keep_keys cfg new of
                Inl what \<Rightarrow> (fail_reply 422 (placeholder_refusal what), s1)
              | Inr kept \<Rightarrow>
                  (json_reply 200 (JObj [(''status'', JStr ''ok''), (''version'', JInt (gw_version cfg + 1))]),
                   (store_config env (kept\<lparr>gw_version := gw_version cfg\<rparr>) s1)\<lparr>ad_overview := []\<rparr>))))"
  by (simp add: put_config_def on_config_def)

lemma admin_reply_status [simp]:
  "rp_status (json_reply n v) = n" "rp_status (fail_reply n msg) = n" "rp_status (conflict_reply k) = 409"
  by (simp_all add: json_reply_def fail_reply_def conflict_reply_def)

lemma put_accepted:
  assumes "fetch_config env s = (cfg, s1)" and "put_config env body s = (r, s2)" and "rp_status r = 200"
  obtains new where "s2 = (store_config env new s1)\<lparr>ad_overview := []\<rparr>" and "gw_version new = gw_version cfg"
  using assms(2,3) unfolding put_config_unfold [OF assms(1)]
  by (auto split: if_splits sum.splits)

section \<open>Properties\<close>

text \<open>
  C28. Reading the configuration and writing it back unchanged keeps every secret: the GET shows no key, yet a PUT
  of exactly what it returned is accepted and stores the configuration it was read from, with its version
  raised, provided provider ids and key ids are unique.  Validation of a dump gives back what was dumped.
\<close>

theorem config_roundtrip_keeps_keys:
  assumes "fetch_config env s = (cfg, s1)"
    and "distinct (map pv_id (gw_providers cfg))" and "distinct (map ak_id (sv_api_keys (gw_server cfg)))"
    and "ae_view env (redact cfg) = JObj d" and "jget d ''version'' = JInt (gw_version cfg)"
    and "ae_gateway env (JObj d) = Inr (redact cfg)"
  shows "rp_body (fst (get_config env s)) = Json_body (JObj d)
    \<and> (let (r, s2) = put_config env (JObj d) (snd (get_config env s))
       in rp_status r = 200 \<and> fst (fetch_config env s2) = cfg\<lparr>gw_version := gw_version cfg + 1\<rparr>
          \<and> cs_main (ad_store s2) = Some (ae_dump env (cfg\<lparr>gw_version := gw_version cfg + 1\<rparr>)))"
proof -
  have get: "get_config env s = (json_reply 200 (JObj d), s1)"
    using assms(1,4) by (simp add: get_config_def on_config_def)
  have "put_config env (JObj d) s1 =
      (json_reply 200 (JObj [(''status'', JStr ''ok''), (''version'', JInt (gw_version cfg + 1))]),
       (store_config env cfg s1)\<lparr>ad_overview := []\<rparr>)"
    using assms(5,6) keep_keys_redacted [OF assms(2,3)]
    by (simp add: put_config_unfold [OF fetch_again [OF assms(1)]] incoming_version_def)
  with get show ?thesis
    by (simp add: json_reply_def store_config_def save_config_def Let_def
        fetch_config_def load_config_def file_mtime_def)
qed

theorem config_roundtrip_keeps_keys_witness:
  "let body = plain_view (redact secret_gateway); s = demo_admin_state\<lparr>ad_store := (ad_store demo_admin_state)
       \<lparr>cs_config := Some secret_gateway\<rparr>\<rparr>
   in rp_body (fst (get_config demo_admin s)) = Json_body body
      \<and> (let (r, s2) = put_config demo_admin body (snd (get_config demo_admin s))
         in rp_status r = 200 \<and> fst (fetch_config demo_admin s2) = secret_gateway\<lparr>gw_version := 0 + 1\<rparr>
            \<and> cs_main (ad_store s2) = Some ''1'')"
proof -
  let ?s = "demo_admin_state\<lparr>ad_store := (ad_store demo_admin_state)\<lparr>cs_config := Some secret_gateway\<rparr>\<rparr>"
  obtain d where d: "plain_view (redact secret_gateway) = JObj d" and v: "jget d ''version'' = JInt 0"
    by (simp add: plain_view_def jget_def redact_def secret_gateway_def default_gateway_def)
  have f: "fetch_config demo_admin ?s = (secret_gateway, ?s)"
    by (simp add: fetch_config_def load_config_def demo_admin_state_def file_mtime_def)
  have g: "gw_version secret_gateway = 0" by (simp add: secret_gateway_def default_gateway_def)
  have "ae_view demo_admin (redact secret_gateway) = JObj d"
    and "ae_gateway demo_admin (JObj d) = Inr (redact secret_gateway)"
    using d by (simp_all add: demo_admin_def)
  from config_roundtrip_keeps_keys [OF f _ _ this(1) _ this(2)] show ?thesis
    by (simp add: d v g Let_def) (simp add: demo_admin_def secret_gateway_def default_gateway_def)
qed

text \<open>
  Two clients that read the same version cannot both write: the second PUT is refused with 409 and changes
  nothing, whatever the two bodies are.
\<close>

theorem stale_put_refused:
  assumes "fetch_config env s = (cfg, s1)" and "jget d ''version'' = JInt (gw_version cfg)"
    and "put_config env first s = (r, s2)" and "rp_status r = 200"
  shows "put_config env (JObj d) s2 = (conflict_reply (gw_version cfg + 1), s2)"
proof -
  obtain new where s2: "s2 = (store_config env new s1)\<lparr>ad_overview := []\<rparr>" and v: "gw_version new = gw_version cfg"
    using put_accepted [OF assms(1,3,4)] .
  have "fetch_config env s2 = (new\<lparr>gw_version := gw_version new + 1\<rparr>, s2)" by (simp add: s2)
  from put_config_unfold [OF this] assms(2) v show ?thesis
    by (simp add: incoming_version_def)
qed

theorem stale_put_refused_witness:
  "let body = JObj [(''version'', JInt 1)]; s2 = snd (put_config demo_admin body demo_admin_state)
   in put_config demo_admin body s2 = (conflict_reply (1 + 1), s2)"
proof -
  let ?body = "JObj [(''version'', JInt 1)]"
  have ok: "keep_keys secret_gateway (redact secret_gateway) = Inr secret_gateway"
    by (rule keep_keys_redacted) (simp_all add: secret_gateway_def)
  have "rp_status (fst (put_config demo_admin ?body demo_admin_state)) = 200"
    by (simp add: put_config_unfold [OF demo_fetch] incoming_version_def jget_def ok)
       (simp add: demo_admin_def ok)
  from stale_put_refused [OF demo_fetch, of "[(''version'', JInt 1)]" ?body, OF _ prod.collapse [symmetric] this]
  show ?thesis by (simp add: Let_def jget_def)
qed

text \<open>
  GET shows of every provider key only whether it is set, but \<open>/admin/config/reload\<close> replies with the
  configuration as it is stored, every key in clear.
\<close>

theorem keys_hidden_unless_reloaded:
  assumes "\<And>c. dumped_keys (ae_view env c) = map (\<lambda>p. JStr (pv_api_key p)) (gw_providers c)"
    and "fetch_config env s = (cfg, s1)" and "cs_main (ad_store s) = Some content" and "ae_parse env content = Some cfg"
  shows "\<exists>shown leaked. rp_body (fst (get_config env s)) = Json_body shown
     \<and> set (dumped_keys shown) \<subseteq> {JStr [], JStr redacted_key}
     \<and> rp_body (fst (reload_config_endpoint env s)) = Json_body (JObj [(''status'', JStr ''ok''), (''config'', leaked)])
     \<and> dumped_keys leaked = map (\<lambda>p. JStr (pv_api_key p)) (gw_providers cfg)"
proof -
  have "set (dumped_keys (ae_view env (redact cfg))) \<subseteq> {JStr [], JStr redacted_key}"
    by (auto simp: assms(1) redact_def redact_provider_def hide_def)
  moreover have "get_config env s = (json_reply 200 (ae_view env (redact cfg)), s1)"
    by (simp add: get_config_def on_config_def assms(2))
  moreover have "fst (reload_config_endpoint env s)
      = json_reply 200 (JObj [(''status'', JStr ''ok''), (''config'', ae_view env cfg)])"
    by (simp add: reload_config_endpoint_def reload_config_def load_config_def candidates_def assms(3,4) Let_def)
  ultimately show ?thesis
    by (auto simp: json_reply_def assms(1))
qed

theorem keys_hidden_unless_reloaded_witness:
  "\<exists>shown leaked. rp_body (fst (get_config demo_admin demo_admin_state)) = Json_body shown
     \<and> set (dumped_keys shown) \<subseteq> {JStr [], JStr redacted_key}
     \<and> rp_body (fst (reload_config_endpoint demo_admin demo_admin_state))
         = Json_body (JObj [(''status'', JStr ''ok''), (''config'', leaked)])
     \<and> dumped_keys leaked = [JStr ''sk'']"
proof -
  have view: "dumped_keys (ae_view demo_admin c) = map (\<lambda>p. JStr (pv_api_key p)) (gw_providers c)" for c
    by (simp add: demo_admin_def plain_view_def dumped_keys_def jget_def)
  have "cs_main (ad_store demo_admin_state) = Some ''1''" by (simp add: demo_admin_state_def)
  moreover have "ae_parse demo_admin ''1'' = Some (secret_gateway\<lparr>gw_version := 1\<rparr>)" by (simp add: demo_admin_def)
  ultimately show ?thesis
    using keys_hidden_unless_reloaded [OF view demo_fetch] by (simp add: secret_gateway_def)
qed

text \<open>
  A restore can be undone: restoring a slot serves that backup and makes the file that was current the newest
  backup, so that restoring slot 0 brings back the very file, whatever slot was restored.
\<close>

lemma restore_served:
  assumes "cs_main (ad_store s) = Some cur" and "slot_content (ad_store s) slot = Some content"
    and "ae_parse env content = Some cfg"
  shows "restore_slot env file invalid taken_at slot s =
    (Some (json_reply 200 (JObj [(''status'', JStr ''ok''), (''restored_from'', JStr (backup_name file slot)),
                                 (''version'', JInt (gw_version cfg))])),
     s\<lparr>ad_store := (ad_store s)\<lparr>cs_slots := (rotate_backups (ae_faults env) (cs_slots (ad_store s)))(0 := Some cur),
         cs_main := Some content, cs_mtime := taken_at slot, cs_config := Some cfg, cs_recovered := None,
         cs_config_mtime := taken_at slot\<rparr>\<rparr>)"
  using assms
  by (simp add: restore_slot_def swap_in_def reload_config_def load_config_def candidates_def file_mtime_def Let_def)

theorem restore_undone:
  assumes "cs_main (ad_store s) = Some cur" and "ae_parse env cur = Some now"
    and "slot_content (ad_store s) slot = Some content" and "ae_parse env content = Some cfg"
  shows "let s1 = snd (restore_slot env file invalid taken_at slot s);
             s2 = snd (restore_slot env file invalid taken_at 0 s1)
         in fst (fetch_config env s1) = cfg \<and> cs_main (ad_store s1) = Some content
            \<and> fst (fetch_config env s2) = now \<and> cs_main (ad_store s2) = Some cur"
proof -
  let ?s1 = "snd (restore_slot env file invalid taken_at slot s)"
  have "cs_main (ad_store ?s1) = Some content" and "slot_content (ad_store ?s1) 0 = Some cur"
    by (simp_all add: restore_served [OF assms(1,3,4)] slot_content_def)
  note again = restore_served [OF this assms(2)]
  show ?thesis
    by (simp add: Let_def again) (simp add: restore_served [OF assms(1,3,4)] fetch_config_def load_config_def file_mtime_def Let_def)
qed

theorem restore_undone_witness:
  "let s1 = snd (restore_slot demo_admin ''config.json'' (\<lambda>_. []) (\<lambda>_. 0) 0 demo_admin_state);
       s2 = snd (restore_slot demo_admin ''config.json'' (\<lambda>_. []) (\<lambda>_. 0) 0 s1)
   in fst (fetch_config demo_admin s1) = secret_gateway \<and> cs_main (ad_store s1) = Some ''0''
      \<and> fst (fetch_config demo_admin s2) = secret_gateway\<lparr>gw_version := 1\<rparr> \<and> cs_main (ad_store s2) = Some ''1''"
proof -
  have "cs_main (ad_store demo_admin_state) = Some ''1''" "slot_content (ad_store demo_admin_state) 0 = Some ''0''"
    "ae_parse demo_admin ''1'' = Some (secret_gateway\<lparr>gw_version := 1\<rparr>)" "ae_parse demo_admin ''0'' = Some secret_gateway"
    by (simp_all add: demo_admin_state_def demo_admin_def slot_content_def)
  from restore_undone [OF this(1,3,2,4), of "''config.json''" "\<lambda>_. []" "\<lambda>_. 0"] show ?thesis .
qed

text \<open>
  Restoring a backup also restores its version number, which later edits count up again: a client that read
  the configuration before the restore can then hold the current number and overwrite those edits.  Here the
  restored version is one behind, and one edit has been saved since.
\<close>

theorem restore_defeats_version_check:
  assumes "cs_main (ad_store s) = Some cur" and "slot_content (ad_store s) slot = Some content"
    and "ae_parse env content = Some old" and "gw_version edited = gw_version old"
    and "gw_version now = gw_version old + 1" and "jget d ''version'' = JInt (gw_version now)"
    and "ae_gateway env (JObj d) = Inr new" and "keep_keys (edited\<lparr>gw_version := gw_version now\<rparr>) new = Inr kept"
  shows "let s1 = snd (restore_slot env file invalid taken_at slot s); s2 = store_config env edited s1;
             (r, s3) = put_config env (JObj d) s2
         in rp_status r = 200 \<and> fst (fetch_config env s3) = kept\<lparr>gw_version := gw_version now + 1\<rparr>"
proof -
  let ?s2 = "store_config env edited (snd (restore_slot env file invalid taken_at slot s))"
  have f: "fetch_config env ?s2 = (edited\<lparr>gw_version := gw_version now\<rparr>, ?s2)"
    using assms(4,5) by simp
  show ?thesis
    using assms(5-8) by (simp add: Let_def put_config_unfold [OF f] incoming_version_def)
qed

theorem restore_defeats_version_check_witness:
  "let s = demo_admin_state; s1 = snd (restore_slot demo_admin ''config.json'' (\<lambda>_. []) (\<lambda>_. 0) 0 s);
       s2 = store_config demo_admin secret_gateway s1;
       (r, s3) = put_config demo_admin (JObj [(''version'', JInt 1)]) s2
   in rp_status r = 200 \<and> fst (fetch_config demo_admin s3) = secret_gateway\<lparr>gw_version := 2\<rparr>"
proof -
  have st: "cs_main (ad_store demo_admin_state) = Some ''1''" "slot_content (ad_store demo_admin_state) 0 = Some ''0''"
    "ae_parse demo_admin ''0'' = Some secret_gateway"
    "ae_gateway demo_admin (JObj [(''version'', JInt 1)]) = Inr (redact secret_gateway)"
    by (simp_all add: demo_admin_state_def demo_admin_def slot_content_def)
  have v: "gw_version (secret_gateway\<lparr>gw_version := 1\<rparr>) = gw_version secret_gateway + 1"
    "jget [(''version'', JInt 1)] ''version'' = JInt (gw_version (secret_gateway\<lparr>gw_version := 1\<rparr>))"
    by (simp_all add: secret_gateway_def default_gateway_def jget_def)
  have k: "keep_keys (secret_gateway\<lparr>gw_version := gw_version (secret_gateway\<lparr>gw_version := 1\<rparr>)\<rparr>)
      (redact secret_gateway) = Inr secret_gateway"
    by (simp add: keep_keys_redacted secret_gateway_def)
  from restore_defeats_version_check [OF st(1-3) refl v st(4) k, of "''config.json''" "\<lambda>_. []" "\<lambda>_. 0"]
  show ?thesis by simp
qed

end
