(* ===== verification/AdminModels.thy ===== *)
theory AdminModels
  imports AdminConfig Fingerprint "HOL-Library.Char_ord"
begin

text \<open>
  The administration of models (\<^verbatim>\<open>src/localgateway/endpoints/admin.py\<close>, \<open>/admin/models\<close>): granular edits of
  a model's fields, its backends and their tiers, and its time slots.

  Every handler loads the configuration, looks the model up and, where it has a body, awaits it before it
  edits: the definitions take the loaded object \<open>cfg\<close>, so that another request's writes can come between
  (\<open>on_config\<close> is the run without any).  Values are assigned unvalidated; an assignment that leaves the
  schema's types makes the result \<open>None\<close>.
\<close>

section \<open>Editing fields\<close>

datatype py_type = T_str | T_int | T_none | T_bool | T_dict | T_list | T_float

fun is_instance :: "json \<Rightarrow> py_type \<Rightarrow> bool" where
  "is_instance (JStr _) T_str = True"
| "is_instance (JInt _) T_int = True"
| "is_instance (JBool _) T_int = True"
| "is_instance JNull T_none = True"
| "is_instance (JBool _) T_bool = True"
| "is_instance (JObj _) T_dict = True"
| "is_instance (JList _) T_list = True"
| "is_instance (JFloat _) T_float = True"
| "is_instance _ _ = False"

fun type_name :: "py_type \<Rightarrow> string" where
  "type_name T_str = ''str''"
| "type_name T_int = ''int''"
| "type_name T_none = ''NoneType''"
| "type_name T_bool = ''bool''"
| "type_name T_dict = ''dict''"
| "type_name T_list = ''list''"
| "type_name T_float = ''float''"

type_synonym whitelist = "(string \<times> py_type list) list"

definition model_settable :: whitelist where
  "model_settable =
     [(''description'', [T_str]), (''context_length'', [T_int, T_none]), (''enabled'', [T_bool]),
      (''capabilities'', [T_dict]), (''modality'', [T_str]), (''max_output_tokens'', [T_int, T_none]),
      (''tags'', [T_list]), (''aliases'', [T_list]), (''default_params'', [T_dict]), (''display_name'', [T_str]),
      (''avatar'', [T_str]), (''probe_interval_s'', [T_float, T_none]), (''cache_responses'', [T_bool]),
      (''endpoint'', [T_str])]"

definition backend_settable :: whitelist where
  "backend_settable =
     [(''provider'', [T_str]), (''model'', [T_str]), (''enabled'', [T_bool]), (''context_length'', [T_int, T_none]),
      (''max_output_tokens'', [T_int, T_none]), (''cache_supported'', [T_bool, T_none]), (''weight'', [T_float])]"

definition type_message :: "string \<Rightarrow> py_type list \<Rightarrow> string" where
  "type_message field types =
     ''field '' @ in_quotes field @ '' must be ''
     @ (if length types = 1 then type_name (hd types) else ''one of '' @ join_with '', '' (map type_name types))"

text \<open>\<open>setattr\<close> is the argument \<open>assign\<close>; the fields before one that fails stay assigned.\<close>

fun set_fields :: "(string \<Rightarrow> json \<Rightarrow> 'o \<Rightarrow> 'o) \<Rightarrow> jobj \<Rightarrow> whitelist \<Rightarrow> 'o \<Rightarrow> string option \<times> 'o" where
  "set_fields assign body [] obj = (None, obj)"
| "set_fields assign body ((field, types) # rest) obj =
     (if \<not> jhas body field then set_fields assign body rest obj
      else if list_ex (is_instance (jget body field)) types
           then set_fields assign body rest (assign field (jget body field) obj)
           else (Some (type_message field types), obj))"

definition apply_fields ::
    "(string \<Rightarrow> json \<Rightarrow> 'o \<Rightarrow> 'o) \<Rightarrow> whitelist \<Rightarrow> jobj \<Rightarrow> 'o \<Rightarrow> string option \<times> 'o" where
  "apply_fields assign whitelist body obj =
     (let unknown = filter (\<lambda>k. k \<notin> fst ` set whitelist) (map fst body)
      in if unknown \<noteq> [] then (Some (''unknown fields: '' @ join_with '', '' (sort unknown)), obj)
         else set_fields assign body whitelist obj)"

fun strings_of :: "json list \<Rightarrow> string list option" where
  "strings_of [] = Some []"
| "strings_of (JStr s # vs) = map_option (Cons s) (strings_of vs)"
| "strings_of (_ # vs) = None"

fun flags_of :: "jobj \<Rightarrow> (string, bool) dict option" where
  "flags_of [] = Some []"
| "flags_of ((k, JBool b) # d) = map_option (Cons (k, b)) (flags_of d)"
| "flags_of (_ # d) = None"

text \<open>The fields of a model and of a backend, where the value is one of the schema's.\<close>

definition assign_model :: "string \<Rightarrow> json \<Rightarrow> model_config option \<Rightarrow> model_config option" where
  "assign_model field v mo = Option.bind mo (\<lambda>m.
     case v of
       JStr s \<Rightarrow>
         if field = ''description'' then Some (m\<lparr>md_description := Some s\<rparr>)
         else if field = ''modality'' then Some (m\<lparr>md_modality := s\<rparr>)
         else if field = ''display_name'' then Some (m\<lparr>md_display_name := s\<rparr>)
         else if field = ''avatar'' then Some (m\<lparr>md_avatar := s\<rparr>)
         else if field = ''endpoint'' then Some (m\<lparr>md_endpoint := s\<rparr>) else None
     | JFloat x \<Rightarrow> if field = ''probe_interval_s'' then Some (m\<lparr>md_probe_interval_s := Some x\<rparr>) else None
     | JList vs \<Rightarrow>
         if field = ''tags'' then map_option (\<lambda>ss. m\<lparr>md_tags := ss\<rparr>) (strings_of vs)
         else if field = ''aliases'' then map_option (\<lambda>ss. m\<lparr>md_aliases := ss\<rparr>) (strings_of vs) else None
     | JObj d \<Rightarrow>
         if field = ''default_params'' then Some (m\<lparr>md_default_params := d\<rparr>)
         else if field = ''capabilities'' then map_option (\<lambda>fs. m\<lparr>md_capabilities := fs\<rparr>) (flags_of d) else None
     | JBool b \<Rightarrow>
         if field = ''enabled'' then Some (m\<lparr>md_enabled := b\<rparr>)
         else if field = ''cache_responses'' then Some (m\<lparr>md_cache_responses := b\<rparr>)
         else if field = ''context_length'' then Some (m\<lparr>md_context_length := as_int v\<rparr>)
         else if field = ''max_output_tokens'' then Some (m\<lparr>md_max_output_tokens := as_int v\<rparr>) else None
     | JInt i \<Rightarrow>
         if field = ''context_length'' then Some (m\<lparr>md_context_length := Some i\<rparr>)
         else if field = ''max_output_tokens'' then Some (m\<lparr>md_max_output_tokens := Some i\<rparr>) else None
     | JNull \<Rightarrow>
         if field = ''context_length'' then Some (m\<lparr>md_context_length := None\<rparr>)
         else if field = ''max_output_tokens'' then Some (m\<lparr>md_max_output_tokens := None\<rparr>)
         else if field = ''probe_interval_s'' then Some (m\<lparr>md_probe_interval_s := None\<rparr>) else None)"

definition assign_backend :: "string \<Rightarrow> json \<Rightarrow> backend_config \<Rightarrow> backend_config" where
  "assign_backend field v b =
     (case v of
        JStr s \<Rightarrow> if field = ''provider'' then b\<lparr>bk_provider := s\<rparr> else if field = ''model'' then b\<lparr>bk_model := s\<rparr> else b
      | JFloat x \<Rightarrow> if field = ''weight'' then b\<lparr>bk_weight := x\<rparr> else b
      | JBool c \<Rightarrow>
          if field = ''enabled'' then b\<lparr>bk_enabled := c\<rparr>
          else if field = ''cache_supported'' then b\<lparr>bk_cache_supported := Some c\<rparr>
          else if field = ''context_length'' then b\<lparr>bk_context_length := as_int v\<rparr>
          else if field = ''max_output_tokens'' then b\<lparr>bk_max_output_tokens := as_int v\<rparr> else b
      | JInt i \<Rightarrow>
          if field = ''context_length'' then b\<lparr>bk_context_length := Some i\<rparr>
          else if field = ''max_output_tokens'' then b\<lparr>bk_max_output_tokens := Some i\<rparr> else b
      | JNull \<Rightarrow>
          if field = ''context_length'' then b\<lparr>bk_context_length := None\<rparr>
          else if field = ''max_output_tokens'' then b\<lparr>bk_max_output_tokens := None\<rparr>
          else if field = ''cache_supported'' then b\<lparr>bk_cache_supported := None\<rparr> else b
      | _ \<Rightarrow> b)"

section \<open>Models\<close>

definition edit_model :: "string \<Rightarrow> (model_config \<Rightarrow> model_config) \<Rightarrow> gateway_config \<Rightarrow> gateway_config" where
  "edit_model mid f cfg =
     cfg\<lparr>gw_models :=
       (if list_ex (\<lambda>m. md_id m = mid) (gw_models cfg) then update_first (\<lambda>m. md_id m = mid) f (gw_models cfg)
        else update_first (\<lambda>m. mid \<in> set (md_aliases m)) f (gw_models cfg))\<rparr>"

text \<open>\<open>body.get("id", "").strip()\<close>; pydantic then validates the body as it is.\<close>

definition create_model :: "admin_env \<Rightarrow> json \<Rightarrow> admin_state \<Rightarrow> answer \<times> admin_state" where
  "create_model env body = with_dict body (\<lambda>d s.
     case (if jhas d ''id'' then jget d ''id'' else JStr []) of
       JStr raw \<Rightarrow>
         (let mid = strip raw
          in if mid = [] then (Inr (fail_reply 422 ''id is required''), s)
             else on_config env (\<lambda>cfg s.
               if model_by_id cfg mid \<noteq> None
               then (Inr (fail_reply 409 (''Model '' @ in_quotes mid @ '' already exists'')), s)
               else
                 (case ae_model env body of
                    Inl msg \<Rightarrow> (Inr (fail_reply 422 msg), s)
                  | Inr m \<Rightarrow>
                      (Inr (json_reply 200 (JObj [(''status'', JStr ''ok''), (''model'', ae_view_model env m)])),
                       store_config env (cfg\<lparr>gw_models := gw_models cfg @ [m]\<rparr>) s))) s)
     | _ \<Rightarrow> (Inl AttributeError, s))"

definition update_model ::
    "admin_env \<Rightarrow> string \<Rightarrow> json \<Rightarrow> gateway_config \<Rightarrow> admin_state \<Rightarrow> (answer \<times> admin_state) option" where
  "update_model env mid body cfg s =
     (case model_by_id cfg mid of
        None \<Rightarrow> Some (Inr (not_found ''Model'' mid), s)
      | Some m \<Rightarrow>
          (case body of
             JObj d \<Rightarrow>
               (case (if jget d ''time_routing'' = JNull then Inr m
                      else map_sum id (\<lambda>r. m\<lparr>md_time_routing := r\<rparr>) (ae_routing env (jget d ''time_routing''))) of
                  Inl msg \<Rightarrow> Some (Inr (fail_reply 422 msg), s)
                | Inr m1 \<Rightarrow>
                    (case apply_fields assign_model model_settable (ddel ''time_routing'' d) (Some m1) of
                       (_, None) \<Rightarrow> None
                     | (Some msg, Some m2) \<Rightarrow>
                         Some (Inr (fail_reply 422 msg), touch cfg (edit_model mid (\<lambda>_. m2) cfg) s)
                     | (None, Some m2) \<Rightarrow>
                         Some (Inr ok_reply, store_config env (edit_model mid (\<lambda>_. m2) cfg) s)))
           | JList _ \<Rightarrow> Some (Inl TypeError, s)
           | _ \<Rightarrow> Some (Inl AttributeError, s)))"

fun remove_first :: "('a \<Rightarrow> bool) \<Rightarrow> 'a list \<Rightarrow> 'a list" where
  "remove_first p [] = []"
| "remove_first p (x # xs) = (if p x then xs else x # remove_first p xs)"

definition delete_model :: "admin_env \<Rightarrow> string \<Rightarrow> admin_state \<Rightarrow> reply \<times> admin_state" where
  "delete_model env mid = on_config env (\<lambda>cfg s.
     if list_ex (\<lambda>m. md_id m = mid) (gw_models cfg)
     then (ok_reply, store_config env (cfg\<lparr>gw_models := remove_first (\<lambda>m. md_id m = mid) (gw_models cfg)\<rparr>) s)
     else (not_found ''Model'' mid, s))"

section \<open>Backends\<close>

definition edit_backends :: "string \<Rightarrow> (backend_config list \<Rightarrow> backend_config list) \<Rightarrow> gateway_config \<Rightarrow> gateway_config" where
  "edit_backends mid f = edit_model mid (\<lambda>m. m\<lparr>md_backends := f (md_backends m)\<rparr>)"

text \<open>\<open>max((b.priority for b in model.backends), default=0)\<close>.\<close>

definition max_priority :: "backend_config list \<Rightarrow> int" where
  "max_priority bs = (case map bk_priority bs of [] \<Rightarrow> 0 | p # ps \<Rightarrow> foldl max p ps)"

definition add_backend :: "admin_env \<Rightarrow> string \<Rightarrow> json \<Rightarrow> gateway_config \<Rightarrow> admin_state \<Rightarrow> reply \<times> admin_state" where
  "add_backend env mid body cfg s =
     (case model_by_id cfg mid of
        None \<Rightarrow> (not_found ''Model'' mid, s)
      | Some m \<Rightarrow>
          (case ae_backend env body of
             Inl msg \<Rightarrow> (fail_reply 422 msg, s)
           | Inr b \<Rightarrow>
               (ok_reply,
                store_config env
                  (edit_backends mid (\<lambda>bs. bs @ [b\<lparr>bk_priority := max_priority (md_backends m) + 1\<rparr>]) cfg) s)))"

definition update_backend ::
    "admin_env \<Rightarrow> string \<Rightarrow> int \<Rightarrow> json \<Rightarrow> gateway_config \<Rightarrow> admin_state \<Rightarrow> answer \<times> admin_state" where
  "update_backend env mid index body cfg s =
     (case model_by_id cfg mid of
        None \<Rightarrow> (Inr (not_found ''Model'' mid), s)
      | Some m \<Rightarrow>
          if index < 0 \<or> int (length (md_backends m)) \<le> index then (Inr (fail_reply 400 ''Invalid backend index''), s)
          else with_dict body (\<lambda>d s.
            let (err, b) = apply_fields assign_backend backend_settable d (md_backends m ! nat index);
                cfg' = edit_backends mid (\<lambda>bs. bs[nat index := b]) cfg
            in case err of
                 Some msg \<Rightarrow> (Inr (fail_reply 422 msg), touch cfg cfg' s)
               | None \<Rightarrow> (Inr ok_reply, store_config env cfg' s)) s)"

definition renumber :: "backend_config list \<Rightarrow> backend_config list" where
  "renumber bs = map (\<lambda>(i, b). b\<lparr>bk_priority := int i + 1\<rparr>) (enumerate 0 bs)"

definition remove_backend :: "admin_env \<Rightarrow> string \<Rightarrow> int \<Rightarrow> admin_state \<Rightarrow> reply \<times> admin_state" where
  "remove_backend env mid index = on_config env (\<lambda>cfg s.
     case model_by_id cfg mid of
       None \<Rightarrow> (not_found ''Model'' mid, s)
     | Some m \<Rightarrow>
         if index < 0 \<or> int (length (md_backends m)) \<le> index then (fail_reply 400 ''Invalid backend index'', s)
         else (ok_reply,
               store_config env
                 (edit_backends mid (\<lambda>bs. renumber (take (nat index) bs @ drop (nat index + 1) bs)) cfg) s))"

subsection \<open>Tiers\<close>

text \<open>
  \<open>sorted(all_indices) != list(range(n))\<close>: numbers of any kind compare by value; a list that holds values of
  two kinds, or several without an order, raises \<open>TypeError\<close>.  Lists are ordered by their first difference;
  dictionaries in them compare as they are written.
\<close>

fun number_of :: "json \<Rightarrow> real option" where
  "number_of (JBool b) = Some (if b then 1 else 0)"
| "number_of (JInt i) = Some (of_int i)"
| "number_of (JFloat x) = Some x"
| "number_of _ = None"

fun same_value :: "json \<Rightarrow> json \<Rightarrow> bool" and same_values :: "json list \<Rightarrow> json list \<Rightarrow> bool" where
  "same_value (JList xs) (JList ys) = same_values xs ys"
| "same_value x y = (if number_of x \<noteq> None \<or> number_of y \<noteq> None then number_of x = number_of y else x = y)"
| "same_values [] [] = True"
| "same_values (x # xs) (y # ys) = (same_value x y \<and> same_values xs ys)"
| "same_values _ _ = False"

fun orderable :: "json \<Rightarrow> json \<Rightarrow> bool" and orderable_lists :: "json list \<Rightarrow> json list \<Rightarrow> bool" where
  "orderable (JList xs) (JList ys) = orderable_lists xs ys"
| "orderable (JStr _) (JStr _) = True"
| "orderable x y = (number_of x \<noteq> None \<and> number_of y \<noteq> None)"
| "orderable_lists (x # xs) (y # ys) = (if same_value x y then orderable_lists xs ys else orderable x y)"
| "orderable_lists _ _ = True"

fun pairwise :: "('a \<Rightarrow> 'a \<Rightarrow> bool) \<Rightarrow> 'a list \<Rightarrow> bool" where
  "pairwise p [] = True"
| "pairwise p (x # xs) = (list_all (p x) xs \<and> pairwise p xs)"

definition covers_range :: "json list \<Rightarrow> nat \<Rightarrow> py_error + bool" where
  "covers_range indices n =
     (if \<not> pairwise orderable indices then Inl TypeError
      else Inr (list_all (\<lambda>v. number_of v \<noteq> None) indices
                \<and> sort (map (\<lambda>v. the (number_of v)) indices) = map real [0..<n]))"

text \<open>An element of the range as a list index: a float is not one.\<close>

definition index_of :: "json \<Rightarrow> nat option" where
  "index_of v = map_option nat (as_int v)"

fun place_tier :: "int \<Rightarrow> json list \<Rightarrow> backend_config list \<Rightarrow> bool \<times> backend_config list" where
  "place_tier tier [] bs = (True, bs)"
| "place_tier tier (v # vs) bs =
     (case index_of v of
        None \<Rightarrow> (False, bs)
      | Some i \<Rightarrow> place_tier tier vs (bs[i := (bs ! i)\<lparr>bk_priority := tier\<rparr>]))"

fun place_tiers :: "int \<Rightarrow> json list list \<Rightarrow> backend_config list \<Rightarrow> bool \<times> backend_config list" where
  "place_tiers tier [] bs = (True, bs)"
| "place_tiers tier (t # ts) bs =
     (case place_tier tier t bs of
        (False, bs') \<Rightarrow> (False, bs')
      | (True, bs') \<Rightarrow> place_tiers (tier + 1) ts bs')"

fun lists_of :: "json list \<Rightarrow> json list list option" where
  "lists_of [] = Some []"
| "lists_of (JList xs # vs) = map_option (Cons xs) (lists_of vs)"
| "lists_of (_ # vs) = None"

definition set_tiers ::
    "admin_env \<Rightarrow> string \<Rightarrow> json list \<Rightarrow> model_config \<Rightarrow> gateway_config \<Rightarrow> admin_state \<Rightarrow> answer \<times> admin_state" where
  "set_tiers env mid tiers m cfg s =
     (case lists_of tiers of
        None \<Rightarrow> (Inr (fail_reply 422 ''each tier must be a list of indices''), s)
      | Some ts \<Rightarrow>
          (case covers_range (concat ts) (length (md_backends m)) of
             Inl e \<Rightarrow> (Inl e, s)
           | Inr False \<Rightarrow> (Inr (fail_reply 422 ''tiers must contain all backend indices exactly once''), s)
           | Inr True \<Rightarrow>
               (let (done, bs) = place_tiers 1 ts (md_backends m); cfg' = edit_backends mid (\<lambda>_. bs) cfg
                in if done
                   then (Inr (json_reply 200 (JObj [(''status'', JStr ''ok''), (''tiers'', JList tiers)])),
                         store_config env cfg' s)
                   else (Inl TypeError, touch cfg cfg' s))))"

definition set_backends_tiers ::
    "admin_env \<Rightarrow> string \<Rightarrow> json \<Rightarrow> gateway_config \<Rightarrow> admin_state \<Rightarrow> answer \<times> admin_state" where
  "set_backends_tiers env mid body cfg s =
     (case model_by_id cfg mid of
        None \<Rightarrow> (Inr (not_found ''Model'' mid), s)
      | Some m \<Rightarrow>
          with_dict body (\<lambda>d s.
            case (if jhas d ''tiers'' then jget d ''tiers'' else JList []) of
              JList tiers \<Rightarrow> set_tiers env mid tiers m cfg s
            | _ \<Rightarrow> (Inr (fail_reply 422 ''tiers must be a list of lists''), s)) s)"

section \<open>Time slots\<close>

definition edit_slots :: "string \<Rightarrow> (time_slot list \<Rightarrow> time_slot list) \<Rightarrow> gateway_config \<Rightarrow> gateway_config" where
  "edit_slots mid f =
     edit_model mid (\<lambda>m. m\<lparr>md_time_routing := (md_time_routing m)\<lparr>tr_slots := f (tr_slots (md_time_routing m))\<rparr>\<rparr>)"

definition get_time_routing :: "admin_env \<Rightarrow> string \<Rightarrow> admin_state \<Rightarrow> reply \<times> admin_state" where
  "get_time_routing env mid = on_config env (\<lambda>cfg s.
     (case model_by_id cfg mid of
        None \<Rightarrow> not_found ''Model'' mid
      | Some m \<Rightarrow> json_reply 200 (ae_view_routing env (md_time_routing m)), s))"

definition put_time_routing ::
    "admin_env \<Rightarrow> string \<Rightarrow> json \<Rightarrow> gateway_config \<Rightarrow> admin_state \<Rightarrow> reply \<times> admin_state" where
  "put_time_routing env mid body cfg s =
     (case model_by_id cfg mid of
        None \<Rightarrow> (not_found ''Model'' mid, s)
      | Some m \<Rightarrow>
          (case ae_routing env body of
             Inl msg \<Rightarrow> (fail_reply 422 msg, s)
           | Inr r \<Rightarrow>
               (json_reply 200 (ae_view_routing env r),
                store_config env (edit_model mid (\<lambda>m. m\<lparr>md_time_routing := r\<rparr>) cfg) s)))"

text \<open>\<open>re.sub("[^a-z0-9]+", "-", name.lower()).strip("-")\<close>; a byte of a non-ASCII letter is no letter here.\<close>

definition slug_char :: "char \<Rightarrow> bool" where
  "slug_char c \<longleftrightarrow> is_digit c \<or> 97 \<le> byte c \<and> byte c \<le> 122"

fun hyphenate :: "bool \<Rightarrow> string \<Rightarrow> string" where
  "hyphenate gap [] = []"
| "hyphenate gap (c # cs) =
     (if slug_char c then c # hyphenate False cs
      else if gap then hyphenate True cs else CHR ''-'' # hyphenate True cs)"

definition trim_hyphens :: "string \<Rightarrow> string" where
  "trim_hyphens s = rev (dropWhile (\<lambda>c. c = CHR ''-'') (rev (dropWhile (\<lambda>c. c = CHR ''-'') s)))"

definition slot_id :: "time_slot \<Rightarrow> string" where
  "slot_id slot =
     (let stem = trim_hyphens (hyphenate False (lower (ts_name slot)))
      in (if stem = [] then ''slot'' else stem) @ ''-'' @ int_str (ts_start_hour slot) @ ''-'' @ int_str (ts_end_hour slot))"

definition create_time_slot ::
    "admin_env \<Rightarrow> string \<Rightarrow> json \<Rightarrow> gateway_config \<Rightarrow> admin_state \<Rightarrow> reply \<times> admin_state" where
  "create_time_slot env mid body cfg s =
     (case model_by_id cfg mid of
        None \<Rightarrow> (not_found ''Model'' mid, s)
      | Some m \<Rightarrow>
          (case ae_slot env body of
             Inl msg \<Rightarrow> (fail_reply 422 msg, s)
           | Inr t \<Rightarrow>
               (let t' = (if ts_id t = [] then t\<lparr>ts_id := slot_id t\<rparr> else t)
                in (json_reply 200 (ae_view_slot env t'), store_config env (edit_slots mid (\<lambda>ts. ts @ [t']) cfg) s))))"

definition update_time_slot ::
    "admin_env \<Rightarrow> string \<Rightarrow> string \<Rightarrow> json \<Rightarrow> gateway_config \<Rightarrow> admin_state \<Rightarrow> reply \<times> admin_state" where
  "update_time_slot env mid sid body cfg s =
     (case model_by_id cfg mid of
        None \<Rightarrow> (not_found ''Model'' mid, s)
      | Some m \<Rightarrow>
          if \<not> list_ex (\<lambda>t. ts_id t = sid) (tr_slots (md_time_routing m)) then (not_found ''Time slot'' sid, s)
          else
            (case ae_slot env body of
               Inl msg \<Rightarrow> (fail_reply 422 msg, s)
             | Inr t \<Rightarrow>
                 (let t' = (if ts_id t = [] then t\<lparr>ts_id := sid\<rparr> else t)
                  in (json_reply 200 (ae_view_slot env t'),
                      store_config env (edit_slots mid (update_first (\<lambda>t. ts_id t = sid) (\<lambda>_. t')) cfg) s))))"

definition delete_time_slot :: "admin_env \<Rightarrow> string \<Rightarrow> string \<Rightarrow> admin_state \<Rightarrow> reply \<times> admin_state" where
  "delete_time_slot env mid sid = on_config env (\<lambda>cfg s.
     case model_by_id cfg mid of
       None \<Rightarrow> (not_found ''Model'' mid, s)
     | Some m \<Rightarrow>
         if list_ex (\<lambda>t. ts_id t = sid) (tr_slots (md_time_routing m))
         then (ok_reply, store_config env (edit_slots mid (filter (\<lambda>t. ts_id t \<noteq> sid)) cfg) s)
         else (not_found ''Time slot'' sid, s))"

section \<open>Lemmas\<close>

lemma find_update_first: "(\<And>x. p x \<Longrightarrow> p (f x)) \<Longrightarrow> find p (update_first p f xs) = map_option f (find p xs)"
  by (induction xs) auto

lemma find_none_iff: "find p xs = None \<longleftrightarrow> \<not> list_ex p xs"
  by (induction xs) auto

lemma update_first_none: "(\<And>x. q (f x) = q x) \<Longrightarrow> list_ex q (update_first p f xs) = list_ex q xs"
  by (induction xs) auto

text \<open>An edit that keeps a model's names is found under the name it was made by, and touches only that model.\<close>

lemma edit_model_lookup:
  assumes "\<And>m. md_id (f m) = md_id m" and "\<And>m. md_aliases (f m) = md_aliases m"
  shows "model_by_id (edit_model mid f cfg) mid = map_option f (model_by_id cfg mid)"
proof (cases "list_ex (\<lambda>m. md_id m = mid) (gw_models cfg)")
  case True
  then show ?thesis
    by (auto simp: model_by_id_def edit_model_def find_update_first assms split: option.split)
       (auto simp: find_none_iff)
next
  case False
  then have "find (\<lambda>m. md_id m = mid) (gw_models cfg) = None"
    and "find (\<lambda>m. md_id m = mid) (update_first (\<lambda>m. mid \<in> set (md_aliases m)) f (gw_models cfg)) = None"
    by (simp_all add: find_none_iff update_first_none assms)
  with False show ?thesis
    by (simp add: model_by_id_def edit_model_def find_update_first assms)
qed

lemma edit_backends_lookup:
  "model_by_id (edit_backends mid f cfg) mid
     = map_option (\<lambda>m. m\<lparr>md_backends := f (md_backends m)\<rparr>) (model_by_id cfg mid)"
  unfolding edit_backends_def by (rule edit_model_lookup) simp_all

lemma model_by_id_version [simp]: "model_by_id (cfg\<lparr>gw_version := v\<rparr>) mid = model_by_id cfg mid"
  by (simp add: model_by_id_def split: option.split)

abbreviation indices :: "nat list \<Rightarrow> json list" where
  "indices xs \<equiv> map (\<lambda>i. JInt (int i)) xs"

lemma pairwise_ints: "pairwise orderable (indices xs)"
  by (induction xs) (simp_all add: list_all_iff)

lemma covers_range_ints:
  "covers_range (indices xs) n = Inr (mset xs = mset [0..<n])"
proof -
  have "sort (map (\<lambda>v. the (number_of v)) (indices xs)) = map real [0..<n] \<longleftrightarrow> mset xs = mset [0..<n]"
    (is "?l \<longleftrightarrow> ?r")
  proof
    assume ?l
    then have "mset (map real xs) = mset (map real [0..<n])"
      by (metis (mono_tags, lifting) comp_apply list.map_comp list.map_cong0 mset_sort number_of.simps(2) of_int_of_nat_eq option.sel)
    from arg_cong [OF this, of "image_mset (\<lambda>x. nat \<lfloor>x\<rfloor>)"] show ?r by (simp add: multiset.map_comp comp_def)
  next
    assume ?r
    then have "mset (map real xs) = mset (map real [0..<n])" by simp
    moreover have "sorted (map real [0..<n])" by (simp add: sorted_map sorted_wrt_upt)
    ultimately have "sort (map real xs) = map real [0..<n]" by (metis properties_for_sort)
    then show ?l by (simp add: comp_def)
  qed
  then show ?thesis by (simp add: covers_range_def pairwise_ints list_all_iff)
qed

text \<open>Placing tiers: every index gets the number of its tier, and nothing else changes.\<close>

lemma index_of_int [simp]: "index_of (JInt (int i)) = Some i"
  by (simp add: index_of_def)

lemma place_tier_shape:
  "fst (place_tier tier (indices xs) bs)
   \<and> length (snd (place_tier tier (indices xs) bs)) = length bs
   \<and> (i \<notin> set xs \<longrightarrow> snd (place_tier tier (indices xs) bs) ! i = bs ! i)"
  by (induction xs arbitrary: bs) simp_all

lemma place_tier_hit:
  "i \<in> set xs \<Longrightarrow> i < length bs
     \<Longrightarrow> snd (place_tier tier (indices xs) bs) ! i = (bs ! i)\<lparr>bk_priority := tier\<rparr>"
proof (induction xs arbitrary: bs)
  case (Cons x xs)
  then show ?case
    using place_tier_shape [of tier xs "bs[x := (bs ! x)\<lparr>bk_priority := tier\<rparr>]" i]
    by (cases "i \<in> set xs"; cases "i = x") auto
qed simp

lemma place_tiers_Cons:
  "place_tiers tier (map indices (t # ts)) bs
     = place_tiers (tier + 1) (map indices ts) (snd (place_tier tier (indices t) bs))"
  using place_tier_shape [of tier t bs] by (auto split: prod.split bool.split)

lemma place_tiers_shape:
  "fst (place_tiers tier (map indices ts) bs)
   \<and> length (snd (place_tiers tier (map indices ts) bs)) = length bs
   \<and> (i \<notin> set (concat ts) \<longrightarrow> snd (place_tiers tier (map indices ts) bs) ! i = bs ! i)"
proof (induction ts arbitrary: tier bs)
  case (Cons t ts)
  then show ?case
    using place_tier_shape [of tier t bs i] by (simp add: place_tiers_Cons del: list.map place_tiers.simps)
qed simp

lemma place_tiers_hit:
  "distinct (concat ts) \<Longrightarrow> set (concat ts) \<subseteq> {..<length bs} \<Longrightarrow> k < length ts \<Longrightarrow> i \<in> set (ts ! k)
     \<Longrightarrow> snd (place_tiers tier (map indices ts) bs) ! i = (bs ! i)\<lparr>bk_priority := tier + int k\<rparr>"
proof (induction ts arbitrary: tier bs k)
  case (Cons t ts)
  show ?case
  proof (cases k)
    case 0
    then have "i \<in> set t" "i \<notin> set (concat ts)" "i < length bs" using Cons.prems by auto
    then show ?thesis
      using 0 place_tiers_shape [of "tier + 1" ts "snd (place_tier tier (indices t) bs)" i] place_tier_hit [of i t bs tier]
      by (simp add: place_tiers_Cons del: list.map place_tiers.simps)
  next
    case (Suc k')
    with Cons.prems have "i \<in> set (ts ! k')" "k' < length ts" by auto
    moreover from this have "i \<notin> set t" using Cons.prems(1) nth_mem by fastforce
    ultimately show ?thesis
      using Suc Cons.prems(1,2) Cons.IH [of "snd (place_tier tier (indices t) bs)" k' "tier + 1"]
        place_tier_shape [of tier t bs i]
      by (simp add: place_tiers_Cons algebra_simps del: list.map place_tiers.simps)
  qed
qed simp

text \<open>Which edits are accepted, over any object.\<close>

lemma set_fields_accepted:
  "fst (set_fields assign body wl obj) = None
     \<longleftrightarrow> list_all (\<lambda>(f, types). jhas body f \<longrightarrow> list_ex (is_instance (jget body f)) types) wl"
  by (induction wl arbitrary: obj) (auto split: if_splits)

lemma apply_fields_accepted:
  "fst (apply_fields assign wl body obj) = None
     \<longleftrightarrow> list_all (\<lambda>k. k \<in> fst ` set wl) (map fst body)
       \<and> list_all (\<lambda>(f, types). jhas body f \<longrightarrow> list_ex (is_instance (jget body f)) types) wl"
  by (auto simp: apply_fields_def Let_def set_fields_accepted filter_empty_conv list_all_iff)

section \<open>Properties\<close>

text \<open>
  A granular edit of a backend is accepted exactly when every field it names is one that may be set and its
  value is of the Python type declared for it; an accepted edit is stored with the version raised, and any
  other is answered with 422 and no write to the file.
\<close>

definition edit_typed :: "whitelist \<Rightarrow> jobj \<Rightarrow> bool" where
  "edit_typed wl body \<longleftrightarrow>
     list_all (\<lambda>(k, v). case dget wl k of None \<Rightarrow> False | Some types \<Rightarrow> list_ex (is_instance v) types) body"

lemma edit_typed_accepted:
  assumes "dict_ok wl" and "dict_ok body"
  shows "fst (apply_fields assign wl body obj) = None \<longleftrightarrow> edit_typed wl body"
proof
  assume acc: "fst (apply_fields assign wl body obj) = None"
  show "edit_typed wl body"
    unfolding edit_typed_def list_all_iff
  proof (clarify)
    fix k v
    assume kv: "(k, v) \<in> set body"
    then have get: "dget body k = Some v" using assms(2) by (simp add: dict_ok_def)
    from acc kv obtain types where t: "(k, types) \<in> set wl"
      by (force simp: apply_fields_accepted list_all_iff)
    with assms(1) have "dget wl k = Some types" by (simp add: dict_ok_def)
    moreover have "list_ex (is_instance v) types"
      using acc t get by (auto simp: apply_fields_accepted list_all_iff jhas_def jget_def)
    ultimately show "case dget wl k of None \<Rightarrow> False | Some types \<Rightarrow> list_ex (is_instance v) types" by simp
  qed
next
  assume typed: "edit_typed wl body"
  have "list_ex (is_instance (jget body f)) types" if wl: "(f, types) \<in> set wl" and field: "jhas body f" for f types
  proof -
    obtain v where v: "dget body f = Some v" using field by (auto simp: jhas_def)
    then have "(f, v) \<in> set body" by (rule map_of_SomeD)
    moreover have "dget wl f = Some types" using wl assms(1) by (simp add: dict_ok_def)
    ultimately show ?thesis using typed v by (force simp: edit_typed_def list_all_iff jget_def)
  qed
  moreover have "k \<in> fst ` set wl" if kv: "(k, v) \<in> set body" for k v
  proof -
    have "dget wl k \<noteq> None" using typed kv by (auto simp: edit_typed_def list_all_iff split: option.splits)
    then show ?thesis by (simp add: map_of_eq_None_iff)
  qed
  ultimately show "fst (apply_fields assign wl body obj) = None"
    by (auto simp: apply_fields_accepted list_all_iff)
qed

lemma backend_settable_ok: "dict_ok backend_settable"
  by (simp add: dict_ok_def backend_settable_def)

lemma model_settable_ok: "dict_ok model_settable"
  by (simp add: dict_ok_def model_settable_def)

theorem backend_edit_typed:
  assumes "model_by_id cfg mid = Some m" and "i < length (md_backends m)" and "dict_ok body"
  shows "(let (r, s') = update_backend env mid (int i) (JObj body) cfg s
          in if edit_typed backend_settable body
             then r = Inr ok_reply
                  \<and> fst (fetch_config env s') = (edit_backends mid (\<lambda>bs. bs[i :=
                        snd (apply_fields assign_backend backend_settable body (md_backends m ! i))]) cfg)
                      \<lparr>gw_version := gw_version cfg + 1\<rparr>
             else (\<exists>msg. r = Inr (fail_reply 422 msg)) \<and> cs_main (ad_store s') = cs_main (ad_store s))"
proof (cases "apply_fields assign_backend backend_settable body (md_backends m ! i)")
  case (Pair err b)
  have "err = None \<longleftrightarrow> edit_typed backend_settable body"
    using edit_typed_accepted [OF backend_settable_ok assms(3), of assign_backend "md_backends m ! i"] Pair by simp
  with assms(1,2) Pair show ?thesis
    by (auto simp: update_backend_def with_dict_def touch_def edit_backends_def edit_model_def split: option.split)
qed

theorem backend_edit_typed_witness:
  "let cfg = default_gateway\<lparr>gw_models := [default_model ''m'' [default_backend ''p'' ''x'']]\<rparr>;
       good = update_backend demo_admin ''m'' (int 0) (JObj [(''weight'', JFloat 2)]) cfg demo_admin_state;
       bad = update_backend demo_admin ''m'' (int 0) (JObj [(''weight'', JInt 2)]) cfg demo_admin_state
   in fst good = Inr ok_reply \<and> (\<exists>msg. fst bad = Inr (fail_reply 422 msg))"
proof -
  let ?cfg = "default_gateway\<lparr>gw_models := [default_model ''m'' [default_backend ''p'' ''x'']]\<rparr>"
  have m: "model_by_id ?cfg ''m'' = Some (default_model ''m'' [default_backend ''p'' ''x''])"
    by (simp add: model_by_id_def default_model_def)
  have l: "0 < length (md_backends (default_model ''m'' [default_backend ''p'' ''x'']))" by (simp add: default_model_def)
  have "dict_ok [(''weight'', JFloat 2)]" and "dict_ok [(''weight'', JInt 2)]" by (simp_all add: dict_ok_def)
  from backend_edit_typed [OF m l this(1), of demo_admin demo_admin_state]
    backend_edit_typed [OF m l this(2), of demo_admin demo_admin_state]
  show ?thesis by (auto simp: edit_typed_def backend_settable_def Let_def split: prod.splits)
qed

text \<open>
  C30. Setting the tiers does exactly that: given a partition of the backends' indices, every backend gets the
  number of its tier as its priority, and nothing else about any of them changes.
\<close>

theorem tiers_set_exactly:
  assumes "model_by_id cfg mid = Some m" and "mset (concat ts) = mset [0..<length (md_backends m)]"
  shows "let (r, s') = set_backends_tiers env mid (JObj [(''tiers'', JList (map (JList \<circ> indices) ts))]) cfg s;
             bs = (case model_by_id (fst (fetch_config env s')) mid of None \<Rightarrow> [] | Some m' \<Rightarrow> md_backends m')
         in (\<exists>reply. r = Inr reply \<and> rp_status reply = 200)
            \<and> length bs = length (md_backends m)
            \<and> (\<forall>k<length ts. \<forall>i\<in>set (ts ! k). bs ! i = (md_backends m ! i)\<lparr>bk_priority := 1 + int k\<rparr>)"
proof -
  have lists: "lists_of (map (JList \<circ> indices) ts) = Some (map indices ts)"
    by (induction ts) simp_all
  have cover: "covers_range (concat (map indices ts)) (length (md_backends m)) = Inr True"
    using covers_range_ints [of "concat ts"] assms(2) by (simp add: map_concat)
  have "distinct (concat ts)" and low: "set (concat ts) \<subseteq> {..<length (md_backends m)}"
    using assms(2) mset_eq_imp_distinct_iff [OF assms(2)] mset_eq_setD [OF assms(2)] by auto
  note hit = place_tiers_hit [OF this, of _ _ 1]
  obtain bs where bs: "place_tiers 1 (map indices ts) (md_backends m) = (True, bs)"
    and len: "length bs = length (md_backends m)"
    using place_tiers_shape [of 1 ts "md_backends m"] by (metis prod.collapse)
  have "set_backends_tiers env mid (JObj [(''tiers'', JList (map (JList \<circ> indices) ts))]) cfg s
      = (Inr (json_reply 200 (JObj [(''status'', JStr ''ok''), (''tiers'', JList (map (JList \<circ> indices) ts))])),
         store_config env (edit_backends mid (\<lambda>_. bs) cfg) s)"
    using assms(1) lists cover bs
    by (simp add: set_backends_tiers_def set_tiers_def with_dict_def jhas_def jget_def)
  with hit bs len assms(1) show ?thesis
    by (simp add: edit_backends_lookup)
qed

lemma all_less_two: "(\<forall>k<2. P (k::nat)) \<longleftrightarrow> P 0 \<and> P 1"
  by (auto simp: less_2_cases_iff)

definition three_backends :: gateway_config where
  "three_backends = default_gateway\<lparr>gw_models :=
     [default_model ''m'' [default_backend ''p'' ''x'', default_backend ''p'' ''y'', default_backend ''q'' ''x'']]\<rparr>"

lemma three_backends_model:
  "model_by_id three_backends ''m'' = Some (default_model ''m''
     [default_backend ''p'' ''x'', default_backend ''p'' ''y'', default_backend ''q'' ''x''])"
  by (simp add: three_backends_def model_by_id_def default_model_def)

definition running :: "gateway_config \<Rightarrow> admin_state" where
  "running cfg = demo_admin_state\<lparr>ad_store := (ad_store demo_admin_state)\<lparr>cs_config := Some cfg\<rparr>\<rparr>"

lemma fetch_running: "fetch_config demo_admin (running cfg) = (cfg, running cfg)"
  by (simp add: fetch_config_def load_config_def running_def demo_admin_state_def file_mtime_def)

theorem tiers_set_exactly_witness:
  "let (r, s') = set_backends_tiers demo_admin ''m''
         (JObj [(''tiers'', JList [JList [JInt 2], JList [JInt 0, JInt 1]])]) three_backends demo_admin_state;
       bs = (case model_by_id (fst (fetch_config demo_admin s')) ''m'' of None \<Rightarrow> [] | Some m' \<Rightarrow> md_backends m')
   in (\<exists>reply. r = Inr reply \<and> rp_status reply = 200)
      \<and> bs ! 2 = default_backend ''q'' ''x'' \<and> bs ! 0 = (default_backend ''p'' ''x'')\<lparr>bk_priority := 2\<rparr>"
proof -
  have "mset (concat [[2], [0, 1]]) = mset [0..<length (md_backends (default_model ''m''
      [default_backend ''p'' ''x'', default_backend ''p'' ''y'', default_backend ''q'' ''x'']))]"
    by (simp add: default_model_def upt_rec numeral_eq_Suc)
  from tiers_set_exactly [OF three_backends_model this, of demo_admin demo_admin_state]
  show ?thesis
    by (auto simp: Let_def default_model_def default_backend_def all_less_two split: prod.splits)
qed

text \<open>
  Removing a backend flattens the tiers: the remaining backends are numbered 1, 2, ... in their order, so no
  two of them share a tier any more, whatever tiers had been set.
\<close>

theorem removal_flattens_tiers:
  assumes "fetch_config env s = (cfg, s1)" and "model_by_id cfg mid = Some m" and "i < length (md_backends m)"
  shows "let (r, s2) = remove_backend env mid (int i) s;
             bs = (case model_by_id (fst (fetch_config env s2)) mid of None \<Rightarrow> [] | Some m' \<Rightarrow> md_backends m')
         in r = ok_reply \<and> map bk_priority bs = map (\<lambda>j. int j + 1) [0..<length (md_backends m) - 1]"
proof -
  let ?kept = "take i (md_backends m) @ drop (i + 1) (md_backends m)"
  have "remove_backend env mid (int i) s
      = (ok_reply, store_config env (edit_backends mid (\<lambda>bs. renumber (take i bs @ drop (i + 1) bs)) cfg) s1)"
    using assms by (simp add: remove_backend_def on_config_def)
  moreover have "map bk_priority (renumber ?kept) = map (\<lambda>j. int j + 1) [0..<length (md_backends m) - 1]"
  proof (rule nth_equalityI)
    show "length (map bk_priority (renumber ?kept)) = length (map (\<lambda>j. int j + 1) [0..<length (md_backends m) - 1])"
      using assms(3) by (simp add: renumber_def)
  next
    fix j
    assume "j < length (map bk_priority (renumber ?kept))"
    then have "j < length ?kept" by (simp add: renumber_def)
    moreover from this have "j < length (md_backends m) - 1" using assms(3) by simp
    ultimately show "map bk_priority (renumber ?kept) ! j = map (\<lambda>j. int j + 1) [0..<length (md_backends m) - 1] ! j"
      by (simp add: renumber_def nth_enumerate_eq split: prod.split)
  qed
  ultimately show ?thesis
    using assms(2) by (simp add: edit_backends_lookup)
qed

theorem removal_flattens_tiers_witness:
  "let (r, s2) = remove_backend demo_admin ''m'' (int 2) (running three_backends);
       bs = (case model_by_id (fst (fetch_config demo_admin s2)) ''m'' of None \<Rightarrow> [] | Some m' \<Rightarrow> md_backends m')
   in r = ok_reply \<and> map bk_priority bs = [1, 2]"
proof -
  have "2 < length (md_backends (default_model ''m''
      [default_backend ''p'' ''x'', default_backend ''p'' ''y'', default_backend ''q'' ''x'']))"
    by (simp add: default_model_def)
  from removal_flattens_tiers [OF fetch_running three_backends_model this]
  show ?thesis by (simp add: default_model_def upt_rec numeral_eq_Suc)
qed

text \<open>
  A model edit that was waiting for its body while another client replaced the configuration writes the old
  configuration back: the replacement is answered with 200 and then lost, and the version number that its
  client was told is the one of the configuration without it.
\<close>

theorem edit_overwrites_put:
  assumes "fetch_config env s = (cfg, s1)" and "model_by_id cfg mid = Some m"
    and "put_config env body s1 = (r, s2)" and "rp_status r = 200"
  shows "\<exists>s3. update_model env mid (JObj [(''description'', JStr txt)]) cfg s2 = Some (Inr ok_reply, s3)
     \<and> fst (fetch_config env s3)
         = (edit_model mid (\<lambda>_. m\<lparr>md_description := Some txt\<rparr>) cfg)\<lparr>gw_version := gw_version cfg + 1\<rparr>
     \<and> gw_version (fst (fetch_config env s2)) = gw_version cfg + 1"
proof -
  obtain new where "s2 = (store_config env new s1)\<lparr>ad_overview := []\<rparr>" and "gw_version new = gw_version cfg"
    using put_accepted [OF fetch_again [OF assms(1)] assms(3,4)] .
  with assms(2) show ?thesis
    by (simp add: update_model_def jget_def apply_fields_def model_settable_def jhas_def assign_model_def Let_def
        edit_model_def)
qed

theorem edit_overwrites_put_witness:
  "\<exists>s2 s3. put_config demo_admin (JObj [(''version'', JInt 0)]) (running (secret_gateway\<lparr>gw_models := gw_models three_backends\<rparr>))
       = (json_reply 200 (JObj [(''status'', JStr ''ok''), (''version'', JInt 1)]), s2)
     \<and> update_model demo_admin ''m'' (JObj [(''description'', JStr ''d'')])
         (secret_gateway\<lparr>gw_models := gw_models three_backends\<rparr>) s2 = Some (Inr ok_reply, s3)
     \<and> gw_version (fst (fetch_config demo_admin s2)) = 1 \<and> gw_version (fst (fetch_config demo_admin s3)) = 1"
proof -
  let ?cfg = "secret_gateway\<lparr>gw_models := gw_models three_backends\<rparr>"
  have v: "gw_version secret_gateway = 0" by (simp add: secret_gateway_def default_gateway_def)
  have "keep_keys ?cfg (redact secret_gateway) = Inr secret_gateway"
    using keep_keys_redacted [of secret_gateway] by (simp add: secret_gateway_def)
  then obtain s2 where put: "put_config demo_admin (JObj [(''version'', JInt 0)]) (running ?cfg)
      = (json_reply 200 (JObj [(''status'', JStr ''ok''), (''version'', JInt 1)]), s2)"
    by (simp add: put_config_unfold [OF fetch_running] incoming_version_def jget_def v) (simp add: demo_admin_def v)
  have "model_by_id ?cfg ''m'' = model_by_id three_backends ''m''"
    by (simp add: model_by_id_def split: option.split)
  from edit_overwrites_put [OF fetch_running this [unfolded three_backends_model] put, of "''d''"] put
  show ?thesis by (auto simp: v edit_model_def)
qed

text \<open>
  A rejected edit is not undone: the fields before the one that is refused stay set in the configuration the
  gateway runs on, although the client is answered 422 and nothing is written to the file.
\<close>

theorem rejected_edit_applies:
  assumes "fetch_config env s = (cfg, s1)" and "model_by_id cfg mid = Some m"
  shows "\<exists>s2. update_model env mid (JObj [(''enabled'', JBool b), (''tags'', JStr t)]) cfg s1
       = Some (Inr (fail_reply 422 (type_message ''tags'' [T_list])), s2)
     \<and> fst (fetch_config env s2) = edit_model mid (\<lambda>_. m\<lparr>md_enabled := b\<rparr>) cfg
     \<and> cs_main (ad_store s2) = cs_main (ad_store s1)"
  using fetch_cached [OF assms(1)] assms(2)
  by (simp add: update_model_def jget_def apply_fields_def model_settable_def jhas_def assign_model_def Let_def
      touch_def fetch_config_def load_config_def file_mtime_def)

theorem rejected_edit_applies_witness:
  "\<exists>s2. update_model demo_admin ''m'' (JObj [(''enabled'', JBool False), (''tags'', JStr ''new'')]) three_backends
        (running three_backends) = Some (Inr (fail_reply 422 (type_message ''tags'' [T_list])), s2)
     \<and> map md_enabled (gw_models (fst (fetch_config demo_admin s2))) = [False]
     \<and> cs_main (ad_store s2) = cs_main (ad_store (running three_backends))"
  using rejected_edit_applies [OF fetch_running three_backends_model, of False "''new''"]
  by (auto simp: edit_model_def three_backends_def default_model_def)

text \<open>
  The check for an existing id looks at the id without its surrounding blanks, but the model is stored as it
  was sent: an id with blanks can be created again and again, and the copies after the first are never found.
\<close>

theorem padded_id_duplicates:
  assumes "fetch_config env s = (cfg, s1)" and "model_by_id cfg mid = None" and "mid \<noteq> []"
    and "strip raw = mid" and "raw \<noteq> mid" and "mid \<notin> set (md_aliases m)"
    and "ae_model env (JObj [(''id'', JStr raw)]) = Inr m" and "md_id m = raw"
  shows "let (r, s2) = create_model env (JObj [(''id'', JStr raw)]) s;
             (r', s3) = create_model env (JObj [(''id'', JStr raw)]) s2
         in (\<exists>x y. r = Inr x \<and> r' = Inr y \<and> rp_status x = 200 \<and> rp_status y = 200)
            \<and> gw_models (fst (fetch_config env s3)) = gw_models cfg @ [m, m]
            \<and> \<not> distinct (map md_id (gw_models (fst (fetch_config env s3))))"
proof -
  have gone: "model_by_id (cfg\<lparr>gw_models := gw_models cfg @ [m], gw_version := v\<rparr>) mid = None" for v
    using assms(2,5,6,8) by (auto simp: model_by_id_def find_None_iff split: option.splits)
  have step: "create_model env (JObj [(''id'', JStr raw)]) t
      = (Inr (json_reply 200 (JObj [(''status'', JStr ''ok''), (''model'', ae_view_model env m)])),
         store_config env (c\<lparr>gw_models := gw_models c @ [m]\<rparr>) t1)"
    if "fetch_config env t = (c, t1)" and "model_by_id c mid = None" for t t1 c
    using that assms(3,4,7) by (simp add: create_model_def with_dict_def jhas_def jget_def on_config_def Let_def)
  show ?thesis
    using step [OF assms(1,2)] step [OF fetch_stored, of "cfg\<lparr>gw_models := gw_models cfg @ [m]\<rparr>" s1] gone
    by (simp add: Let_def)
qed

theorem padded_id_duplicates_witness:
  "let env = demo_admin\<lparr>ae_model := (\<lambda>_. Inr (default_model '' m'' []))\<rparr>;
       (r, s2) = create_model env (JObj [(''id'', JStr '' m'')]) (running default_gateway);
       (r', s3) = create_model env (JObj [(''id'', JStr '' m'')]) s2
   in map md_id (gw_models (fst (fetch_config env s3))) = ['' m'', '' m'']"
proof -
  let ?env = "demo_admin\<lparr>ae_model := (\<lambda>_. Inr (default_model '' m'' []))\<rparr>"
  have f: "fetch_config ?env (running default_gateway) = (default_gateway, running default_gateway)"
    by (simp add: fetch_config_def load_config_def running_def demo_admin_state_def file_mtime_def)
  have "model_by_id default_gateway ''m'' = None" by (simp add: model_by_id_def default_gateway_def)
  moreover have "strip '' m'' = ''m''" by (simp add: strip_def lstrip_def is_space_def byte_def)
  ultimately show ?thesis
    using padded_id_duplicates [OF f, of "''m''" "'' m''" "default_model '' m'' []"]
    by (auto simp: default_model_def default_gateway_def Let_def split: prod.splits)
qed

text \<open>
  An id that is generated for a time slot is a function of its name and hours, so a second slot with both gets
  the same id; deleting the id that the second creation returned deletes the first slot as well.
\<close>

theorem generated_slot_ids_collide:
  assumes "fetch_config env s = (cfg, s1)" and "model_by_id cfg mid = Some m"
    and "ae_slot env body = Inr t" and "ts_id t = []" and "\<forall>u\<in>set (tr_slots (md_time_routing m)). ts_id u \<noteq> slot_id t"
  shows "let create = (\<lambda>s. on_config env (create_time_slot env mid body) s);
             (r, s2) = create s; (r', s3) = create s2; (_, s4) = delete_time_slot env mid (slot_id t) s3;
             slots = (\<lambda>s. case model_by_id (fst (fetch_config env s)) mid of
                             None \<Rightarrow> [] | Some m' \<Rightarrow> tr_slots (md_time_routing m'))
         in r = r' \<and> slots s3 = tr_slots (md_time_routing m) @ [t\<lparr>ts_id := slot_id t\<rparr>, t\<lparr>ts_id := slot_id t\<rparr>]
            \<and> slots s4 = tr_slots (md_time_routing m)"
proof -
  let ?t = "t\<lparr>ts_id := slot_id t\<rparr>"
  have look: "model_by_id (edit_slots mid f c) mid
      = map_option (\<lambda>m. m\<lparr>md_time_routing := (md_time_routing m)\<lparr>tr_slots := f (tr_slots (md_time_routing m))\<rparr>\<rparr>)
          (model_by_id c mid)" for f c
    unfolding edit_slots_def by (rule edit_model_lookup) simp_all
  have create: "on_config env (create_time_slot env mid body) u
      = (json_reply 200 (ae_view_slot env ?t), store_config env (edit_slots mid (\<lambda>ts. ts @ [?t]) c) u1)"
    if "fetch_config env u = (c, u1)" and "model_by_id c mid = Some m'" for u u1 c m'
    using that assms(3,4) by (simp add: on_config_def create_time_slot_def Let_def)
  have keep: "filter (\<lambda>u. ts_id u \<noteq> slot_id t) (tr_slots (md_time_routing m)) = tr_slots (md_time_routing m)"
    using assms(5) by (simp add: filter_id_conv)
  show ?thesis
    using create [OF assms(1,2)] create [OF fetch_stored, of "edit_slots mid (\<lambda>ts. ts @ [?t]) cfg"] assms(2) keep
    by (simp add: Let_def look delete_time_slot_def on_config_def)
qed

theorem generated_slot_ids_collide_witness:
  "let slot = \<lparr>ts_id = [], ts_name = ''Peak hours'', ts_start_hour = 9, ts_end_hour = 17, ts_days_of_week = [],
               ts_active_providers = [], ts_enabled = True\<rparr>;
       env = demo_admin\<lparr>ae_slot := (\<lambda>_. Inr slot)\<rparr>;
       create = (\<lambda>s. on_config env (create_time_slot env ''m'' JNull) s);
       (r, s2) = create (running three_backends); (r', s3) = create s2;
       (_, s4) = delete_time_slot env ''m'' ''peak-hours-9-17'' s3;
       slots = (\<lambda>s. case model_by_id (fst (fetch_config env s)) ''m'' of
                       None \<Rightarrow> [] | Some m' \<Rightarrow> tr_slots (md_time_routing m'))
   in map ts_id (slots s3) = [''peak-hours-9-17'', ''peak-hours-9-17''] \<and> slots s4 = []"
proof -
  let ?slot = "\<lparr>ts_id = [], ts_name = ''Peak hours'', ts_start_hour = 9, ts_end_hour = 17, ts_days_of_week = [],
               ts_active_providers = [], ts_enabled = True\<rparr>"
  let ?env = "demo_admin\<lparr>ae_slot := (\<lambda>_. Inr ?slot)\<rparr>"
  have f: "fetch_config ?env (running three_backends) = (three_backends, running three_backends)"
    by (simp add: fetch_config_def load_config_def running_def demo_admin_state_def file_mtime_def)
  have i: "slot_id ?slot = ''peak-hours-9-17''"
    by code_simp
  have e: "ae_slot ?env JNull = Inr ?slot" "ts_id ?slot = []" by simp_all
  show ?thesis
    using generated_slot_ids_collide [OF f three_backends_model e] i
    by (auto simp: default_model_def default_time_routing_def Let_def split: prod.splits)
qed

end
