(* ===== verification/AdminViews.thy ===== *)
theory AdminViews
  imports AdminModels Router ClientQuota RespCache Tokenizer Logs
begin

text \<open>
  The reports of the administration API (\<^verbatim>\<open>src/localgateway/endpoints/admin.py\<close>): usage, models, health,
  keys, token counts, and the export of the usage table with Python's \<open>csv\<close> writer.

  A report is a function of the configuration, the usage rows and the live registries; \<open>now\<close> is the
  monotonic clock and \<open>wall\<close> the wall clock.  Replies are written as the JSON values they carry.
\<close>

section \<open>Values\<close>

definition real_or_null :: "real option \<Rightarrow> json" where
  "real_or_null x = (case x of None \<Rightarrow> JNull | Some r \<Rightarrow> JFloat r)"

definition text_or_null :: "string option \<Rightarrow> json" where
  "text_or_null s = (case s of None \<Rightarrow> JNull | Some t \<Rightarrow> JStr t)"

definition bool_or_null :: "bool option \<Rightarrow> json" where
  "bool_or_null b = (case b of None \<Rightarrow> JNull | Some c \<Rightarrow> JBool c)"

definition text_list :: "string list \<Rightarrow> json" where
  "text_list ss = JList (map JStr ss)"

definition int_nat :: "nat \<Rightarrow> json" where
  "int_nat n = JInt (int n)"

definition dict_view :: "('a \<Rightarrow> json) \<Rightarrow> (string, 'a) dict \<Rightarrow> json" where
  "dict_view f d = JObj (map (\<lambda>(k, v). (k, f v)) d)"

text \<open>\<open>x or None\<close>, and \<open>min(..., default=None)\<close>.\<close>

definition nonzero_or_null :: "int option \<Rightarrow> json" where
  "nonzero_or_null i = (case i of None \<Rightarrow> JNull | Some n \<Rightarrow> if n = 0 then JNull else JInt n)"

definition description_view :: "model_config \<Rightarrow> json" where
  "description_view m = (case md_description m of None \<Rightarrow> JNull | Some d \<Rightarrow> str_or_null d)"

definition least_or_null :: "real list \<Rightarrow> json" where
  "least_or_null xs = (if xs = [] then JNull else JFloat (least xs))"

section \<open>Usage\<close>

definition agg_view :: "agg \<Rightarrow> json" where
  "agg_view a = JObj
     [(''requests'', int_nat (ag_requests a)), (''successes'', int_nat (ag_successes a)),
      (''input_tokens'', JInt (ag_input a)), (''output_tokens'', JInt (ag_output a)),
      (''reasoning_tokens'', JInt (ag_reasoning a)), (''cached_tokens'', JInt (ag_cached a)),
      (''cache_write_tokens'', JInt (ag_cache_write a)), (''avg_ttft_ms'', real_or_null (ag_avg_ttft_ms a)),
      (''avg_latency_ms'', real_or_null (ag_avg_latency_ms a)), (''cost'', JFloat (ag_cost a))]"

definition named :: "(string option, 'a) dict \<Rightarrow> (string, 'a) dict" where
  "named d = List.map_filter (\<lambda>(k, v). map_option (\<lambda>s. (s, v)) k) d"

definition summary_view :: "usage_summary \<Rightarrow> json" where
  "summary_view u = JObj
     [(''hours'', JInt (us_hours u)), (''total'', agg_view (us_total u)),
      (''by_provider'', dict_view agg_view (us_by_provider u)), (''by_model'', dict_view agg_view (us_by_model u)),
      (''by_backend'', dict_view agg_view (us_by_backend u)), (''by_key'', dict_view agg_view (named (us_by_key u))),
      (''by_user'', dict_view agg_view (named (us_by_user u)))]"

definition usage_endpoint :: "usage_row list \<Rightarrow> time \<Rightarrow> int \<Rightarrow> reply" where
  "usage_endpoint rows wall hours = json_reply 200 (summary_view (get_usage_summary rows wall hours))"

definition clamp_hours :: "int \<Rightarrow> int" where
  "clamp_hours hours = max 1 (min hours (24 * 365))"

definition daily_view :: "daily_point \<Rightarrow> json" where
  "daily_view p = JObj [(''t'', JInt (dp_t p)), (''cost'', JFloat (dp_cost p)), (''tokens'', JInt (dp_tokens p)),
                        (''requests'', int_nat (dp_requests p))]"

definition usage_series :: "usage_row list \<Rightarrow> time \<Rightarrow> int \<Rightarrow> reply" where
  "usage_series rows wall hours =
     (let (width, series) = get_daily_series rows wall (clamp_hours hours)
      in json_reply 200 (JObj [(''bucket_seconds'', JInt width),
                               (''series'', dict_view (\<lambda>ps. JList (map daily_view ps)) series)]))"

section \<open>The export\<close>

text \<open>
  A row of the usage table by column name, as SQLite gives it (less the column \<open>id\<close>, which nothing reads);
  \<open>success\<close>, \<open>stream\<close>, \<open>is_probe\<close> and \<open>cache_hit\<close> are stored as 0 and 1.
\<close>

definition flag :: "bool \<Rightarrow> json" where
  "flag b = JInt (if b then 1 else 0)"

definition stored_columns :: "usage_row \<Rightarrow> jobj" where
  "stored_columns r =
     [(''ts'', JFloat (ur_ts r)), (''logical_model'', JStr (ur_logical_model r)), (''provider'', JStr (ur_provider r)),
      (''backend_model'', JStr (ur_backend_model r)), (''success'', flag (ur_success r)),
      (''error'', text_or_null (ur_error r)), (''input_tokens'', int_or_null (ur_input r)),
      (''output_tokens'', int_or_null (ur_output r)), (''reasoning_tokens'', int_or_null (ur_reasoning r)),
      (''cached_tokens'', int_or_null (ur_cached r)), (''cache_write_tokens'', int_or_null (ur_cache_write r)),
      (''cost'', real_or_null (ur_cost r)), (''latency_ms'', int_or_null (ur_latency_ms r)),
      (''ttft_ms'', int_or_null (ur_ttft_ms r)), (''tps'', real_or_null (ur_tps r)), (''stream'', flag (ur_stream r)),
      (''is_probe'', flag (ur_is_probe r)), (''api_key_id'', text_or_null (ur_api_key_id r)),
      (''end_user'', text_or_null (ur_end_user r)), (''request_id'', text_or_null (ur_request_id r)),
      (''cache_hit'', flag (ur_cache_hit r))]"

definition export_columns :: "string list" where
  "export_columns =
     [''ts'', ''logical_model'', ''provider'', ''backend_model'', ''success'', ''error'', ''input_tokens'', ''output_tokens'',
      ''reasoning_tokens'', ''cached_tokens'', ''cache_write_tokens'', ''cost'', ''latency_ms'', ''ttft_ms'', ''tps'',
      ''stream'', ''is_probe'', ''api_key_id'', ''end_user'', ''request_id'', ''cache_hit'']"

definition export_row :: "usage_row \<Rightarrow> jobj" where
  "export_row r = map (\<lambda>c. (c, jget (stored_columns r) c)) export_columns"

text \<open>
  The \<open>csv\<close> writer with its default dialect: a field that holds a comma, a quote, a carriage return or a line
  feed is quoted, with its quotes doubled; rows end in CR LF.  \<open>None\<close> is the empty field; \<open>float_str\<close> is
  \<open>repr\<close> of a float.
\<close>

abbreviation quote_char :: char where
  "quote_char \<equiv> CHR 0x22"

definition csv_special :: "char \<Rightarrow> bool" where
  "csv_special c \<longleftrightarrow> c = CHR '','' \<or> c = quote_char \<or> c = CHR 0x0D \<or> c = CHR 0x0A"

fun double_quotes :: "string \<Rightarrow> string" where
  "double_quotes [] = []"
| "double_quotes (c # cs) = (if c = quote_char then [quote_char, quote_char] else [c]) @ double_quotes cs"

definition csv_field :: "string \<Rightarrow> string" where
  "csv_field s = (if list_ex csv_special s then quote_char # double_quotes s @ [quote_char] else s)"

definition csv_line :: "string list \<Rightarrow> string" where
  "csv_line fs = join_with '','' (map csv_field fs) @ [CHR 0x0D, CHR 0x0A]"

fun csv_text :: "(real \<Rightarrow> string) \<Rightarrow> json \<Rightarrow> string" where
  "csv_text float_str (JStr s) = s"
| "csv_text float_str (JInt i) = int_str i"
| "csv_text float_str (JFloat x) = float_str x"
| "csv_text float_str _ = []"

text \<open>\<open>DictWriter\<close> looks each field up by its column's name.\<close>

definition csv_rows :: "(real \<Rightarrow> string) \<Rightarrow> usage_row list \<Rightarrow> string list list" where
  "csv_rows float_str rows =
     export_columns # map (\<lambda>r. map (\<lambda>c. case dget (export_row r) c of None \<Rightarrow> [] | Some v \<Rightarrow> csv_text float_str v)
                            export_columns) rows"

definition csv_document :: "string list list \<Rightarrow> string" where
  "csv_document lines = concat (map csv_line lines)"

definition usage_export :: "(real \<Rightarrow> string) \<Rightarrow> usage_row list \<Rightarrow> time \<Rightarrow> int \<Rightarrow> string \<Rightarrow> bool \<Rightarrow> reply" where
  "usage_export float_str rows wall hours format include_probes =
     (let hours = clamp_hours hours; out = export_rows rows wall hours include_probes
      in if format = ''csv''
         then \<lparr>rp_status = 200,
               rp_headers = [(''Content-Disposition'', ''attachment; filename='' @ [quote_char] @ ''localgateway-usage-''
                                @ int_str hours @ ''h.csv'' @ [quote_char]), (''content-type'', ''text/csv'')],
               rp_body = Raw_body (csv_document (csv_rows float_str out))\<rparr>
         else json_reply 200 (JObj [(''hours'', JInt hours), (''count'', int_nat (length out)),
                                    (''rows'', JList (map (JObj \<circ> export_row) out))]))"

section \<open>Models\<close>

definition overview_ttl :: real where
  "overview_ttl = 60"

definition overview_aggregates ::
    "usage_row list \<Rightarrow> time \<Rightarrow> int \<Rightarrow> admin_state \<Rightarrow> (string, model_agg) dict \<times> admin_state" where
  "overview_aggregates rows wall hours s =
     (let fresh = get_model_aggregates rows wall hours;
          renewed = s\<lparr>ad_overview := dset hours (wall, fresh) (ad_overview s)\<rparr>
      in case dget (ad_overview s) hours of
           None \<Rightarrow> (fresh, renewed)
         | Some (t, agg) \<Rightarrow> if wall - t < overview_ttl then (agg, s) else (fresh, renewed))"

definition no_requests :: model_agg where
  "no_requests = \<lparr>ma_requests = 0, ma_successes = 0, ma_tokens = 0, ma_cost = 0, ma_tps_p50 = None, ma_tps_p90 = None,
                  ma_tps_p99 = None\<rparr>"

definition agg_of :: "(string, model_agg) dict \<Rightarrow> string \<Rightarrow> model_agg" where
  "agg_of agg mid = (case dget agg mid of None \<Rightarrow> no_requests | Some a \<Rightarrow> a)"

definition agg_rate :: "model_agg \<Rightarrow> json" where
  "agg_rate a =
     (if ma_requests a = 0 then JNull
      else JFloat (py_round 1 (real (ma_successes a) / real (ma_requests a) * 100)))"

definition prices_of :: "gateway_config \<Rightarrow> backend_config list \<Rightarrow> pricing_entry list" where
  "prices_of cfg active =
     filter (\<lambda>p. pr_input p \<noteq> 0 \<or> pr_output p \<noteq> 0)
       (map (\<lambda>b. pricing_for cfg (bk_provider b) (bk_model b)) active)"

definition contexts_of :: "backend_config list \<Rightarrow> int list" where
  "contexts_of active = filter (\<lambda>n. n \<noteq> 0) (List.map_filter bk_context_length active)"

definition extreme :: "(int \<Rightarrow> int \<Rightarrow> int) \<Rightarrow> int option \<Rightarrow> int list \<Rightarrow> json" where
  "extreme pick fallback ns = (case ns of [] \<Rightarrow> nonzero_or_null fallback | x # xs \<Rightarrow> JInt (foldl pick x xs))"

definition usage_fields :: "model_agg \<Rightarrow> jobj" where
  "usage_fields a =
     [(''requests'', int_nat (ma_requests a)), (''success_rate'', agg_rate a), (''tokens'', JInt (ma_tokens a)),
      (''cost'', JFloat (ma_cost a)), (''tps_p50'', real_or_null (ma_tps_p50 a))]"

definition price_fields :: "pricing_entry list \<Rightarrow> jobj" where
  "price_fields priced =
     [(''input_price'', least_or_null (map pr_input priced)), (''output_price'', least_or_null (map pr_output priced))]"

definition overview_entry :: "gateway_config \<Rightarrow> (string, model_agg) dict \<Rightarrow> model_config \<Rightarrow> json" where
  "overview_entry cfg agg m =
     (let active = active_backends cfg m; contexts = contexts_of active
      in JObj
        ([(''id'', JStr (md_id m)), (''display_name'', str_or_null (md_display_name m)),
          (''avatar'', str_or_null (md_avatar m)), (''description'', description_view m),
          (''modality'', str_or_null (md_modality m)), (''tags'', text_list (md_tags m)),
          (''context_length'', int_or_null (md_context_length m)),
          (''context_min'', extreme min (md_context_length m) contexts),
          (''context_max'', extreme max (md_context_length m) contexts),
          (''enabled'', JBool (md_enabled m)), (''backend_count'', int_nat (length active))]
         @ usage_fields (agg_of agg (md_id m)) @ price_fields (prices_of cfg active)))"

definition models_overview ::
    "admin_env \<Rightarrow> usage_row list \<Rightarrow> time \<Rightarrow> int \<Rightarrow> admin_state \<Rightarrow> reply \<times> admin_state" where
  "models_overview env rows wall hours = on_config env (\<lambda>cfg s.
     let (agg, s1) = overview_aggregates rows wall hours s
     in (json_reply 200 (JObj [(''hours'', JInt hours),
                               (''models'', JList (map (overview_entry cfg agg) (gw_models cfg)))]), s1))"

text \<open>One model in full, and the side-by-side view of up to three.\<close>

definition capabilities_view :: "model_config \<Rightarrow> json" where
  "capabilities_view m = dict_view JBool (md_capabilities m)"

definition name_of_provider :: "gateway_config \<Rightarrow> string \<Rightarrow> string" where
  "name_of_provider cfg pid =
     (case provider_by_id cfg pid of None \<Rightarrow> pid | Some p \<Rightarrow> if pv_name p = [] then pv_id p else pv_name p)"

definition provider_on :: "gateway_config \<Rightarrow> string \<Rightarrow> bool" where
  "provider_on cfg pid \<longleftrightarrow> (case provider_by_id cfg pid of None \<Rightarrow> False | Some p \<Rightarrow> pv_enabled p)"

definition identity_fields :: "model_config \<Rightarrow> jobj" where
  "identity_fields m =
     [(''id'', JStr (md_id m)), (''display_name'', JStr (if md_display_name m = [] then md_id m else md_display_name m)),
      (''description'', description_view m), (''context_length'', int_or_null (md_context_length m)),
      (''max_output_tokens'', int_or_null (md_max_output_tokens m)), (''modality'', str_or_null (md_modality m)),
      (''capabilities'', capabilities_view m), (''tags'', text_list (md_tags m)), (''aliases'', text_list (md_aliases m)),
      (''default_params'', JObj (md_default_params m)), (''enabled'', JBool (md_enabled m))]"

definition backend_detail :: "gateway_config \<Rightarrow> backend_config \<Rightarrow> json" where
  "backend_detail cfg b =
     (let pricing = pricing_for cfg (bk_provider b) (bk_model b)
      in JObj
        [(''provider'', JStr (bk_provider b)), (''provider_name'', JStr (name_of_provider cfg (bk_provider b))),
         (''model'', JStr (bk_model b)), (''priority'', JInt (bk_priority b)),
         (''enabled'', JBool (bk_enabled b \<and> provider_on cfg (bk_provider b))),
         (''cache_supported'', bool_or_null (bk_cache_supported b)),
         (''context_length'', int_or_null (bk_context_length b)),
         (''max_output_tokens'', int_or_null (bk_max_output_tokens b)),
         (''input_price'', JFloat (pr_input pricing)), (''output_price'', JFloat (pr_output pricing))])"

definition model_detail :: "gateway_config \<Rightarrow> model_agg \<Rightarrow> model_config \<Rightarrow> json" where
  "model_detail cfg a m =
     JObj (identity_fields m @ usage_fields a @ [(''backends'', JList (map (backend_detail cfg) (md_backends m)))])"

definition get_model :: "admin_env \<Rightarrow> usage_row list \<Rightarrow> time \<Rightarrow> string \<Rightarrow> admin_state \<Rightarrow> reply \<times> admin_state" where
  "get_model env rows wall mid = on_config env (\<lambda>cfg s.
     (case model_by_id cfg mid of
        None \<Rightarrow> not_found ''Model'' mid
      | Some m \<Rightarrow> json_reply 200 (model_detail cfg (agg_of (get_model_aggregates rows wall 168) mid) m), s))"

definition compared_backend :: "gateway_config \<Rightarrow> backend_config \<Rightarrow> json" where
  "compared_backend cfg b =
     (let pricing = pricing_for cfg (bk_provider b) (bk_model b)
      in JObj
        [(''provider'', JStr (bk_provider b)), (''model'', JStr (bk_model b)), (''priority'', JInt (bk_priority b)),
         (''enabled'', JBool (bk_enabled b)), (''context_length'', int_or_null (bk_context_length b)),
         (''max_output_tokens'', int_or_null (bk_max_output_tokens b)),
         (''input_price'', JFloat (pr_input pricing)), (''output_price'', JFloat (pr_output pricing))])"

definition compared_model :: "gateway_config \<Rightarrow> (string, model_agg) dict \<Rightarrow> model_config \<Rightarrow> json" where
  "compared_model cfg agg m =
     (let active = active_backends cfg m
      in JObj (identity_fields m @ [(''backend_count'', int_nat (length active))] @ usage_fields (agg_of agg (md_id m))
               @ price_fields (prices_of cfg active)
               @ [(''backends'', JList (map (compared_backend cfg) (md_backends m)))]))"

fun compare_each ::
    "gateway_config \<Rightarrow> (string, model_agg) dict \<Rightarrow> string list \<Rightarrow> json list \<Rightarrow> reply" where
  "compare_each cfg agg [] out = json_reply 200 (JObj [(''models'', JList out)])"
| "compare_each cfg agg (mid # rest) out =
     (case model_by_id cfg mid of
        None \<Rightarrow> not_found ''Model'' mid
      | Some m \<Rightarrow> compare_each cfg agg rest (out @ [compared_model cfg agg m]))"

definition models_compare ::
    "admin_env \<Rightarrow> usage_row list \<Rightarrow> time \<Rightarrow> string \<Rightarrow> admin_state \<Rightarrow> reply \<times> admin_state" where
  "models_compare env rows wall ids = on_config env (\<lambda>cfg s.
     (let id_list = filter (\<lambda>x. x \<noteq> []) (map strip (split_at (CHR '','') ids))
      in if id_list = [] then fail_reply 422 ''ids query param required (comma-separated)''
         else if 3 < length id_list then fail_reply 422 ''Max 3 models for comparison''
         else compare_each cfg (get_model_aggregates rows wall 168) id_list [], s))"

text \<open>The statistics of a model's backends; reading them configures the circuit breaker and drops nothing else.\<close>

definition percentile_of :: "string \<Rightarrow> real" where
  "percentile_of p =
     (if p = ''p50'' then 1 / 2 else if p = ''p90'' then 9 / 10 else if p = ''p99'' then 99 / 100 else 1 / 2)"

definition stat_fields :: "backend_percentiles option \<Rightarrow> jobj" where
  "stat_fields s =
     (let pick = (\<lambda>f. case s of None \<Rightarrow> JNull | Some x \<Rightarrow> real_or_null (f x))
      in [(''requests'', int_nat (case s of None \<Rightarrow> 0 | Some x \<Rightarrow> bp_requests x)), (''success_rate'', pick bp_success_rate),
          (''ttft_ms'', pick bp_ttft_ms), (''tps'', pick bp_tps), (''tps_p50'', pick bp_tps_p50),
          (''tps_p90'', pick bp_tps_p90), (''tps_p99'', pick bp_tps_p99), (''latency_ms'', pick bp_latency_ms)])"

definition circuit_fields :: "circuit_view option \<Rightarrow> jobj" where
  "circuit_fields c =
     (case c of
        None \<Rightarrow> [(''circuit_open'', JBool False), (''circuit_failures'', JInt 0), (''circuit_open_remaining_s'', JFloat 0)]
      | Some v \<Rightarrow> [(''circuit_open'', JBool (cv_open v)), (''circuit_failures'', int_nat (cv_failures v)),
                   (''circuit_open_remaining_s'', JFloat (cv_remaining v))])"

definition warm_fields :: "warmth_summary option \<Rightarrow> jobj" where
  "warm_fields w =
     (case w of
        None \<Rightarrow> [(''warm'', JBool False), (''warm_hit_rate'', JNull), (''warm_fingerprints'', JInt 0)]
      | Some x \<Rightarrow> [(''warm'', JBool True), (''warm_hit_rate'', JFloat (py_round 3 (ws_last_hit_rate x))),
                   (''warm_fingerprints'', int_nat (ws_fingerprints x))])"

definition backend_stat_view ::
    "gateway_config \<Rightarrow> rl_state \<Rightarrow> time \<Rightarrow> (string, backend_percentiles) dict \<Rightarrow> (string, circuit_view) dict
     \<Rightarrow> (string, warmth_summary) dict \<Rightarrow> backend_config \<Rightarrow> json" where
  "backend_stat_view cfg limits now statsp circuits warmth b =
     (let key = backend_key (bk_provider b) (bk_model b); pricing = pricing_for cfg (bk_provider b) (bk_model b)
      in JObj
        ([(''provider'', JStr (bk_provider b)), (''provider_name'', JStr (name_of_provider cfg (bk_provider b))),
          (''provider_avatar'', JStr (case provider_by_id cfg (bk_provider b) of None \<Rightarrow> [] | Some p \<Rightarrow> pv_avatar p)),
          (''backend_model'', JStr (bk_model b)), (''priority'', JInt (bk_priority b)),
          (''enabled'', JBool (bk_enabled b \<and> provider_on cfg (bk_provider b))),
          (''cache_supported'', bool_or_null (bk_cache_supported b)),
          (''context_length'', int_or_null (bk_context_length b)),
          (''max_output_tokens'', int_or_null (bk_max_output_tokens b)),
          (''input_price'', JFloat (pr_input pricing)), (''output_price'', JFloat (pr_output pricing)),
          (''cache_read_price'', real_or_null (pr_cache_read pricing)),
          (''cache_write_price'', real_or_null (pr_cache_write pricing)),
          (''cooldown_remaining'', JFloat (py_round 1 (remaining limits now (bk_provider b) (bk_model b))))]
         @ circuit_fields (dget circuits key) @ warm_fields (dget warmth key) @ stat_fields (dget statsp key)))"

definition totals_view :: "model_totals \<Rightarrow> json" where
  "totals_view t = JObj
     [(''requests'', int_nat (mt_requests t)), (''success_rate'', real_or_null (mt_success_rate t)),
      (''input_tokens'', JInt (mt_input t)), (''output_tokens'', JInt (mt_output t)), (''tokens'', JInt (mt_tokens t)),
      (''cost'', JFloat (mt_cost t))]"

definition model_stats ::
    "gateway_config \<Rightarrow> usage_row list \<Rightarrow> time \<Rightarrow> time \<Rightarrow> string \<Rightarrow> int \<Rightarrow> string \<Rightarrow> world \<Rightarrow> reply \<times> world" where
  "model_stats cfg rows wall now mid hours p w =
     (case model_by_id cfg mid of
        None \<Rightarrow> (not_found ''Model'' mid, w)
      | Some m \<Rightarrow>
          (let circuits = configure_from_config cfg (wd_circuits w);
               ttl = (let t = sv_cache_affinity_ttl_sec (gw_server cfg) in if t = 0 then 300 else t);
               keys = map (\<lambda>b. backend_key (bk_provider b) (bk_model b)) (md_backends m);
               view = backend_stat_view cfg (wd_limits w) now
                        (get_backend_percentiles rows wall mid hours (percentile_of p))
                        (CircuitBreaker.snapshot circuits now)
                        (warmth_for_backends (wd_stats w) wall keys (of_int ttl))
           in (json_reply 200 (JObj
                 [(''model'', JStr mid), (''hours'', JInt hours), (''percentile'', JStr p),
                  (''backends'', JList (map view (sort_key bk_priority (md_backends m)))),
                  (''totals'', totals_view (get_model_totals rows wall mid hours))]),
               w\<lparr>wd_circuits := circuits\<rparr>)))"

definition point_view :: "backend_point \<Rightarrow> json" where
  "point_view p = JObj [(''t'', JInt (bt_t p)), (''tps'', JFloat (bt_tps p)), (''ttft_ms'', real_or_null (bt_ttft_ms p)),
                        (''n'', int_nat (bt_n p))]"

definition model_series :: "gateway_config \<Rightarrow> usage_row list \<Rightarrow> time \<Rightarrow> string \<Rightarrow> int \<Rightarrow> reply" where
  "model_series cfg rows wall mid hours =
     (if model_by_id cfg mid = None then not_found ''Model'' mid
      else let (width, series) = get_backend_series rows wall mid hours
           in json_reply 200 (JObj [(''bucket_seconds'', JInt width),
                                    (''series'', dict_view (\<lambda>ps. JList (map point_view ps)) series)]))"

section \<open>Live registries\<close>

definition provider_health :: "provider_config \<Rightarrow> json" where
  "provider_health p = JObj
     [(''id'', JStr (pv_id p)), (''name'', JStr (if pv_name p = [] then pv_id p else pv_name p)),
      (''base_url'', JStr (pv_base_url p)), (''enabled'', JBool (pv_enabled p))]"

definition backend_health :: "gateway_config \<Rightarrow> rl_state \<Rightarrow> time \<Rightarrow> model_config \<Rightarrow> backend_config \<Rightarrow> json" where
  "backend_health cfg limits now m b = JObj
     [(''model'', JStr (md_id m)), (''provider'', JStr (bk_provider b)),
      (''provider_name'', JStr (name_of_provider cfg (bk_provider b))), (''backend_model'', JStr (bk_model b)),
      (''priority'', JInt (bk_priority b)), (''enabled'', JBool (bk_enabled b)),
      (''provider_enabled'', JBool (provider_on cfg (bk_provider b))),
      (''cooldown_remaining'', JFloat (py_round 1 (remaining limits now (bk_provider b) (bk_model b))))]"

definition stats_view_json :: "stats_view \<Rightarrow> json" where
  "stats_view_json v = JObj
     [(''requests'', int_nat (sn_requests v)), (''successes'', int_nat (sn_successes v)),
      (''failures'', int_nat (sn_failures v)), (''success_rate'', real_or_null (sn_success_rate v)),
      (''avg_latency_ms'', real_or_null (sn_avg_latency_ms v)), (''avg_ttft_ms'', real_or_null (sn_avg_ttft_ms v)),
      (''last_error'', text_or_null (sn_last_error v)), (''last_error_ts'', real_or_null (sn_last_error_ts v)),
      (''last_success_ts'', real_or_null (sn_last_success_ts v)), (''in_flight'', int_nat (sn_in_flight v))]"

definition circuit_json :: "circuit_view \<Rightarrow> json" where
  "circuit_json v = JObj
     [(''consecutive_failures'', int_nat (cv_failures v)), (''open'', JBool (cv_open v)),
      (''open_remaining_s'', JFloat (cv_remaining v)), (''trips'', int_nat (cv_trips v)),
      (''last_error'', text_or_null (cv_error v)), (''last_trip_ts'', real_or_null (cv_trip_ts v))]"

definition circuit_report :: "gateway_config \<Rightarrow> cb_state \<Rightarrow> time \<Rightarrow> json" where
  "circuit_report cfg circuits now = JObj
     [(''enabled'', JBool (sv_circuit_breaker_enabled (gw_server cfg))),
      (''circuits'', dict_view circuit_json (CircuitBreaker.snapshot circuits now))]"

definition health_endpoint :: "gateway_config \<Rightarrow> time \<Rightarrow> world \<Rightarrow> reply \<times> world" where
  "health_endpoint cfg now w =
     (let circuits = configure_from_config cfg (wd_circuits w)
      in (json_reply 200 (JObj
            [(''providers'', JList (map provider_health (gw_providers cfg))),
             (''backends'', JList (concat (map (\<lambda>m. map (backend_health cfg (wd_limits w) now m) (md_backends m))
                                             (gw_models cfg)))),
             (''rate_limits'', dict_view JFloat (RateLimit.snapshot (wd_limits w) now)),
             (''stats'', dict_view stats_view_json (Stats.snapshot (wd_stats w))),
             (''circuit'', circuit_report cfg circuits now)]),
          w\<lparr>wd_circuits := circuits\<rparr>))"

definition rate_limits_endpoint :: "time \<Rightarrow> world \<Rightarrow> reply" where
  "rate_limits_endpoint now w = json_reply 200 (dict_view JFloat (RateLimit.snapshot (wd_limits w) now))"

definition inflight_endpoint :: "world \<Rightarrow> reply" where
  "inflight_endpoint w = json_reply 200 (dict_view (\<lambda>v. int_nat (sn_in_flight v)) (Stats.snapshot (wd_stats w)))"

definition warmth_json :: "warmth_entry \<Rightarrow> json" where
  "warmth_json e = JObj
     [(''last_seen_ts'', JFloat (we_last_seen_ts e)), (''hit_count'', int_nat (we_hit_count e)),
      (''write_count'', int_nat (we_write_count e)), (''miss_count'', int_nat (we_miss_count e)),
      (''last_hit_rate'', JFloat (we_last_hit_rate e))]"

definition get_warmth :: "world \<Rightarrow> reply" where
  "get_warmth w = json_reply 200 (dict_view (dict_view warmth_json) (warmth_snapshot (wd_stats w)))"

definition clear_warmth_endpoint :: "world \<Rightarrow> reply \<times> world" where
  "clear_warmth_endpoint w = (ok_reply, w\<lparr>wd_stats := clear_warmth (wd_stats w)\<rparr>)"

definition circuit_snapshot :: "gateway_config \<Rightarrow> time \<Rightarrow> world \<Rightarrow> reply \<times> world" where
  "circuit_snapshot cfg now w =
     (let circuits = configure_from_config cfg (wd_circuits w)
      in (json_reply 200 (circuit_report cfg circuits now), w\<lparr>wd_circuits := circuits\<rparr>))"

definition response_cache_stats :: "gateway_config \<Rightarrow> rc_state \<Rightarrow> reply" where
  "response_cache_stats cfg rc =
     (let (entries, hits) = cache_stats rc
      in json_reply 200 (JObj [(''entries'', int_nat entries), (''total_hits'', int_nat hits),
                               (''enabled'', JBool (sv_response_cache_enabled (gw_server cfg)))]))"

section \<open>Keys and their spend\<close>

definition spend_fields :: "key_spend \<Rightarrow> jobj" where
  "spend_fields s =
     [(''day_cost'', JFloat (ks_day_cost s)), (''day_requests'', int_nat (ks_day_requests s)),
      (''month_cost'', JFloat (ks_month_cost s)), (''month_requests'', int_nat (ks_month_requests s))]"

definition no_key_spend :: key_spend where
  "no_key_spend = \<lparr>ks_day_cost = 0, ks_day_requests = 0, ks_month_cost = 0, ks_month_requests = 0\<rparr>"

definition spend_for :: "(string option, key_spend) dict \<Rightarrow> string \<Rightarrow> key_spend" where
  "spend_for spend kid = (case dget spend (Some kid) of None \<Rightarrow> no_key_spend | Some s \<Rightarrow> s)"

definition plain_key :: "string \<Rightarrow> string \<Rightarrow> bool \<Rightarrow> key_spend \<Rightarrow> string \<times> jobj" where
  "plain_key kid label enabled s =
     (kid, [(''id'', JStr kid), (''label'', JStr label), (''enabled'', JBool enabled), (''rpm'', JNull),
            (''daily_budget_usd'', JNull), (''monthly_budget_usd'', JNull), (''model_allowlist'', JList []),
            (''current_rpm'', JInt 0)] @ spend_fields s)"

fun configured_keys ::
    "(string option, key_spend) dict \<Rightarrow> time \<Rightarrow> api_key_config list \<Rightarrow> cq_state \<Rightarrow> (string \<times> jobj) list \<times> cq_state" where
  "configured_keys spend now [] cq = ([], cq)"
| "configured_keys spend now (k # ks) cq =
     (let (rpm, cq1) = current_rpm cq now (ak_id k); (rest, cq2) = configured_keys spend now ks cq1
      in ((ak_id k,
           [(''id'', JStr (ak_id k)), (''label'', JStr (ak_label k)), (''enabled'', JBool (ak_enabled k)),
            (''rpm'', int_or_null (ak_rpm k)), (''daily_budget_usd'', real_or_null (ak_daily_budget_usd k)),
            (''monthly_budget_usd'', real_or_null (ak_monthly_budget_usd k)),
            (''model_allowlist'', text_list (ak_model_allowlist k)), (''current_rpm'', int_nat rpm)]
           @ spend_fields (spend_for spend (ak_id k))) # rest, cq2))"

text \<open>Keys seen in usage but no longer configured; then the whole report, each entry with its id.\<close>

fun deleted_keys :: "(string \<Rightarrow> bool) \<Rightarrow> (string option, key_spend) dict \<Rightarrow> (string \<times> jobj) list" where
  "deleted_keys other [] = []"
| "deleted_keys other ((None, s) # d) = deleted_keys other d"
| "deleted_keys other ((Some kid, s) # d) =
     (if other kid then [plain_key kid ''(deleted key)'' False s] else []) @ deleted_keys other d"

definition legacy_set :: "gateway_config \<Rightarrow> bool" where
  "legacy_set cfg \<longleftrightarrow> sv_api_key (gw_server cfg) \<noteq> None \<and> sv_api_key (gw_server cfg) \<noteq> Some []"

definition key_report ::
    "gateway_config \<Rightarrow> (string option, key_spend) dict \<Rightarrow> time \<Rightarrow> cq_state \<Rightarrow> (string \<times> jobj) list \<times> cq_state" where
  "key_report cfg spend now cq =
     (let (listed, cq1) = configured_keys spend now (sv_api_keys (gw_server cfg)) cq;
          configured = map ak_id (sv_api_keys (gw_server cfg))
      in (listed
          @ (if legacy_set cfg then [plain_key ''default'' ''Legacy default key'' True (spend_for spend ''default'')] else [])
          @ deleted_keys (\<lambda>kid. kid \<noteq> [] \<and> kid \<notin> set configured \<and> \<not> (kid = ''default'' \<and> legacy_set cfg)) spend, cq1))"

definition keys_spend ::
    "gateway_config \<Rightarrow> usage_row list \<Rightarrow> time \<Rightarrow> time \<Rightarrow> time \<Rightarrow> cq_state \<Rightarrow> reply \<times> cq_state" where
  "keys_spend cfg rows day_start month_start now cq =
     (let (entries, cq1) = key_report cfg (get_all_key_spend rows day_start month_start) now cq
      in (json_reply 200 (JObj [(''keys'', JList (map (JObj \<circ> snd) entries))]), cq1))"

section \<open>Token counts\<close>

definition context_fit :: "int \<Rightarrow> backend_config \<Rightarrow> json" where
  "context_fit n b =
     (let key = JStr (backend_key (bk_provider b) (bk_model b))
      in case bk_context_length b of
           None \<Rightarrow> JObj [(''backend'', key), (''fits'', JNull)]
         | Some c \<Rightarrow> JObj [(''backend'', key), (''fits'', JBool (n \<le> c)), (''context_length'', JInt c)])"

definition fit_fields :: "gateway_config \<Rightarrow> json \<Rightarrow> int option \<Rightarrow> jobj" where
  "fit_fields cfg model_id counted =
     (case (model_id, counted) of
        (JStr mid, Some n) \<Rightarrow>
          if mid = [] then []
          else (case model_by_id cfg mid of
                  None \<Rightarrow> []
                | Some m \<Rightarrow> [(''backends'', JList (map (context_fit n) (filter bk_enabled (md_backends m))))])
      | _ \<Rightarrow> [])"

definition count_tokens :: "encoder \<Rightarrow> gateway_config \<Rightarrow> json \<Rightarrow> answer" where
  "count_tokens enc cfg body =
     (case body of
        JObj d \<Rightarrow>
          (let mode = (let t = sv_tokenizer (gw_server cfg) in if t = [] then ''auto'' else t);
               messages = jget d ''messages''; inp = jget d ''input'';
               counted = (if messages = JNull then []
                          else let n = count_messages enc mode messages
                               in (''messages_tokens'', int_or_null n) # fit_fields cfg (jget d ''model'') n);
               embedded = (if inp = JNull then [] else [(''input_tokens'', int_or_null (count_embedding_input enc mode inp))])
           in if messages = JNull \<and> inp = JNull then Inr (fail_reply 422 ''provide messages or input'')
              else Inr (json_reply 200 (JObj ((''tokenizer'', JStr (tokenizer_name enc mode)) # counted @ embedded))))
      | _ \<Rightarrow> Inl AttributeError)"

section \<open>Logs\<close>

definition log_json :: "log_entry \<times> json \<Rightarrow> json" where
  "log_json = (\<lambda>(r, meta). JObj
     [(''id'', JInt (lg_id r)), (''ts'', JFloat (lg_ts r)), (''level'', JStr (lg_level r)),
      (''message'', JStr (lg_message r)), (''model'', text_or_null (lg_model r)),
      (''provider'', text_or_null (lg_provider r)), (''status_code'', int_or_null (lg_status r)),
      (''latency_ms'', int_or_null (lg_latency r)), (''meta'', meta)])"

definition logs_endpoint :: "(string \<Rightarrow> json option) \<Rightarrow> log_query \<Rightarrow> log_table \<Rightarrow> reply" where
  "logs_endpoint loads q t = json_reply 200 (JObj [(''logs'', JList (map log_json (get_logs loads q t)))])"

definition clear_logs_endpoint :: "log_table \<Rightarrow> reply \<times> log_table" where
  "clear_logs_endpoint t = (ok_reply, Logs.clear_logs t)"

section \<open>Reading the export back\<close>

text \<open>
  A reader of CSV by RFC 4180: the field so far, the row so far, and whether the reader is inside quotes, just
  behind one that may be the first of two, or neither.
\<close>

datatype csv_mode = Plain_text | In_quotes | After_quote

fun csv_read :: "csv_mode \<Rightarrow> string \<Rightarrow> string list \<Rightarrow> string \<Rightarrow> string list list" where
  "csv_read m f row [] = (if f = [] \<and> row = [] then [] else [row @ [f]])"
| "csv_read In_quotes f row (c # cs) =
     (if c = quote_char then csv_read After_quote f row cs else csv_read In_quotes (f @ [c]) row cs)"
| "csv_read m f row (c # cs) =
     (if c = quote_char \<and> m = After_quote then csv_read In_quotes (f @ [c]) row cs
      else if c = quote_char \<and> f = [] then csv_read In_quotes [] row cs
      else if c = CHR '','' then csv_read Plain_text [] (row @ [f]) cs
      else if c = CHR 0x0D then csv_read m f row cs
      else if c = CHR 0x0A then (row @ [f]) # csv_read Plain_text [] [] cs
      else csv_read Plain_text (f @ [c]) row cs)"

lemma csv_read_quoted:
  "csv_read In_quotes f row (double_quotes s @ quote_char # rest) = csv_read After_quote (f @ s) row rest"
proof (induction s arbitrary: f)
  case (Cons c s)
  from Cons [of "f @ [c]"] show ?case by (cases "c = quote_char") simp_all
qed simp

lemma csv_read_plain:
  "\<not> list_ex csv_special s \<Longrightarrow> csv_read Plain_text f row (s @ rest) = csv_read Plain_text (f @ s) row rest"
  by (induction s arbitrary: f) (simp_all add: csv_special_def)

text \<open>A written field is read as it was, whether it was quoted or not, up to the separator behind it.\<close>

lemma csv_read_field:
  "csv_read Plain_text [] row (csv_field s @ CHR '','' # rest) = csv_read Plain_text [] (row @ [s]) rest"
  "csv_read Plain_text [] row (csv_field s @ CHR 0x0D # CHR 0x0A # rest)
     = (row @ [s]) # csv_read Plain_text [] [] rest"
  using csv_read_quoted [of "[]" row s] csv_read_plain [of s "[]" row]
  by (auto simp: csv_field_def)

lemma csv_read_line:
  "fs \<noteq> [] \<Longrightarrow> csv_read Plain_text [] row (csv_line fs @ rest) = (row @ fs) # csv_read Plain_text [] [] rest"
proof (induction fs arbitrary: row)
  case (Cons s fs)
  then show ?case
    by (cases fs) (simp_all add: csv_line_def csv_read_field)
qed simp

lemma csv_read_document: "\<forall>fs\<in>set lines. fs \<noteq> [] \<Longrightarrow> csv_read Plain_text [] [] (csv_document lines) = lines"
  by (induction lines) (simp_all add: csv_document_def csv_read_line)

section \<open>Properties\<close>

text \<open>
  What a line says of a row when its fields are read under the names in the header: every attribute of the row is
  in the column of its name, an absent one as the empty field and a truth value as 0 or 1.
\<close>

definition said :: "('a \<Rightarrow> string) \<Rightarrow> 'a option \<Rightarrow> string" where
  "said f x = (case x of None \<Rightarrow> [] | Some v \<Rightarrow> f v)"

definition bit_text :: "bool \<Rightarrow> string" where
  "bit_text b = (if b then ''1'' else ''0'')"

definition tells :: "(real \<Rightarrow> string) \<Rightarrow> (string, string) dict \<Rightarrow> usage_row \<Rightarrow> bool" where
  "tells float_str d r \<longleftrightarrow>
     dget d ''ts'' = Some (float_str (ur_ts r)) \<and>
     dget d ''logical_model'' = Some (ur_logical_model r) \<and>
     dget d ''provider'' = Some (ur_provider r) \<and>
     dget d ''backend_model'' = Some (ur_backend_model r) \<and>
     dget d ''success'' = Some (bit_text (ur_success r)) \<and>
     dget d ''error'' = Some (said id (ur_error r)) \<and>
     dget d ''input_tokens'' = Some (said int_str (ur_input r)) \<and>
     dget d ''output_tokens'' = Some (said int_str (ur_output r)) \<and>
     dget d ''reasoning_tokens'' = Some (said int_str (ur_reasoning r)) \<and>
     dget d ''cached_tokens'' = Some (said int_str (ur_cached r)) \<and>
     dget d ''cache_write_tokens'' = Some (said int_str (ur_cache_write r)) \<and>
     dget d ''cost'' = Some (said float_str (ur_cost r)) \<and>
     dget d ''latency_ms'' = Some (said int_str (ur_latency_ms r)) \<and>
     dget d ''ttft_ms'' = Some (said int_str (ur_ttft_ms r)) \<and>
     dget d ''tps'' = Some (said float_str (ur_tps r)) \<and>
     dget d ''stream'' = Some (bit_text (ur_stream r)) \<and>
     dget d ''is_probe'' = Some (bit_text (ur_is_probe r)) \<and>
     dget d ''api_key_id'' = Some (said id (ur_api_key_id r)) \<and>
     dget d ''end_user'' = Some (said id (ur_end_user r)) \<and>
     dget d ''request_id'' = Some (said id (ur_request_id r)) \<and>
     dget d ''cache_hit'' = Some (bit_text (ur_cache_hit r))"

lemma int_str_bits: "int_str 1 = ''1''" "int_str 0 = ''0''"
  by code_simp+

lemma csv_text_values:
  "csv_text float_str (text_or_null s) = said id s" "csv_text float_str (int_or_null i) = said int_str i"
  "csv_text float_str (real_or_null x) = said float_str x" "csv_text float_str (flag b) = bit_text b"
  by (simp_all add: text_or_null_def int_or_null_def real_or_null_def flag_def bit_text_def said_def int_str_bits
      split: option.split)

lemma dget_tabulated: "dget (map (\<lambda>c. (c, f c)) cs) k = (if k \<in> set cs then Some (f k) else None)"
  by (induction cs) auto

lemma csv_line_tells:
  "tells float_str (zip export_columns
     (map (\<lambda>c. case dget (export_row r) c of None \<Rightarrow> [] | Some v \<Rightarrow> csv_text float_str v) export_columns)) r"
proof -
  have "zip export_columns
      (map (\<lambda>c. case dget (export_row r) c of None \<Rightarrow> [] | Some v \<Rightarrow> csv_text float_str v) export_columns)
    = map (\<lambda>c. (c, csv_text float_str (jget (stored_columns r) c))) export_columns"
    unfolding export_row_def by (simp add: zip_map2 zip_same_conv_map dget_tabulated)
  then show ?thesis
    by (simp only: tells_def dget_tabulated)
      (simp add: export_columns_def stored_columns_def jget_def csv_text_values)
qed

text \<open>
  C31. The CSV export tells every row: a reader of CSV finds in it a header with the names of the 21 columns and then
  one line per row of the window (of at least an hour and at most a year), each row once and newest first, without
  the probes unless they were asked for.  Under the header's names each line says every attribute of its row,
  whatever commas, quotes or line ends its errors, model names or user ids hold.
\<close>

theorem export_tells_rows:
  "\<exists>text lines out.
     rp_body (usage_export float_str rows wall hours ''csv'' include_probes) = Raw_body text
   \<and> csv_read Plain_text [] [] text = export_columns # lines
   \<and> list_all2 (\<lambda>line r. tells float_str (zip export_columns line) r) lines out
   \<and> mset out = {#r \<in># mset rows. wall - 3600 * of_int (max 1 (min hours 8760)) \<le> ur_ts r
                                   \<and> (ur_is_probe r \<longrightarrow> include_probes)#}
   \<and> sorted (map (\<lambda>r. - ur_ts r) out)"
proof -
  let ?out = "export_rows rows wall (clamp_hours hours) include_probes"
  have "csv_read Plain_text [] [] (csv_document (csv_rows float_str ?out)) = csv_rows float_str ?out"
    by (rule csv_read_document) (simp add: csv_rows_def export_columns_def)
  moreover have "list_all2 (\<lambda>line r. tells float_str (zip export_columns line) r) (tl (csv_rows float_str ?out)) ?out"
    by (simp add: csv_rows_def list_all2_map1 list_all2_same csv_line_tells)
  moreover have "mset ?out = {#r \<in># mset rows. wall - 3600 * of_int (max 1 (min hours 8760)) \<le> ur_ts r
      \<and> (ur_is_probe r \<longrightarrow> include_probes)#}"
    by (auto simp: export_rows_def clamp_hours_def mult.commute intro!: filter_mset_cong)
  moreover have "sorted (map (\<lambda>r. - ur_ts r) ?out)" by (simp add: export_rows_def)
  ultimately show ?thesis
    by (auto simp: usage_export_def Let_def csv_rows_def intro!: exI [of _ ?out])
qed

theorem export_tells_rows_witness:
  "let r = (default_row 7200 ''m'' ''p'' ''x'' False)\<lparr>ur_error := Some ''a, b''\<rparr>; probe = r\<lparr>ur_is_probe := True\<rparr>;
       old = r\<lparr>ur_ts := 0\<rparr>
   in \<exists>text line. rp_body (usage_export (\<lambda>_. ''7200.0'') [old, probe, r] 7300 0 ''csv'' False) = Raw_body text
       \<and> csv_read Plain_text [] [] text = [export_columns, line]
       \<and> dget (zip export_columns line) ''error'' = Some ''a, b''
       \<and> dget (zip export_columns line) ''is_probe'' = Some ''0''"
proof -
  define r where "r = (default_row 7200 ''m'' ''p'' ''x'' False)\<lparr>ur_error := Some ''a, b''\<rparr>"
  have fields: "ur_ts r = 7200" "\<not> ur_is_probe r" "ur_error r = Some ''a, b''"
    by (simp_all add: r_def default_row_def)
  from export_tells_rows [of "\<lambda>_. ''7200.0''" "[r\<lparr>ur_ts := 0\<rparr>, r\<lparr>ur_is_probe := True\<rparr>, r]" 7300 0 False]
  obtain doc lines out
    where "rp_body (usage_export (\<lambda>_. ''7200.0'') [r\<lparr>ur_ts := 0\<rparr>, r\<lparr>ur_is_probe := True\<rparr>, r] 7300 0 ''csv'' False)
        = Raw_body doc"
      and read: "csv_read Plain_text [] [] doc = export_columns # lines"
      and told: "list_all2 (\<lambda>line r. tells (\<lambda>_. ''7200.0'') (zip export_columns line) r) lines out"
      and "mset out = {#r#}"
    by (auto simp: fields)
  moreover from this have "out = [r]" by simp
  with told obtain line where "lines = [line]" and "tells (\<lambda>_. ''7200.0'') (zip export_columns line) r"
    by (auto simp: list_all2_Cons2)
  ultimately show ?thesis
    unfolding Let_def r_def [symmetric] by (auto simp: tells_def fields said_def bit_text_def)
qed

text \<open>
  The detail page of a model that is found by an alias reports no requests, no tokens and no cost, however many
  there were: requests are recorded under the model's id, and the page looks its figures up by the name it was
  asked for.
\<close>

theorem alias_detail_empty:
  assumes "fetch_config env s = (cfg, s1)" and "model_by_id cfg alias = Some m"
    and "\<forall>r\<in>set rows. ur_logical_model r \<noteq> alias"
  shows "get_model env rows wall alias s = (json_reply 200 (model_detail cfg no_requests m), s1)"
proof -
  have "alias \<notin> fst ` set (get_model_aggregates rows wall 168)"
    using assms(3) by (auto simp: get_model_aggregates_def group_rows_def since_def)
  then have "dget (get_model_aggregates rows wall 168) alias = None" by (simp add: map_of_eq_None_iff)
  with assms(1,2) show ?thesis by (simp add: get_model_def on_config_def agg_of_def)
qed

theorem alias_detail_empty_witness:
  "let m = (default_model ''m'' [])\<lparr>md_aliases := [''fast'']\<rparr>; cfg = default_gateway\<lparr>gw_models := [m]\<rparr>;
       rows = [default_row 5 ''m'' ''p'' ''x'' True]
   in get_model demo_admin rows 6 ''fast'' (running cfg) = (json_reply 200 (model_detail cfg no_requests m), running cfg)
      \<and> ma_requests (agg_of (get_model_aggregates rows 6 168) ''m'') = 1"
proof -
  let ?m = "(default_model ''m'' [])\<lparr>md_aliases := [''fast'']\<rparr>"
  let ?rows = "[default_row 5 ''m'' ''p'' ''x'' True]"
  have "model_by_id (default_gateway\<lparr>gw_models := [?m]\<rparr>) ''fast'' = Some ?m"
    by (simp add: model_by_id_def default_model_def)
  moreover have "\<forall>r\<in>set ?rows. ur_logical_model r \<noteq> ''fast''" by (simp add: default_row_def)
  moreover have "ma_requests (agg_of (get_model_aggregates ?rows 6 168) ''m'') = 1"
    by (simp add: agg_of_def get_model_aggregates_def group_rows_def since_def default_row_def model_agg_of_def)
  ultimately show ?thesis
    using alias_detail_empty [OF fetch_running] by (simp add: Let_def)
qed

lemma configured_keys_ids: "map fst (fst (configured_keys spend now ks cq)) = map ak_id ks"
  by (induction ks arbitrary: cq) (simp_all add: split_beta)

definition spent_ids :: "(string option, key_spend) dict \<Rightarrow> string set" where
  "spent_ids spend = {kid. kid \<noteq> [] \<and> Some kid \<in> fst ` set spend}"

lemma plain_key_id [simp]: "fst (plain_key kid label en s) = kid"
  by (simp add: plain_key_def)

lemma deleted_keys_ids: "fst ` set (deleted_keys other d) = {kid. other kid \<and> Some kid \<in> fst ` set d}"
  by (induction other d rule: deleted_keys.induct) auto

lemma deleted_keys_distinct: "distinct (map fst d) \<Longrightarrow> distinct (map fst (deleted_keys other d))"
  by (induction other d rule: deleted_keys.induct) (simp_all add: deleted_keys_ids)

text \<open>
  The key report leaves nothing out and counts nothing twice: its entries are the configured keys, the legacy
  key if there is one, and every other key that spent something this month, each exactly once.
\<close>

theorem key_report_complete:
  assumes "distinct (map ak_id (sv_api_keys (gw_server cfg)))"
    and "legacy_set cfg \<longrightarrow> ''default'' \<notin> set (map ak_id (sv_api_keys (gw_server cfg)))" and "dict_ok spend"
  shows "distinct (map fst (fst (key_report cfg spend now cq)))
    \<and> set (map fst (fst (key_report cfg spend now cq)))
        = set (map ak_id (sv_api_keys (gw_server cfg))) \<union> (if legacy_set cfg then {''default''} else {}) \<union> spent_ids spend"
proof -
  let ?conf = "map ak_id (sv_api_keys (gw_server cfg))"
  let ?more = "\<lambda>kid. kid \<noteq> [] \<and> kid \<notin> set ?conf \<and> \<not> (kid = ''default'' \<and> legacy_set cfg)"
  have "map fst (fst (key_report cfg spend now cq))
      = ?conf @ (if legacy_set cfg then [''default''] else []) @ map fst (deleted_keys ?more spend)"
    by (simp add: key_report_def split_beta configured_keys_ids)
  then show ?thesis
    using assms deleted_keys_ids [of ?more spend] deleted_keys_distinct [of spend ?more]
    by (auto simp: spent_ids_def dict_ok_def)
qed

theorem key_report_complete_witness:
  "let cfg = default_gateway\<lparr>gw_server := default_server\<lparr>sv_api_keys := [key_with ''app'' ''k'' []], sv_api_key := Some ''x''\<rparr>\<rparr>;
       spend = [(Some ''old'', no_key_spend), (Some ''app'', no_key_spend)]; report = fst (key_report cfg spend 0 cq_init)
   in distinct (map fst report) \<and> set (map fst report) = {''app'', ''default'', ''old''}"
proof -
  let ?cfg = "default_gateway\<lparr>gw_server := default_server\<lparr>sv_api_keys := [key_with ''app'' ''k'' []], sv_api_key := Some ''x''\<rparr>\<rparr>"
  let ?spend = "[(Some ''old'', no_key_spend), (Some ''app'', no_key_spend)]"
  have "distinct (map ak_id (sv_api_keys (gw_server ?cfg)))" and "dict_ok ?spend"
    and "legacy_set ?cfg \<longrightarrow> ''default'' \<notin> set (map ak_id (sv_api_keys (gw_server ?cfg)))" and "legacy_set ?cfg"
    by (simp_all add: key_with_def dict_ok_def legacy_set_def)
  from key_report_complete [OF this(1,3,2), of 0 cq_init] this(4) show ?thesis
    by (auto simp: Let_def key_with_def spent_ids_def)
qed

end
