(* ===== verification/AdminLive.thy ===== *)
theory AdminLive
  imports AdminViews Alerts Prober
begin

text \<open>
  The administration of running state (\<^verbatim>\<open>src/localgateway/endpoints/admin.py\<close>): snoozes, circuits, caches,
  alerts, renaming across configuration and database, manual probes, and the catalogue of a provider.

  Each handler works on the registries of the process that runs it.  The console's requests are answered by
  the supervisor, the client's by the worker: the theory Processes puts the two side by side, with the files
  and the database they share.
\<close>

section \<open>Snoozes and circuits\<close>

text \<open>
  \<open>text_of\<close> is \<open>str\<close> of a value in an f-string; the names are strings in every request the console makes.
  The clocks are \<open>now\<close> (monotonic) and \<open>real_now\<close>; \<open>io_ok\<close> tells whether the snooze file can be written.
\<close>

definition named_backend :: "jobj \<Rightarrow> (json \<times> json) option" where
  "named_backend d =
     (if truthy (jget d ''provider'') \<and> truthy (jget d ''model'') then Some (jget d ''provider'', jget d ''model'') else None)"

text \<open>\<open>float(v)\<close>.\<close>

fun py_float :: "(string \<Rightarrow> real option) \<Rightarrow> json \<Rightarrow> py_error + real" where
  "py_float parse_float (JInt i) = Inr (of_int i)"
| "py_float parse_float (JBool b) = Inr (if b then 1 else 0)"
| "py_float parse_float (JFloat x) = Inr x"
| "py_float parse_float (JStr s) = (case parse_float s of None \<Rightarrow> Inl ValueError | Some x \<Rightarrow> Inr x)"
| "py_float parse_float _ = Inl TypeError"

definition backend_required :: reply where
  "backend_required = fail_reply 422 ''provider and model are required''"

definition snooze_backend ::
    "(json \<Rightarrow> string) \<Rightarrow> (string \<Rightarrow> real option) \<Rightarrow> time \<Rightarrow> time \<Rightarrow> bool \<Rightarrow> json \<Rightarrow> rl_state \<Rightarrow> answer \<times> rl_state" where
  "snooze_backend text_of parse_float now real_now io_ok body = with_dict body (\<lambda>d s.
     case named_backend d of
       None \<Rightarrow> (Inr backend_required, s)
     | Some (p, m) \<Rightarrow>
         if truthy (jget d ''permanent'')
         then (Inr (json_reply 200 (JObj [(''status'', JStr ''ok''), (''remaining'', JInt (-1))])),
               save (snooze_permanent s (text_of p) (text_of m)) now real_now io_ok)
         else (case (if truthy (jget d ''seconds'') then py_float parse_float (jget d ''seconds'') else Inr 3600) of
                 Inl e \<Rightarrow> (Inl e, s)
               | Inr seconds \<Rightarrow>
                   (let s1 = save (snooze s now (text_of p) (text_of m) seconds) now real_now io_ok
                    in (Inr (json_reply 200 (JObj [(''status'', JStr ''ok''),
                                                   (''remaining'', JFloat (remaining s1 now (text_of p) (text_of m)))])),
                        s1))))"

definition unsnooze_backend ::
    "(json \<Rightarrow> string) \<Rightarrow> time \<Rightarrow> time \<Rightarrow> bool \<Rightarrow> json \<Rightarrow> rl_state \<Rightarrow> answer \<times> rl_state" where
  "unsnooze_backend text_of now real_now io_ok body = with_dict body (\<lambda>d s.
     case named_backend d of
       None \<Rightarrow> (Inr backend_required, s)
     | Some (p, m) \<Rightarrow> (Inr ok_reply, save (unsnooze s (text_of p) (text_of m)) now real_now io_ok))"

definition cleared_reply :: "nat \<Rightarrow> reply" where
  "cleared_reply n = json_reply 200 (JObj [(''status'', JStr ''ok''), (''cleared'', int_nat n)])"

definition unsnooze_all_backends :: "time \<Rightarrow> time \<Rightarrow> bool \<Rightarrow> rl_state \<Rightarrow> reply \<times> rl_state" where
  "unsnooze_all_backends now real_now io_ok s =
     (let (n, s1) = RateLimit.clear s now real_now io_ok in (cleared_reply n, s1))"

text \<open>A body is read only when its length is given and is not 0; \<open>body\<close> is \<open>None\<close> otherwise.\<close>

definition truthy_text :: "(json \<Rightarrow> string) \<Rightarrow> json \<Rightarrow> string option" where
  "truthy_text text_of v = (if truthy v then Some (text_of v) else None)"

definition circuit_reset :: "(json \<Rightarrow> string) \<Rightarrow> json option \<Rightarrow> cb_state \<Rightarrow> answer \<times> cb_state" where
  "circuit_reset text_of body =
     with_dict (case body of None \<Rightarrow> JObj [] | Some v \<Rightarrow> v) (\<lambda>d s.
       let (n, s1) = reset s (truthy_text text_of (jget d ''provider'')) (truthy_text text_of (jget d ''model''))
       in (Inr (cleared_reply n), s1))"

section \<open>Caches, alerts and anomalies\<close>

definition response_cache_clear :: "rc_state \<Rightarrow> admin_state \<Rightarrow> reply \<times> rc_state \<times> admin_state" where
  "response_cache_clear rc s =
     (let (n, rc1) = clear_cache rc in (cleared_reply n, rc1, s\<lparr>ad_tps := invalidate_tps_map (ad_tps s)\<rparr>))"

text \<open>The tables the console clears, and the answer's counts: the first two clearers return nothing.\<close>

definition clear_usage_endpoint ::
    "usage_row list \<Rightarrow> log_table \<Rightarrow> rc_state \<Rightarrow> admin_state
     \<Rightarrow> reply \<times> usage_row list \<times> log_table \<times> rc_state \<times> admin_state" where
  "clear_usage_endpoint rows lines rc s =
     (let (n, rc1) = clear_cache rc
      in (json_reply 200 (JObj [(''status'', JStr ''ok''), (''message'', JStr ''All usage data cleared''),
             (''cleared'', JObj [(''usage'', JNull), (''logs'', JNull), (''cache'', int_nat n)])]),
          clear_usage rows, Logs.clear_logs lines, rc1,
          s\<lparr>ad_tps := invalidate_tps_map (ad_tps s), ad_overview := []\<rparr>))"

definition no_webhook :: reply where
  "no_webhook = json_reply 422 (JObj [(''ok'', JBool False), (''error'', JStr ''No alert webhook URL configured'')])"

definition alert_test :: "gateway_config \<Rightarrow> time \<Rightarrow> alert_state \<Rightarrow> reply \<times> alert_state" where
  "alert_test cfg wall s =
     (let url = sv_alert_webhook_url (gw_server cfg)
      in if url = None \<or> url = Some [] then (no_webhook, s)
         else let (delivered, s1) = send url wall ''test'' ''LocalGateway test alert'' [(''test'', JBool True)] None s
              in (if delivered then json_reply 200 (JObj [(''ok'', JBool True)]) else no_webhook, s1))"

text \<open>\<open>row_of\<close> finds the table row with an id.\<close>

definition ack_anomaly_endpoint ::
    "(string \<Rightarrow> int option) \<Rightarrow> (int \<Rightarrow> nat option) \<Rightarrow> json \<Rightarrow> anomaly list \<Rightarrow> answer \<times> anomaly list" where
  "ack_anomaly_endpoint parse_int row_of body = with_dict body (\<lambda>d table.
     if jget d ''id'' = JNull then (Inr (fail_reply 422 ''id required''), table)
     else (case py_int parse_int (jget d ''id'') of
             None \<Rightarrow> (Inl (case jget d ''id'' of JStr _ \<Rightarrow> ValueError | _ \<Rightarrow> TypeError), table)
           | Some i \<Rightarrow>
               (let (ok, table1) = (case row_of i of None \<Rightarrow> (False, table) | Some r \<Rightarrow> ack_anomaly r table)
                in (Inr (json_reply 200 (JObj [(''ok'', JBool ok)])), table1))))"

section \<open>Renaming\<close>

definition moved_backend :: "string \<Rightarrow> string \<Rightarrow> backend_config \<Rightarrow> backend_config" where
  "moved_backend old_id new_id b = (if bk_provider b = old_id then b\<lparr>bk_provider := new_id\<rparr> else b)"

definition move_backend_refs :: "string \<Rightarrow> string \<Rightarrow> model_config \<Rightarrow> model_config" where
  "move_backend_refs old_id new_id m = m\<lparr>md_backends := map (moved_backend old_id new_id) (md_backends m)\<rparr>"

definition backend_refs :: "string \<Rightarrow> gateway_config \<Rightarrow> nat" where
  "backend_refs old_id cfg = length (filter (\<lambda>b. bk_provider b = old_id) (concat (map md_backends (gw_models cfg))))"

text \<open>The pricing keys with the old prefix, in the order of the copy the loop walks over.\<close>

definition move_price ::
    "string \<Rightarrow> string \<Rightarrow> string \<Rightarrow> (string, pricing_entry) dict \<Rightarrow> (string, pricing_entry) dict" where
  "move_price old_id new_id k d =
     (case dget d k of None \<Rightarrow> d | Some e \<Rightarrow> dset (moved_key old_id new_id k) e (ddel k d))"

definition priced_keys :: "string \<Rightarrow> gateway_config \<Rightarrow> string list" where
  "priced_keys old_id cfg = filter (prefix (old_id @ '':'')) (map fst (gw_pricing cfg))"

definition move_prices :: "string \<Rightarrow> string \<Rightarrow> gateway_config \<Rightarrow> (string, pricing_entry) dict" where
  "move_prices old_id new_id cfg = foldl (\<lambda>d k. move_price old_id new_id k d) (gw_pricing cfg) (priced_keys old_id cfg)"

definition renamed_provider :: "string \<Rightarrow> string \<Rightarrow> gateway_config \<Rightarrow> gateway_config" where
  "renamed_provider old_id new_id cfg =
     cfg\<lparr>gw_providers := update_first (\<lambda>p. pv_id p = old_id) (\<lambda>p. p\<lparr>pv_id := new_id\<rparr>) (gw_providers cfg),
         gw_models := map (move_backend_refs old_id new_id) (gw_models cfg),
         gw_pricing := move_prices old_id new_id cfg\<rparr>"

type_synonym rename_state = "admin_state \<times> tables \<times> rl_state"

definition rename_reply :: "string \<Rightarrow> string \<Rightarrow> string \<Rightarrow> jobj \<Rightarrow> answer" where
  "rename_reply kind old_id new_id counts =
     Inr (json_reply 200 (JObj ([(''status'', JStr ''ok''), (''type'', JStr kind), (''old_id'', JStr old_id),
                                 (''new_id'', JStr new_id)] @ counts)))"

definition rename_model_entity ::
    "admin_env \<Rightarrow> string \<Rightarrow> string \<Rightarrow> gateway_config \<Rightarrow> rename_state \<Rightarrow> answer \<times> rename_state" where
  "rename_model_entity env old_id new_id cfg = (\<lambda>(s, tb, rl).
     case model_by_id cfg old_id of
       None \<Rightarrow> (Inr (not_found ''Model'' old_id), s, tb, rl)
     | Some m \<Rightarrow>
         if model_by_id cfg new_id \<noteq> None
         then (Inr (fail_reply 409 (''Model '' @ in_quotes new_id @ '' already exists'')), s, tb, rl)
         else let s1 = store_config env (edit_model old_id (\<lambda>m. m\<lparr>md_id := new_id\<rparr>) cfg) s;
                  (n, tb1) = rename_model old_id new_id tb
              in (rename_reply ''model'' old_id new_id [(''usage_rows_updated'', int_nat n)],
                  s1\<lparr>ad_tps := invalidate_tps_map (ad_tps s1)\<rparr>, tb1, rl))"

definition rename_provider_entity ::
    "admin_env \<Rightarrow> time \<Rightarrow> time \<Rightarrow> bool \<Rightarrow> string \<Rightarrow> string \<Rightarrow> gateway_config \<Rightarrow> rename_state \<Rightarrow> answer \<times> rename_state" where
  "rename_provider_entity env now real_now io_ok old_id new_id cfg = (\<lambda>(s, tb, rl).
     case provider_by_id cfg old_id of
       None \<Rightarrow> (Inr (not_found ''Provider'' old_id), s, tb, rl)
     | Some p \<Rightarrow>
         if provider_by_id cfg new_id \<noteq> None
         then (Inr (fail_reply 409 (''Provider '' @ in_quotes new_id @ '' already exists'')), s, tb, rl)
         else let s1 = store_config env (renamed_provider old_id new_id cfg) s;
                  (n, tb1) = rename_provider_rows old_id new_id tb;
                  (k, rl1) = rename_provider rl now real_now io_ok old_id new_id
              in (rename_reply ''provider'' old_id new_id
                    [(''backend_refs_updated'', int_nat (backend_refs old_id cfg)),
                     (''pricing_keys_moved'', int_nat (length (priced_keys old_id cfg))),
                     (''usage_rows_updated'', int_nat n), (''snooze_keys_moved'', int_nat k)],
                  s1\<lparr>ad_tps := invalidate_tps_map (ad_tps s1)\<rparr>, tb1, rl1))"

definition rename_ids ::
    "admin_env \<Rightarrow> time \<Rightarrow> time \<Rightarrow> bool \<Rightarrow> json \<Rightarrow> string \<Rightarrow> string \<Rightarrow> rename_state \<Rightarrow> answer \<times> rename_state" where
  "rename_ids env now real_now io_ok kind old_id new_id st =
     (if kind \<noteq> JStr ''model'' \<and> kind \<noteq> JStr ''provider''
      then (Inr (fail_reply 422 (''type must be '' @ in_quotes ''model'' @ '' or '' @ in_quotes ''provider'')), st)
      else if old_id = [] \<or> new_id = [] then (Inr (fail_reply 422 ''old_id and new_id are required''), st)
      else if old_id = new_id then (Inr (fail_reply 422 ''old_id and new_id are the same''), st)
      else case st of (s, tb, rl) \<Rightarrow>
        (let (cfg, s1) = fetch_config env s
         in if kind = JStr ''model'' then rename_model_entity env old_id new_id cfg (s1, tb, rl)
            else rename_provider_entity env now real_now io_ok old_id new_id cfg (s1, tb, rl)))"

definition rename_entity ::
    "admin_env \<Rightarrow> time \<Rightarrow> time \<Rightarrow> bool \<Rightarrow> json \<Rightarrow> rename_state \<Rightarrow> answer \<times> rename_state" where
  "rename_entity env now real_now io_ok body = with_dict body (\<lambda>d st.
     case (text_field (jget d ''old_id''), text_field (jget d ''new_id'')) of
       (Inr old_id, Inr new_id) \<Rightarrow> rename_ids env now real_now io_ok (jget d ''type'') old_id new_id st
     | _ \<Rightarrow> (Inl AttributeError, st))"

section \<open>The catalogue of a provider\<close>

text \<open>
  \<open>get\<close> is the request to the provider, \<open>latency\<close> its duration in milliseconds, \<open>err\<close> the text of an exception
  that reading the answer raises (a body that is no JSON, or ids that \<open>sort\<close> cannot order); a list of lists as
  ids, which Python would order, counts as one here.
\<close>

definition item_entry :: "json \<Rightarrow> jobj option" where
  "item_entry item =
     (case item of
        JObj d \<Rightarrow>
          if truthy (jget d ''id'')
          then Some [(''id'', jget d ''id''), (''context_length'', jget d ''context_length''), (''owned_by'', jget d ''owned_by'')]
          else None
      | JStr s \<Rightarrow> Some [(''id'', JStr s)]
      | _ \<Rightarrow> None)"

definition id_text :: "jobj \<Rightarrow> string" where
  "id_text e = (case jget e ''id'' of JStr s \<Rightarrow> s | _ \<Rightarrow> [])"

definition id_number :: "jobj \<Rightarrow> real" where
  "id_number e = (case number_of (jget e ''id'') of Some x \<Rightarrow> x | None \<Rightarrow> 0)"

definition sort_entries :: "jobj list \<Rightarrow> jobj list option" where
  "sort_entries es =
     (if length es \<le> 1 then Some es
      else if list_all (\<lambda>e. as_str (jget e ''id'') \<noteq> None) es then Some (sort_key id_text es)
      else if list_all (\<lambda>e. number_of (jget e ''id'') \<noteq> None) es then Some (sort_key id_number es)
      else None)"

definition catalogue_items :: "json \<Rightarrow> json list" where
  "catalogue_items v =
     (case (case v of JObj d \<Rightarrow> if jhas d ''data'' then jget d ''data'' else v | _ \<Rightarrow> v) of JList xs \<Rightarrow> xs | _ \<Rightarrow> [])"

definition catalogue_reply :: "codec \<Rightarrow> (bytes \<Rightarrow> string) \<Rightarrow> string \<Rightarrow> int \<Rightarrow> http_response \<Rightarrow> reply" where
  "catalogue_reply cd err pid latency resp =
     (if hp_status resp \<noteq> 200
      then json_reply 502 (JObj [(''error'', JStr (if hp_text resp = [] then ''HTTP '' @ int_str (hp_status resp)
                                                  else py_take 500 (hp_text resp))),
                                 (''status_code'', JInt (hp_status resp))])
      else case Option.bind (cd_loads_bytes cd (hp_content resp))
                  (\<lambda>v. sort_entries (List.map_filter item_entry (catalogue_items v))) of
             None \<Rightarrow> fail_reply 502 (py_take 500 (err (hp_content resp)))
           | Some entries \<Rightarrow>
               json_reply 200 (JObj [(''provider'', JStr pid), (''models'', JList (map JObj entries)),
                                     (''latency_ms'', JInt latency)]))"

definition discover_provider_models ::
    "codec \<Rightarrow> (bytes \<Rightarrow> string) \<Rightarrow> (py_error \<Rightarrow> string) \<Rightarrow> string \<Rightarrow> (string \<Rightarrow> (string, string) dict \<Rightarrow> http_outcome) \<Rightarrow> int
     \<Rightarrow> gateway_config \<Rightarrow> string \<Rightarrow> reply"
where
  "discover_provider_models cd err key_error timeout_text get latency cfg pid =
     (case provider_by_id cfg pid of
        None \<Rightarrow> not_found ''Provider'' pid
      | Some p \<Rightarrow>
          (case validated_api_key p of
             Inl e \<Rightarrow> fail_reply 400 (key_error e)
           | Inr key \<Rightarrow>
               (case get (provider_url p ''/models'')
                       (update_all (pv_headers p) [(''Authorization'', ''Bearer '' @ key)]) of
                  Http_timeout \<Rightarrow> fail_reply 502 (py_take 500 timeout_text)
                | Http_error e \<Rightarrow> fail_reply 502 (py_take 500 e)
                | Http_response resp \<Rightarrow> catalogue_reply cd err pid latency resp)))"

section \<open>Probing by hand\<close>

definition probe_json :: "probe_result \<Rightarrow> json" where
  "probe_json r =
     (if pb_ok r
      then JObj ([(''ok'', JBool True), (''latency_ms'', JInt (pb_latency r)), (''ttft_ms'', int_or_null (pb_ttft r)),
                  (''tps'', real_or_null (pb_tps r)), (''output_tokens'', int_or_null (pb_output r)),
                  (''input_tokens'', int_or_null (pb_input r)), (''stream'', JBool (pb_stream r))]
                 @ (case pb_tps_source r of None \<Rightarrow> [] | Some src \<Rightarrow> [(''tps_source'', JStr src)]))
      else JObj ((case pb_status r of None \<Rightarrow> [(''ok'', JBool False)]
                  | Some code \<Rightarrow> [(''ok'', JBool False), (''status_code'', JInt code)])
                 @ [(''error'', text_or_null (pb_error r)), (''latency_ms'', JInt (pb_latency r))]))"

text \<open>
  The row of a manual probe, and its statistics; \<open>n\<close> numbers the probe among the exchanges.  The names in
  the body are strings.
\<close>

definition manual_row ::
    "runtime \<Rightarrow> gateway_config \<Rightarrow> string \<Rightarrow> string \<Rightarrow> string \<Rightarrow> bool \<Rightarrow> probe_result \<Rightarrow> usage_row" where
  "manual_row rt cfg pid m logical stream r =
     (let pricing = pricing_for cfg pid m; out = opt0 (pb_output r)
      in (default_row (rt_wall rt) logical pid m True)
           \<lparr>ur_input := pb_input r, ur_output := pb_output r,
            ur_cost := (if out = 0 then None
                        else Some (of_int (opt0 (pb_input r)) * pr_input pricing + of_int out * pr_output pricing)),
            ur_latency_ms := Some (pb_latency r), ur_ttft_ms := pb_ttft r, ur_tps := pb_tps r, ur_stream := stream,
            ur_is_probe := True\<rparr>)"

definition run_manual_probe ::
    "prober_env \<Rightarrow> nat \<Rightarrow> gateway_config \<Rightarrow> provider_config \<Rightarrow> string \<Rightarrow> string \<Rightarrow> bool \<Rightarrow> gateway \<Rightarrow> reply \<times> gateway" where
  "run_manual_probe e n cfg p m logical stream g =
     (let rt = pe_runtime e; tokens = sv_probe_max_tokens (gw_server cfg);
          r = probe_with_reprobe e n p m (nonempty (Some logical)) (if tokens = 0 then 64 else tokens) stream (gt_usage g)
      in (json_reply 200 (probe_json r),
          if pb_ok r \<and> logical \<noteq> []
          then on_stats (\<lambda>s. record_success s (rt_wall rt) (pv_id p) m (Some (pb_latency r)) (pb_ttft r))
                 (add_row (manual_row rt cfg (pv_id p) m logical stream r) g)
          else g))"

definition string_field :: "jobj \<Rightarrow> string \<Rightarrow> string" where
  "string_field d k = (case jget d k of JStr s \<Rightarrow> s | _ \<Rightarrow> [])"

definition test_backend ::
    "prober_env \<Rightarrow> nat \<Rightarrow> gateway_config \<Rightarrow> json \<Rightarrow> gateway \<Rightarrow> answer \<times> gateway" where
  "test_backend e n cfg body = with_dict body (\<lambda>d g.
     let pid = string_field d ''provider''; m = string_field d ''model''; logical = string_field d ''logical_model'';
         stream = (if jhas d ''stream'' then truthy (jget d ''stream'') else True)
     in if pid = [] \<or> m = [] then (Inr backend_required, g)
        else case provider_by_id cfg pid of
               None \<Rightarrow> (Inr (not_found ''Provider'' pid), g)
             | Some p \<Rightarrow>
                 (let (free, limits) = is_available (wd_limits (gt_world g)) (rt_clock (pe_runtime e) 0) pid m;
                      g1 = set_limits limits g
                  in if free then map_prod Inr id (run_manual_probe e n cfg p m logical stream g1)
                     else (Inr (json_reply 200 (JObj [(''ok'', JBool False), (''skipped'', JBool True),
                                                      (''error'', JStr ''backend is snoozed'')])), g1)))"

section \<open>Lemmas on renaming\<close>

lemma moved_backend_simps [simp]:
  "bk_provider (moved_backend old_id new_id b) = (if bk_provider b = old_id then new_id else bk_provider b)"
  "bk_model (moved_backend old_id new_id b) = bk_model b"
  by (simp_all add: moved_backend_def)

lemma renamed_models [simp]:
  "map md_backends (gw_models (renamed_provider old_id new_id cfg))
     = map (map (moved_backend old_id new_id)) (map md_backends (gw_models cfg))"
  by (simp add: renamed_provider_def move_backend_refs_def o_def)

lemma find_renamed_new:
  "find (\<lambda>p. pv_id p = new_id) ps = None \<Longrightarrow>
   find (\<lambda>p. pv_id p = new_id) (update_first (\<lambda>p. pv_id p = old_id) (\<lambda>p. p\<lparr>pv_id := new_id\<rparr>) ps)
     = map_option (\<lambda>p. p\<lparr>pv_id := new_id\<rparr>) (find (\<lambda>p. pv_id p = old_id) ps)"
  by (induction ps) (auto split: if_splits)

lemma find_renamed_other:
  "q \<noteq> old_id \<Longrightarrow> q \<noteq> new_id \<Longrightarrow>
   find (\<lambda>p. pv_id p = q) (update_first (\<lambda>p. pv_id p = old_id) (\<lambda>p. p\<lparr>pv_id := new_id\<rparr>) ps)
     = find (\<lambda>p. pv_id p = q) ps"
  by (induction ps) auto

lemma provider_renamed:
  "provider_by_id cfg new_id = None \<Longrightarrow> q \<noteq> new_id \<Longrightarrow>
   provider_by_id (renamed_provider old_id new_id cfg) (if q = old_id then new_id else q)
     = map_option (\<lambda>p. p\<lparr>pv_id := if q = old_id then new_id else q\<rparr>) (provider_by_id cfg q)"
  by (auto simp: provider_by_id_def renamed_provider_def find_renamed_new find_renamed_other find_Some_iff
      intro!: option.map_ident_strong [symmetric])

text \<open>Moving prices: a key that is no target keeps its entry, and a target gets the entry of its source.\<close>

lemma dget_move_price:
  "plain_rename old_id new_id \<Longrightarrow> \<not> prefix (old_id @ '':'') x \<Longrightarrow> prefix (old_id @ '':'') k \<Longrightarrow>
   dget (move_price old_id new_id k d) x =
     (if x = moved_key old_id new_id k \<and> dget d k \<noteq> None then dget d k else dget d x)"
  by (auto simp: move_price_def split: option.split)

lemma dget_move_price_old:
  "plain_rename old_id new_id \<Longrightarrow> prefix (old_id @ '':'') x \<Longrightarrow>
   dget (move_price old_id new_id k d) x = (if x = k then None else dget d x)"
  using moved_not_old [of old_id new_id k] by (auto simp: move_price_def split: option.split)

lemma move_prices_other:
  assumes "plain_rename old_id new_id" and "\<not> prefix (old_id @ '':'') x"
  shows "list_all (prefix (old_id @ '':'')) ks \<Longrightarrow> x \<notin> moved_key old_id new_id ` set ks \<Longrightarrow>
     dget (foldl (\<lambda>d k. move_price old_id new_id k d) d ks) x = dget d x"
  by (induction ks arbitrary: d) (auto simp: dget_move_price [OF assms])

lemma move_prices_new:
  assumes "plain_rename old_id new_id"
  shows "list_all (prefix (old_id @ '':'')) ks \<Longrightarrow> distinct ks \<Longrightarrow> backend_key old_id m \<in> set ks \<Longrightarrow>
     dget d (backend_key old_id m) = Some e \<Longrightarrow>
     dget (foldl (\<lambda>d k. move_price old_id new_id k d) d ks) (backend_key new_id m) = Some e"
proof (induction ks arbitrary: d)
  case (Cons k ks)
  let ?new = "backend_key new_id m" and ?old = "backend_key old_id m"
  have plain: "\<not> prefix (old_id @ '':'') ?new"
    using moved_not_old [OF assms, of ?old] by (simp add: moved_key_backend_key)
  have pre: "list_all (prefix (old_id @ '':'')) ks" "prefix (old_id @ '':'') k"
    using Cons.prems(1) by simp_all
  have target: "moved_key old_id new_id j = ?new \<longleftrightarrow> j = ?old" if "j \<in> set (k # ks)" for j
    using Cons.prems(1) that by (intro moved_key_inj) (auto simp: list_all_iff)
  show ?case
  proof (cases "k = ?old")
    case True
    then have "?new \<notin> moved_key old_id new_id ` set ks"
      using target Cons.prems(2) by force
    then show ?thesis
      using True Cons.prems(4) pre
      by (simp add: move_prices_other [OF assms plain] dget_move_price [OF assms plain] moved_key_backend_key)
  next
    case False
    have "prefix (old_id @ '':'') ?old" by (simp add: backend_key_def prefix_def)
    with False have "dget (move_price old_id new_id k d) ?old = Some e"
      using Cons.prems(4) by (simp add: dget_move_price_old [OF assms])
    with False Cons.prems(2,3) pre show ?thesis by (simp add: Cons.IH)
  qed
qed simp

lemma priced_keys_simps:
  "list_all (prefix (old_id @ '':'')) (priced_keys old_id cfg)"
  "dict_ok (gw_pricing cfg) \<Longrightarrow> distinct (priced_keys old_id cfg)"
  "x \<in> set (priced_keys old_id cfg) \<longleftrightarrow> prefix (old_id @ '':'') x \<and> dget (gw_pricing cfg) x \<noteq> None"
  by (auto simp: priced_keys_def list_all_iff dict_ok_def map_of_eq_None_iff)

lemma pricing_renamed:
  assumes "plain_rename old_id new_id" and "dict_ok (gw_pricing cfg)"
    and fresh: "list_all (\<lambda>k. \<not> prefix (new_id @ '':'') k) (map fst (gw_pricing cfg))"
    and "CHR '':'' \<notin> set q" and "q \<noteq> new_id"
  shows "pricing_for (renamed_provider old_id new_id cfg) (if q = old_id then new_id else q) m = pricing_for cfg q m"
proof -
  let ?q = "if q = old_id then new_id else q"
  have plain: "\<not> prefix (old_id @ '':'') (backend_key ?q m)"
    using assms(1,4) by (auto simp: prefix_backend_key plain_rename_def)
  have "dget (move_prices old_id new_id cfg) (backend_key ?q m) = dget (gw_pricing cfg) (backend_key q m)"
  proof (cases "q = old_id \<and> backend_key q m \<in> set (priced_keys old_id cfg)")
    case True
    then show ?thesis
      by (auto simp: move_prices_def priced_keys_simps assms(2)
          intro!: move_prices_new [OF assms(1)])
  next
    case False
    have "backend_key ?q m \<notin> moved_key old_id new_id ` set (priced_keys old_id cfg)"
    proof (cases "q = old_id")
      case True
      have "k = backend_key old_id m" if "backend_key new_id m = moved_key old_id new_id k" "k \<in> set (priced_keys old_id cfg)" for k
        using that moved_key_inj [of old_id k new_id m] by (simp add: priced_keys_simps)
      with False True show ?thesis by auto
    next
      case other: False
      have "\<not> prefix (new_id @ '':'') (backend_key q m)"
        using assms(1,4,5) by (auto simp: prefix_backend_key plain_rename_def)
      with other show ?thesis by (auto simp: moved_key_def prefix_def)
    qed
    then have "dget (move_prices old_id new_id cfg) (backend_key ?q m) = dget (gw_pricing cfg) (backend_key ?q m)"
      unfolding move_prices_def by (rule move_prices_other [OF assms(1) plain priced_keys_simps(1)])
    also have "\<dots> = dget (gw_pricing cfg) (backend_key q m)"
    proof (cases "q = old_id")
      case True
      have "prefix (new_id @ '':'') (backend_key new_id m)" by (simp add: backend_key_def prefix_def)
      then have "dget (gw_pricing cfg) (backend_key new_id m) = None"
        using fresh by (auto simp: map_of_eq_None_iff list_all_iff)
      moreover have "dget (gw_pricing cfg) (backend_key old_id m) = None"
        using False True by (auto simp: priced_keys_simps) (simp_all add: backend_key_def prefix_def)
      ultimately show ?thesis using True by simp
    qed simp
    finally show ?thesis .
  qed
  then show ?thesis by (simp add: pricing_for_def renamed_provider_def)
qed

lemma fetch_tps: "fetch_config env (s\<lparr>ad_tps := v\<rparr>) = (case fetch_config env s of (c, s') \<Rightarrow> (c, s'\<lparr>ad_tps := v\<rparr>))"
  by (simp add: fetch_config_def split: prod.splits)

lemma renamed_version [simp]: "gw_version (renamed_provider old_id new_id cfg) = gw_version cfg"
  by (simp add: renamed_provider_def)

lemma rename_provider_accepted:
  assumes "fetch_config env s = (cfg, s1)" and "provider_by_id cfg old_id = Some p" and "provider_by_id cfg new_id = None"
    and "old_id \<noteq> []" and "new_id \<noteq> []" and "old_id \<noteq> new_id"
    and "rename_ids env now real_now io_ok (JStr ''provider'') old_id new_id (s, tb, rl) = (a, s', tb', rl')"
  shows "fst (fetch_config env s') = (renamed_provider old_id new_id cfg)\<lparr>gw_version := gw_version cfg + 1\<rparr>"
    and "rl' = snd (rename_provider rl now real_now io_ok old_id new_id)"
proof -
  let ?s = "store_config env (renamed_provider old_id new_id cfg) s1"
  have "s' = ?s\<lparr>ad_tps := invalidate_tps_map (ad_tps ?s)\<rparr> \<and> rl' = snd (rename_provider rl now real_now io_ok old_id new_id)"
    using assms by (simp add: rename_ids_def rename_provider_entity_def Let_def split: prod.splits)
  then show "fst (fetch_config env s') = (renamed_provider old_id new_id cfg)\<lparr>gw_version := gw_version cfg + 1\<rparr>"
    and "rl' = snd (rename_provider rl now real_now io_ok old_id new_id)"
    by (simp_all add: fetch_tps)
qed

lemma limits_renamed:
  assumes "rl_ok rl" and "plain_rename old_id new_id"
    and "list_all (\<lambda>k. \<not> prefix (new_id @ '':'') k) (rl_permanent rl @ map fst (rl_cooldowns rl))"
    and "CHR '':'' \<notin> set q" and "q \<noteq> new_id"
  shows "fst (is_available (snd (rename_provider rl now real_now io_ok old_id new_id)) t (if q = old_id then new_id else q) m)
       = fst (is_available rl t q m)"
proof (cases "q = old_id")
  case True
  have "CHR '':'' \<notin> set (old_id @ new_id @ ''x'')" using assms(2) by (simp add: plain_rename_def)
  with True rename_carries_limits [OF assms(1,2) this _ _ assms(3) refl] show ?thesis by simp
next
  case False
  with rename_carries_limits [OF assms(1,2,4) False assms(5,3) refl] show ?thesis by simp
qed

section \<open>Properties\<close>

text \<open>
  C26. Renaming a provider changes no backend but in name: when the new name is free and holds no colon, every
  backend of the new configuration is the old one under its new name, with the same provider, the same price and the
  same standing with the rate limits, and the list of backends of every model is the old one, renamed.
\<close>

theorem provider_rename_consistent:
  assumes "fetch_config env s = (cfg, s1)" and "provider_by_id cfg old_id = Some p" and "provider_by_id cfg new_id = None"
    and "old_id \<noteq> []" and "new_id \<noteq> []" and "plain_rename old_id new_id"
    and "dict_ok (gw_pricing cfg)" and "list_all (\<lambda>k. \<not> prefix (new_id @ '':'') k) (map fst (gw_pricing cfg))"
    and "rl_ok rl"
    and "list_all (\<lambda>k. \<not> prefix (new_id @ '':'') k) (rl_permanent rl @ map fst (rl_cooldowns rl))"
    and "rename_ids env now real_now io_ok (JStr ''provider'') old_id new_id (s, tb, rl) = (a, s', tb', rl')"
    and "CHR '':'' \<notin> set (bk_provider b)" and "bk_provider b \<noteq> new_id"
    and "b' = moved_backend old_id new_id b" and "cfg' = fst (fetch_config env s')"
  shows "provider_by_id cfg' (bk_provider b') = map_option (\<lambda>q. q\<lparr>pv_id := bk_provider b'\<rparr>) (provider_by_id cfg (bk_provider b))
         \<and> pricing_for cfg' (bk_provider b') (bk_model b') = pricing_for cfg (bk_provider b) (bk_model b)
         \<and> fst (is_available rl' t (bk_provider b') (bk_model b')) = fst (is_available rl t (bk_provider b) (bk_model b))
         \<and> map md_backends (gw_models cfg') = map (map (moved_backend old_id new_id)) (map md_backends (gw_models cfg))"
proof -
  have ne: "old_id \<noteq> new_id" using assms(6) by (simp add: plain_rename_def)
  note acc = rename_provider_accepted [OF assms(1-5) ne assms(11)]
  have cfg': "cfg' = (renamed_provider old_id new_id cfg)\<lparr>gw_version := gw_version cfg + 1\<rparr>"
    using acc(1) assms(15) by simp
  have "bk_provider b' = (if bk_provider b = old_id then new_id else bk_provider b)" "bk_model b' = bk_model b"
    by (simp_all add: assms(14))
  then show ?thesis
    using provider_renamed [OF assms(3,13), of old_id] pricing_renamed [OF assms(6-8,12,13), of "bk_model b"]
      limits_renamed [OF assms(9,6,10,12,13), of now real_now io_ok t "bk_model b"] renamed_models [of old_id new_id cfg]
    by (simp add: cfg' acc(2) provider_by_id_def pricing_for_def)
qed

definition priced_gateway :: gateway_config where
  "priced_gateway = default_gateway
     \<lparr>gw_providers := [default_provider ''old'' ''u''], gw_models := [default_model ''m'' [default_backend ''old'' ''a'']],
      gw_pricing := [(''old:a'', default_pricing\<lparr>pr_input := 7\<rparr>)]\<rparr>"

definition no_tables :: tables where
  "no_tables = \<lparr>tb_usage = [], tb_logs = None, tb_probes = None\<rparr>"

theorem provider_rename_consistent_witness:
  "let rl = set_cooldown rl_init 0 ''old'' ''a'' None; b = default_backend ''old'' ''a''; b' = moved_backend ''old'' ''new'' b;
       (a, s', tb', rl') = rename_ids demo_admin 1 100 True (JStr ''provider'') ''old'' ''new'' (running priced_gateway, no_tables, rl);
       cfg' = fst (fetch_config demo_admin s')
   in provider_by_id cfg' (bk_provider b')
        = map_option (\<lambda>q. q\<lparr>pv_id := bk_provider b'\<rparr>) (provider_by_id priced_gateway (bk_provider b))
      \<and> pricing_for cfg' (bk_provider b') (bk_model b') = pricing_for priced_gateway (bk_provider b) (bk_model b)
      \<and> fst (is_available rl' 2 (bk_provider b') (bk_model b')) = fst (is_available rl 2 (bk_provider b) (bk_model b))
      \<and> map md_backends (gw_models cfg')
          = map (map (moved_backend ''old'' ''new'')) (map md_backends (gw_models priced_gateway))"
proof -
  let ?rl = "set_cooldown rl_init 0 ''old'' ''a'' None" and ?b = "default_backend ''old'' ''a''"
  have g: "provider_by_id priced_gateway ''old'' = Some (default_provider ''old'' ''u'')"
    "provider_by_id priced_gateway ''new'' = None" "gw_pricing priced_gateway = [(''old:a'', default_pricing\<lparr>pr_input := 7\<rparr>)]"
    by (simp_all add: priced_gateway_def provider_by_id_def default_provider_def)
  obtain a s' tb' rl' where r: "rename_ids demo_admin 1 100 True (JStr ''provider'') ''old'' ''new'' (running priced_gateway, no_tables, ?rl) = (a, s', tb', rl')"
    by (metis prod.collapse)
  from provider_rename_consistent [OF fetch_running g(1,2) _ _ _ _ _ _ _ r, of ?b _ _ 2] show ?thesis
    unfolding Let_def r
    by (simp add: plain_rename_def g(3) dict_ok_def rl_ok_def set_cooldown_def rl_init_def default_backend_def
        backend_key_def)
qed

text \<open>
  The time slots are left behind: a slot whose whitelist names backends of the renamed provider only is not
  rewritten, and passes none of the model's backends any more, so the model cannot be served in its hours.
\<close>

theorem rename_breaks_time_slots:
  assumes "plain_rename old_id new_id"
    and "ts_active_providers slot \<noteq> []" and "list_all (prefix (old_id @ '':'')) (ts_active_providers slot)"
    and "list_all (\<lambda>b. CHR '':'' \<notin> set (bk_provider b)) (md_backends m)" and "m' = move_backend_refs old_id new_id m"
  shows "md_time_routing m' = md_time_routing m
         \<and> filter_backends_for_slot (map (\<lambda>b. (bk_provider b, bk_model b)) (md_backends m')) slot = []"
proof -
  have "backend_key (bk_provider b) (bk_model b) \<notin> set (ts_active_providers slot)" if "b \<in> set (md_backends m')" for b
  proof
    assume "backend_key (bk_provider b) (bk_model b) \<in> set (ts_active_providers slot)"
    with assms(3) have "prefix (old_id @ '':'') (backend_key (bk_provider b) (bk_model b))" by (auto simp: list_all_iff)
    moreover from that assms(1,4,5) have "CHR '':'' \<notin> set (bk_provider b)" "bk_provider b \<noteq> old_id"
      by (auto simp: move_backend_refs_def plain_rename_def list_all_iff split: if_splits)
    ultimately show False using assms(1) by (auto simp: prefix_backend_key plain_rename_def)
  qed
  with assms(2) have "filter_backends_for_slot (map (\<lambda>b. (bk_provider b, bk_model b)) (md_backends m')) slot = []"
    by (simp add: filter_backends_for_slot_def filter_empty_conv)
  moreover have "md_time_routing m' = md_time_routing m" by (simp add: assms(5) move_backend_refs_def)
  ultimately show ?thesis by simp
qed

definition old_slot :: time_slot where
  "old_slot =
     \<lparr>ts_id = ''s'', ts_name = [], ts_start_hour = 0, ts_end_hour = 23, ts_days_of_week = [],
      ts_active_providers = [''old:a''], ts_enabled = True\<rparr>"

theorem rename_breaks_time_slots_witness:
  "let m = default_model ''m'' [default_backend ''old'' ''a'']; m' = move_backend_refs ''old'' ''new'' m;
       keys = (\<lambda>x. map (\<lambda>b. (bk_provider b, bk_model b)) (md_backends x))
   in filter_backends_for_slot (keys m) old_slot = [(''old'', ''a'')]
      \<and> md_time_routing m' = md_time_routing m \<and> filter_backends_for_slot (keys m') old_slot = []"
  using rename_breaks_time_slots [of "''old''" "''new''" old_slot "default_model ''m'' [default_backend ''old'' ''a'']", OF _ _ _ _ refl]
  by (simp add: plain_rename_def default_model_def default_backend_def filter_backends_for_slot_def backend_key_def old_slot_def)

text \<open>
  Renaming a model that is named by an alias splits its history: the model gets the new id, while every row of
  the usage table stays under the former id, which the rename does not ask for.
\<close>

lemma find_retitled:
  "find (\<lambda>m. md_id m = new_id) ms = None \<Longrightarrow> find p ms = Some m \<Longrightarrow>
   find (\<lambda>m. md_id m = new_id) (update_first p (\<lambda>m. m\<lparr>md_id := new_id\<rparr>) ms) = Some (m\<lparr>md_id := new_id\<rparr>)"
  by (induction ms) (auto split: if_splits)

lemma model_by_alias:
  "model_by_id cfg alias = Some m \<Longrightarrow> md_id m \<noteq> alias \<Longrightarrow>
     \<not> list_ex (\<lambda>m. md_id m = alias) (gw_models cfg) \<and> find (\<lambda>m. alias \<in> set (md_aliases m)) (gw_models cfg) = Some m"
  by (auto simp: model_by_id_def find_none_iff [symmetric] find_Some_iff split: option.splits)

theorem alias_rename_splits_history:
  assumes "fetch_config env s = (cfg, s1)" and "model_by_id cfg alias = Some m" and "md_id m \<noteq> alias"
    and "model_by_id cfg new_id = None" and "alias \<noteq> []" and "new_id \<noteq> []" and "alias \<noteq> new_id"
    and "\<forall>r\<in>set (tb_usage tb). ur_logical_model r \<noteq> alias"
    and "rename_ids env now real_now io_ok (JStr ''model'') alias new_id (s, tb, rl) = (a, s', tb', rl')"
  shows "model_by_id (fst (fetch_config env s')) new_id = Some (m\<lparr>md_id := new_id\<rparr>) \<and> tb_usage tb' = tb_usage tb"
proof -
  let ?cfg = "edit_model alias (\<lambda>m. m\<lparr>md_id := new_id\<rparr>) cfg" and ?s = "store_config env (edit_model alias (\<lambda>m. m\<lparr>md_id := new_id\<rparr>) cfg) s1"
  from model_by_alias [OF assms(2,3)] have "model_by_id ?cfg new_id = Some (m\<lparr>md_id := new_id\<rparr>)"
    using assms(4) by (auto simp: model_by_id_def edit_model_def find_retitled split: option.splits)
  moreover have "s' = ?s\<lparr>ad_tps := invalidate_tps_map (ad_tps ?s)\<rparr> \<and> tb' = snd (rename_model alias new_id tb)"
    using assms by (simp add: rename_ids_def rename_model_entity_def Let_def split: prod.splits)
  moreover have "map (\<lambda>r. if ur_logical_model r = alias then f r else r) (tb_usage tb) = tb_usage tb" for f
    using assms(8) by (simp add: map_idI)
  ultimately show ?thesis
    by (simp add: fetch_tps rename_model_def update_where_def Let_def split: prod.splits)
qed

theorem alias_rename_splits_history_witness:
  "let m = (default_model ''m'' [])\<lparr>md_aliases := [''fast'']\<rparr>; cfg = default_gateway\<lparr>gw_models := [m]\<rparr>;
       tb = \<lparr>tb_usage = [default_row 5 ''m'' ''p'' ''x'' True], tb_logs = None, tb_probes = None\<rparr>;
       (a, s', tb', rl') = rename_ids demo_admin 1 100 True (JStr ''model'') ''fast'' ''new'' (running cfg, tb, rl_init)
   in model_by_id (fst (fetch_config demo_admin s')) ''new'' = Some (m\<lparr>md_id := ''new''\<rparr>)
      \<and> map ur_logical_model (tb_usage tb') = [''m'']"
proof -
  let ?m = "(default_model ''m'' [])\<lparr>md_aliases := [''fast'']\<rparr>"
  let ?cfg = "default_gateway\<lparr>gw_models := [?m]\<rparr>"
  let ?tb = "\<lparr>tb_usage = [default_row 5 ''m'' ''p'' ''x'' True], tb_logs = None, tb_probes = None\<rparr>"
  have m: "model_by_id ?cfg ''fast'' = Some ?m" "md_id ?m \<noteq> ''fast''" "model_by_id ?cfg ''new'' = None"
    by (simp_all add: model_by_id_def default_model_def)
  have rows: "\<forall>r\<in>set (tb_usage ?tb). ur_logical_model r \<noteq> ''fast''" by (simp add: default_row_def)
  obtain a s' tb' rl' where r: "rename_ids demo_admin 1 100 True (JStr ''model'') ''fast'' ''new'' (running ?cfg, ?tb, rl_init) = (a, s', tb', rl')"
    by (metis prod.collapse)
  from alias_rename_splits_history [OF fetch_running m _ _ _ rows r] show ?thesis
    unfolding Let_def r by (simp add: default_row_def)
qed

lemma test_backend_cases:
  obtains "gt_usage (snd (test_backend e n cfg body g)) = gt_usage g"
  | p m logical stream limits where "limit_free (wd_limits (gt_world g)) (rt_clock (pe_runtime e) 0) (backend_key (pv_id p) m)"
    and "snd (test_backend e n cfg body g) = snd (run_manual_probe e n cfg p m logical stream (set_limits limits g))"
proof (cases body)
  case (JObj d)
  let ?pid = "string_field d ''provider''" and ?m = "string_field d ''model''"
  show ?thesis
  proof (cases "provider_by_id cfg ?pid")
    case None
    then show ?thesis by (intro that(1)) (simp add: JObj test_backend_def with_dict_def Let_def)
  next
    case (Some p)
    then have id: "pv_id p = ?pid" using provider_by_id_Some by blast
    obtain fr limits where av: "is_available (wd_limits (gt_world g)) (rt_clock (pe_runtime e) 0) ?pid ?m = (fr, limits)"
      by (metis prod.collapse)
    show ?thesis
    proof (cases "?pid = [] \<or> ?m = [] \<or> \<not> fr")
      case True
      then show ?thesis
        using Some av by (intro that(1)) (auto simp: JObj test_backend_def with_dict_def Let_def set_limits_def)
    next
      case False
      then have "limit_free (wd_limits (gt_world g)) (rt_clock (pe_runtime e) 0) (backend_key (pv_id p) ?m)"
        using av is_available_result [of "wd_limits (gt_world g)" "rt_clock (pe_runtime e) 0" ?pid ?m] by (simp add: id)
      moreover from False Some av
      have "snd (test_backend e n cfg body g)
          = snd (run_manual_probe e n cfg p ?m (string_field d ''logical_model'')
                   (if jhas d ''stream'' then truthy (jget d ''stream'') else True) (set_limits limits g))"
        by (simp add: JObj test_backend_def with_dict_def Let_def)
      ultimately show ?thesis by (rule that(2))
    qed
  qed
qed (auto intro!: that(1) simp: test_backend_def with_dict_def)

lemma manual_row_simps [simp]:
  "ur_is_probe (manual_row rt cfg pid m logical stream r)" "ur_success (manual_row rt cfg pid m logical stream r)"
  "ur_api_key_id (manual_row rt cfg pid m logical stream r) = None" "ur_provider (manual_row rt cfg pid m logical stream r) = pid"
  "ur_backend_model (manual_row rt cfg pid m logical stream r) = m"
  by (simp_all add: manual_row_def default_row_def Let_def)

lemma manual_probe_rows:
  "\<exists>rows. gt_usage (snd (run_manual_probe e n cfg p m logical stream g)) = gt_usage g @ rows \<and> length rows \<le> 1
     \<and> (\<forall>r\<in>set rows. ur_is_probe r \<and> ur_success r \<and> ur_api_key_id r = None \<and> ur_provider r = pv_id p \<and> ur_backend_model r = m)"
  by (simp add: run_manual_probe_def Let_def on_stats_def add_row_def log_request_def)

text \<open>
  A manual probe disturbs no one's accounts: it adds at most one row, a successful one that is marked as a probe
  and bears no key; and a snoozed backend is not probed at all, so nothing is added.
\<close>

theorem manual_probe_unbilled:
  "\<exists>rows. gt_usage (snd (test_backend e n cfg body g)) = gt_usage g @ rows \<and> length rows \<le> 1
     \<and> (\<forall>r\<in>set rows. ur_is_probe r \<and> ur_success r \<and> ur_api_key_id r = None
          \<and> limit_free (wd_limits (gt_world g)) (rt_clock (pe_runtime e) 0) (backend_key (ur_provider r) (ur_backend_model r)))"
proof (rule test_backend_cases [of e n cfg body g])
  fix p m logical stream limits
  assume "limit_free (wd_limits (gt_world g)) (rt_clock (pe_runtime e) 0) (backend_key (pv_id p) m)"
    and "snd (test_backend e n cfg body g) = snd (run_manual_probe e n cfg p m logical stream (set_limits limits g))"
  then show ?thesis
    using manual_probe_rows [of e n cfg p m logical stream "set_limits limits g"] by (auto simp: set_limits_def)
qed simp

end
