(* ===== verification/AdminRun.thy ===== *)
theory AdminRun
  imports AdminLive
begin

text \<open>
  Sequences of administrative requests (\<^verbatim>\<open>src/localgateway/endpoints/admin.py\<close>): every handler that may
  write the configuration, as the steps of one relation over the state they share.

  A step is a request with its answer.  Requests run one after the other here; what an \<open>await\<close> between loading
  and saving does is the subject of \<open>edit_overwrites_put\<close>.  An edit that assigns a value outside the schema's
  types (\<open>None\<close> in the handlers) is no step.
\<close>

section \<open>Requests\<close>

datatype admin_request =
    Get_config
  | Put_config json
  | Set_key json
  | Create_model json
  | Edit_model string json
  | Delete_model string
  | Add_backend string json
  | Edit_backend string int json
  | Remove_backend string int
  | Set_tiers string json
  | Put_routing string json
  | Create_slot string json
  | Edit_slot string string json
  | Delete_slot string string
  | Rename json string string
  | Restore int

inductive admin_step :: "admin_env \<Rightarrow> admin_request \<Rightarrow> admin_state \<Rightarrow> answer \<Rightarrow> admin_state \<Rightarrow> bool" for env where
  Get: "get_config env s = (r, s') \<Longrightarrow> admin_step env Get_config s (Inr r) s'"
| Put: "put_config env body s = (r, s') \<Longrightarrow> admin_step env (Put_config body) s (Inr r) s'"
| Key: "set_provider_api_key env body s = Some (a, s') \<Longrightarrow> admin_step env (Set_key body) s a s'"
| Create: "create_model env body s = (a, s') \<Longrightarrow> admin_step env (Create_model body) s a s'"
| Edit: "on_config env (update_model env mid body) s = Some (a, s') \<Longrightarrow> admin_step env (Edit_model mid body) s a s'"
| Delete: "delete_model env mid s = (r, s') \<Longrightarrow> admin_step env (Delete_model mid) s (Inr r) s'"
| Add: "on_config env (add_backend env mid body) s = (r, s') \<Longrightarrow> admin_step env (Add_backend mid body) s (Inr r) s'"
| Edit_b: "on_config env (update_backend env mid i body) s = (a, s') \<Longrightarrow> admin_step env (Edit_backend mid i body) s a s'"
| Remove: "remove_backend env mid i s = (r, s') \<Longrightarrow> admin_step env (Remove_backend mid i) s (Inr r) s'"
| Tiers: "on_config env (set_backends_tiers env mid body) s = (a, s') \<Longrightarrow> admin_step env (Set_tiers mid body) s a s'"
| Routing: "on_config env (put_time_routing env mid body) s = (r, s') \<Longrightarrow> admin_step env (Put_routing mid body) s (Inr r) s'"
| Create_t: "on_config env (create_time_slot env mid body) s = (r, s') \<Longrightarrow> admin_step env (Create_slot mid body) s (Inr r) s'"
| Edit_t:
    "on_config env (update_time_slot env mid sid body) s = (r, s') \<Longrightarrow> admin_step env (Edit_slot mid sid body) s (Inr r) s'"
| Delete_t: "delete_time_slot env mid sid s = (r, s') \<Longrightarrow> admin_step env (Delete_slot mid sid) s (Inr r) s'"
| Rename_e:
    "rename_ids env now real_now io kind old_id new_id (s, tb, rl) = (a, s', tb', rl')
       \<Longrightarrow> admin_step env (Rename kind old_id new_id) s a s'"
| Restore_b:
    "restore_slot env file invalid taken_at i s = (Some r, s') \<Longrightarrow> admin_step env (Restore i) s (Inr r) s'"

inductive admin_run :: "admin_env \<Rightarrow> admin_state \<Rightarrow> (admin_request \<times> answer) list \<Rightarrow> admin_state \<Rightarrow> bool" for env where
  Run_Nil: "admin_run env s [] s"
| Run_Cons: "admin_step env rq s a s1 \<Longrightarrow> admin_run env s1 es s2 \<Longrightarrow> admin_run env s ((rq, a) # es) s2"

inductive_cases get_stepE: "admin_step env Get_config s a s'"
inductive_cases restore_stepE: "admin_step env (Restore i) s a s'"

section \<open>What an answer says\<close>

definition granted :: "answer \<Rightarrow> bool" where
  "granted a \<longleftrightarrow> (case a of Inl _ \<Rightarrow> False | Inr r \<Rightarrow> rp_status r = 200)"

definition settled :: "answer \<Rightarrow> bool" where
  "settled a \<longleftrightarrow> (case a of Inl _ \<Rightarrow> False | Inr r \<Rightarrow> rp_status r \<noteq> 422)"

text \<open>A write is a granted request other than reading and restoring.\<close>

definition is_restore :: "admin_request \<Rightarrow> bool" where
  "is_restore rq \<longleftrightarrow> (case rq of Restore _ \<Rightarrow> True | _ \<Rightarrow> False)"

definition is_write :: "admin_request \<times> answer \<Rightarrow> bool" where
  "is_write e \<longleftrightarrow> fst e \<noteq> Get_config \<and> granted (snd e)"

definition served :: "admin_env \<Rightarrow> admin_state \<Rightarrow> gateway_config" where
  "served env s = fst (fetch_config env s)"

text \<open>
  Three things a handler can do to the state it found: leave it, load and then refuse, possibly with some
  fields of the loaded object already assigned, or save an object of the loaded version.
\<close>

inductive edit_effect :: "admin_env \<Rightarrow> admin_state \<Rightarrow> answer \<Rightarrow> admin_state \<Rightarrow> bool" for env s where
  Untouched: "\<not> granted a \<Longrightarrow> edit_effect env s a s"
| Refused: "\<not> granted a \<Longrightarrow> fetch_config env s = (cfg, s1) \<Longrightarrow> edit_effect env s a s1"
| Partly:
    "\<not> granted a \<Longrightarrow> \<not> settled a \<Longrightarrow> fetch_config env s = (cfg, s1) \<Longrightarrow> gw_version c = gw_version cfg
       \<Longrightarrow> edit_effect env s a (touch cfg c s1)"
| Saved:
    "granted a \<Longrightarrow> fetch_config env s = (cfg, s1) \<Longrightarrow> gw_version c = gw_version cfg
       \<Longrightarrow> ad_store s2 = ad_store (store_config env c s1) \<Longrightarrow> edit_effect env s a s2"

lemma granted_simps [simp]:
  "granted (Inl e) = False" "granted (Inr r) = (rp_status r = 200)"
  "settled (Inl e) = False" "settled (Inr r) = (rp_status r \<noteq> 422)"
  by (simp_all add: granted_def settled_def)

lemma reply_statuses [simp]:
  "rp_status (not_found kind name) = 404" "rp_status ok_reply = 200"
  by (simp_all add: not_found_def ok_reply_def)

lemma edit_versions [simp]:
  "gw_version (edit_model mid f cfg) = gw_version cfg" "gw_version (edit_backends mid g cfg) = gw_version cfg"
  "gw_version (edit_slots mid h cfg) = gw_version cfg" "gw_version (with_provider_key pid key cfg) = gw_version cfg"
  by (simp_all add: edit_model_def edit_backends_def edit_slots_def with_provider_key_def)

text \<open>The handlers that load first, by what they do with the loaded object.\<close>

lemma Refused' [intro]: "fetch_config env s = (cfg, s1) \<Longrightarrow> \<not> granted a \<Longrightarrow> edit_effect env s a s1"
  by (rule Refused)

lemma Saved' [intro]:
  "fetch_config env s = (cfg, s1) \<Longrightarrow> granted a \<Longrightarrow> gw_version c = gw_version cfg \<Longrightarrow> edit_effect env s a (store_config env c s1)"
  by (rule Saved) simp_all

lemma Saved_caches [intro]:
  assumes "fetch_config env s = (cfg, s1)" and "granted a" and "gw_version c = gw_version cfg"
  shows "edit_effect env s a ((store_config env c s1)\<lparr>ad_overview := v\<rparr>)"
    and "edit_effect env s a ((store_config env c s1)\<lparr>ad_tps := w\<rparr>)"
  using assms by (auto intro: Saved)

lemma put_effect: "put_config env body s = (r, s') \<Longrightarrow> edit_effect env s (Inr r) s'"
proof -
  assume put: "put_config env body s = (r, s')"
  obtain cfg s1 where f: "fetch_config env s = (cfg, s1)" by (cases "fetch_config env s")
  show ?thesis
    using put f unfolding put_config_unfold [OF f]
    by (auto split: if_splits sum.splits)
qed

lemma key_effect: "set_provider_api_key env body s = Some (a, s') \<Longrightarrow> edit_effect env s a s'"
  by (cases "fetch_config env s")
     (auto simp: set_provider_api_key_def on_config_def assign_provider_key_def fail_reply_def
        split: json.splits sum.splits option.splits if_splits intro: Untouched)

lemma create_effect: "create_model env body s = (a, s') \<Longrightarrow> edit_effect env s a s'"
  by (cases "fetch_config env s")
     (auto simp: create_model_def on_config_def with_dict_def Let_def
        split: json.splits sum.splits option.splits if_splits intro: Untouched)

lemma edit_effect_touch:
  "fetch_config env s = (cfg, s1) \<Longrightarrow> \<not> settled a \<Longrightarrow> \<not> granted a \<Longrightarrow> gw_version c = gw_version cfg
     \<Longrightarrow> edit_effect env s a (touch cfg c s1)"
  by (rule Partly)

lemma update_effect: "on_config env (update_model env mid body) s = Some (a, s') \<Longrightarrow> edit_effect env s a s'"
  by (cases "fetch_config env s")
     (auto simp: on_config_def update_model_def
        split: json.splits sum.splits option.splits if_splits prod.splits intro!: edit_effect_touch)

lemma delete_effect: "delete_model env mid s = (r, s') \<Longrightarrow> edit_effect env s (Inr r) s'"
  by (cases "fetch_config env s") (auto simp: on_config_def delete_model_def split: if_splits)

lemma add_effect: "on_config env (add_backend env mid body) s = (r, s') \<Longrightarrow> edit_effect env s (Inr r) s'"
  by (cases "fetch_config env s")
     (auto simp: on_config_def add_backend_def split: option.splits sum.splits)

lemma backend_effect: "on_config env (update_backend env mid i body) s = (a, s') \<Longrightarrow> edit_effect env s a s'"
  by (cases "fetch_config env s")
     (auto simp: on_config_def update_backend_def with_dict_def Let_def
        split: json.splits option.splits if_splits prod.splits intro!: edit_effect_touch)

lemma remove_effect: "remove_backend env mid i s = (r, s') \<Longrightarrow> edit_effect env s (Inr r) s'"
  by (cases "fetch_config env s")
     (auto simp: on_config_def remove_backend_def split: option.splits if_splits)

lemma tiers_effect: "on_config env (set_backends_tiers env mid body) s = (a, s') \<Longrightarrow> edit_effect env s a s'"
  by (cases "fetch_config env s")
     (auto simp: on_config_def set_backends_tiers_def set_tiers_def with_dict_def Let_def
        split: json.splits option.splits sum.splits bool.splits if_splits prod.splits intro!: edit_effect_touch)

lemma routing_effect: "on_config env (put_time_routing env mid body) s = (r, s') \<Longrightarrow> edit_effect env s (Inr r) s'"
  by (cases "fetch_config env s")
     (auto simp: on_config_def put_time_routing_def split: option.splits sum.splits)

lemma create_slot_effect: "on_config env (create_time_slot env mid body) s = (r, s') \<Longrightarrow> edit_effect env s (Inr r) s'"
  by (cases "fetch_config env s")
     (auto simp: on_config_def create_time_slot_def Let_def split: option.splits sum.splits)

lemma update_slot_effect: "on_config env (update_time_slot env mid sid body) s = (r, s') \<Longrightarrow> edit_effect env s (Inr r) s'"
  by (cases "fetch_config env s")
     (auto simp: on_config_def update_time_slot_def Let_def split: option.splits sum.splits if_splits)

lemma delete_slot_effect: "delete_time_slot env mid sid s = (r, s') \<Longrightarrow> edit_effect env s (Inr r) s'"
  by (cases "fetch_config env s")
     (auto simp: on_config_def delete_time_slot_def split: option.splits if_splits)

lemma rename_effect:
  assumes "rename_ids env now real_now io kind old_id new_id (s, tb, rl) = (a, s', tb', rl')"
  shows "edit_effect env s a s'"
proof (cases "fetch_config env s")
  case f: (Pair cfg s1)
  show ?thesis
    using assms f
    by (auto simp: rename_ids_def rename_model_entity_def rename_provider_entity_def rename_reply_def f Let_def
        split: option.splits if_splits prod.splits intro: Untouched)
qed

lemmas request_effects =
  put_effect key_effect create_effect update_effect delete_effect add_effect backend_effect remove_effect tiers_effect
  routing_effect create_slot_effect update_slot_effect delete_slot_effect rename_effect

lemma step_effect:
  "admin_step env rq s a s' \<Longrightarrow> rq \<noteq> Get_config \<Longrightarrow> \<not> is_restore rq \<Longrightarrow> edit_effect env s a s'"
  by (induction rule: admin_step.induct) (simp_all add: is_restore_def request_effects)

section \<open>Versions\<close>

lemma served_fetched: "fetch_config env s = (cfg, s1) \<Longrightarrow> served env s = cfg \<and> served env s1 = cfg"
  using fetch_again [of env s cfg s1] by (simp add: served_def)

lemma served_cached: "cs_config (ad_store s) = Some c \<Longrightarrow> cs_config_mtime (ad_store s) = file_mtime (ad_store s) \<Longrightarrow> served env s = c"
  by (simp add: served_def fetch_config_def load_config_def)

lemma served_store: "ad_store s = ad_store t \<Longrightarrow> served env s = served env t"
  by (simp add: served_def fetch_config_def split: prod.splits)

lemma served_saved: "ad_store s2 = ad_store (store_config env c s1) \<Longrightarrow> served env s2 = c\<lparr>gw_version := gw_version c + 1\<rparr>"
  using served_store [of s2 "store_config env c s1" env] by (simp add: served_def)

lemma served_touched:
  "fetch_config env s = (cfg, s1) \<Longrightarrow> served env (touch cfg c s1) = c"
  using fetch_cached [of env s cfg s1] by (auto simp: touch_def file_mtime_def intro!: served_cached)

lemma effect_version:
  "edit_effect env s a s' \<Longrightarrow> gw_version (served env s') = gw_version (served env s) + (if granted a then 1 else 0)"
  by (induction rule: edit_effect.induct) (auto simp: served_touched served_saved dest: served_fetched)

lemma get_served:
  assumes "admin_step env Get_config s a s'"
  shows "s' = snd (fetch_config env s)" and "served env s' = served env s"
proof -
  from assms obtain r where "get_config env s = (r, s')" by (rule get_stepE)
  then show "s' = snd (fetch_config env s)" by (simp add: get_config_def on_config_def split: prod.splits)
  then show "served env s' = served env s" using served_fetched [of env s] by (metis prod.collapse)
qed

lemma step_version:
  assumes "admin_step env rq s a s'" and "\<not> is_restore rq"
  shows "gw_version (served env s') = gw_version (served env s) + (if is_write (rq, a) then 1 else 0)"
proof (cases "rq = Get_config")
  case True
  with assms(1) get_served(2) [of env s a s'] show ?thesis by (simp add: is_write_def)
next
  case False
  from effect_version [OF step_effect [OF assms(1) False assms(2)]] False show ?thesis by (simp add: is_write_def)
qed

section \<open>The files\<close>

definition config_files :: "admin_state \<Rightarrow> bytes option \<times> (nat \<Rightarrow> bytes option) \<times> time" where
  "config_files s = (cs_main (ad_store s), cs_slots (ad_store s), cs_mtime (ad_store s))"

lemma fetch_files: "fetch_config env s = (cfg, s1) \<Longrightarrow> config_files s1 = config_files s"
  by (auto simp: fetch_config_def load_config_def config_files_def Let_def split: option.splits prod.splits if_splits)

lemma touch_files [simp]: "config_files (touch cfg c s) = config_files s"
  by (simp add: touch_def config_files_def)

lemma effect_files: "edit_effect env s a s' \<Longrightarrow> \<not> granted a \<Longrightarrow> config_files s' = config_files s"
  by (induction rule: edit_effect.induct) (auto dest: fetch_files)

lemma step_files:
  assumes "admin_step env rq s a s'" and "rq = Get_config \<or> \<not> granted a"
  shows "config_files s' = config_files s"
proof -
  consider (get) "rq = Get_config" | (restore) i where "rq = Restore i" | (edit) "rq \<noteq> Get_config" "\<not> is_restore rq"
    by (cases rq) (auto simp: is_restore_def)
  then show ?thesis
  proof cases
    case get
    with assms(1) get_served(1) [of env s a s'] fetch_files [of env s] show ?thesis by (metis prod.collapse)
  next
    case restore
    with assms obtain path invalid taken_at r where r: "restore_slot env path invalid taken_at i s = (Some r, s')" "a = Inr r"
      by (auto elim: restore_stepE)
    with restore assms(2) show ?thesis
      by (auto simp: restore_slot_def Let_def split: option.splits if_splits prod.splits)
  next
    case edit
    with effect_files [OF step_effect [OF assms(1)]] assms(2) show ?thesis by blast
  qed
qed

section \<open>Agreement with the file\<close>

text \<open>
  The file says what is served: its content is the rendering of the loaded object, or reads back as it.
\<close>

definition in_sync :: "admin_env \<Rightarrow> admin_state \<Rightarrow> bool" where
  "in_sync env s \<longleftrightarrow>
     (\<exists>b c. cs_main (ad_store s) = Some b \<and> cs_config (ad_store s) = Some c
          \<and> cs_config_mtime (ad_store s) = cs_mtime (ad_store s) \<and> (b = ae_dump env c \<or> ae_parse env b = Some c))"

lemma in_sync_fetch: "in_sync env s \<Longrightarrow> fetch_config env s = (cfg, s1) \<Longrightarrow> s1 = s"
  by (auto simp: in_sync_def fetch_config_def load_config_def file_mtime_def)

lemma in_sync_saved: "ad_store s2 = ad_store (store_config env c s1) \<Longrightarrow> in_sync env s2"
  by (simp add: in_sync_def store_config_def save_config_def Let_def)

lemma effect_in_sync: "edit_effect env s a s' \<Longrightarrow> in_sync env s \<Longrightarrow> settled a \<Longrightarrow> in_sync env s'"
  by (induction rule: edit_effect.induct) (auto simp: in_sync_saved dest: in_sync_fetch)

lemma restore_in_sync:
  assumes "restore_slot env file invalid taken_at i s = (Some r, s')" and "in_sync env s"
  shows "in_sync env s'"
proof (cases "slot_content (ad_store s) i")
  case None
  with assms show ?thesis by (simp add: restore_slot_def)
next
  case (Some content)
  show ?thesis
  proof (cases "ae_parse env content")
    case None
    with Some assms show ?thesis by (simp add: restore_slot_def)
  next
    case parsed: (Some c)
    with Some assms show ?thesis
      by (auto simp: restore_slot_def swap_in_def reload_config_def load_config_def candidates_def file_mtime_def in_sync_def
          Let_def split: option.splits)
  qed
qed

lemma step_in_sync:
  assumes "admin_step env rq s a s'" and "in_sync env s" and "settled a"
  shows "in_sync env s'"
proof -
  consider (get) "rq = Get_config" | (restore) i where "rq = Restore i" | (edit) "rq \<noteq> Get_config" "\<not> is_restore rq"
    by (cases rq) (auto simp: is_restore_def)
  then show ?thesis
  proof cases
    case get
    with assms(1,2) get_served(1) [of env s a s'] in_sync_fetch [of env s] show ?thesis by (metis prod.collapse)
  next
    case restore
    with assms(1,2) show ?thesis by (auto elim!: restore_stepE intro: restore_in_sync)
  next
    case edit
    then show ?thesis using effect_in_sync [OF step_effect [OF assms(1)] assms(2,3)] by blast
  qed
qed

section \<open>Properties\<close>

text \<open>
  C24. What the gateway serves is what is on disk: over any sequence of administrative requests, each of which is
  answered, and not with 422, the configuration file stays the rendering of the configuration in memory (or the
  restored backup it was read from), with its time stamp seen.
\<close>

theorem served_config_on_disk:
  assumes "admin_run env s es s'" and "in_sync env s" and "list_all (\<lambda>(rq, a). settled a) es"
  shows "in_sync env s'"
  using assms by (induction rule: admin_run.induct) (auto intro: step_in_sync)

text \<open>An edit that is refused, and one that is saved.\<close>

definition demo_requests :: "(admin_request \<times> answer) list" where
  "demo_requests =
     [(Delete_model ''m'', Inr (not_found ''Model'' ''m'')),
      (Set_key (JObj [(''provider'', JStr ''p''), (''api_key'', JStr ''new'')]), Inr ok_reply)]"

lemma demo_run:
  "admin_run demo_admin demo_admin_state demo_requests
     (store_config demo_admin (with_provider_key ''p'' ''new'' (secret_gateway\<lparr>gw_version := 1\<rparr>)) demo_admin_state)"
  unfolding demo_requests_def
proof (intro Run_Cons Run_Nil)
  have m: "\<not> list_ex (\<lambda>m. md_id m = ''m'') (gw_models secret_gateway)"
    by (simp add: secret_gateway_def default_gateway_def)
  then show "admin_step demo_admin (Delete_model ''m'') demo_admin_state (Inr (not_found ''Model'' ''m'')) demo_admin_state"
    by (intro Delete) (simp add: delete_model_def on_config_def demo_fetch)
  have "provider_by_id (secret_gateway\<lparr>gw_version := 1\<rparr>) ''p'' = Some ((default_provider ''p'' ''u'')\<lparr>pv_api_key := ''sk''\<rparr>)"
    by (simp add: provider_by_id_def secret_gateway_def default_provider_def)
  moreover have "text_field (JStr ''p'') = Inr ''p''" by (simp add: text_field_def strip_def lstrip_def is_space_def byte_def)
  moreover have "''new'' \<noteq> redacted_key" by (simp add: redacted_key_def numeral_eq_Suc)
  ultimately show "admin_step demo_admin (Set_key (JObj [(''provider'', JStr ''p''), (''api_key'', JStr ''new'')]))
      demo_admin_state (Inr ok_reply)
      (store_config demo_admin (with_provider_key ''p'' ''new'' (secret_gateway\<lparr>gw_version := 1\<rparr>)) demo_admin_state)"
    by (intro Key) (simp add: set_provider_api_key_def on_config_def demo_fetch assign_provider_key_def jget_def)
qed (rule Run_Nil)

lemma demo_in_sync: "in_sync demo_admin demo_admin_state"
  by (simp add: in_sync_def demo_admin_state_def demo_admin_def)

theorem served_config_on_disk_witness:
  "in_sync demo_admin
     (store_config demo_admin (with_provider_key ''p'' ''new'' (secret_gateway\<lparr>gw_version := 1\<rparr>)) demo_admin_state)"
  by (rule served_config_on_disk [OF demo_run demo_in_sync]) (simp add: demo_requests_def)

text \<open>
  C23. The version counts the writes: over any sequence of administrative requests without a restore, whatever their
  answers, the version that is served goes up by one with every write that was granted, and by nothing else.
\<close>

theorem version_counts_writes:
  assumes "admin_run env s es s'" and "list_all (\<lambda>(rq, a). \<not> is_restore rq) es"
  shows "gw_version (served env s') = gw_version (served env s) + int (length (filter is_write es))"
  using assms by (induction rule: admin_run.induct) (auto simp: step_version)

theorem version_counts_writes_witness:
  "gw_version (served demo_admin
      (store_config demo_admin (with_provider_key ''p'' ''new'' (secret_gateway\<lparr>gw_version := 1\<rparr>)) demo_admin_state))
   = gw_version (served demo_admin demo_admin_state) + 1"
  using version_counts_writes [OF demo_run] by (simp add: demo_requests_def is_restore_def is_write_def)

text \<open>
  C25. Only a granted request writes: over any sequence of requests that read or are refused, whatever the reason, the
  configuration file, its backups and its time stamp stay as they are.
\<close>

theorem refused_writes_nothing:
  assumes "admin_run env s es s'" and "list_all (\<lambda>(rq, a). rq = Get_config \<or> \<not> granted a) es"
  shows "config_files s' = config_files s"
  using assms by (induction rule: admin_run.induct) (auto simp: step_files)

text \<open>An edit with a field of the wrong type, which leaves the other field of the body assigned in memory.\<close>

definition bad_edit :: json where
  "bad_edit = JObj [(''model'', JStr ''y''), (''weight'', JInt 2)]"

theorem refused_writes_nothing_witness:
  "let s = running three_backends; (a, s') = on_config demo_admin (update_backend demo_admin ''m'' 0 bad_edit) s
   in config_files s' = config_files s"
proof -
  let ?s = "running three_backends" and ?d = "[(''model'', JStr ''y''), (''weight'', JInt 2)]"
  obtain a s' where r: "on_config demo_admin (update_backend demo_admin ''m'' 0 bad_edit) ?s = (a, s')"
    by (metis prod.collapse)
  have "\<not> edit_typed backend_settable ?d" by (simp add: edit_typed_def backend_settable_def)
  then have "fst (apply_fields assign_backend backend_settable ?d (default_backend ''p'' ''x'')) \<noteq> None"
    using edit_typed_accepted [OF backend_settable_ok, of ?d assign_backend "default_backend ''p'' ''x''"]
    by (simp add: dict_ok_def)
  then obtain msg b where "apply_fields assign_backend backend_settable ?d (default_backend ''p'' ''x'') = (Some msg, b)"
    by (metis not_None_eq prod.collapse)
  then have "fst (update_backend demo_admin ''m'' 0 bad_edit three_backends ?s) = Inr (fail_reply 422 msg)"
    by (simp add: update_backend_def three_backends_model bad_edit_def with_dict_def default_model_def Let_def)
  then have "\<not> granted a" using r fetch_running [of three_backends] by (auto simp: on_config_def)
  moreover have "admin_run demo_admin ?s [(Edit_backend ''m'' 0 bad_edit, a)] s'"
    by (rule Run_Cons [OF Edit_b [OF r] Run_Nil])
  ultimately show ?thesis using refused_writes_nothing [of demo_admin ?s _ s'] by (simp add: r)
qed

end
