(* ===== verification/Processes.thy ===== *)
theory Processes
  imports AdminLive Supervisor
begin

text \<open>
  The two processes side by side: the supervisor, which answers the console's requests itself, and the worker,
  which serves the clients (\<^verbatim>\<open>src/localgateway/worker.py\<close>, \<open>lifespan\<close> and \<open>_retention_loop\<close>;
  \<^verbatim>\<open>ratelimit.py\<close>, the two statements at its end; \<^verbatim>\<open>supervisor.py\<close>, the routes it mounts).

  Each process has its own instance of every module: a registry of rate limits and a memory of cached
  responses, and a loaded configuration.  They share the snooze file, the database and the configuration file.  \<open>machine\<close> holds both processes and what they share;
  an operation of a process runs on its own state with the shared part put in, and leaves the shared part behind.
\<close>

section \<open>State\<close>

record worker_process =
  wk_limits :: rl_state
  wk_cache :: rc_state
  wk_config :: config_store

record machine =
  mc_snoozes :: "snooze_file option"
  mc_rows :: "(string, cache_entry) dict"
  mc_usage :: "usage_row list"
  mc_lines :: log_table
  mc_anomalies :: "anomaly list"
  mc_alerts :: alert_state
  mc_limits :: rl_state
  mc_cache :: rc_state
  mc_admin :: admin_state
  mc_worker :: "worker_process option"

text \<open>
  What a step reads from outside: the two clocks, whether the snooze file can be written, the loaded
  configuration; \<open>it_text\<close> and \<open>it_str\<close> are \<open>str\<close>, \<open>it_float\<close> is \<open>float\<close> and \<open>it_date\<close> the rendering of a date.
\<close>

record instant =
  it_now :: time
  it_real :: time
  it_io :: bool
  it_config :: gateway_config
  it_text :: "json \<Rightarrow> string"
  it_float :: "string \<Rightarrow> real option"
  it_date :: "int \<Rightarrow> string"
  it_str :: "real \<Rightarrow> string"

section \<open>The supervisor's side\<close>

definition console_limits :: "(rl_state \<Rightarrow> 'a \<times> rl_state) \<Rightarrow> machine \<Rightarrow> machine" where
  "console_limits h m =
     (let s = snd (h ((mc_limits m)\<lparr>rl_file := mc_snoozes m\<rparr>)) in m\<lparr>mc_limits := s, mc_snoozes := rl_file s\<rparr>)"

text \<open>\<open>DELETE /admin/usage\<close>.\<close>

definition console_clear :: "machine \<Rightarrow> machine" where
  "console_clear m =
     (let (_, usage, lines, rc, admin) =
        clear_usage_endpoint (mc_usage m) (mc_lines m) ((mc_cache m)\<lparr>rc_rows := mc_rows m\<rparr>) (mc_admin m)
      in m\<lparr>mc_usage := usage, mc_lines := lines, mc_cache := rc, mc_rows := rc_rows rc, mc_admin := admin\<rparr>)"

section \<open>The worker's side\<close>

text \<open>
  The configuration files are the supervisor's and the worker's alike; what each has loaded is its own.
\<close>

definition see_files :: "config_store \<Rightarrow> config_store \<Rightarrow> config_store" where
  "see_files shared own = own\<lparr>cs_main := cs_main shared, cs_slots := cs_slots shared, cs_mtime := cs_mtime shared\<rparr>"

definition worker_config :: "admin_env \<Rightarrow> machine \<Rightarrow> worker_process \<Rightarrow> gateway_config \<times> config_store" where
  "worker_config env m w = load_config (ae_parse env) (see_files (ad_store (mc_admin m)) (wk_config w))"

text \<open>
  The module's registry is filled from the snooze file when the process starts; the connection to the database
  is opened with an empty memory and a running writer.  The clean-up deletes old rows.
\<close>

definition retention :: "instant \<Rightarrow> machine \<Rightarrow> machine" where
  "retention i m =
     (let (usage, lines) = enforce_retention (it_real i) (Some (sv_usage_retention_days (gw_server (it_config i))))
            (Some (sv_log_retention_lines (gw_server (it_config i)))) (mc_usage m, lt_rows (mc_lines m))
      in m\<lparr>mc_usage := usage, mc_lines := (mc_lines m)\<lparr>lt_rows := lines\<rparr>\<rparr>)"

definition fresh_worker :: "instant \<Rightarrow> machine \<Rightarrow> worker_process" where
  "fresh_worker i m =
     \<lparr>wk_limits = load_from_file (rl_init\<lparr>rl_file := mc_snoozes m\<rparr>) (it_now i) (it_real i),
      wk_cache = \<lparr>rc_mem = [], rc_rows = mc_rows m, rc_queue = [], rc_writer = True\<rparr>,
      wk_config = (ad_store (mc_admin m))\<lparr>cs_config := None, cs_config_mtime := -1, cs_recovered := None\<rparr>\<rparr>"

definition startup :: "instant \<Rightarrow> machine \<Rightarrow> machine" where
  "startup i m = retention i (m\<lparr>mc_worker := Some (fresh_worker i m)\<rparr>)"

definition shutdown :: "instant \<Rightarrow> worker_process \<Rightarrow> machine \<Rightarrow> machine" where
  "shutdown i w m =
     m\<lparr>mc_snoozes := rl_file (save ((wk_limits w)\<lparr>rl_file := mc_snoozes m\<rparr>) (it_now i) (it_real i) (it_io i)),
       mc_rows := rc_rows (drain_writer ((wk_cache w)\<lparr>rc_rows := mc_rows m\<rparr>)), mc_worker := None\<rparr>"

text \<open>The scan of the daily pass posts an alert for every anomaly it has newly found.\<close>

definition scope_text :: "scope \<Rightarrow> string" where
  "scope_text sc = (case sc of Key_scope \<Rightarrow> ''key'' | Model_scope \<Rightarrow> ''model'')"

definition anomaly_alert :: "instant \<Rightarrow> anomaly \<Rightarrow> alert_state \<Rightarrow> alert_state" where
  "anomaly_alert i a s =
     (let sc = scope_text (an_scope a)
      in snd (send (sv_alert_webhook_url (gw_server (it_config i))) (it_real i) ''cost_anomaly''
               (''Cost anomaly: '' @ sc @ '' '' @ in_quotes (an_scope_id a) @ '' spent $'' @ fixed 4 (an_actual a) @ '' on ''
                @ an_date a @ '' (expected $'' @ fixed 4 (an_expected a) @ '', z='' @ it_str i (an_z_score a) @ '')'')
               [(''scope'', JStr sc), (''scope_id'', JStr (an_scope_id a)), (''date'', JStr (an_date a)),
                (''expected'', JFloat (an_expected a)), (''actual'', JFloat (an_actual a)), (''z_score'', JFloat (an_z_score a))]
               (Some (''anomaly:'' @ sc @ '':'' @ an_scope_id a @ '':'' @ an_date a)) s))"

definition daily_pass :: "instant \<Rightarrow> machine \<Rightarrow> machine" where
  "daily_pass i m =
     (let m1 = retention i m;
          (found, table) = daily_anomaly_scan (it_date i) (it_real i) (mc_usage m1) (mc_anomalies m1)
      in m1\<lparr>mc_anomalies := table, mc_alerts := fold (anomaly_alert i) found (mc_alerts m1)\<rparr>)"

definition worker_cache :: "rc_event \<Rightarrow> worker_process \<Rightarrow> machine \<Rightarrow> machine" where
  "worker_cache ev w m =
     (let rc = rc_step ((wk_cache w)\<lparr>rc_rows := mc_rows m\<rparr>) ev
      in m\<lparr>mc_rows := rc_rows rc, mc_worker := Some (w\<lparr>wk_cache := rc\<rparr>)\<rparr>)"

section \<open>Steps\<close>

text \<open>\<open>Worker_dies\<close> is a worker killed without its shutdown.  The other events of the worker need it running.\<close>

datatype machine_event =
    Console_snooze json
  | Console_unsnooze json
  | Console_unsnooze_all
  | Console_clear
  | Upstream_limit string string "real option"
  | Worker_cache rc_event
  | Daily_pass
  | Worker_shuts_down
  | Worker_dies
  | Worker_starts

fun machine_step :: "instant \<Rightarrow> machine_event \<Rightarrow> machine \<Rightarrow> machine" where
  "machine_step i (Console_snooze body) m =
     console_limits (snooze_backend (it_text i) (it_float i) (it_now i) (it_real i) (it_io i) body) m"
| "machine_step i (Console_unsnooze body) m =
     console_limits (unsnooze_backend (it_text i) (it_now i) (it_real i) (it_io i) body) m"
| "machine_step i Console_unsnooze_all m = console_limits (unsnooze_all_backends (it_now i) (it_real i) (it_io i)) m"
| "machine_step i Console_clear m = console_clear m"
| "machine_step i ev m =
     (case mc_worker m of
        None \<Rightarrow> if ev = Worker_starts then startup i m else m
      | Some w \<Rightarrow>
          (case ev of
             Upstream_limit p q ra \<Rightarrow> m\<lparr>mc_worker := Some (w\<lparr>wk_limits := set_cooldown (wk_limits w) (it_now i) p q ra\<rparr>)\<rparr>
           | Worker_cache e \<Rightarrow> worker_cache e w m
           | Daily_pass \<Rightarrow> daily_pass i m
           | Worker_shuts_down \<Rightarrow> shutdown i w m
           | Worker_dies \<Rightarrow> m\<lparr>mc_worker := None\<rparr>
           | _ \<Rightarrow> m))"

fun from_console :: "machine_event \<Rightarrow> bool" where
  "from_console (Console_snooze body) = True"
| "from_console (Console_unsnooze body) = True"
| "from_console Console_unsnooze_all = True"
| "from_console Console_clear = True"
| "from_console _ = False"

definition machine_run :: "(instant \<times> machine_event) list \<Rightarrow> machine \<Rightarrow> machine" where
  "machine_run evs m = foldl (\<lambda>m (i, ev). machine_step i ev m) m evs"

section \<open>Lemmas\<close>

lemma console_limits_worker [simp]:
  "mc_worker (console_limits h m) = mc_worker m" "mc_rows (console_limits h m) = mc_rows m"
  by (simp_all add: console_limits_def Let_def)

lemma console_clear_simps [simp]:
  "mc_worker (console_clear m) = mc_worker m" "mc_rows (console_clear m) = []" "mc_usage (console_clear m) = []"
  "mc_snoozes (console_clear m) = mc_snoozes m"
  by (simp_all add: console_clear_def clear_usage_endpoint_def clear_cache_def Let_def clear_usage_def)

lemma console_step_worker: "from_console ev \<Longrightarrow> mc_worker (machine_step i ev m) = mc_worker m"
  by (cases ev) simp_all

lemma console_run_worker:
  "list_all (\<lambda>(i, ev). from_console ev) evs \<Longrightarrow> mc_worker (machine_run evs m) = mc_worker m"
  unfolding machine_run_def by (induction evs arbitrary: m) (auto simp: console_step_worker)

lemma retention_simps [simp]:
  "mc_worker (retention i m) = mc_worker m" "mc_snoozes (retention i m) = mc_snoozes m" "mc_rows (retention i m) = mc_rows m"
  by (simp_all add: retention_def split: prod.splits)

lemma startup_worker [simp]: "mc_worker (startup i m) = Some (fresh_worker i m)"
  by (simp add: startup_def)

text \<open>What a registry that is saved and loaded again says later, when the two clocks have moved on together.\<close>

lemma reload_free:
  assumes "rl_ok s" and "real' - real0 = now' - now0" and "now0 \<le> now'" and "now' \<le> t"
  shows "limit_free (load_from_file (rl_init\<lparr>rl_file := rl_file (save s now0 real0 True)\<rparr>) now' real') t k = limit_free s t k"
proof -
  let ?ts = "save_timed (rl_permanent s) now0 real0 (rl_cooldowns s) []"
  have ok: "dict_ok (rl_cooldowns s)" "dict_ok ?ts"
    using assms(1) by (simp_all add: rl_ok_def dict_intros)
  have real': "real' = real0 + (now' - now0)" using assms(2) by simp
  show ?thesis
    using assms(3,4) ok
    by (auto simp: real' limit_free_def load_from_file_def save_def rl_init_def dget_load_timed dget_save_timed
        split: option.splits)
qed

lemma save_sees_own: "rl_file (save (s\<lparr>rl_file := f\<rparr>) now real0 True) = rl_file (save s now real0 True)"
  by (simp add: save_def)

lemma restart_limits:
  assumes "mc_worker m = Some w" and "it_io i1"
  shows "\<exists>w'. mc_worker (machine_step i2 Worker_starts (machine_step i1 Worker_shuts_down m)) = Some w'
              \<and> wk_limits w' = load_from_file (rl_init\<lparr>rl_file := rl_file (save (wk_limits w) (it_now i1) (it_real i1) True)\<rparr>)
                                (it_now i2) (it_real i2)"
  using assms by (simp add: shutdown_def fresh_worker_def save_sees_own)

text \<open>The snooze endpoints are no live routes: the worker is not asked, whether it runs or not.\<close>

lemma snooze_routes_local:
  assumes "wq_method req = ''POST''"
    and "wq_path req \<in> {''/admin/backends/snooze'', ''/admin/backends/unsnooze'', ''/admin/backends/unsnooze-all''}"
    and "local_route req"
  shows "serve cd cfg local_route own worker1 s req = serve cd cfg local_route own worker2 s req"
proof -
  have "(wq_method req, wq_path req) \<notin> set live_routes"
    using assms(1,2) by (auto simp: live_routes_def)
  with assms(3) show ?thesis by (simp add: serve_def split: option.split)
qed

section \<open>Example\<close>

definition demo_instant :: "time \<Rightarrow> instant" where
  "demo_instant t =
     \<lparr>it_now = t, it_real = 1000 + t, it_io = True, it_config = default_gateway,
      it_text = (\<lambda>v. case v of JStr s \<Rightarrow> s | _ \<Rightarrow> []), it_float = (\<lambda>_. None), it_date = (\<lambda>_. []), it_str = (\<lambda>_. [])\<rparr>"

definition demo_rc :: rc_state where
  "demo_rc = \<lparr>rc_mem = [], rc_rows = [], rc_queue = [], rc_writer = True\<rparr>"

definition demo_machine :: "worker_process option \<Rightarrow> machine" where
  "demo_machine w =
     \<lparr>mc_snoozes = None, mc_rows = [], mc_usage = [], mc_lines = \<lparr>lt_rows = [], lt_next = 1\<rparr>, mc_anomalies = [], mc_alerts = no_alerts,
      mc_limits = rl_init, mc_cache = demo_rc, mc_admin = demo_admin_state, mc_worker = w\<rparr>"

definition idle_worker :: worker_process where
  "idle_worker = \<lparr>wk_limits = rl_init, wk_cache = demo_rc, wk_config = ad_store demo_admin_state\<rparr>"

definition snooze_body :: json where
  "snooze_body = JObj [(''provider'', JStr ''p''), (''model'', JStr ''x''), (''permanent'', JBool True)]"

lemma named_permanent:
  "body = JObj d \<Longrightarrow> named_backend d = Some (p, q) \<Longrightarrow> truthy (jget d ''permanent'') \<Longrightarrow>
   mc_limits (machine_step i (Console_snooze body) m)
     = save (snooze_permanent ((mc_limits m)\<lparr>rl_file := mc_snoozes m\<rparr>) (it_text i p) (it_text i q)) (it_now i) (it_real i) (it_io i)
   \<and> mc_snoozes (machine_step i (Console_snooze body) m) = rl_file (mc_limits (machine_step i (Console_snooze body) m))"
  by (simp add: console_limits_def snooze_backend_def with_dict_def Let_def)

section \<open>Properties\<close>

text \<open>
  C27. The console cannot snooze a backend of a running worker: whatever the console snoozes or wakes, the worker's
  registry stays as it is, and when the worker is then restarted (which is how a loaded file would be read) every
  backend is as available as if the console had done nothing, since the worker writes its own registry over the
  file on its way out.
\<close>

theorem console_snooze_ineffective:
  assumes "mc_worker m = Some w" and "rl_ok (wk_limits w)" and "list_all (\<lambda>(i, ev). from_console ev) evs"
    and "it_io i1" and "it_real i2 - it_real i1 = it_now i2 - it_now i1" and "it_now i1 \<le> it_now i2" and "it_now i2 \<le> t"
    and "m1 = machine_run evs m" and "m2 = machine_step i2 Worker_starts (machine_step i1 Worker_shuts_down m1)"
  shows "mc_worker m1 = Some w
         \<and> (\<exists>w'. mc_worker m2 = Some w'
              \<and> (\<forall>p q. fst (is_available (wk_limits w') t p q) = fst (is_available (wk_limits w) t p q)))"
proof -
  have m1: "mc_worker m1 = Some w" using assms(1,3,8) console_run_worker by simp
  from restart_limits [OF m1 assms(4)] assms(9) obtain w' where w': "mc_worker m2 = Some w'"
    "wk_limits w' = load_from_file (rl_init\<lparr>rl_file := rl_file (save (wk_limits w) (it_now i1) (it_real i1) True)\<rparr>)
                      (it_now i2) (it_real i2)"
    by blast
  with m1 show ?thesis
    by (simp add: is_available_result reload_free [OF assms(2,5,6,7)])
qed

theorem console_snooze_ineffective_witness:
  "let m = demo_machine (Some idle_worker); m1 = machine_run [(demo_instant 1, Console_snooze snooze_body)] m;
       m2 = machine_step (demo_instant 3) Worker_starts (machine_step (demo_instant 2) Worker_shuts_down m1)
   in \<not> fst (is_available (mc_limits m1) 4 ''p'' ''x'') \<and> mc_worker m1 = Some idle_worker
      \<and> (\<exists>w'. mc_worker m2 = Some w'
           \<and> (\<forall>p q. fst (is_available (wk_limits w') 4 p q) = fst (is_available (wk_limits idle_worker) 4 p q)))"
proof -
  let ?m = "demo_machine (Some idle_worker)" and ?evs = "[(demo_instant 1, Console_snooze snooze_body)]"
  have "named_backend [(''provider'', JStr ''p''), (''model'', JStr ''x''), (''permanent'', JBool True)] = Some (JStr ''p'', JStr ''x'')"
    by (simp add: named_backend_def jget_def)
  then have "\<not> fst (is_available (mc_limits (machine_run ?evs ?m)) 4 ''p'' ''x'')"
    using named_permanent [OF snooze_body_def, of "JStr ''p''" "JStr ''x''" "demo_instant 1" ?m]
    by (simp add: machine_run_def is_available_result avail_ops demo_instant_def jget_def)
  moreover have "mc_worker ?m = Some idle_worker" "rl_ok (wk_limits idle_worker)" "it_io (demo_instant 2)"
    "it_real (demo_instant 3) - it_real (demo_instant 2) = it_now (demo_instant 3) - it_now (demo_instant 2)"
    "it_now (demo_instant 2) \<le> it_now (demo_instant 3)" "it_now (demo_instant 3) \<le> 4"
    by (simp_all add: demo_machine_def idle_worker_def rl_ok_def rl_init_def demo_instant_def)
  ultimately show ?thesis
    using console_snooze_ineffective [of ?m idle_worker ?evs "demo_instant 2" "demo_instant 3" 4, OF _ _ _ _ _ _ _ refl refl]
    unfolding Let_def by (simp del: machine_step.simps)
qed

text \<open>
  While the worker is stopped, the console's snoozes do count: a backend that is snoozed for good before the
  start is not available to the worker that starts.
\<close>

theorem snooze_before_start:
  assumes "mc_worker m = None" and "it_io i1" and "named_backend d = Some (p, q)" and "truthy (jget d ''permanent'')"
    and "mc_worker (machine_step i2 Worker_starts (machine_step i1 (Console_snooze (JObj d)) m)) = Some w"
  shows "\<not> fst (is_available (wk_limits w) t (it_text i1 p) (it_text i1 q))"
proof -
  let ?m = "machine_step i1 (Console_snooze (JObj d)) m" and ?k = "backend_key (it_text i1 p) (it_text i1 q)"
  have "mc_worker ?m = None" using assms(1) by (simp add: console_step_worker del: machine_step.simps)
  with assms(5) have w: "wk_limits w = load_from_file (rl_init\<lparr>rl_file := mc_snoozes ?m\<rparr>) (it_now i2) (it_real i2)"
    by (auto simp: fresh_worker_def simp del: machine_step.simps(1))
  obtain f where "mc_snoozes ?m = Some f" "?k \<in> set (sf_permanent f)"
    using named_permanent [OF refl assms(3,4), of i1 m] assms(2) by (simp add: save_def snooze_permanent_def Let_def)
  then show ?thesis by (simp add: is_available_result limit_free_def w load_from_file_def)
qed

theorem snooze_before_start_witness:
  "let m = demo_machine None; d = [(''provider'', JStr ''p''), (''model'', JStr ''x''), (''permanent'', JBool True)];
       m' = machine_step (demo_instant 2) Worker_starts (machine_step (demo_instant 1) (Console_snooze (JObj d)) m)
   in \<exists>w. mc_worker m' = Some w \<and> \<not> fst (is_available (wk_limits w) 4 ''p'' ''x'')"
proof -
  let ?d = "[(''provider'', JStr ''p''), (''model'', JStr ''x''), (''permanent'', JBool True)]"
  let ?m1 = "machine_step (demo_instant 1) (Console_snooze (JObj ?d)) (demo_machine None)"
  have d: "named_backend ?d = Some (JStr ''p'', JStr ''x'')" "truthy (jget ?d ''permanent'')"
    by (simp_all add: named_backend_def jget_def)
  have n: "mc_worker (demo_machine None) = None" "it_io (demo_instant 1)"
    by (simp_all add: demo_machine_def demo_instant_def)
  have "mc_worker ?m1 = None" using n(1) by (simp add: console_step_worker del: machine_step.simps(1))
  then have "mc_worker (machine_step (demo_instant 2) Worker_starts ?m1) = Some (fresh_worker (demo_instant 2) ?m1)"
    by (simp del: machine_step.simps(1))
  from snooze_before_start [OF n d this, of 4] this show ?thesis
    unfolding Let_def by (simp add: demo_instant_def)
qed

text \<open>
  Clearing the usage data from the console does not stop the worker from replaying: the table of cached
  responses is empty afterwards, and the worker still answers a prompt that it has in memory with the old
  response, as it did before.
\<close>

theorem console_clear_keeps_replaying:
  assumes "mc_worker m = Some w" and "dget (rc_mem (wk_cache w)) key = Some e" and "\<not> expired now ttl e"
    and "m' = machine_step i Console_clear m"
  shows "mc_rows m' = [] \<and> mc_usage m' = []
         \<and> (\<exists>w'. mc_worker m' = Some w'
              \<and> fst (lookup_response ((wk_cache w')\<lparr>rc_rows := mc_rows m'\<rparr>) now key ttl)
                = Some (ce_body e, ce_stream e, ce_hits e + 1))"
  using assms by (simp add: lookup_response_def lookup_mem_def)

theorem console_clear_keeps_replaying_witness:
  "let e = \<lparr>ce_body = ''hi'', ce_stream = False, ce_hits = 0, ce_created = 5, ce_ttl = 60, ce_last = 5\<rparr>;
       w = idle_worker\<lparr>wk_cache := demo_rc\<lparr>rc_mem := [(''k'', e)]\<rparr>\<rparr>;
       m' = machine_step (demo_instant 6) Console_clear (demo_machine (Some w))
   in mc_rows m' = [] \<and> mc_usage m' = []
      \<and> (\<exists>w'. mc_worker m' = Some w'
           \<and> fst (lookup_response ((wk_cache w')\<lparr>rc_rows := mc_rows m'\<rparr>) 7 ''k'' 60) = Some (''hi'', False, 1))"
proof -
  let ?e = "\<lparr>ce_body = ''hi'', ce_stream = False, ce_hits = 0, ce_created = 5, ce_ttl = 60, ce_last = 5\<rparr>"
  let ?w = "idle_worker\<lparr>wk_cache := demo_rc\<lparr>rc_mem := [(''k'', ?e)]\<rparr>\<rparr>"
  have "mc_worker (demo_machine (Some ?w)) = Some ?w" "dget (rc_mem (wk_cache ?w)) ''k'' = Some ?e" "\<not> expired 7 60 ?e"
    by (simp_all add: demo_machine_def expired_def effective_ttl_def)
  from console_clear_keeps_replaying [OF this refl, of "demo_instant 6"] show ?thesis
    unfolding Let_def by simp
qed

text \<open>
  The running worker follows the console: after a save, the next load by the worker returns the new
  configuration, unless the file system gave the file the very time stamp the worker has seen, in which case the
  worker stays with the configuration it has.
\<close>

theorem worker_follows_console:
  assumes "wk_config w = own" and "cs_config own = Some old"
    and "ae_parse env (ae_dump env (cfg\<lparr>gw_version := gw_version cfg + 1\<rparr>)) = Some (cfg\<lparr>gw_version := gw_version cfg + 1\<rparr>)"
    and "m' = m\<lparr>mc_admin := store_config env cfg (mc_admin m)\<rparr>"
  shows "fst (worker_config env m' w)
         = (if ae_mtime env = cs_config_mtime own then old else cfg\<lparr>gw_version := gw_version cfg + 1\<rparr>)"
  using assms
  by (simp add: worker_config_def load_config_def see_files_def store_config_def save_config_def file_mtime_def candidates_def
      Let_def)

theorem worker_follows_console_witness:
  "let m' = (demo_machine (Some idle_worker))\<lparr>mc_admin := store_config demo_admin secret_gateway demo_admin_state\<rparr>
   in fst (worker_config demo_admin m' idle_worker) = secret_gateway\<lparr>gw_version := 1\<rparr>"
proof -
  have v: "gw_version secret_gateway = 0" by (simp add: secret_gateway_def default_gateway_def)
  have "wk_config idle_worker = ad_store demo_admin_state"
    "cs_config (ad_store demo_admin_state) = Some (secret_gateway\<lparr>gw_version := 1\<rparr>)"
    "ae_parse demo_admin (ae_dump demo_admin (secret_gateway\<lparr>gw_version := gw_version secret_gateway + 1\<rparr>))
       = Some (secret_gateway\<lparr>gw_version := gw_version secret_gateway + 1\<rparr>)"
    by (simp_all add: idle_worker_def demo_admin_state_def demo_admin_def v)
  from worker_follows_console [OF this, of _ "demo_machine (Some idle_worker)"] show ?thesis
    by (simp add: v Let_def demo_machine_def)
qed

text \<open>
  Retention bounds the database: when the worker starts and after every daily pass, no usage row is older than
  the configured number of days and no more log lines are left than configured, when these are positive.
\<close>

theorem retention_bounds:
  assumes "0 < sv_usage_retention_days (gw_server (it_config i))" and "0 < sv_log_retention_lines (gw_server (it_config i))"
    and "(ev = Worker_starts \<and> mc_worker m = None) \<or> (ev = Daily_pass \<and> mc_worker m \<noteq> None)"
    and "m' = machine_step i ev m"
  shows "(\<forall>r\<in>set (mc_usage m'). it_real i - of_int (sv_usage_retention_days (gw_server (it_config i)) * 86400) \<le> ur_ts r)
         \<and> int (length (lt_rows (mc_lines m'))) \<le> sv_log_retention_lines (gw_server (it_config i))"
proof -
  obtain m0 where "mc_usage m' = mc_usage (retention i m0)" "mc_lines m' = mc_lines (retention i m0)"
    using assms(3,4) by (auto simp: startup_def daily_pass_def Let_def split: prod.splits)
  then show ?thesis
    using assms(1,2) by (auto simp: retention_def enforce_retention_def)
qed

theorem retention_bounds_witness:
  "let r = (\<lambda>t. default_row t ''m'' ''p'' ''x'' True); i = demo_instant 9000000;
       m = (demo_machine None)\<lparr>mc_usage := [r 5, r 9000500]\<rparr>; m' = machine_step i Worker_starts m
   in mc_usage m' = [r 9000500]
      \<and> (\<forall>r\<in>set (mc_usage m'). it_real i - of_int (sv_usage_retention_days (gw_server (it_config i)) * 86400) \<le> ur_ts r)
      \<and> int (length (lt_rows (mc_lines m'))) \<le> sv_log_retention_lines (gw_server (it_config i))"
proof -
  let ?r = "\<lambda>t. default_row t ''m'' ''p'' ''x'' True" and ?i = "demo_instant 9000000"
  let ?m = "(demo_machine None)\<lparr>mc_usage := [?r 5, ?r 9000500]\<rparr>"
  have c: "sv_usage_retention_days (gw_server (it_config ?i)) = 30" "sv_log_retention_lines (gw_server (it_config ?i)) = 10000"
    "mc_worker ?m = None" "it_real ?i = 9001000"
    by (simp_all add: demo_instant_def default_gateway_def default_server_def demo_machine_def)
  have "mc_usage (machine_step ?i Worker_starts ?m) = filter (\<lambda>r. \<not> ur_ts r < 9001000 - 2592000) (mc_usage ?m)"
    using c(3) by (simp add: c(1,2,4) startup_def retention_def enforce_retention_def)
  also have "\<dots> = [?r 9000500]" by (simp add: default_row_def)
  finally have "mc_usage (machine_step ?i Worker_starts ?m) = [?r 9000500]" .
  with retention_bounds [of ?i Worker_starts ?m, OF _ _ _ refl] c show ?thesis
    unfolding Let_def by (simp del: machine_step.simps)
qed

text \<open>
  A scope that usually spends less than ten cents a day is never flagged, whatever it spends, although the
  documented condition (more than the mean plus three deviations, than three times the mean, and than ten cents) holds.
\<close>

theorem cheap_scope_never_flagged:
  "mean [1 / 20, 1 / 20, 1 / 20] = 1 / 20 \<and> max (threshold_of [1 / 20, 1 / 20, 1 / 20]) (1 / 10) < 100
   \<and> anomaly_of now date sc sid [1 / 20, 1 / 20, 1 / 20] 100 = None"
  by (simp add: anomaly_of_def mean_def threshold_of_def std_dev_def)

end
