(* ===== verification/Web.thy ===== *)
theory Web
  imports Supervisor
begin

text \<open>
  The pages of the console (\<^verbatim>\<open>src/localgateway/endpoints/web.py\<close>) and the choice the command line makes
  (\<^verbatim>\<open>src/localgateway/main.py\<close>).

  A page is a template and the values it is given; \<open>render\<close> is the template engine.  A path parameter is one
  segment of the path.
\<close>

section \<open>Pages\<close>

datatype web_answer = Page string "(string \<times> string) list" | Redirect int string

definition segment :: "string \<Rightarrow> bool" where
  "segment s \<longleftrightarrow> s \<noteq> [] \<and> CHR 0x2F \<notin> set s"

text \<open>The pages without a parameter: path, template, and the entry of the menu that is marked.\<close>

definition plain_pages :: "(string, string \<times> string) dict" where
  "plain_pages =
     [(''/'', (''dashboard.html'', ''dashboard'')), (''/models'', (''models.html'', ''models'')),
      (''/providers'', (''providers.html'', ''providers'')), (''/usage'', (''usage.html'', ''usage'')),
      (''/logs'', (''logs.html'', ''logs'')), (''/connections'', (''connections.html'', ''connections'')),
      (''/settings'', (''settings.html'', ''settings''))]"

definition page_under :: "string \<Rightarrow> string \<Rightarrow> string \<Rightarrow> string \<Rightarrow> web_answer option" where
  "page_under base template param path =
     (let rest = drop (length base) path
      in if prefix base path \<and> segment rest then Some (Page template [(''active_page'', ''models''), (param, rest)])
         else None)"

definition web_route :: "string \<Rightarrow> web_answer option" where
  "web_route path =
     (if path = ''/admin'' then Some (Redirect 307 ''/'')
      else case dget plain_pages path of
             Some (template, active) \<Rightarrow> Some (Page template [(''active_page'', active)])
           | None \<Rightarrow>
               (case page_under ''/models/'' ''model_detail.html'' ''model_id'' path of
                  Some a \<Rightarrow> Some a
                | None \<Rightarrow> page_under ''/compare/'' ''compare.html'' ''ids'' path))"

fun web_reply :: "(string \<Rightarrow> (string \<times> string) list \<Rightarrow> bytes) \<Rightarrow> web_answer \<Rightarrow> reply" where
  "web_reply render (Page template ctx) =
     \<lparr>rp_status = 200, rp_headers = [(''content-type'', ''text/html; charset=utf-8'')], rp_body = Raw_body (render template ctx)\<rparr>"
| "web_reply render (Redirect code target) =
     \<lparr>rp_status = code, rp_headers = [(''location'', target)], rp_body = Raw_body []\<rparr>"

text \<open>Static files are revalidated on every use.\<close>

definition file_response :: "reply \<Rightarrow> reply" where
  "file_response r = r\<lparr>rp_headers := set_default ''Cache-Control'' ''no-cache'' (rp_headers r)\<rparr>"

text \<open>The pages as the supervisor serves them; \<open>other\<close> answers its remaining routes.\<close>

definition is_page_request :: "web_request \<Rightarrow> bool" where
  "is_page_request req \<longleftrightarrow> wq_method req = ''GET'' \<and> web_route (wq_path req) \<noteq> None"

definition serve_page ::
    "(string \<Rightarrow> (string \<times> string) list \<Rightarrow> bytes) \<Rightarrow> (web_request \<Rightarrow> reply) \<Rightarrow> web_request \<Rightarrow> reply" where
  "serve_page render other req =
     (case web_route (wq_path req) of
        Some a \<Rightarrow> if wq_method req = ''GET'' then web_reply render a else other req
      | None \<Rightarrow> other req)"

section \<open>The command line\<close>

text \<open>An absent or empty argument leaves the choice to the configuration; the port 0 counts as absent.\<close>

record arguments =
  ar_config :: string
  ar_host :: "string option"
  ar_port :: "int option"
  ar_no_supervisor :: bool

datatype program = Run_worker string string int | Run_supervisor string string int

definition main_program :: "arguments \<Rightarrow> gateway_config \<Rightarrow> program" where
  "main_program a cfg =
     (let host = (case ar_host a of None \<Rightarrow> sv_host (gw_server cfg) | Some h \<Rightarrow> if h = [] then sv_host (gw_server cfg) else h);
          port = (case ar_port a of None \<Rightarrow> sv_port (gw_server cfg) | Some p \<Rightarrow> if p = 0 then sv_port (gw_server cfg) else p)
      in if ar_no_supervisor a then Run_worker (ar_config a) host port else Run_supervisor (ar_config a) host port)"

text \<open>The warning about an open console that \<open>run_supervisor\<close> writes: it looks at the legacy key only.\<close>

definition warns_open :: "string \<Rightarrow> gateway_config \<Rightarrow> bool" where
  "warns_open host cfg \<longleftrightarrow>
     \<not> is_loopback_host (Some host) \<and> (sv_api_key (gw_server cfg) = None \<or> sv_api_key (gw_server cfg) = Some [])"

section \<open>Lemmas\<close>

lemma page_under_prefix: "page_under base template param path = Some a \<Longrightarrow> prefix base path"
  by (auto simp: page_under_def Let_def split: if_splits)

text \<open>Every page but one is among the paths that the middlewares guard.\<close>

lemma routed_guarded:
  assumes "web_route path \<noteq> None" and "path \<noteq> ''/connections''"
  shows "is_admin_path path"
proof (cases "path = ''/admin'' \<or> dget plain_pages path \<noteq> None")
  case True
  with assms(2) show ?thesis
    by (auto simp: plain_pages_def is_admin_path_def is_page_path_def page_paths_def split: if_splits)
next
  case False
  with assms(1) have "prefix ''/models/'' path \<or> prefix ''/compare/'' path"
    by (auto simp: web_route_def split: option.splits dest: page_under_prefix)
  then show ?thesis by (auto simp: is_admin_path_def is_page_path_def page_prefixes_def)
qed

section \<open>Properties\<close>

text \<open>
  A page is shown to those who may administer: with keys configured, a request for a page by a machine of the
  network without a valid token is answered 401, with one exception: the page of the connections, which the list
  of guarded pages does not have, is rendered for anyone.
\<close>

theorem pages_guarded_but_connections:
  assumes "keys_configured cfg" and "\<not> check_api_key req cfg" and "is_page_request req"
  shows "serve cd cfg is_page_request (serve_page render other) worker s req
         = Sent (if wq_path req = ''/connections''
                 then security_headers (web_reply render (Page ''connections.html'' [(''active_page'', ''connections'')]))
                 else invalid_key_reply)"
proof -
  have get: "wq_method req = ''GET''" and route: "web_route (wq_path req) \<noteq> None"
    using assms(3) by (simp_all add: is_page_request_def)
  show ?thesis
  proof (cases "wq_path req = ''/connections''")
    case True
    then have "sup_gate cfg req = None" "(wq_method req, wq_path req) \<notin> set live_routes"
      using get by (simp_all add: sup_gate_def api_auth_def origin_guard_def admin_auth_def is_admin_path_def is_page_path_def
          page_paths_def page_prefixes_def is_api_path_def live_routes_def)
    moreover have "web_route ''/connections'' = Some (Page ''connections.html'' [(''active_page'', ''connections'')])"
      by (simp add: web_route_def plain_pages_def)
    ultimately show ?thesis using True get assms(3) by (simp add: serve_def serve_page_def)
  next
    case False
    then have "is_admin_path (wq_path req)" using route routed_guarded by blast
    then have "sup_gate cfg req = Some invalid_key_reply"
      using assms(2) get by (simp add: sup_gate_def api_auth_def origin_guard_def admin_auth_def)
    with False show ?thesis by (simp add: serve_def)
  qed
qed

definition page_stranger :: "string \<Rightarrow> web_request" where
  "page_stranger path = (demo_web_request ''GET'' path ''10.0.0.7'')\<lparr>wq_headers := []\<rparr>"

theorem pages_guarded_but_connections_witness:
  "let serve_it = (\<lambda>path. serve demo_codec keyed_gateway is_page_request (serve_page (\<lambda>t _. t) (\<lambda>_. invalid_key_reply))
                      (\<lambda>_. Connect_error) (new_supervisor 1 2) (page_stranger path))
   in serve_it ''/settings'' = Sent invalid_key_reply
      \<and> serve_it ''/connections''
          = Sent (security_headers (web_reply (\<lambda>t _. t) (Page ''connections.html'' [(''active_page'', ''connections'')])))"
proof -
  have "keys_configured keyed_gateway"
    by (simp add: keyed_gateway_def keys_configured_def default_gateway_def default_server_def server_key_def)
  moreover have "\<not> check_api_key (page_stranger path) keyed_gateway" for path
    by (simp add: page_stranger_def demo_web_request_def check_api_key_def remote_not_loopback resolve_api_key_def
        keyed_gateway_def keys_configured_def server_key_def bearer_token_def header_or_empty_def default_gateway_def default_server_def)
  moreover have "is_page_request (page_stranger ''/settings'')" "is_page_request (page_stranger ''/connections'')"
    "wq_path (page_stranger path) = path" for path
    by (simp_all add: is_page_request_def page_stranger_def demo_web_request_def web_route_def plain_pages_def)
  ultimately show ?thesis
    using pages_guarded_but_connections [of keyed_gateway "page_stranger ''/settings''"]
      pages_guarded_but_connections [of keyed_gateway "page_stranger ''/connections''"]
    by (simp add: Let_def)
qed

text \<open>The supervisor warns of an open console although every request of the network needs a key.\<close>

theorem warns_although_keyed:
  "let cfg = default_gateway\<lparr>gw_server := default_server\<lparr>sv_api_keys := [key_with ''app'' ''k'' []]\<rparr>\<rparr>
   in warns_open ''10.0.0.7'' cfg \<and> keys_configured cfg"
  by (simp add: warns_open_def keys_configured_def default_gateway_def default_server_def remote_not_loopback)

end
