(* ===== verification/Gateway.thy ===== *)
theory Gateway
  imports Processes Web
begin

text \<open>
  The two processes as one gateway: a client's request goes through the supervisor's middlewares and its
  proxy, then through the worker's middleware, to an endpoint.
\<close>

section \<open>The worker behind the proxy\<close>

text \<open>
  The worker's answer to an API request: the middleware, then the endpoint with the key it was told, for which
  \<open>endpoint\<close> stands.
\<close>

definition worker_api ::
    "gate_env \<Rightarrow> gateway_config \<Rightarrow> (api_key_config option \<Rightarrow> web_request \<Rightarrow> reply) \<Rightarrow> gate_state \<Rightarrow> web_request \<Rightarrow> worker_answer" where
  "worker_api e cfg endpoint s req =
     Answer (case fst (auth_middleware e cfg req s) of Rejected r \<Rightarrow> r | Admitted k \<Rightarrow> endpoint k req)"

text \<open>
  The specification, which knows of no second process: one gateway that authenticates the client's own request, applies
  the key's quotas and calls the endpoint with the client's own request.
\<close>

definition one_gateway ::
    "gate_env \<Rightarrow> gateway_config \<Rightarrow> (api_key_config option \<Rightarrow> web_request \<Rightarrow> reply) \<Rightarrow> gate_state \<Rightarrow> web_request
     \<Rightarrow> reply \<times> gate_state" where
  "one_gateway e cfg endpoint s req =
     (case resolve_api_key req cfg of
        None \<Rightarrow> (invalid_key_reply, s)
      | Some key \<Rightarrow>
          (let (v, s1) = check_quotas e cfg key s
           in (case v of Rejected r \<Rightarrow> r | Admitted _ \<Rightarrow> endpoint (Some key) req, s1)))"

text \<open>
  What belongs to one connection: the peer's address and the headers that describe the transfer.  An
  endpoint that reads neither gives the same reply to both requests.
\<close>

definition connection_headers :: "string set" where
  "connection_headers = {''host'', ''content-length'', ''connection'', ''keep-alive'', ''transfer-encoding'', ''upgrade''}"

definition same_request :: "web_request \<Rightarrow> web_request \<Rightarrow> bool" where
  "same_request req req' \<longleftrightarrow>
     wq_method req = wq_method req' \<and> wq_path req = wq_path req' \<and> wq_query req = wq_query req'
     \<and> wq_body req = wq_body req'
     \<and> (\<forall>n. lower n \<notin> connection_headers \<longrightarrow> dget (wq_headers req) n = dget (wq_headers req') n)"

definition ignores_connection :: "(api_key_config option \<Rightarrow> web_request \<Rightarrow> reply) \<Rightarrow> bool" where
  "ignores_connection endpoint \<longleftrightarrow> (\<forall>k req req'. same_request req req' \<longrightarrow> endpoint k req = endpoint k req')"

definition framing_headers :: "string set" where
  "framing_headers = {''content-length'', ''content-encoding'', ''transfer-encoding'', ''connection''}"

text \<open>The same reply for the client: status, body, and every header that is not about the framing of the transfer.\<close>

definition same_reply :: "reply \<Rightarrow> reply \<Rightarrow> bool" where
  "same_reply r r' \<longleftrightarrow>
     rp_status r = rp_status r' \<and> rp_body r = rp_body r'
     \<and> (\<forall>n v. dget (rp_headers r') n = Some v \<longrightarrow> lower n \<notin> framing_headers \<longrightarrow> dget (rp_headers r) n = Some v)"

section \<open>Lemmas\<close>

lemma dget_drop_headers: "lower k \<notin> set names \<Longrightarrow> dget (drop_headers names hs) k = dget hs k"
  by (induction hs) (auto simp: drop_headers_def)

lemma authorization_kept [simp]: "header_or_empty (to_worker req) ''authorization'' = header_or_empty req ''authorization''"
proof -
  have "lower ''authorization'' \<notin> set hop_by_hop"
    by (simp add: hop_by_hop_def lower_def lower_char_def byte_def)
  then show ?thesis by (simp add: header_or_empty_def to_worker_def dget_drop_headers)
qed

lemma resolve_to_worker [simp]: "resolve_api_key (to_worker req) cfg = resolve_api_key req cfg"
proof -
  have "bearer_token (to_worker req) = bearer_token req" by (simp add: bearer_token_def)
  then show ?thesis by (simp add: resolve_api_key_def)
qed

lemma check_quotas_key: "fst (check_quotas e cfg key s) = Admitted k \<Longrightarrow> k = Some key"
  using check_quotas_passes(1) by (metis prod.collapse)

lemma forwarded_same: "same_request (to_worker req) req"
  by (simp add: same_request_def to_worker_def dget_drop_headers connection_headers_def hop_by_hop_def)

lemma dget_set_default: "dget hs n = Some v \<Longrightarrow> dget (set_default k d hs) n = Some v"
  by (simp add: set_default_def map_add_Some_iff)

lemma returned_same: "same_reply (security_headers (relayed r)) r"
  by (simp add: same_reply_def security_headers_def relayed_def dget_set_default dget_drop_headers framing_headers_def
      resp_strip_def)

text \<open>The worker's middleware and endpoint are the one gateway, which does not see the proxy's changes.\<close>

lemma worker_is_gateway:
  assumes "keys_configured cfg" and "is_api_path (wq_path req)" and "\<not> is_admin_path (wq_path req)"
  shows "worker_api e cfg endpoint s req = Answer (fst (one_gateway e cfg endpoint s req))"
    and "snd (auth_middleware e cfg req s) = snd (one_gateway e cfg endpoint s req)"
proof -
  have mid: "auth_middleware e cfg req s = (case resolve_api_key req cfg of
      None \<Rightarrow> (Rejected invalid_key_reply, s) | Some key \<Rightarrow> check_quotas e cfg key s)"
    using assms by (simp add: auth_middleware_def)
  show "snd (auth_middleware e cfg req s) = snd (one_gateway e cfg endpoint s req)"
    by (simp add: mid one_gateway_def split_beta Let_def split: option.split)
  show "worker_api e cfg endpoint s req = Answer (fst (one_gateway e cfg endpoint s req))"
  proof (cases "resolve_api_key req cfg")
    case (Some key)
    then show ?thesis
      using check_quotas_key [of e cfg key s]
      by (cases "fst (check_quotas e cfg key s)") (simp_all add: worker_api_def mid one_gateway_def split_beta Let_def)
  qed (simp add: worker_api_def mid one_gateway_def)
qed

lemma gateway_to_worker:
  assumes "ignores_connection endpoint"
  shows "one_gateway e cfg endpoint s (to_worker req) = one_gateway e cfg endpoint s req"
proof -
  have "endpoint k (to_worker req) = endpoint k req" for k
    using assms forwarded_same by (auto simp: ignores_connection_def)
  then show ?thesis by (simp add: one_gateway_def split_beta Let_def split: option.split verdict.split)
qed

section \<open>Properties\<close>

text \<open>
  C22. The two processes are one gateway for requests that ask for no stream: with keys configured and a worker
  running, an API request without \<open>stream\<close> gets from the supervisor the reply of a single process that authenticates
  the client's own request (status, body, and every header but those of the transfer's framing; the supervisor adds
  the security headers), and leaves the same quotas behind in the worker, provided the endpoint does not look at the
  connection; without a valid key the reply does not depend on the worker at all.  For a streamed request it is
  false (\<open>streamed_status_lost\<close>).
\<close>

theorem processes_refine_gateway:
  assumes "keys_configured cfg" and "is_running sp" and "is_api_path (wq_path req)" and "\<not> is_admin_path (wq_path req)"
    and "\<not> wants_stream cd req" and "\<not> local_route req" and "ignores_connection endpoint"
  shows "\<exists>r. serve cd cfg local_route own (worker_api e cfg endpoint s) sp req = Sent r
           \<and> same_reply r (fst (one_gateway e cfg endpoint s req))
           \<and> (resolve_api_key req cfg = None \<longrightarrow> (\<forall>worker. serve cd cfg local_route own worker sp req = Sent r))
           \<and> (resolve_api_key req cfg \<noteq> None \<longrightarrow>
                snd (auth_middleware e cfg (to_worker req) s) = snd (one_gateway e cfg endpoint s req))"
proof -
  have guard: "origin_guard req = None" "(wq_method req, wq_path req) \<notin> set live_routes"
    using assms(4) by (auto simp: origin_guard_def is_admin_path_def live_routes_def)
  show ?thesis
  proof (cases "resolve_api_key req cfg")
    case None
    with assms(1,3,4) show ?thesis by (simp add: serve_def sup_gate_def api_auth_def one_gateway_def same_reply_def)
  next
    case (Some key)
    with assms(1,3,4) guard have gate: "sup_gate cfg req = None" by (simp add: sup_gate_def api_auth_def admin_auth_def)
    have path: "wq_path (to_worker req) = wq_path req" by (simp add: to_worker_def)
    note there = worker_is_gateway [where cfg = cfg and req = "to_worker req" and e = e and s = s and endpoint = endpoint,
          unfolded path, OF assms(1,3,4)]
      gateway_to_worker [OF assms(7), of e cfg s req]
    have "serve cd cfg local_route own (worker_api e cfg endpoint s) sp req
        = Sent (security_headers (relayed (fst (one_gateway e cfg endpoint s req))))"
      using gate guard(2) assms(2,5,6) by (simp add: serve_def proxy_def there)
    moreover have state: "snd (auth_middleware e cfg (to_worker req) s) = snd (one_gateway e cfg endpoint s req)"
      by (simp add: there)
    ultimately show ?thesis using Some returned_same by auto
  qed
qed

text \<open>An endpoint that answers with the body it was sent and the path it was sent to.\<close>

definition echo :: "api_key_config option \<Rightarrow> web_request \<Rightarrow> reply" where
  "echo k req = \<lparr>rp_status = 200, rp_headers = [(''X-Path'', wq_path req), (''Content-Length'', ''2'')],
                  rp_body = Raw_body (wq_body req)\<rparr>"

theorem processes_refine_gateway_witness:
  "\<exists>r. serve demo_codec (quota_gateway 3) (\<lambda>_. False) (\<lambda>_. stopped_reply)
          (worker_api demo_gate_env (quota_gateway 3) echo demo_gate) (snd (start 5 (new_supervisor 1 2))) api_request = Sent r
     \<and> same_reply r (fst (one_gateway demo_gate_env (quota_gateway 3) echo demo_gate api_request))"
proof -
  have "\<not> wants_stream demo_codec api_request"
    by (simp add: wants_stream_def api_request_def demo_web_request_def)
  moreover have "ignores_connection echo"
    by (simp add: ignores_connection_def same_request_def echo_def)
  ultimately show ?thesis
    using processes_refine_gateway [of "quota_gateway 3" "snd (start 5 (new_supervisor 1 2))" api_request demo_codec
        "\<lambda>_. False" echo "\<lambda>_. stopped_reply" demo_gate_env demo_gate]
    by (auto simp: api_request_gate running_after_start)
qed

end
