(* ===== verification/Spec2Isabelle.thy ===== *)
theory Spec2Isabelle
  imports Router ConfigStore Events Responses Prober Logs Models Metrics AdminRun Gateway
begin

text \<open>
  LocalGateway: a local gateway in front of providers of language models, in Python (\<^verbatim>\<open>src/src/localgateway\<close>;
  file names below are relative to it).

  \<^bold>\<open>The program.\<close>  A client sends requests in OpenAI's format to one port.  The process behind it is the
  supervisor: it authenticates, serves the console and its administration, and passes API requests on to the
  worker, a second process that it starts and stops.  The worker authenticates again, checks the key's quotas,
  and hands the request to an endpoint (chat, embeddings, responses).  The endpoint asks the router for the
  backends of the requested model, in order of preference, and tries one after the other: each attempt is a
  call to a provider, whose answer, or stream of server-sent events, is normalised and relayed; each outcome
  updates the statistics, the rate limits, the circuit breaker and the usage table.  A prober makes requests of
  its own, an event bus tells the console of changes, and a background thread writes the rows to SQLite.

  \<^bold>\<open>Theories and sources.\<close>
  \<^item> Prelude, Json, Text: dictionaries in insertion order, sets, rounding, JSON values, strings as UTF-8 bytes.
    The interfaces are locales: \<open>lazy_gate\<close>, a check that may forget what no longer matters (interpreted by the rate
    limits, the circuit breaker and the router's own test); \<open>stream_source\<close> in Provider, what the handlers rely on from
    an upstream stream; \<open>acceptance\<close> in Endpoints, what an endpoint does with an accepted answer (embeddings, responses);
    \<open>statement_log\<close> in DbWriter, a table as the writer sees it (usage, logs, response cache).
  \<^item> Config, ConfigStore (\<^verbatim>\<open>config.py\<close>): the schema as records, lookups, the linter; the file with its backups.
  \<^item> RateLimit (\<^verbatim>\<open>ratelimit.py\<close>), CircuitBreaker (\<^verbatim>\<open>circuitbreaker.py\<close>), Stats (\<^verbatim>\<open>stats.py\<close>), TimeRouting
    (\<^verbatim>\<open>time_routing.py\<close>): the registries the router consults.
  \<^item> Router (\<^verbatim>\<open>router.py\<close>): \<open>select_backends\<close> in all modes, a generator, as the sequence it yields from the states
    of the registries it looks at.
  \<^item> Fingerprint (\<^verbatim>\<open>cache.py\<close>), RespCache (\<^verbatim>\<open>respcache.py\<close>), Tokenizer (\<^verbatim>\<open>tokenizer.py\<close>), ClientQuota
    (\<^verbatim>\<open>clientquota.py\<close>), Usage (\<^verbatim>\<open>usage.py\<close>), Logs (\<^verbatim>\<open>logs.py\<close>), DbWriter (\<^verbatim>\<open>dbwriter.py\<close>), Alerts (\<^verbatim>\<open>alerts.py\<close>).
  \<^item> Sse (\<^verbatim>\<open>sse.py\<close>), Reasoning (\<^verbatim>\<open>reasoning.py\<close>), Provider (\<^verbatim>\<open>provider.py\<close>): parsing streams, and the two calls.
  \<^item> Accounting, Streaming (\<^verbatim>\<open>streaming.py\<close>): both request handlers with all they call.
  \<^item> Auth (\<^verbatim>\<open>auth.py\<close>), Worker (\<^verbatim>\<open>worker.py\<close>, the middleware), Chat, Endpoints, Embeddings, Responses, Models,
    Metrics, Events (\<^verbatim>\<open>endpoints/\<close> and \<^verbatim>\<open>events.py\<close>), Prober (\<^verbatim>\<open>prober.py\<close>).
  \<^item> AdminConfig, AdminModels, AdminViews, AdminLive (\<^verbatim>\<open>endpoints/admin.py\<close>): every administrative endpoint; AdminRun:
    sequences of administrative requests as an inductive step relation.
  \<^item> Supervisor (\<^verbatim>\<open>supervisor.py\<close>), Web (\<^verbatim>\<open>endpoints/web.py\<close>, \<^verbatim>\<open>main.py\<close>), Processes (both processes with the files and
    the tables they share, \<^verbatim>\<open>worker.py\<close>'s life cycle), Gateway (the two processes composed).

  \<^bold>\<open>State.\<close>  A module's globals are a record (\<open>rl_state\<close>, \<open>cb_state\<close>, \<open>st_state\<close>, \<open>rc_state\<close>, \<open>cq_state\<close>, \<open>config_store\<close>);
  a function that reads and writes them takes the record and returns it.  \<open>world\<close> puts together what the router looks
  at, \<open>gateway\<close> adds the tables and caches that a request touches, \<open>admin_state\<close> is what the administration shares,
  \<open>supervisor\<close> the process table and \<open>machine\<close> both processes with what they share.  A table is the list of its rows.
  Exceptions are values of \<open>py_error\<close> in a sum; early returns and error replies are branches.  Generators are the lists
  of what they yield together with the state they leave; where a consumer may act between two yields this is said and
  the suspension is explicit.

  \<^bold>\<open>What the lemmas show.\<close>  For the registries: runs of operations keep well-formedness, a snooze holds, an open
  circuit had its failures, a limit of requests per minute holds over any window, a cache hit was stored under its key
  and is the last one stored while lookups do not overtake the writer.  For the configuration: saves keep the
  generations, a load finds the newest readable one.  For the router: with the registries at rest and no provider
  repeated the yielded backends are the eligible ones, each once, the unavailable ones last, in the order of the mode;
  round robin is fair over consecutive selections.  For the streams: the events do not depend on the cuts (but one), a
  rendered event is read back, the relayed stream has exactly one end, and the relayed usage is the logged one but
  for one way of reporting cache reads.  For the handlers: attempts in order with one row each (but for the
  interrupted streams of Responses, which leave none), headers before bytes, every request in flight counted out.
  For the writer: the database lags behind a synchronous one by a stated bound, and stopping it ends its thread with
  every row written; for the event bus: a subscriber reads the log, but for the oldest of more than 256 waiting.
  For the administration: the round trip of the hidden configuration, the version as the count of writes, memory and
  file in agreement, edits that are typed, tiers that are set exactly, renames that change nothing but names, reports that
  are complete and exports that tell every row.  For the processes: at most one worker, strangers kept out, and
  supervisor and worker together as one gateway for what is not streamed.  Where the code does not do what it means to,
  a theorem says what it does; these are the findings of the manifest.

  \<^bold>\<open>Parameters.\<close>  Not in the repository, hence arguments: pydantic's validation and rendering (\<open>ae_gateway\<close> and the
  like, \<open>ae_parse\<close>, \<open>ae_dump\<close>), the JSON codec (\<open>codec\<close>), SHA-256, tiktoken, the time zone database, HTTP (an
  outcome: response, timeout, error, or a list of chunks), the clocks, \<open>random\<close>, the template engine, the operating
  system's processes and file system (\<open>ae_mtime\<close>, \<open>disk_faults\<close>, \<open>it_io\<close>), and \<open>str\<close> and \<open>float\<close> of numbers.  Hypotheses
  about them are named in the theorems and hold for the concrete ones the witnesses use.

  \<^bold>\<open>Abstractions.\<close>  Floats are reals.  Strings are their UTF-8 bytes; case mapping and stripping are those of ASCII.
  A dictionary is an association list in insertion order.  A method that holds a lock is atomic.  A database operation
  does not fail (a statement may, in DbWriter), and its rows are there at once except in DbWriter and RespCache, which
  model the queue.  The renames of
  the configuration's backups may fail (\<open>disk_faults\<close>); writing the new file may not in the administrative handlers, and
  \<open>failed_save\<close> is what \<open>save_config\<close> leaves when it does.  A configuration file that cannot be parsed, for whatever
  reason, counts as unreadable.  Stopping the worker kills it at the latest after the time-outs of \<open>stop\<close>, which is one
  operation.  A client reads a stream to its end, or stops at a point that is given.  Loops over data recurse on it; the loops that wait
  (writer, prober, event stream, daily task) are one turn each, and a run of turns is a list of events.  No
  definition needs fuel; that the writer's loop ends after a stop is \<open>shutdown_writes_every_row\<close>.

  \<^bold>\<open>Not modelled.\<close>  Log lines, except as rows of the log table; database errors, schema migration and VACUUM; pools of
  connections; the thread that delivers an alert; the registration of routes with FastAPI and the parsing of the
  command line; the HTML templates, scripts and style sheets of the console; the tests.
\<close>

end
